(* ===== verification/Js_Number.thy ===== *)
theory Js_Number
  imports Complex_Main Prelude
begin

text \<open>
  JavaScript's \<open>Number\<close>: an IEEE 754 binary64 value. A finite value is a rational number;
  every arithmetic operation is computed exactly and rounded by \<open>fl\<close> to the nearest
  representable number, ties to the even significand, as ECMA-262 prescribes. The two zeros are
  one value here: no operation of the sources tells them apart.
\<close>

section \<open>Rounding to binary64\<close>

text \<open>A measure that halving and doubling towards 1 decrease.\<close>

definition ilog2_measure :: "rat \<Rightarrow> nat" where
  "ilog2_measure x = (if 1 \<le> x then nat \<lfloor>x\<rfloor> else nat \<lfloor>1 / x\<rfloor> + 1)"

lemma floor_half_less:
  fixes y :: rat
  assumes "1 \<le> y"
  shows "\<lfloor>y / 2\<rfloor> < \<lfloor>y\<rfloor>"
proof (cases "2 \<le> y")
  case True
  then have "y / 2 \<le> y - 1" by (simp add: field_simps)
  then have "\<lfloor>y / 2\<rfloor> \<le> \<lfloor>y\<rfloor> - 1" by (metis floor_diff_one floor_mono)
  then show ?thesis by simp
next
  case False
  then have "\<lfloor>y / 2\<rfloor> \<le> 0" by (simp add: floor_le_iff)
  moreover have "1 \<le> \<lfloor>y\<rfloor>" using assms by (simp add: le_floor_iff)
  ultimately show ?thesis by linarith
qed

lemma ilog2_measure_halve: "2 \<le> x \<Longrightarrow> ilog2_measure (x / 2) < ilog2_measure x"
  using floor_half_less [of x] by (auto simp: ilog2_measure_def zero_less_floor)

lemma ilog2_measure_double:
  assumes "0 < x" "x < 1"
  shows "ilog2_measure (2 * x) < ilog2_measure x"
proof (cases "1 \<le> 2 * x")
  case True
  have "\<lfloor>2 * x\<rfloor> < 2" using assms by (simp add: floor_less_iff)
  moreover have "1 \<le> \<lfloor>1 / x\<rfloor>" using assms by (simp add: le_floor_iff field_simps)
  ultimately have "nat \<lfloor>2 * x\<rfloor> < Suc (nat \<lfloor>1 / x\<rfloor>)" by linarith
  then show ?thesis using True assms by (simp add: ilog2_measure_def)
next
  case False
  have "\<lfloor>(1 / x) / 2\<rfloor> < \<lfloor>1 / x\<rfloor>" using assms
    by (intro floor_half_less) (simp add: field_simps)
  then have "\<lfloor>1 / (2 * x)\<rfloor> < \<lfloor>1 / x\<rfloor>" by (simp add: mult.commute)
  moreover have "0 \<le> \<lfloor>1 / (2 * x)\<rfloor>" using assms by simp
  ultimately show ?thesis using False assms
    by (simp add: ilog2_measure_def nat_less_eq_zless)
qed

text \<open>The exponent of the leading bit of a positive number.\<close>

function ilog2 :: "rat \<Rightarrow> int" where
  "ilog2 x =
     (if x \<le> 0 then 0
      else if 2 \<le> x then ilog2 (x / 2) + 1
      else if x < 1 then ilog2 (2 * x) - 1
      else 0)"
  by pat_completeness auto
termination
  by (relation "measure ilog2_measure") (auto simp: ilog2_measure_halve ilog2_measure_double)

declare ilog2.simps [simp del]

definition round_even :: "rat \<Rightarrow> int" where
  "round_even x =
     (let f = \<lfloor>x\<rfloor>; d = x - of_int f
      in if d < 1 / 2 then f else if 1 / 2 < d then f + 1 else if even f then f else f + 1)"

definition ulp_exponent :: "rat \<Rightarrow> int" where
  "ulp_exponent x = max (ilog2 \<bar>x\<bar> - 52) (- 1074)"

definition fl :: "rat \<Rightarrow> rat" where
  "fl x = (if x = 0 then 0
     else of_int (round_even (x / 2 powi ulp_exponent x)) * 2 powi ulp_exponent x)"

section \<open>Number values and their arithmetic\<close>

datatype jsnum = NaN | PInf | NInf | Fin rat

definition num :: "rat \<Rightarrow> jsnum" where
  "num x = (let y = fl x in if 2 ^ 1024 \<le> y then PInf else if y \<le> - (2 ^ 1024) then NInf else Fin y)"

fun num_neg :: "jsnum \<Rightarrow> jsnum" where
  "num_neg NaN = NaN"
| "num_neg PInf = NInf"
| "num_neg NInf = PInf"
| "num_neg (Fin x) = Fin (- x)"

fun num_add :: "jsnum \<Rightarrow> jsnum \<Rightarrow> jsnum" where
  "num_add NaN _ = NaN"
| "num_add _ NaN = NaN"
| "num_add PInf NInf = NaN"
| "num_add NInf PInf = NaN"
| "num_add PInf _ = PInf"
| "num_add NInf _ = NInf"
| "num_add (Fin _) PInf = PInf"
| "num_add (Fin _) NInf = NInf"
| "num_add (Fin x) (Fin y) = num (x + y)"

definition num_sub :: "jsnum \<Rightarrow> jsnum \<Rightarrow> jsnum" where
  "num_sub a b = num_add a (num_neg b)"

definition signed_inf :: "rat \<Rightarrow> jsnum" where
  "signed_inf x = (if x = 0 then NaN else if 0 < x then PInf else NInf)"

fun num_mul :: "jsnum \<Rightarrow> jsnum \<Rightarrow> jsnum" where
  "num_mul NaN _ = NaN"
| "num_mul _ NaN = NaN"
| "num_mul PInf PInf = PInf"
| "num_mul PInf NInf = NInf"
| "num_mul NInf PInf = NInf"
| "num_mul NInf NInf = PInf"
| "num_mul PInf (Fin y) = signed_inf y"
| "num_mul NInf (Fin y) = signed_inf (- y)"
| "num_mul (Fin x) PInf = signed_inf x"
| "num_mul (Fin x) NInf = signed_inf (- x)"
| "num_mul (Fin x) (Fin y) = num (x * y)"

text \<open>\<open>2 ** n\<close> for a nonnegative integer \<open>n\<close>, a power of two or infinity.\<close>

definition num_pow2 :: "nat \<Rightarrow> jsnum" where
  "num_pow2 n = (if n < 1024 then Fin (2 ^ n) else PInf)"

fun num_less :: "jsnum \<Rightarrow> jsnum \<Rightarrow> bool" where
  "num_less NaN _ = False"
| "num_less _ NaN = False"
| "num_less (Fin x) (Fin y) = (x < y)"
| "num_less NInf y = (y \<noteq> NInf)"
| "num_less x PInf = (x \<noteq> PInf)"
| "num_less _ _ = False"

definition num_min :: "jsnum \<Rightarrow> jsnum \<Rightarrow> jsnum" where
  "num_min a b = (if a = NaN \<or> b = NaN then NaN else if num_less b a then b else a)"

definition num_max :: "jsnum \<Rightarrow> jsnum \<Rightarrow> jsnum" where
  "num_max a b = (if a = NaN \<or> b = NaN then NaN else if num_less a b then b else a)"

text \<open>\<open>Math.round\<close>: the nearest integer, a tie goes up.\<close>

fun num_round :: "jsnum \<Rightarrow> jsnum" where
  "num_round (Fin x) = Fin (of_int \<lfloor>x + 1 / 2\<rfloor>)"
| "num_round x = x"

definition is_integral :: "rat \<Rightarrow> bool" where
  "is_integral x = (of_int \<lfloor>x\<rfloor> = x)"

fun isFinite :: "jsnum \<Rightarrow> bool" where
  "isFinite (Fin _) = True"
| "isFinite _ = False"

fun isInteger :: "jsnum \<Rightarrow> bool" where
  "isInteger (Fin x) = is_integral x"
| "isInteger _ = False"

definition max_safe :: rat where
  "max_safe = 9007199254740991"

fun isSafeInteger :: "jsnum \<Rightarrow> bool" where
  "isSafeInteger (Fin x) = (is_integral x \<and> \<bar>x\<bar> \<le> max_safe)"
| "isSafeInteger _ = False"

section \<open>Correctness of rounding\<close>

lemma ilog2_bounds:
  assumes "0 < x"
  shows "2 powi ilog2 x \<le> x \<and> x < 2 powi (ilog2 x + 1)"
  using assms
proof (induction x rule: ilog2.induct)
  case (1 x)
  consider "2 \<le> x" | "x < 1" | "1 \<le> x" "x < 2" by linarith
  then show ?case
  proof cases
    case 1
    with "1.IH"(1) "1.prems" have
      "2 powi ilog2 (x / 2) \<le> x / 2 \<and> x / 2 < 2 powi (ilog2 (x / 2) + 1)" by simp
    moreover have "ilog2 x = ilog2 (x / 2) + 1"
      using 1 "1.prems" by (subst ilog2.simps) simp
    ultimately show ?thesis by (simp add: power_int_add field_simps)
  next
    case 2
    with "1.IH"(2) "1.prems" have
      "2 powi ilog2 (2 * x) \<le> 2 * x \<and> 2 * x < 2 powi (ilog2 (2 * x) + 1)" by simp
    moreover have "ilog2 (2 * x) = ilog2 x + 1"
      using 2 "1.prems" by (subst (2) ilog2.simps) simp
    ultimately show ?thesis by (simp add: power_int_add)
  next
    case 3
    then have "ilog2 x = 0" by (subst ilog2.simps) simp
    with 3 show ?thesis by simp
  qed
qed

lemma powi2_le_iff: "(2 :: rat) powi a \<le> 2 powi b \<longleftrightarrow> a \<le> b"
  using power_int_increasing [of a b "2 :: rat"] power_int_strict_increasing [of b a "2 :: rat"]
  by force

lemma powi2_less_iff: "(2 :: rat) powi a < 2 powi b \<longleftrightarrow> a < b"
  using powi2_le_iff [of b a] by (auto simp: not_le [symmetric])

lemma ilog2_le:
  assumes "0 < x" "x < 2 powi (e + 1)"
  shows "ilog2 x \<le> e"
proof -
  have "2 powi ilog2 x < (2 :: rat) powi (e + 1)"
    using ilog2_bounds [OF assms(1)] assms(2) by linarith
  then show ?thesis by (simp only: powi2_less_iff)
qed

lemma ilog2_mono:
  assumes "0 < x" "x \<le> y"
  shows "ilog2 x \<le> ilog2 y"
  using ilog2_bounds [of y] assms by (intro ilog2_le) auto

lemma round_even_of_int [simp]: "round_even (of_int n) = n"
  by (simp add: round_even_def)

lemma round_even_cases: "round_even x = \<lfloor>x\<rfloor> \<or> round_even x = \<lfloor>x\<rfloor> + 1"
  by (simp add: round_even_def Let_def)

lemma round_even_mono:
  assumes "x \<le> y"
  shows "round_even x \<le> round_even y"
proof (cases "\<lfloor>x\<rfloor> = \<lfloor>y\<rfloor>")
  case True
  with assms show ?thesis by (auto simp: round_even_def Let_def)
next
  case False
  with floor_mono [OF assms] have "\<lfloor>x\<rfloor> + 1 \<le> \<lfloor>y\<rfloor>" by linarith
  then show ?thesis using round_even_cases [of x] round_even_cases [of y] by linarith
qed

lemma floor_minus_nonint:
  fixes x :: rat
  assumes "of_int \<lfloor>x\<rfloor> \<noteq> x"
  shows "\<lfloor>- x\<rfloor> = - \<lfloor>x\<rfloor> - 1"
  using assms by (simp add: floor_minus ceiling_altdef)

lemma round_even_minus: "round_even (- x) = - round_even x"
proof (cases "of_int \<lfloor>x\<rfloor> = x")
  case True
  have "round_even (- of_int \<lfloor>x\<rfloor>) = - round_even (of_int \<lfloor>x\<rfloor>)"
    by (metis of_int_minus round_even_of_int)
  then show ?thesis unfolding True .
next
  case False
  then show ?thesis by (auto simp: round_even_def Let_def floor_minus_nonint)
qed

lemma fl_0 [simp]: "fl 0 = 0"
  by (simp add: fl_def)

lemma fl_minus: "fl (- x) = - fl x"
  by (simp add: fl_def ulp_exponent_def round_even_minus)

lemma fl_ge_0:
  assumes "0 \<le> x"
  shows "0 \<le> fl x"
proof -
  have "round_even (of_int 0) \<le> round_even (x / 2 powi ulp_exponent x)"
    using assms by (intro round_even_mono) simp
  then have "0 \<le> round_even (x / 2 powi ulp_exponent x)"
    by (simp only: round_even_of_int)
  then show ?thesis by (simp add: fl_def)
qed

lemma ulp_exponent_mono: "0 < x \<Longrightarrow> x \<le> y \<Longrightarrow> ulp_exponent x \<le> ulp_exponent y"
  using ilog2_mono [of x y] by (simp add: ulp_exponent_def)

lemma powi2_diff:
  assumes "e \<le> k"
  shows "(2 :: rat) powi k / 2 powi e = of_int (2 ^ nat (k - e))"
proof -
  have "(2 :: rat) powi k / 2 powi e = 2 powi (k - e)" by (simp add: power_int_diff)
  with assms show ?thesis by (simp add: power_int_def)
qed

text \<open>Rounding at the spacing of a smaller number keeps a power of two above it.\<close>

lemma fl_le_powi:
  assumes "0 < x" "x \<le> 2 powi k" "ulp_exponent x \<le> k"
  shows "fl x \<le> 2 powi k"
proof -
  let ?e = "ulp_exponent x"
  note eq = powi2_diff [OF assms(3)]
  have "x / 2 powi ?e \<le> 2 powi k / 2 powi ?e"
    using assms(2) by (simp add: divide_right_mono)
  then have "round_even (x / 2 powi ?e) \<le> 2 ^ nat (k - ?e)"
    using round_even_mono eq round_even_of_int by metis
  then have "(of_int (round_even (x / 2 powi ?e)) :: rat) \<le> of_int (2 ^ nat (k - ?e))"
    by (simp only: of_int_le_iff)
  then have "of_int (round_even (x / 2 powi ?e)) * 2 powi ?e \<le> (2 :: rat) powi k"
    unfolding eq [symmetric] by (simp add: pos_le_divide_eq)
  then show ?thesis using assms(1) by (simp add: fl_def)
qed

lemma fl_ge_powi:
  assumes "2 powi k \<le> x" "ulp_exponent x \<le> k"
  shows "2 powi k \<le> fl x"
proof -
  let ?e = "ulp_exponent x"
  have pos: "0 < x" using assms(1) by (meson less_le_trans zero_less_numeral zero_less_power_int)
  note eq = powi2_diff [OF assms(2)]
  have "2 powi k / 2 powi ?e \<le> x / 2 powi ?e"
    using assms(1) by (simp add: divide_right_mono)
  then have "2 ^ nat (k - ?e) \<le> round_even (x / 2 powi ?e)"
    using round_even_mono eq round_even_of_int by metis
  then have "(of_int (2 ^ nat (k - ?e)) :: rat) \<le> of_int (round_even (x / 2 powi ?e))"
    by (simp only: of_int_le_iff)
  then have "(2 :: rat) powi k \<le> of_int (round_even (x / 2 powi ?e)) * 2 powi ?e"
    unfolding eq [symmetric] by (simp add: pos_divide_le_eq)
  then show ?thesis using pos by (simp add: fl_def)
qed

lemma fl_mono_pos:
  assumes "0 < x" "x \<le> y"
  shows "fl x \<le> fl y"
proof (cases "ulp_exponent x = ulp_exponent y")
  case True
  have "round_even (x / 2 powi ulp_exponent y) \<le> round_even (y / 2 powi ulp_exponent y)"
    using assms by (intro round_even_mono divide_right_mono) simp_all
  then show ?thesis using True assms by (simp add: fl_def mult_right_mono)
next
  case False
  then have less: "ulp_exponent x < ulp_exponent y"
    using ulp_exponent_mono [OF assms] by linarith
  then have ey: "ulp_exponent y = ilog2 y - 52"
    unfolding ulp_exponent_def using assms by linarith
  from less ey have "ilog2 x + 1 \<le> ilog2 y"
    unfolding ulp_exponent_def using assms by linarith
  then have "x \<le> 2 powi ilog2 y"
    using ilog2_bounds [OF assms(1)] powi2_le_iff [of "ilog2 x + 1" "ilog2 y"] by linarith
  then have "fl x \<le> 2 powi ilog2 y" using assms less ey by (intro fl_le_powi) simp_all
  also have "\<dots> \<le> fl y" using assms ilog2_bounds [of y] ey by (intro fl_ge_powi) simp_all
  finally show ?thesis .
qed

lemma fl_mono:
  assumes "x \<le> y"
  shows "fl x \<le> fl y"
proof -
  consider "0 < x" | "x \<le> 0" "0 \<le> y" | "y < 0" by linarith
  then show ?thesis
  proof cases
    case 1
    then show ?thesis using assms by (rule fl_mono_pos)
  next
    case 2
    then show ?thesis using fl_ge_0 [of "- x"] fl_ge_0 [of y] by (simp add: fl_minus)
  next
    case 3
    then show ?thesis using fl_mono_pos [of "- y" "- x"] assms by (simp add: fl_minus)
  qed
qed

text \<open>A number with a significand of 53 bits is representable.\<close>

lemma fl_exact_small:
  assumes "\<bar>m\<bar> < 2 ^ 53" "- 1074 \<le> e"
  shows "fl (of_int m * 2 powi e) = of_int m * 2 powi e"
proof (cases "m = 0")
  case False
  let ?x = "of_int m * 2 powi e :: rat"
  have abs: "\<bar>?x\<bar> = of_int \<bar>m\<bar> * 2 powi e" by (simp add: abs_mult)
  have "(of_int \<bar>m\<bar> :: rat) < of_int (2 ^ 53)" using assms(1) by (simp only: of_int_less_iff)
  then have "\<bar>?x\<bar> < 2 powi 53 * 2 powi e" unfolding abs by simp
  then have "\<bar>?x\<bar> < 2 powi ((52 + e) + 1)" by (simp add: power_int_add)
  then have "ilog2 \<bar>?x\<bar> \<le> 52 + e" using False by (intro ilog2_le) auto
  then have le: "ulp_exponent ?x \<le> e" using assms(2) by (simp add: ulp_exponent_def)
  have "?x / 2 powi ulp_exponent ?x = of_int m * 2 powi (e - ulp_exponent ?x)"
    by (simp add: power_int_diff)
  also have "\<dots> = of_int (m * 2 ^ nat (e - ulp_exponent ?x))"
    using le by (simp add: power_int_def)
  finally have "of_int (round_even (?x / 2 powi ulp_exponent ?x)) = ?x / 2 powi ulp_exponent ?x"
    by (metis round_even_of_int)
  then show ?thesis using False by (simp add: fl_def)
qed simp

lemma fl_exact:
  assumes "\<bar>m\<bar> \<le> 2 ^ 53" "- 1074 \<le> e"
  shows "fl (of_int m * 2 powi e) = of_int m * 2 powi e"
proof (cases "\<bar>m\<bar> = 2 ^ 53")
  case True
  then consider "m = 2 ^ 53" | "m = - (2 ^ 53)" by linarith
  then have m: "m = 2 * (m div 2) \<and> \<bar>m div 2\<bar> < 2 ^ 53" by cases simp_all
  have "(of_int m * 2 powi e :: rat) = of_int (2 * (m div 2)) * 2 powi e"
    using m by simp
  also have "\<dots> = of_int (m div 2) * 2 powi (e + 1)" by (simp add: power_int_add)
  finally show ?thesis using fl_exact_small [of "m div 2" "e + 1"] m assms(2) by simp
next
  case False
  with assms show ?thesis by (intro fl_exact_small) simp_all
qed

lemma fl_of_int: "\<bar>m\<bar> \<le> 2 ^ 53 \<Longrightarrow> fl (of_int m) = of_int m"
  using fl_exact [of m 0] by simp

lemma fl_numerals [simp]: "fl 1 = 1" "fl 2 = 2"
  using fl_of_int [of 1] fl_of_int [of 2] by simp_all

end
