(* ===== verification/Js_Value.thy ===== *)
theory Js_Value
  imports Js_Number
begin

text \<open>
  JavaScript values. Primitive values are themselves, arrays and objects live in a heap and are
  named by their address, so that a value may share or contain itself. An object is the list of
  its own enumerable properties in enumeration order; no object of the model inherits a property
  that the sources read. An array is dense.
\<close>

section \<open>Values and heaps\<close>

datatype jsval =
    Undefined
  | Null
  | Bool bool
  | Num jsnum
  | Str string
  | Ref nat
  | Other \<comment> \<open>functions, symbols and big integers\<close>

datatype jsobj = Arr "jsval list" | Obj "(string, jsval) jsmap"

type_synonym heap = "jsobj list"

definition deref :: "heap \<Rightarrow> jsval \<Rightarrow> jsobj option" where
  "deref h v = (case v of Ref a \<Rightarrow> if a < length h then Some (h ! a) else None | _ \<Rightarrow> None)"

text \<open>\<open>value.name\<close>, and \<open>name in value\<close>.\<close>

definition get_prop :: "heap \<Rightarrow> jsval \<Rightarrow> string \<Rightarrow> jsval" where
  "get_prop h v k = (case deref h v of
     Some (Obj kvs) \<Rightarrow> (case map_get kvs k of Some x \<Rightarrow> x | None \<Rightarrow> Undefined)
   | _ \<Rightarrow> Undefined)"

definition has_prop :: "heap \<Rightarrow> jsval \<Rightarrow> string \<Rightarrow> bool" where
  "has_prop h v k = (case deref h v of Some (Obj kvs) \<Rightarrow> k \<in> set (map_keys kvs) | _ \<Rightarrow> False)"

fun is_string :: "jsval \<Rightarrow> bool" where
  "is_string (Str _) = True"
| "is_string _ = False"

fun str_of :: "jsval \<Rightarrow> string" where
  "str_of (Str s) = s"
| "str_of _ = []"

fun is_number :: "jsval \<Rightarrow> bool" where
  "is_number (Num _) = True"
| "is_number _ = False"

fun num_of :: "jsval \<Rightarrow> jsnum" where
  "num_of (Num n) = n"
| "num_of _ = NaN"

fun is_boolean :: "jsval \<Rightarrow> bool" where
  "is_boolean (Bool _) = True"
| "is_boolean _ = False"

text \<open>The children of an array or an object.\<close>

fun elements :: "jsobj \<Rightarrow> jsval list" where
  "elements (Arr vs) = vs"
| "elements (Obj kvs) = map snd kvs"

section \<open>JSON trees and their text\<close>

datatype json =
    JNull
  | JBool bool
  | JNum rat
  | JStr string
  | JArr "json list"
  | JObj "(string \<times> json) list"

definition hex_digit :: "nat \<Rightarrow> char" where
  "hex_digit n = (if n < 10 then char_of (48 + n) else char_of (87 + n))"

text \<open>\<open>QuoteJSONString\<close> of ECMA-262 on the code units 0 to 255.\<close>

definition quote_char :: "char \<Rightarrow> string" where
  "quote_char c = (let n = (of_char c :: nat) in
     if n = 8 then [CHR 0x5C, CHR ''b'']
     else if n = 9 then [CHR 0x5C, CHR ''t'']
     else if n = 10 then [CHR 0x5C, CHR ''n'']
     else if n = 12 then [CHR 0x5C, CHR ''f'']
     else if n = 13 then [CHR 0x5C, CHR ''r'']
     else if n = 34 then [CHR 0x5C, CHR 0x22]
     else if n = 92 then [CHR 0x5C, CHR 0x5C]
     else if n < 32 then [CHR 0x5C, CHR ''u'', CHR ''0'', CHR ''0'', hex_digit (n div 16), hex_digit (n mod 16)]
     else [c])"

definition quote_json :: "string \<Rightarrow> string" where
  "quote_json s = [CHR 0x22] @ concat (map quote_char s) @ [CHR 0x22]"

fun separated :: "string \<Rightarrow> string list \<Rightarrow> string" where
  "separated sep [] = []"
| "separated sep [x] = x"
| "separated sep (x # y # ys) = x @ sep @ separated sep (y # ys)"

text \<open>
  \<open>JSON.stringify\<close> without indentation. How a finite number is printed
  (\<open>Number::toString\<close>) is the parameter \<open>num_str\<close>.
\<close>

fun stringify :: "(rat \<Rightarrow> string) \<Rightarrow> json \<Rightarrow> string" where
  "stringify num_str JNull = ''null''"
| "stringify num_str (JBool b) = (if b then ''true'' else ''false'')"
| "stringify num_str (JNum x) = num_str x"
| "stringify num_str (JStr s) = quote_json s"
| "stringify num_str (JArr js) = ''['' @ separated '','' (map (stringify num_str) js) @ '']''"
| "stringify num_str (JObj kvs) =
     [CHR 0x7B] @ separated '','' (map (\<lambda>(k, j). quote_json k @ '':'' @ stringify num_str j) kvs) @ [CHR 0x7D]"

section \<open>Values that are JSON\<close>

text \<open>
  The reference notion: a value is JSON when it unfolds to a finite tree whose leaves are
  \<open>null\<close>, strings, booleans and finite numbers. An inductive predicate has finite
  derivations only, so a value that contains itself is not JSON.
\<close>

inductive is_json :: "heap \<Rightarrow> jsval \<Rightarrow> bool" for h where
  null: "is_json h Null"
| string: "is_json h (Str s)"
| boolean: "is_json h (Bool b)"
| number: "is_json h (Num (Fin x))"
| composite: "deref h (Ref a) = Some ob \<Longrightarrow> (\<And>v. v \<in> set (elements ob) \<Longrightarrow> is_json h v) \<Longrightarrow> is_json h (Ref a)"

inductive_simps is_json_simps [simp]:
  "is_json h Undefined" "is_json h Null" "is_json h (Bool b)" "is_json h (Num n)"
  "is_json h (Str s)" "is_json h Other"

inductive_cases is_json_RefE: "is_json h (Ref a)"

text \<open>The tree a JSON value unfolds to; \<open>seen\<close> holds the enclosing addresses.\<close>

definition unseen :: "heap \<Rightarrow> nat set \<Rightarrow> nat" where
  "unseen h seen = card ({..<length h} - seen)"

lemma deref_Ref: "deref h (Ref a) = Some ob \<longleftrightarrow> a < length h \<and> ob = h ! a"
  by (auto simp: deref_def)

lemma unseen_insert: "a < length h \<Longrightarrow> a \<notin> seen \<Longrightarrow> unseen h (insert a seen) < unseen h seen"
  unfolding unseen_def by (intro psubset_card_mono) auto

fun collect :: "'a option list \<Rightarrow> 'a list option" where
  "collect [] = Some []"
| "collect (None # xs) = None"
| "collect (Some x # xs) = map_option (Cons x) (collect xs)"

function to_json :: "heap \<Rightarrow> nat set \<Rightarrow> jsval \<Rightarrow> json option" where
  "to_json h seen Undefined = None"
| "to_json h seen Null = Some JNull"
| "to_json h seen (Bool b) = Some (JBool b)"
| "to_json h seen (Num n) = (case n of Fin x \<Rightarrow> Some (JNum x) | _ \<Rightarrow> None)"
| "to_json h seen (Str s) = Some (JStr s)"
| "to_json h seen Other = None"
| "to_json h seen (Ref a) =
     (if a \<in> seen \<or> length h \<le> a then None
      else case h ! a of
        Arr vs \<Rightarrow> map_option JArr (collect (map (to_json h (insert a seen)) vs))
      | Obj kvs \<Rightarrow> map_option (\<lambda>js. JObj (zip (map_keys kvs) js))
          (collect (map (\<lambda>(k, v). to_json h (insert a seen) v) kvs)))"
  by pat_completeness auto
termination
  by (relation "measure (\<lambda>(h, seen, v). unseen h seen)") (auto simp: unseen_insert not_le)

section \<open>Cycles\<close>

text \<open>\<open>child h v u\<close>: the value \<open>v\<close> is an element of the composite \<open>u\<close>.\<close>

definition child :: "heap \<Rightarrow> jsval \<Rightarrow> jsval \<Rightarrow> bool" where
  "child h v u = (\<exists>ob. deref h u = Some ob \<and> v \<in> set (elements ob))"

lemma tranclpD2: "r\<^sup>+\<^sup>+ x z \<Longrightarrow> \<exists>y. r\<^sup>*\<^sup>* x y \<and> r y z"
  by (erule tranclp.cases) (auto intro: tranclp_into_rtranclp)

lemma is_json_accessible: "is_json h v \<Longrightarrow> Wellfounded.accp (child h) v"
proof (induction rule: is_json.induct)
  case (composite a ob)
  then show ?case by - (rule accp.accI, auto simp: child_def)
qed (rule accp.accI, simp add: child_def deref_def)+

lemma accessible_acyclic: "Wellfounded.accp r x \<Longrightarrow> \<not> r\<^sup>+\<^sup>+ x x"
proof (induction rule: accp.induct)
  case (accI x)
  show ?case
  proof
    assume "r\<^sup>+\<^sup>+ x x"
    then obtain y where y: "r\<^sup>*\<^sup>* x y" "r y x" using tranclpD2 [of r x x] by blast
    from y(2,1) have "r\<^sup>+\<^sup>+ y y" by (rule rtranclp_into_tranclp2)
    with accI.IH [OF y(2)] show False by contradiction
  qed
qed

lemma is_json_acyclic: "is_json h v \<Longrightarrow> \<not> (child h)\<^sup>+\<^sup>+ v v"
  by (intro accessible_acyclic is_json_accessible)

lemma is_json_Ref_iff:
  "is_json h (Ref a) \<longleftrightarrow> a < length h \<and> (\<forall>v \<in> set (elements (h ! a)). is_json h v)"
proof
  assume "is_json h (Ref a)"
  then show "a < length h \<and> (\<forall>v \<in> set (elements (h ! a)). is_json h v)"
    by (rule is_json_RefE) (auto simp: deref_Ref)
next
  assume "a < length h \<and> (\<forall>v \<in> set (elements (h ! a)). is_json h v)"
  then show "is_json h (Ref a)" by (intro is_json.composite [of h a "h ! a"]) (auto simp: deref_Ref)
qed

end
