(* ===== verification/Errors.thy ===== *)
theory Errors
  imports Prelude
begin

text \<open>
  The error classes of \<open>sdk/typescript/src/errors.ts\<close>, and the values that a promise of
  the SDK is rejected with: an error of the SDK, another \<open>Error\<close> object of the platform
  (its name and message), or something that is not an \<open>Error\<close>.
\<close>

record realtime_error =
  re_name :: string
  re_message :: string
  re_code :: string
  re_correlationId :: "string option"

definition RealtimeError :: "string \<Rightarrow> string \<Rightarrow> string option \<Rightarrow> realtime_error" where
  "RealtimeError message code correlationId =
     \<lparr>re_name = ''RealtimeError'', re_message = message, re_code = code, re_correlationId = correlationId\<rparr>"

record protocol_error_payload =
  pe_code :: string
  pe_message :: string

definition fromEnvelope :: "protocol_error_payload option \<Rightarrow> string \<Rightarrow> realtime_error" where
  "fromEnvelope envelope_error correlationId =
     (let error = (case envelope_error of
        Some e \<Rightarrow> e
      | None \<Rightarrow> \<lparr>pe_code = ''invalid_envelope'',
          pe_message = ''The server returned an invalid error envelope.''\<rparr>)
      in RealtimeError (pe_message error) (pe_code error) (Some correlationId))"

definition RealtimeConnectionError :: "string \<Rightarrow> string \<Rightarrow> realtime_error" where
  "RealtimeConnectionError message code =
     (RealtimeError message code None)\<lparr>re_name := ''RealtimeConnectionError''\<rparr>"

definition connection_failed :: string where
  "connection_failed = ''connection_failed''"

definition RealtimeQueueError :: realtime_error where
  "RealtimeQueueError =
     (RealtimeError ''The bounded client command queue is full.'' ''queue_saturated'' None)
       \<lparr>re_name := ''RealtimeQueueError''\<rparr>"

datatype thrown =
    Realtime realtime_error
  | ErrorObject (error_name: string) (error_message: string)
  | NonError

definition instanceof_Error :: "thrown \<Rightarrow> bool" where
  "instanceof_Error t = (t \<noteq> NonError)"

lemma re_code_simps [simp, js_simps]:
  "re_code (RealtimeError m c i) = c"
  "re_code (RealtimeConnectionError m c) = c"
  "re_code RealtimeQueueError = ''queue_saturated''"
  by (simp_all add: RealtimeError_def RealtimeConnectionError_def RealtimeQueueError_def)

end
