(* ===== verification/Protocol.thy ===== *)
theory Protocol
  imports Js_Value Errors
begin

text \<open>
  \<open>sdk/typescript/src/protocol.ts\<close>: the wire envelopes of protocol \<open>1.0\<close> and their
  validation. Two functions of the platform are parameters: \<open>parse\<close> is \<open>Date.parse\<close>
  (\<open>None\<close> is \<open>NaN\<close>; ECMA-262 leaves its behaviour on most strings to the
  implementation), and \<open>now\<close> is the clock. Validation returns \<open>Inl (errorCode,
  message)\<close> for an invalid envelope and \<open>Inr\<close> of the value otherwise.
\<close>

section \<open>Constants\<close>

definition PROTOCOL_VERSION :: string where
  "PROTOCOL_VERSION = ''1.0''"

definition WEBSOCKET_SUBPROTOCOL :: string where
  "WEBSOCKET_SUBPROTOCOL = ''realtime.v1''"

record message_types =
  mt_ping :: string
  mt_subscribe :: string
  mt_unsubscribe :: string
  mt_publish :: string
  mt_acknowledge :: string
  mt_event :: string
  mt_error :: string
  mt_serviceRestart :: string

definition messageTypes :: message_types where
  "messageTypes = \<lparr>mt_ping = ''ping'', mt_subscribe = ''subscribe'', mt_unsubscribe = ''unsubscribe'',
     mt_publish = ''publish'', mt_acknowledge = ''ack'', mt_event = ''event'', mt_error = ''error'',
     mt_serviceRestart = ''service.restart''\<rparr>"

record protocol_error_codes =
  ec_invalidEnvelope :: string
  ec_unsupportedVersion :: string
  ec_unsupportedType :: string
  ec_duplicateCorrelation :: string
  ec_messageTooLarge :: string
  ec_fragmentedMessageRejected :: string
  ec_unauthorized :: string
  ec_queueSaturated :: string
  ec_serviceDraining :: string
  ec_internalError :: string

definition protocolErrorCodes :: protocol_error_codes where
  "protocolErrorCodes = \<lparr>ec_invalidEnvelope = ''invalid_envelope'',
     ec_unsupportedVersion = ''unsupported_version'', ec_unsupportedType = ''unsupported_type'',
     ec_duplicateCorrelation = ''duplicate_correlation'', ec_messageTooLarge = ''message_too_large'',
     ec_fragmentedMessageRejected = ''fragmented_message_rejected'',
     ec_unauthorized = ''unauthorized'', ec_queueSaturated = ''queue_saturated'',
     ec_serviceDraining = ''service_draining'', ec_internalError = ''internal_error''\<rparr>"

record close_codes =
  cc_normal :: int
  cc_serviceRestart :: int
  cc_authenticationExpired :: int
  cc_slowConsumer :: int
  cc_heartbeatTimeout :: int

definition closeCodes :: close_codes where
  "closeCodes = \<lparr>cc_normal = 1000, cc_serviceRestart = 1012, cc_authenticationExpired = 4003,
     cc_slowConsumer = 4008, cc_heartbeatTimeout = 4009\<rparr>"

lemmas protocol_constants [simp, js_simps] =
  PROTOCOL_VERSION_def messageTypes_def protocolErrorCodes_def closeCodes_def

definition clientTypes :: "string list" where
  "clientTypes = [mt_ping messageTypes, mt_subscribe messageTypes, mt_unsubscribe messageTypes,
     mt_publish messageTypes]"

definition serverTypes :: "string list" where
  "serverTypes = [mt_acknowledge messageTypes, mt_event messageTypes, mt_error messageTypes,
     mt_ping messageTypes, mt_serviceRestart messageTypes]"

definition maximumTimerDelayMilliseconds :: rat where
  "maximumTimerDelayMilliseconds = 2147483647"

section \<open>Validation\<close>

definition isRecord :: "heap \<Rightarrow> jsval \<Rightarrow> bool" where
  "isRecord h v = (case deref h v of Some (Obj _) \<Rightarrow> True | _ \<Rightarrow> False)"

text \<open>
  The set \<open>ancestors\<close> is added to before the elements are visited and restored after, so
  a recursive call sees exactly the enclosing objects.
\<close>

function isJsonValue :: "heap \<Rightarrow> nat set \<Rightarrow> jsval \<Rightarrow> bool" where
  "isJsonValue h ancestors Null = True"
| "isJsonValue h ancestors (Str s) = True"
| "isJsonValue h ancestors (Bool b) = True"
| "isJsonValue h ancestors (Num n) = isFinite n"
| "isJsonValue h ancestors Undefined = False"
| "isJsonValue h ancestors Other = False"
| "isJsonValue h ancestors (Ref a) =
     (if a \<in> ancestors \<or> length h \<le> a then False
      else case h ! a of
        Arr vs \<Rightarrow> list_all (isJsonValue h (insert a ancestors)) vs
      | Obj kvs \<Rightarrow> list_all (\<lambda>v. isJsonValue h (insert a ancestors) v) (map snd kvs))"
  by pat_completeness auto
termination
  by (relation "measure (\<lambda>(h, ancestors, v). unseen h ancestors)") (auto simp: unseen_insert not_le)

type_synonym date_parse = "string \<Rightarrow> int option"

definition hasEnvelopeStrings :: "date_parse \<Rightarrow> heap \<Rightarrow> jsval \<Rightarrow> bool" where
  "hasEnvelopeStrings parse h v =
     (let correlationId = get_prop h v ''correlationId''; timestamp = get_prop h v ''timestamp'';
          route = get_prop h v ''route''
      in is_string correlationId
       \<and> length (trim (str_of correlationId)) > 0
       \<and> length (str_of correlationId) \<le> 128
       \<and> is_string timestamp
       \<and> parse (str_of timestamp) \<noteq> None
       \<and> is_string route
       \<and> length (trim (str_of route)) > 0
       \<and> length (str_of route) \<le> 256)"

type_synonym validation = "(string \<times> string) + jsval"

definition nullish :: "jsval \<Rightarrow> bool" where
  "nullish v = (v = Null \<or> v = Undefined)"

definition payload_ok :: "heap \<Rightarrow> jsval \<Rightarrow> bool" where
  "payload_ok h v = (\<not> (has_prop h v ''payload'' \<and> get_prop h v ''payload'' \<noteq> Undefined
     \<and> \<not> isJsonValue h {} (get_prop h v ''payload'')))"

definition validateClientEnvelope :: "date_parse \<Rightarrow> int \<Rightarrow> heap \<Rightarrow> jsval \<Rightarrow> validation" where
  "validateClientEnvelope parse now h v =
     (if \<not> isRecord h v \<or> \<not> hasEnvelopeStrings parse h v then
        Inl (ec_invalidEnvelope protocolErrorCodes, ''The message envelope is invalid.'')
      else if get_prop h v ''version'' \<noteq> Str PROTOCOL_VERSION then
        Inl (ec_unsupportedVersion protocolErrorCodes, ''The protocol version is not supported.'')
      else if \<not> is_string (get_prop h v ''type'') \<or> str_of (get_prop h v ''type'') \<notin> set clientTypes then
        Inl (ec_unsupportedType protocolErrorCodes, ''The client message type is not supported.'')
      else if (case parse (str_of (get_prop h v ''timestamp'')) of
                 Some timestamp \<Rightarrow> timestamp < now - 5 * 60000 \<or> timestamp > now + 60000
               | None \<Rightarrow> False) then
        Inl (ec_invalidEnvelope protocolErrorCodes, ''Timestamp is outside the accepted clock-skew window.'')
      else if get_prop h v ''type'' = Str (mt_publish messageTypes) \<and> nullish (get_prop h v ''payload'') then
        Inl (ec_invalidEnvelope protocolErrorCodes, ''Publish payload is required.'')
      else if \<not> payload_ok h v then
        Inl (ec_invalidEnvelope protocolErrorCodes, ''Payload must contain only finite JSON values.'')
      else Inr v)"

text \<open>The reconnect advice of a \<open>service.restart\<close> message.\<close>

definition validAdvice :: "heap \<Rightarrow> jsval \<Rightarrow> bool" where
  "validAdvice h r =
     (let initial = get_prop h r ''initialDelayMilliseconds'';
          maximum = get_prop h r ''maximumDelayMilliseconds'';
          jitter = get_prop h r ''jitterRatio''
      in \<not> (\<not> isRecord h r
       \<or> \<not> is_number initial
       \<or> \<not> isSafeInteger (num_of initial)
       \<or> num_less (num_of initial) (Fin 0)
       \<or> num_less (Fin maximumTimerDelayMilliseconds) (num_of initial)
       \<or> \<not> is_number maximum
       \<or> \<not> isSafeInteger (num_of maximum)
       \<or> num_less (num_of maximum) (num_of initial)
       \<or> num_less (Fin maximumTimerDelayMilliseconds) (num_of maximum)
       \<or> \<not> is_number jitter
       \<or> \<not> isFinite (num_of jitter)
       \<or> num_less (num_of jitter) (Fin 0)
       \<or> num_less (Fin 1) (num_of jitter)
       \<or> \<not> is_boolean (get_prop h r ''reauthenticate'')))"

definition validateServerEnvelope :: "date_parse \<Rightarrow> heap \<Rightarrow> jsval \<Rightarrow> validation" where
  "validateServerEnvelope parse h v =
     (if \<not> isRecord h v \<or> \<not> hasEnvelopeStrings parse h v then
        Inl (ec_invalidEnvelope protocolErrorCodes, ''The server message envelope is invalid.'')
      else if get_prop h v ''version'' \<noteq> Str PROTOCOL_VERSION then
        Inl (ec_unsupportedVersion protocolErrorCodes, ''The protocol version is not supported.'')
      else if \<not> is_string (get_prop h v ''type'') \<or> str_of (get_prop h v ''type'') \<notin> set serverTypes then
        Inl (ec_unsupportedType protocolErrorCodes, ''The server message type is not supported.'')
      else if \<not> payload_ok h v then
        Inl (ec_invalidEnvelope protocolErrorCodes, ''Payload must contain only finite JSON values.'')
      else if get_prop h v ''type'' = Str (mt_error messageTypes)
          \<and> (\<not> isRecord h (get_prop h v ''error'')
             \<or> \<not> is_string (get_prop h (get_prop h v ''error'') ''code'')
             \<or> \<not> is_string (get_prop h (get_prop h v ''error'') ''message'')) then
        Inl (ec_invalidEnvelope protocolErrorCodes, ''The error payload is invalid.'')
      else if get_prop h v ''type'' = Str (mt_serviceRestart messageTypes)
          \<and> \<not> nullish (get_prop h v ''reconnect'') \<and> \<not> validAdvice h (get_prop h v ''reconnect'') then
        Inl (ec_invalidEnvelope protocolErrorCodes, ''The reconnect advice is invalid.'')
      else Inr v)"

section \<open>Envelopes\<close>

text \<open>A validated server message.\<close>

record reconnect_advice =
  initialDelayMilliseconds :: jsnum
  maximumDelayMilliseconds :: jsnum
  jitterRatio :: jsnum
  reauthenticate :: bool

record server_envelope =
  sv_type :: string
  sv_correlationId :: string
  sv_timestamp :: string
  sv_route :: string
  sv_payload :: "json option"
  sv_error :: "protocol_error_payload option"
  sv_reconnect :: "reconnect_advice option"

definition advice_of :: "heap \<Rightarrow> jsval \<Rightarrow> reconnect_advice option" where
  "advice_of h r = (if nullish r then None else Some
     \<lparr>initialDelayMilliseconds = num_of (get_prop h r ''initialDelayMilliseconds''),
      maximumDelayMilliseconds = num_of (get_prop h r ''maximumDelayMilliseconds''),
      jitterRatio = num_of (get_prop h r ''jitterRatio''),
      reauthenticate = (get_prop h r ''reauthenticate'' = Bool True)\<rparr>)"

definition error_of :: "heap \<Rightarrow> jsval \<Rightarrow> protocol_error_payload option" where
  "error_of h e = (if nullish e then None else Some
     \<lparr>pe_code = str_of (get_prop h e ''code''), pe_message = str_of (get_prop h e ''message'')\<rparr>)"

definition server_envelope_of :: "heap \<Rightarrow> jsval \<Rightarrow> server_envelope" where
  "server_envelope_of h v =
     \<lparr>sv_type = str_of (get_prop h v ''type''),
      sv_correlationId = str_of (get_prop h v ''correlationId''),
      sv_timestamp = str_of (get_prop h v ''timestamp''),
      sv_route = str_of (get_prop h v ''route''),
      sv_payload = to_json h {} (get_prop h v ''payload''),
      sv_error = error_of h (get_prop h v ''error''),
      sv_reconnect = advice_of h (get_prop h v ''reconnect'')\<rparr>"

text \<open>
  A client envelope. The payload is the JSON tree that the caller's value unfolds to when the
  envelope is created.
\<close>

record message_envelope =
  me_type :: string
  me_correlationId :: string
  me_timestamp :: string
  me_route :: string
  me_payload :: "json option"

definition envelope_object :: "string \<Rightarrow> string \<Rightarrow> string \<Rightarrow> string \<Rightarrow> jsval \<Rightarrow> jsobj" where
  "envelope_object type correlationId timestamp route payload = Obj
     ([(''version'', Str PROTOCOL_VERSION), (''type'', Str type), (''correlationId'', Str correlationId),
       (''timestamp'', Str timestamp), (''route'', Str route)]
      @ (if payload = Undefined then [] else [(''payload'', payload)]))"

definition createEnvelope ::
  "date_parse \<Rightarrow> (int \<Rightarrow> string) \<Rightarrow> int \<Rightarrow> heap \<Rightarrow> string \<Rightarrow> string \<Rightarrow> jsval \<Rightarrow> string \<Rightarrow> thrown + message_envelope" where
  "createEnvelope parse toISOString now h type route payload correlationId =
     (let timestamp = toISOString now;
          h' = h @ [envelope_object type correlationId timestamp route payload]
      in case validateClientEnvelope parse now h' (Ref (length h)) of
        Inl (code, message) \<Rightarrow> Inl (ErrorObject ''TypeError'' message)
      | Inr _ \<Rightarrow> Inr \<lparr>me_type = type, me_correlationId = correlationId, me_timestamp = timestamp,
          me_route = route, me_payload = to_json h {} payload\<rparr>)"

definition message_json :: "message_envelope \<Rightarrow> json" where
  "message_json m = JObj
     ([(''version'', JStr PROTOCOL_VERSION), (''type'', JStr (me_type m)),
       (''correlationId'', JStr (me_correlationId m)), (''timestamp'', JStr (me_timestamp m)),
       (''route'', JStr (me_route m))]
      @ (case me_payload m of None \<Rightarrow> [] | Some p \<Rightarrow> [(''payload'', p)]))"

section \<open>JSON values\<close>

lemma list_all_elements: "list_all P (elements ob) \<longleftrightarrow> (\<forall>v \<in> set (elements ob). P v)"
  by (simp add: list_all_iff)

lemma isJsonValue_Ref:
  "isJsonValue h ancestors (Ref a) \<longleftrightarrow>
     a \<notin> ancestors \<and> a < length h \<and> (\<forall>v \<in> set (elements (h ! a)). isJsonValue h (insert a ancestors) v)"
  by (cases "h ! a") (auto simp: list_all_iff not_le)

lemma isFinite_conv: "isFinite n \<longleftrightarrow> (\<exists>x. n = Fin x)"
  by (cases n) auto

lemma isJsonValue_sound: "isJsonValue h ancestors v \<Longrightarrow> is_json h v"
proof (induction "unseen h ancestors" arbitrary: ancestors v rule: less_induct)
  case less
  show ?case
  proof (cases v)
    case (Ref a)
    with less.prems have a: "a \<notin> ancestors" "a < length h"
      and vs: "\<forall>v \<in> set (elements (h ! a)). isJsonValue h (insert a ancestors) v"
      unfolding Ref isJsonValue_Ref by blast+
    from less.hyps [OF unseen_insert [OF a(2,1)]] vs a(2) show ?thesis
      unfolding Ref is_json_Ref_iff by blast
  qed (use less.prems in \<open>simp_all add: isFinite_conv\<close>)
qed

text \<open>The enclosing objects are not reachable from a JSON value: nothing contains itself.\<close>

lemma isJsonValue_complete:
  assumes "is_json h v" "\<And>a. a \<in> ancestors \<Longrightarrow> \<not> (child h)\<^sup>*\<^sup>* (Ref a) v"
  shows "isJsonValue h ancestors v"
  using assms
proof (induction arbitrary: ancestors rule: is_json.induct)
  case (composite a ob)
  have json: "is_json h (Ref a)" using composite.hyps by (blast intro: is_json.composite)
  have fresh: "a \<notin> ancestors" using composite.prems by blast
  have len: "a < length h" "ob = h ! a" using composite.hyps(1) by (simp_all add: deref_Ref)
  have "isJsonValue h (insert a ancestors) v" if v: "v \<in> set (elements ob)" for v
  proof (rule composite.IH [OF v])
    have step: "child h v (Ref a)" using v composite.hyps(1) by (auto simp: child_def)
    fix b assume "b \<in> insert a ancestors"
    then show "\<not> (child h)\<^sup>*\<^sup>* (Ref b) v"
    proof
      assume "b = a"
      then show ?thesis using is_json_acyclic [OF json] step by (blast intro: rtranclp_into_tranclp1)
    next
      assume "b \<in> ancestors"
      then show ?thesis using composite.prems step by (blast intro: rtranclp.rtrancl_into_rtrancl)
    qed
  qed
  then show ?case unfolding isJsonValue_Ref using fresh len by simp
qed simp_all

lemma isJsonValue_iff_is_json: "isJsonValue h {} v \<longleftrightarrow> is_json h v"
  using isJsonValue_sound isJsonValue_complete [of h v "{}"] by blast

lemma collect_map_eq_None: "collect (map f xs) = None \<longleftrightarrow> (\<exists>x \<in> set xs. f x = None)"
proof (induction xs)
  case (Cons x xs)
  then show ?case by (cases "f x") auto
qed simp

lemma to_json_eq_None: "to_json h seen v = None \<longleftrightarrow> \<not> isJsonValue h seen v"
proof (induction h seen v rule: to_json.induct)
  case (7 h seen a)
  show ?case
  proof (cases "a \<in> seen \<or> length h \<le> a")
    case False
    show ?thesis
    proof (cases "h ! a")
      case (Arr vs)
      with False "7.IH"(1) [OF False Arr] show ?thesis
        by (simp add: collect_map_eq_None list_all_iff)
    next
      case (Obj kvs)
      have "to_json h (insert a seen) (snd x) = None \<longleftrightarrow> \<not> isJsonValue h (insert a seen) (snd x)"
        if "x \<in> set kvs" for x
        using "7.IH"(2) [OF False Obj that, of "fst x" "snd x"] by simp
      with False Obj show ?thesis by (simp add: collect_map_eq_None list_all_iff split_beta)
    qed
  qed auto
qed (auto split: jsnum.splits)

lemma to_json_iff_is_json: "to_json h {} v \<noteq> None \<longleftrightarrow> is_json h v"
  by (simp add: to_json_eq_None isJsonValue_iff_is_json)

section \<open>Validated envelopes\<close>

text \<open>
  What the client relies on in advice it stores: delays that a timer takes, in order, and a jitter
  ratio between 0 and 1.
\<close>

definition timer_safe_advice :: "jsnum \<Rightarrow> jsnum \<Rightarrow> jsnum \<Rightarrow> bool" where
  "timer_safe_advice initial maximum jitter = (\<exists>i m j.
     initial = Fin (of_nat i) \<and> maximum = Fin (of_nat m) \<and> jitter = Fin j \<and>
     i \<le> m \<and> m \<le> 2147483647 \<and> 0 \<le> j \<and> j \<le> 1)"

lemma safe_integer_nat:
  assumes "isSafeInteger n" "\<not> num_less n (Fin 0)"
  obtains k where "n = Fin (of_nat k)"
proof -
  from assms(1) obtain x where x: "n = Fin x" "of_int \<lfloor>x\<rfloor> = x" by (cases n) (auto simp: is_integral_def)
  with assms(2) have "0 \<le> \<lfloor>x\<rfloor>" by simp
  then have "x = of_nat (nat \<lfloor>x\<rfloor>)" using x(2) by (metis of_nat_nat of_int_of_nat_eq)
  with x(1) that show thesis by blast
qed

lemma validAdvice_timer_safe:
  assumes "validAdvice h r"
  shows "timer_safe_advice (num_of (get_prop h r ''initialDelayMilliseconds''))
     (num_of (get_prop h r ''maximumDelayMilliseconds'')) (num_of (get_prop h r ''jitterRatio''))"
proof -
  let ?i = "num_of (get_prop h r ''initialDelayMilliseconds'')"
  let ?m = "num_of (get_prop h r ''maximumDelayMilliseconds'')"
  let ?j = "num_of (get_prop h r ''jitterRatio'')"
  have v: "isSafeInteger ?i" "\<not> num_less ?i (Fin 0)" "isSafeInteger ?m" "\<not> num_less ?m ?i"
      "\<not> num_less (Fin maximumTimerDelayMilliseconds) ?m" "isFinite ?j" "\<not> num_less ?j (Fin 0)"
      "\<not> num_less (Fin 1) ?j"
    using assms by (simp_all add: validAdvice_def Let_def)
  obtain i where i: "?i = Fin (of_nat i)" using safe_integer_nat [OF v(1,2)] .
  have "\<not> num_less ?m (Fin 0)" using v(4) i by (cases ?m) auto
  then obtain m where m: "?m = Fin (of_nat m)" using safe_integer_nat [OF v(3)] by blast
  obtain j where j: "?j = Fin j" using v(6) by (auto simp: isFinite_conv)
  have "i \<le> m" using v(4) i m by simp
  moreover have "m \<le> 2147483647" using v(5) m
    by (simp add: maximumTimerDelayMilliseconds_def not_less)
  moreover have "0 \<le> j" "j \<le> 1" using v(7,8) j by simp_all
  ultimately show ?thesis using i m j unfolding timer_safe_advice_def by blast
qed

lemma validateServerEnvelope_accepts:
  assumes "validateServerEnvelope parse h v = Inr w"
  shows "w = v" "isRecord h v" "hasEnvelopeStrings parse h v" "get_prop h v ''version'' = Str PROTOCOL_VERSION"
    "str_of (get_prop h v ''type'') \<in> set serverTypes" "payload_ok h v"
  using assms by (auto simp: validateServerEnvelope_def split: if_splits)

lemma validateServerEnvelope_advice:
  assumes "validateServerEnvelope parse h v = Inr w" "sv_type (server_envelope_of h w) = ''service.restart''"
    "sv_reconnect (server_envelope_of h w) = Some adv"
  shows "timer_safe_advice (initialDelayMilliseconds adv) (maximumDelayMilliseconds adv) (jitterRatio adv)"
proof -
  from assms(1) have w: "w = v" by (rule validateServerEnvelope_accepts)
  have ty: "is_string (get_prop h v ''type'')"
    using assms(1) by (auto simp: validateServerEnvelope_def split: if_splits)
  then have "get_prop h v ''type'' = Str ''service.restart''"
    using assms(2) w by (cases "get_prop h v ''type''") (simp_all add: server_envelope_of_def)
  moreover have "\<not> nullish (get_prop h v ''reconnect'')"
    using assms(3) w by (auto simp: server_envelope_of_def advice_of_def split: if_splits)
  ultimately have "validAdvice h (get_prop h v ''reconnect'')"
    using assms(1) by (auto simp: validateServerEnvelope_def split: if_splits)
  from validAdvice_timer_safe [OF this] show ?thesis
    using assms(3) w by (auto simp: server_envelope_of_def advice_of_def split: if_splits)
qed

section \<open>Created envelopes\<close>

text \<open>The values of a heap that name only objects of the heap.\<close>

definition closed_value :: "heap \<Rightarrow> jsval \<Rightarrow> bool" where
  "closed_value h v = (\<forall>a. v = Ref a \<longrightarrow> a < length h)"

definition closed_heap :: "heap \<Rightarrow> bool" where
  "closed_heap h = (\<forall>ob \<in> set h. \<forall>v \<in> set (elements ob). closed_value h v)"

lemma is_json_append1: "is_json h v \<Longrightarrow> is_json (h @ hs) v"
proof (induction rule: is_json.induct)
  case (composite a ob)
  then show ?case by (auto simp: is_json_Ref_iff deref_Ref nth_append)
qed auto

lemma is_json_append2:
  "is_json (h @ hs) v \<Longrightarrow> closed_heap h \<Longrightarrow> closed_value h v \<Longrightarrow> is_json h v"
proof (induction rule: is_json.induct)
  case (composite a ob)
  then have "a < length h" "ob = h ! a" by (auto simp: deref_Ref nth_append closed_value_def)
  with composite show ?case unfolding is_json_Ref_iff closed_heap_def by (metis nth_mem)
qed auto

lemma is_json_append:
  "closed_heap h \<Longrightarrow> closed_value h v \<Longrightarrow> is_json (h @ hs) v \<longleftrightarrow> is_json h v"
  using is_json_append1 is_json_append2 by blast

lemma deref_envelope: "deref (h @ [ob]) (Ref (length h)) = Some ob"
  by (simp add: deref_def)

lemma get_prop_envelope:
  assumes "h' = h @ [envelope_object type correlationId timestamp route payload]"
  shows "get_prop h' (Ref (length h)) ''version'' = Str PROTOCOL_VERSION"
    "get_prop h' (Ref (length h)) ''type'' = Str type"
    "get_prop h' (Ref (length h)) ''correlationId'' = Str correlationId"
    "get_prop h' (Ref (length h)) ''timestamp'' = Str timestamp"
    "get_prop h' (Ref (length h)) ''route'' = Str route"
    "get_prop h' (Ref (length h)) ''payload'' = payload"
    "has_prop h' (Ref (length h)) ''payload'' \<longleftrightarrow> payload \<noteq> Undefined"
    "isRecord h' (Ref (length h))"
  using assms by (simp_all add: get_prop_def has_prop_def isRecord_def deref_envelope envelope_object_def)

definition envelope_arguments_ok :: "string \<Rightarrow> string \<Rightarrow> string \<Rightarrow> bool" where
  "envelope_arguments_ok type route correlationId \<longleftrightarrow> type \<in> set clientTypes
     \<and> trim route \<noteq> [] \<and> length route \<le> 256 \<and> trim correlationId \<noteq> [] \<and> length correlationId \<le> 128"

lemma createEnvelope_cases:
  assumes "closed_heap h" "closed_value h payload" "parse (toISOString now) = Some now"
  shows "createEnvelope parse toISOString now h type route payload correlationId =
     (if trim route = [] \<or> 256 < length route \<or> trim correlationId = [] \<or> 128 < length correlationId
      then Inl (ErrorObject ''TypeError'' ''The message envelope is invalid.'')
      else if type \<notin> set clientTypes
      then Inl (ErrorObject ''TypeError'' ''The client message type is not supported.'')
      else if type = ''publish'' \<and> nullish payload
      then Inl (ErrorObject ''TypeError'' ''Publish payload is required.'')
      else if payload \<noteq> Undefined \<and> \<not> is_json h payload
      then Inl (ErrorObject ''TypeError'' ''Payload must contain only finite JSON values.'')
      else Inr \<lparr>me_type = type, me_correlationId = correlationId, me_timestamp = toISOString now,
          me_route = route, me_payload = to_json h {} payload\<rparr>)"
proof -
  define h' where "h' = h @ [envelope_object type correlationId (toISOString now) route payload]"
  note p = get_prop_envelope [OF h'_def]
  have strings: "hasEnvelopeStrings parse h' (Ref (length h)) \<longleftrightarrow>
      trim route \<noteq> [] \<and> length route \<le> 256 \<and> trim correlationId \<noteq> [] \<and> length correlationId \<le> 128"
    by (auto simp: hasEnvelopeStrings_def p assms(3))
  have payload: "payload_ok h' (Ref (length h)) \<longleftrightarrow> payload = Undefined \<or> is_json h payload"
    using is_json_append [OF assms(1,2)]
    by (auto simp: payload_ok_def p isJsonValue_iff_is_json) (auto simp: h'_def)
  have "createEnvelope parse toISOString now h type route payload correlationId =
     (case validateClientEnvelope parse now h' (Ref (length h)) of
        Inl (code, message) \<Rightarrow> Inl (ErrorObject ''TypeError'' message)
      | Inr _ \<Rightarrow> Inr \<lparr>me_type = type, me_correlationId = correlationId, me_timestamp = toISOString now,
          me_route = route, me_payload = to_json h {} payload\<rparr>)"
    by (simp only: createEnvelope_def Let_def h'_def)
  then show ?thesis
    by (simp add: validateClientEnvelope_def p strings payload assms(3))
qed

section \<open>Theorems\<close>

text \<open>
  C18. The recursive check of a payload, with its set of enclosing objects, accepts exactly the
  values that JSON can express: finite numbers, strings, booleans, null, and arrays and objects of
  such values without a cycle, shared substructure included.
\<close>

theorem isJsonValue_exact: "isJsonValue h {} v \<longleftrightarrow> is_json h v"
  by (rule isJsonValue_iff_is_json)

text \<open>
  C30. Whatever JSON value a server sends as a \<open>service.restart\<close> message, advice that passes
  validation has whole, ordered delays that a timer accepts and a jitter ratio between 0 and 1.
\<close>

theorem server_advice_timer_safe:
  assumes "validateServerEnvelope parse h v = Inr w" "sv_type (server_envelope_of h w) = ''service.restart''"
    "sv_reconnect (server_envelope_of h w) = Some adv"
  shows "\<exists>i m j. initialDelayMilliseconds adv = Fin (of_nat i) \<and> maximumDelayMilliseconds adv = Fin (of_nat m)
    \<and> jitterRatio adv = Fin j \<and> i \<le> m \<and> m \<le> 2147483647 \<and> 0 \<le> j \<and> j \<le> 1"
  using validateServerEnvelope_advice [OF assms] unfolding timer_safe_advice_def .

definition restart_heap :: heap where
  "restart_heap = [Obj [(''version'', Str ''1.0''), (''type'', Str ''service.restart''), (''correlationId'', Str ''c''),
     (''timestamp'', Str ''t''), (''route'', Str ''system''), (''reconnect'', Ref 1)],
     Obj [(''initialDelayMilliseconds'', Num (Fin 250)), (''maximumDelayMilliseconds'', Num (Fin 5000)),
       (''jitterRatio'', Num (Fin (1 / 4))), (''reauthenticate'', Bool False)]]"

theorem server_advice_timer_safe_witness:
  "\<exists>adv. sv_reconnect (server_envelope_of restart_heap (Ref 0)) = Some adv
    \<and> (\<exists>i m j. initialDelayMilliseconds adv = Fin (of_nat i) \<and> maximumDelayMilliseconds adv = Fin (of_nat m)
      \<and> jitterRatio adv = Fin j \<and> i \<le> m \<and> m \<le> 2147483647 \<and> 0 \<le> j \<and> j \<le> 1)"
proof -
  note eval = restart_heap_def get_prop_def has_prop_def deref_def server_envelope_of_def
  have v: "validateServerEnvelope (\<lambda>_. Some 0) restart_heap (Ref 0) = Inr (Ref 0)"
    by (simp add: validateServerEnvelope_def eval isRecord_def hasEnvelopeStrings_def payload_ok_def serverTypes_def
        validAdvice_def maximumTimerDelayMilliseconds_def is_integral_def max_safe_def nullish_def
        trim_def js_space_def Let_def)
  have t: "sv_type (server_envelope_of restart_heap (Ref 0)) = ''service.restart''" by (simp add: eval)
  obtain adv where a: "sv_reconnect (server_envelope_of restart_heap (Ref 0)) = Some adv"
    by (simp add: eval advice_of_def nullish_def)
  show ?thesis using server_advice_timer_safe [OF v t a] a by blast
qed

text \<open>
  C19. \<open>createEnvelope\<close> returns an envelope exactly for a supported type, a route and an
  identifier that are not blank and within their lengths, and a payload that JSON can express (for
  \<open>publish\<close> also present and not null), and throws the message of the first check that fails
  otherwise; the timestamp it makes itself is never refused.
\<close>

theorem createEnvelope_result:
  assumes "closed_heap h" "closed_value h payload" "parse (toISOString now) = Some now"
  shows "createEnvelope parse toISOString now h type route payload correlationId =
     (if trim route = [] \<or> 256 < length route \<or> trim correlationId = [] \<or> 128 < length correlationId
      then Inl (ErrorObject ''TypeError'' ''The message envelope is invalid.'')
      else if type \<notin> set clientTypes
      then Inl (ErrorObject ''TypeError'' ''The client message type is not supported.'')
      else if type = ''publish'' \<and> nullish payload
      then Inl (ErrorObject ''TypeError'' ''Publish payload is required.'')
      else if payload \<noteq> Undefined \<and> \<not> is_json h payload
      then Inl (ErrorObject ''TypeError'' ''Payload must contain only finite JSON values.'')
      else Inr \<lparr>me_type = type, me_correlationId = correlationId, me_timestamp = toISOString now,
          me_route = route, me_payload = to_json h {} payload\<rparr>)"
  using assms by (rule createEnvelope_cases)

theorem createEnvelope_result_witness:
  "createEnvelope (\<lambda>_. Some 0) (\<lambda>_. ''t'') 0 [] ''publish'' ''room'' Null ''c''
     = Inl (ErrorObject ''TypeError'' ''Publish payload is required.'')"
  using createEnvelope_result [of "[]" Null "\<lambda>_. Some 0" "\<lambda>_. ''t''" 0 "''publish''" "''room''" "''c''"]
  by (simp add: closed_heap_def closed_value_def trim_def js_space_def clientTypes_def nullish_def)

end
