(* ===== verification/Client_State.thy ===== *)
theory Client_State
  imports Protocol
begin

text \<open>
  The state of \<open>RealtimeClient\<close> (\<open>sdk/typescript/src/client.ts\<close>).

  JavaScript runs one piece of synchronous code at a time, so the model has one function on the
  state per piece: an API call up to its first suspension, a timer or socket callback, the code
  after an \<open>await\<close>. Objects that the code compares by identity (commands, promises,
  \<open>Set\<close> objects, connection attempts) are natural numbers handed out by \<open>nextId\<close>.

  One call of \<open>openSocket\<close> is an \<open>attempt\<close>. It owns at most one socket, one
  \<open>AbortController\<close> and the local variables of the function (\<open>settled\<close>,
  \<open>connectionEstablished\<close>, the progress of \<open>restoreSubscriptionsAndFlush\<close>), and the
  attempt's number stands for each of them.

  What the client meets outside the sources is the record \<open>env\<close>: the caller's options, the
  results of successive calls of \<open>send\<close>, \<open>Math.random\<close>, \<open>crypto.randomUUID\<close>
  and the clock, whether a socket runs its \<open>onclose\<close> inside \<open>close\<close> (as the HTTP
  transport does), and \<open>consumer\<close>, what the application's listeners do to the client while
  an event is delivered.
\<close>

section \<open>States, options and events\<close>

datatype client_state = Idle | Connecting | Open | Reconnecting | Closing | Closed

datatype ready_state = CONNECTING | OPEN | CLOSING | CLOSED

record client_options =
  ticketAuthentication :: bool
  maximumQueuedCommands :: nat
  maximumPendingCommands :: nat
  commandTimeoutMilliseconds :: nat
  heartbeatIntervalMilliseconds :: nat
  maximumMessageBytes :: nat
  reconnectEnabled :: bool
  reconnectInitialDelay :: jsnum
  reconnectMaximumDelay :: jsnum
  reconnectJitterRatio :: jsnum
  reconnectMaximumAttempts :: nat

datatype client_event =
    StateEvent client_state
  | CloseEvent (close_code: int) (close_reason: string) (close_expected: bool)
  | MessageEvent server_envelope
  | ErrorEvent realtime_error

datatype event_kind = OnState | OnClose | OnEvent | OnError

fun kind_of :: "client_event \<Rightarrow> event_kind" where
  "kind_of (StateEvent _) = OnState"
| "kind_of (CloseEvent _ _ _) = OnClose"
| "kind_of (MessageEvent _) = OnEvent"
| "kind_of (ErrorEvent _) = OnError"

section \<open>Commands and attempts\<close>

text \<open>
  Who waits for a command: the caller holding promise \<open>p\<close>, or the restoration loop of an
  attempt. A command that the loop took over from the queue has both.
\<close>

datatype waiter = Caller nat | Restoration nat

datatype outcome = Resolved server_envelope | Rejected thrown

text \<open>\<open>QueuedCommand\<close>; \<open>qc_listening\<close> says that \<open>removeAbortListener\<close> is set.\<close>

record queued_command =
  qc_id :: nat
  qc_envelope :: message_envelope
  qc_waiters :: "waiter list"
  qc_signal :: "nat option"
  qc_listening :: bool

record pending_command =
  pc_waiters :: "waiter list"
  pc_signal :: "nat option"

text \<open>
  The suspended loop of \<open>restoreSubscriptionsAndFlush\<close>: the route it awaits, the routes
  left, the queued subscriptions it took, the failures so far and the outcome it is waiting for.
\<close>

record restoration =
  rs_route :: string
  rs_unsubscribing :: bool
  rs_routes :: "string list"
  rs_queued :: "(string, queued_command) jsmap"
  rs_failures :: "realtime_error list"
  rs_outcome :: "outcome option"

record attempt =
  at_generation :: nat
  at_reconnecting :: bool
  at_signal :: "nat option"
  at_aborted :: "thrown option"
  at_fetching :: bool
  at_hasSocket :: bool
  at_listening :: bool
  at_settled :: bool
  at_established :: bool
  at_readyState :: ready_state
  at_result :: "(thrown option) option" \<comment> \<open>\<open>Some None\<close> is fulfilled\<close>
  at_handled :: bool
  at_watchers :: nat
  at_restoration :: "restoration option"

section \<open>Subscription tasks\<close>

text \<open>A call of \<open>subscribe\<close> waiting for its command.\<close>

record subscribe_task =
  su_route :: string
  su_registration :: nat
  su_set :: nat
  su_signal :: "nat option"
  su_promise :: "nat option"

text \<open>A call of \<open>establishSubscription\<close>: its command, its own promise, a later unsubscribe.\<close>

record establish_task =
  es_route :: string
  es_command :: nat
  es_promise :: nat
  es_unsubscribe :: "nat option"

text \<open>The function that \<open>subscribe\<close> returns: its flag and its call in progress.\<close>

record unsubscriber =
  un_route :: string
  un_registration :: nat
  un_active :: bool
  un_running :: "(nat \<times> nat) option" \<comment> \<open>the emptied set and the command's promise\<close>

section \<open>The client\<close>

datatype effect =
    Emitted client_event "nat list"
  | Delivered nat server_envelope
  | Sent nat message_envelope
  | CloseCalled nat int string
  | Settled waiter outcome
  | TimerSet jsnum

record client =
  listeners :: "event_kind \<Rightarrow> nat list"
  pending :: "(string, pending_command) jsmap"
  queued :: "queued_command list"
  subscriptions :: "(string, nat) jsmap"
  registrations :: "nat \<Rightarrow> nat list"
  subscriptionCommands :: "(string, nat) jsmap"
  socket :: "nat option"
  stateValue :: client_state
  connectPromise :: "nat option"
  connectAbortController :: "nat option"
  reconnectTimer :: "jsnum option"
  heartbeatTimer :: bool
  reconnectAttempt :: nat
  generation :: nat
  intentionalClose :: bool
  serverReconnectAdvice :: "reconnect_advice option"
  attempts :: "nat \<Rightarrow> attempt option"
  promises :: "nat \<Rightarrow> outcome option"
  signals :: "nat \<Rightarrow> thrown option"
  subscribing :: "nat \<Rightarrow> subscribe_task option"
  establishing :: "nat \<Rightarrow> establish_task option"
  unsubscribers :: "nat \<Rightarrow> unsubscriber option"
  heartbeats :: "nat list"
  nextId :: nat
  sends :: nat
  randoms :: nat
  uuids :: nat
  log :: "effect list"

record env =
  options :: client_options
  sendResult :: "nat \<Rightarrow> thrown option"
  random :: "nat \<Rightarrow> jsnum"
  randomUUID :: "nat \<Rightarrow> string"
  clock :: "nat \<Rightarrow> int"
  dateParse :: date_parse
  toISOString :: "int \<Rightarrow> string"
  numberToString :: "rat \<Rightarrow> string"
  parseJSON :: "string \<Rightarrow> (heap \<times> jsval) option"
  closesSynchronously :: "nat \<Rightarrow> bool"
  consumer :: "client_event \<Rightarrow> client \<Rightarrow> client"

definition new_client :: client where
  "new_client = \<lparr>listeners = (\<lambda>_. []), pending = [], queued = [], subscriptions = [],
     registrations = (\<lambda>_. []), subscriptionCommands = [], socket = None, stateValue = Idle,
     connectPromise = None, connectAbortController = None, reconnectTimer = None,
     heartbeatTimer = False, reconnectAttempt = 0, generation = 0, intentionalClose = False,
     serverReconnectAdvice = None, attempts = (\<lambda>_. None), promises = (\<lambda>_. None),
     signals = (\<lambda>_. None), subscribing = (\<lambda>_. None), establishing = (\<lambda>_. None),
     unsubscribers = (\<lambda>_. None), heartbeats = [], nextId = 0, sends = 0, randoms = 0, uuids = 0,
     log = []\<rparr>"

section \<open>Bookkeeping\<close>

definition record_effect :: "effect \<Rightarrow> client \<Rightarrow> client" where
  "record_effect e c = c\<lparr>log := log c @ [e]\<rparr>"

definition update_attempt :: "nat \<Rightarrow> (attempt \<Rightarrow> attempt) \<Rightarrow> client \<Rightarrow> client" where
  "update_attempt a f c = c\<lparr>attempts := (attempts c)(a := map_option f (attempts c a))\<rparr>"

definition attempt_of :: "client \<Rightarrow> nat \<Rightarrow> attempt" where
  "attempt_of c a = (case attempts c a of Some t \<Rightarrow> t | None \<Rightarrow>
     \<lparr>at_generation = 0, at_reconnecting = False, at_signal = None, at_aborted = None,
      at_fetching = False, at_hasSocket = False, at_listening = False, at_settled = True, at_established = False,
      at_readyState = CLOSED, at_result = None, at_handled = True, at_watchers = 0,
      at_restoration = None\<rparr>)"

definition new_attempt :: "bool \<Rightarrow> nat option \<Rightarrow> thrown option \<Rightarrow> attempt" where
  "new_attempt reconnecting signal aborted =
     \<lparr>at_generation = 0, at_reconnecting = reconnecting, at_signal = signal, at_aborted = aborted,
      at_fetching = False, at_hasSocket = False, at_listening = False, at_settled = False, at_established = False,
      at_readyState = CONNECTING, at_result = None, at_handled = False, at_watchers = 0,
      at_restoration = None\<rparr>"

text \<open>\<open>this.socket?.readyState === OPEN\<close>\<close>

definition socket_open :: "client \<Rightarrow> bool" where
  "socket_open c = (case socket c of None \<Rightarrow> False | Some s \<Rightarrow> at_readyState (attempt_of c s) = OPEN)"

text \<open>A promise settles once; later calls of its functions do nothing.\<close>

fun settle_waiter :: "waiter \<Rightarrow> outcome \<Rightarrow> client \<Rightarrow> client" where
  "settle_waiter (Caller p) r c = record_effect (Settled (Caller p) r)
     (if promises c p = None then c\<lparr>promises := (promises c)(p \<mapsto> r)\<rparr> else c)"
| "settle_waiter (Restoration a) r c = record_effect (Settled (Restoration a) r)
     (update_attempt a (\<lambda>t. t\<lparr>at_restoration := map_option
        (\<lambda>s. if rs_outcome s = None then s\<lparr>rs_outcome := Some r\<rparr> else s) (at_restoration t)\<rparr>) c)"

definition settle :: "waiter list \<Rightarrow> outcome \<Rightarrow> client \<Rightarrow> client" where
  "settle ws r c = fold (\<lambda>w. settle_waiter w r) ws c"

text \<open>Settling the promise of \<open>openSocket\<close>.\<close>

definition settle_attempt :: "nat \<Rightarrow> thrown option \<Rightarrow> client \<Rightarrow> client" where
  "settle_attempt a r = update_attempt a (\<lambda>t. if at_result t = None then t\<lparr>at_result := Some r\<rparr> else t)"

definition superseded :: realtime_error where
  "superseded = RealtimeConnectionError ''The connection attempt was superseded.'' ''connection_superseded''"

definition abort_exception :: "string \<Rightarrow> thrown" where
  "abort_exception message = ErrorObject ''AbortError'' message"

end
