(* ===== verification/Client_Core.thy ===== *)
theory Client_Core
  imports Client_State
begin

text \<open>
  The private operations of \<open>RealtimeClient\<close>: events and state changes, rejection of
  commands, the reconnect timer, the socket callbacks that end a connection, and
  \<open>transmit\<close> with the two loops built on it.
\<close>

section \<open>Listeners and events\<close>

definition on :: "event_kind \<Rightarrow> nat \<Rightarrow> client \<Rightarrow> client" where
  "on k l c = c\<lparr>listeners := (listeners c)(k := set_add l (listeners c k))\<rparr>"

text \<open>The function that \<open>on\<close> returns.\<close>

definition off :: "event_kind \<Rightarrow> nat \<Rightarrow> client \<Rightarrow> client" where
  "off k l c = c\<lparr>listeners := (listeners c)(k := set_delete l (listeners c k))\<rparr>"

definition emit :: "env \<Rightarrow> client_event \<Rightarrow> client \<Rightarrow> client" where
  "emit E ev c = consumer E ev (record_effect (Emitted ev (listeners c (kind_of ev))) c)"

definition setState :: "env \<Rightarrow> client_state \<Rightarrow> client \<Rightarrow> client" where
  "setState E st c = (if stateValue c \<noteq> st then emit E (StateEvent st) (c\<lparr>stateValue := st\<rparr>) else c)"

section \<open>Errors\<close>

fun normalizeError :: "thrown \<Rightarrow> realtime_error" where
  "normalizeError (Realtime e) = e"
| "normalizeError (ErrorObject name message) = RealtimeConnectionError message connection_failed"
| "normalizeError NonError = RealtimeConnectionError ''The realtime operation failed.'' connection_failed"

definition abortError :: "thrown \<Rightarrow> thrown" where
  "abortError reason = (if instanceof_Error reason then reason
     else abort_exception ''The command was cancelled.'')"

section \<open>Timers\<close>

definition startHeartbeat :: "client \<Rightarrow> client" where
  "startHeartbeat c = c\<lparr>heartbeatTimer := True\<rparr>"

definition stopHeartbeat :: "client \<Rightarrow> client" where
  "stopHeartbeat c = c\<lparr>heartbeatTimer := False\<rparr>"

definition clearReconnectTimer :: "client \<Rightarrow> client" where
  "clearReconnectTimer c = c\<lparr>reconnectTimer := None\<rparr>"

section \<open>Rejecting commands\<close>

definition reject :: "waiter list \<Rightarrow> thrown \<Rightarrow> client \<Rightarrow> client" where
  "reject ws e c = settle ws (Rejected e) c"

definition rejectPending :: "thrown \<Rightarrow> client \<Rightarrow> client" where
  "rejectPending e c =
     (fold (\<lambda>p. reject (pc_waiters (snd p)) e) (pending c) c)\<lparr>pending := []\<rparr>"

definition rejectQueued :: "thrown \<Rightarrow> client \<Rightarrow> client" where
  "rejectQueued e c = fold (\<lambda>q. reject (qc_waiters q) e) (queued c) (c\<lparr>queued := []\<rparr>)"

text \<open>A command is found in the queue by identity: its number \<open>qc_id\<close> is part of it.\<close>

definition failQueuedCommand :: "queued_command \<Rightarrow> thrown \<Rightarrow> client \<Rightarrow> client" where
  "failQueuedCommand q e c =
     (if q \<in> set (queued c)
      then reject (qc_waiters q) (if instanceof_Error e then e else Realtime (normalizeError e))
        (c\<lparr>queued := remove1 q (queued c)\<rparr>)
      else c)"

section \<open>Reconnecting\<close>

definition reconnect_delay :: "jsnum \<Rightarrow> jsnum \<Rightarrow> jsnum \<Rightarrow> nat \<Rightarrow> jsnum \<Rightarrow> jsnum" where
  "reconnect_delay initial maximum jitter attempt rnd =
     (let exponentialBase = (if initial = Fin 0 then Fin 1 else initial);
          attemptDelay = (if attempt = 0 then initial
            else num_mul exponentialBase (num_pow2 (attempt - 1)));
          exponential = num_min maximum attemptDelay
      in num_max (Fin 0) (num_round (num_mul exponential
           (num_add (num_sub (Fin 1) jitter) (num_mul (num_mul (Fin 2) jitter) rnd)))))"

definition scheduleReconnect :: "env \<Rightarrow> client \<Rightarrow> client" where
  "scheduleReconnect E c =
     (if reconnectTimer c \<noteq> None \<or> intentionalClose c \<or> socket_open c then c
      else if reconnectAttempt c \<ge> reconnectMaximumAttempts (options E) then
        let c1 = setState E Closed c;
            error = RealtimeConnectionError ''The reconnect attempt limit was reached.'' ''reconnect_exhausted''
        in emit E (ErrorEvent error) (rejectQueued (Realtime error) c1)
      else
        let c1 = setState E Reconnecting c;
            advice = serverReconnectAdvice c1;
            initial = (case advice of Some r \<Rightarrow> initialDelayMilliseconds r | None \<Rightarrow> reconnectInitialDelay (options E));
            maximum = (case advice of Some r \<Rightarrow> maximumDelayMilliseconds r | None \<Rightarrow> reconnectMaximumDelay (options E));
            jitter = (case advice of Some r \<Rightarrow> jitterRatio r | None \<Rightarrow> reconnectJitterRatio (options E));
            delay = reconnect_delay initial maximum jitter (reconnectAttempt c1) (random E (randoms c1))
        in record_effect (TimerSet delay) (c1\<lparr>randoms := Suc (randoms c1),
             reconnectAttempt := Suc (reconnectAttempt c1), reconnectTimer := Some delay\<rparr>))"

definition handleClose :: "env \<Rightarrow> int \<Rightarrow> string \<Rightarrow> nat \<Rightarrow> bool \<Rightarrow> client \<Rightarrow> client" where
  "handleClose E code reason gen allowReconnect c =
     (if gen \<noteq> generation c then c
      else
        let c1 = (stopHeartbeat c)\<lparr>socket := None\<rparr>;
            expected = (intentionalClose c1 \<or> code = cc_normal closeCodes);
            c2 = rejectPending (Realtime (RealtimeConnectionError
              (''The WebSocket closed ('' @ int_str code @ '').'') ''connection_closed'')) c1;
            c3 = setState E Closed c2;
            c4 = emit E (CloseEvent code reason expected) c3
        in if expected \<or> \<not> allowReconnect \<or> \<not> reconnectEnabled (options E) \<or> gen \<noteq> generation c4
           then c4 else scheduleReconnect E c4)"

section \<open>Socket callbacks that end a connection\<close>

text \<open>The handler \<open>socket.onclose\<close> of attempt \<open>a\<close>.\<close>

definition on_close :: "env \<Rightarrow> nat \<Rightarrow> int \<Rightarrow> string \<Rightarrow> client \<Rightarrow> client" where
  "on_close E a code reason c =
     (let c1 = update_attempt a (\<lambda>t. t\<lparr>at_readyState := CLOSED, at_listening := False\<rparr>) c;
          c2 = (if at_settled (attempt_of c1 a) then c1
                else settle_attempt a (Some (Realtime (RealtimeConnectionError
                  (''The WebSocket closed during connection ('' @ int_str code @ '').'') connection_failed)))
                  (update_attempt a (\<lambda>t. t\<lparr>at_settled := True\<rparr>) c1));
          t = attempt_of c2 a
      in handleClose E code reason (at_generation t) (at_established t \<or> at_reconnecting t) c2)"

text \<open>
  \<open>socket.close(code, reason)\<close>: nothing on a socket already closing; otherwise the socket
  leaves the open state, and a socket that closes synchronously runs its handler at once.
\<close>

definition close_socket :: "env \<Rightarrow> nat \<Rightarrow> int \<Rightarrow> string \<Rightarrow> client \<Rightarrow> client" where
  "close_socket E a code reason c =
     (if at_readyState (attempt_of c a) \<in> {CLOSING, CLOSED} then c
      else
        let c1 = record_effect (CloseCalled a code reason) (update_attempt a (\<lambda>t. t\<lparr>at_readyState := CLOSING\<rparr>) c)
        in if closesSynchronously E a then on_close E a code reason c1 else c1)"

text \<open>The handler \<open>socket.onerror\<close>.\<close>

definition on_error :: "nat \<Rightarrow> client \<Rightarrow> client" where
  "on_error a c =
     (if at_settled (attempt_of c a) then c
      else settle_attempt a (Some (Realtime (RealtimeConnectionError ''The WebSocket connection failed.'' connection_failed)))
        (update_attempt a (\<lambda>t. t\<lparr>at_settled := True, at_listening := False\<rparr>) c))"

text \<open>\<open>AbortController.abort(reason)\<close> and the listener that \<open>openSocket\<close> attaches.\<close>

definition abort_attempt :: "env \<Rightarrow> nat \<Rightarrow> thrown \<Rightarrow> client \<Rightarrow> client" where
  "abort_attempt E a reason c =
     (if at_aborted (attempt_of c a) \<noteq> None then c
      else
        let listening = at_listening (attempt_of c a);
            c1 = update_attempt a (\<lambda>t. t\<lparr>at_aborted := Some reason, at_listening := False\<rparr>) c
        in if listening \<and> \<not> at_settled (attempt_of c1 a)
           then settle_attempt a (Some (abort_exception ''The connection was cancelled.''))
             (close_socket E a (cc_normal closeCodes) ''connect_cancelled''
               (update_attempt a (\<lambda>t. t\<lparr>at_settled := True\<rparr>) c1))
           else c1)"

section \<open>Transmitting\<close>

definition serialized_length :: "env \<Rightarrow> message_envelope \<Rightarrow> nat" where
  "serialized_length E m = utf8_length (stringify (numberToString E) (message_json m))"

definition signal_aborted :: "client \<Rightarrow> nat option \<Rightarrow> thrown option" where
  "signal_aborted c s = (case s of None \<Rightarrow> None | Some i \<Rightarrow> signals c i)"

definition transmit :: "env \<Rightarrow> queued_command \<Rightarrow> bool \<Rightarrow> client \<Rightarrow> client" where
  "transmit E cmd queueWhenUnavailable c =
     (let command = cmd\<lparr>qc_listening := False\<rparr>; ws = qc_waiters command in
      case signal_aborted c (qc_signal command) of
        Some reason \<Rightarrow> reject ws (abortError reason) c
      | None \<Rightarrow>
        if length (pending c) \<ge> maximumPendingCommands (options E) then reject ws (Realtime RealtimeQueueError) c
        else if \<not> socket_open c then
          (if \<not> queueWhenUnavailable then
             reject ws (Realtime (RealtimeConnectionError
               ''The connection closed before the command could be sent.'' ''connection_closed'')) c
           else if length (queued c) \<ge> maximumQueuedCommands (options E) then
             reject ws (Realtime RealtimeQueueError) c
           else c\<lparr>queued := queued c @ [command]\<rparr>)
        else if serialized_length E (qc_envelope command) > maximumMessageBytes (options E) then
          reject ws (Realtime (RealtimeError ''The command exceeds the configured message-size limit.''
            ''message_too_large'' (Some (me_correlationId (qc_envelope command))))) c
        else
          let correlationId = me_correlationId (qc_envelope command);
              s = the (socket c);
              c1 = c\<lparr>pending := map_set correlationId \<lparr>pc_waiters = ws, pc_signal = qc_signal command\<rparr> (pending c),
                     sends := Suc (sends c)\<rparr>
          in case sendResult E (sends c) of
               None \<Rightarrow> record_effect (Sent s (qc_envelope command)) c1
             | Some e \<Rightarrow>
                 let c2 = reject ws (Realtime (normalizeError e)) (c1\<lparr>pending := map_delete correlationId (pending c1)\<rparr>)
                 in if socket c2 = Some s then close_socket E s (cc_heartbeatTimeout closeCodes) ''send_failed'' c2
                    else c2)"

text \<open>
  The loop \<open>while (this.queued.length > 0)\<close> that ends \<open>restoreSubscriptionsAndFlush\<close>.
  Nothing in the source bounds it, so \<open>None\<close> is a loop that does not return.
\<close>

partial_function (option) flush :: "env \<Rightarrow> client \<Rightarrow> client option" where
  "flush E c = (case queued c of
     [] \<Rightarrow> Some c
   | command # rest \<Rightarrow> flush E (transmit E command True (c\<lparr>queued := rest\<rparr>)))"

declare flush.simps [code]

section \<open>Server messages\<close>

datatype message_data = Text string | NotText

fun deliver :: "server_envelope \<Rightarrow> nat list \<Rightarrow> client \<Rightarrow> client" where
  "deliver m [] c = c"
| "deliver m (r # rs) c = deliver m rs (record_effect (Delivered r m) c)"

text \<open>The registrations of a route at the moment the loop starts.\<close>

definition route_registrations :: "client \<Rightarrow> string \<Rightarrow> nat list" where
  "route_registrations c route = (case map_get (subscriptions c) route of
     Some s \<Rightarrow> registrations c s | None \<Rightarrow> [])"

definition handleEnvelope :: "env \<Rightarrow> server_envelope \<Rightarrow> client \<Rightarrow> client" where
  "handleEnvelope E m c =
     (if sv_type m = mt_serviceRestart messageTypes then
        (case sv_reconnect m of Some r \<Rightarrow> c\<lparr>serverReconnectAdvice := Some r\<rparr> | None \<Rightarrow> c)
      else if sv_type m = mt_event messageTypes then
        (let c1 = emit E (MessageEvent m) c in deliver m (route_registrations c1 (sv_route m)) c1)
      else case map_get (pending c) (sv_correlationId m) of
        None \<Rightarrow> c
      | Some p \<Rightarrow>
          let c1 = c\<lparr>pending := map_delete (sv_correlationId m) (pending c)\<rparr>
          in if sv_type m = mt_error messageTypes then
               let error = fromEnvelope (sv_error m) (sv_correlationId m)
               in emit E (ErrorEvent error) (reject (pc_waiters p) (Realtime error) c1)
             else settle (pc_waiters p) (Resolved m) c1)"

definition handleMessage :: "env \<Rightarrow> message_data \<Rightarrow> client \<Rightarrow> client" where
  "handleMessage E d c = (case d of
     NotText \<Rightarrow> emit E (ErrorEvent (RealtimeError ''The server sent a non-text message.'' ''invalid_message_type'' None)) c
   | Text s \<Rightarrow> (case parseJSON E s of
       None \<Rightarrow> emit E (ErrorEvent (RealtimeError ''The server sent malformed JSON.'' ''invalid_envelope'' None)) c
     | Some (h, v) \<Rightarrow> (case validateServerEnvelope (dateParse E) h v of
         Inl (code, message) \<Rightarrow> emit E (ErrorEvent (RealtimeError message code None)) c
       | Inr w \<Rightarrow> handleEnvelope E (server_envelope_of h w) c)))"

section \<open>Timeouts and cancellation of commands\<close>

text \<open>The timer that \<open>transmit\<close> sets for a command.\<close>

definition command_timeout :: "string \<Rightarrow> client \<Rightarrow> client" where
  "command_timeout correlationId c = (case map_get (pending c) correlationId of
     None \<Rightarrow> c
   | Some p \<Rightarrow> reject (pc_waiters p) (Realtime (RealtimeConnectionError
       ''The command acknowledgement timed out.'' ''command_timeout''))
       (c\<lparr>pending := map_delete correlationId (pending c)\<rparr>))"

text \<open>The listener of \<open>addPendingAbortListener\<close>.\<close>

definition abort_pending :: "string \<Rightarrow> thrown \<Rightarrow> client \<Rightarrow> client" where
  "abort_pending correlationId reason c = (case map_get (pending c) correlationId of
     None \<Rightarrow> c
   | Some p \<Rightarrow> reject (pc_waiters p) (abortError reason)
       (c\<lparr>pending := map_delete correlationId (pending c)\<rparr>))"

text \<open>
  A caller aborts signal \<open>s\<close>: the listeners on it run, those of queued commands, of pending
  commands and of the connection attempts that were given it.
\<close>

definition abort_signal :: "env \<Rightarrow> nat \<Rightarrow> thrown \<Rightarrow> client \<Rightarrow> client" where
  "abort_signal E s reason c =
     (if signals c s \<noteq> None then c
      else
        let c0 = c\<lparr>signals := (signals c)(s \<mapsto> reason)\<rparr>;
            c1 = fold (\<lambda>q. failQueuedCommand q (abortError reason))
              (filter (\<lambda>q. qc_signal q = Some s \<and> qc_listening q) (queued c0)) c0;
            c2 = fold (\<lambda>p. abort_pending (fst p) reason)
              (filter (\<lambda>p. pc_signal (snd p) = Some s) (pending c1)) c1
        in fold (\<lambda>a. if at_signal (attempt_of c0 a) = Some s then abort_attempt E a reason else id)
             [0..<nextId c2] c2)"

end
