(* ===== verification/Client_Connect.thy ===== *)
theory Client_Connect
  imports Client_Core
begin

text \<open>
  Opening connections: \<open>connect\<close>, \<open>openSocket\<close>, the reconnect timer, the restoration
  of subscriptions, and \<open>disconnect\<close>. The pieces of one \<open>openSocket\<close> call are, in
  order, \<open>openSocket\<close> (up to the connection URL), \<open>url_ready\<close>, \<open>on_open\<close>
  with \<open>restore_next\<close> and \<open>restore_resume\<close>, \<open>established\<close> or
  \<open>restore_failed\<close>, and \<open>attempt_settled\<close> for the callbacks on its promise. A
  definition that contains the flush loop returns an \<open>option\<close>.
\<close>

section \<open>Opening\<close>

definition openSocket :: "env \<Rightarrow> nat \<Rightarrow> client \<Rightarrow> client" where
  "openSocket E a c = (case at_aborted (attempt_of c a) of
     Some reason \<Rightarrow> settle_attempt a (Some reason) c
   | None \<Rightarrow>
       let g = Suc (generation c);
           c1 = update_attempt a (\<lambda>t. t\<lparr>at_generation := g\<rparr>) (c\<lparr>generation := g\<rparr>);
           c2 = setState E (if at_reconnecting (attempt_of c1 a) then Reconnecting else Connecting) c1
       in update_attempt a (\<lambda>t. t\<lparr>at_fetching := True\<rparr>) c2)"

text \<open>
  What \<open>await this.createConnectionUrl(...)\<close> and then \<open>createTransportSocket\<close> give.
\<close>

datatype url_result = UrlFailed thrown | SocketFailed thrown | SocketCreated

definition url_ready :: "nat \<Rightarrow> url_result \<Rightarrow> client \<Rightarrow> client" where
  "url_ready a r c =
     (let c1 = update_attempt a (\<lambda>t. t\<lparr>at_fetching := False\<rparr>) c; t = attempt_of c1 a in
      case r of UrlFailed e \<Rightarrow> settle_attempt a (Some e) c1
      | _ \<Rightarrow> (case at_aborted t of
          Some reason \<Rightarrow> settle_attempt a (Some reason) c1
        | None \<Rightarrow>
            if at_generation t \<noteq> generation c1 \<or> intentionalClose c1
            then settle_attempt a (Some (Realtime superseded)) c1
            else case r of
              SocketFailed e \<Rightarrow> settle_attempt a (Some e) c1
            | _ \<Rightarrow> update_attempt a (\<lambda>t. t\<lparr>at_hasSocket := True, at_readyState := CONNECTING, at_listening := True\<rparr>)
                (c1\<lparr>socket := Some a\<rparr>)))"

text \<open>\<open>this.connectAbortController?.abort(superseded)\<close>\<close>

definition abort_current :: "env \<Rightarrow> client \<Rightarrow> client" where
  "abort_current E c = (case connectAbortController c of
     None \<Rightarrow> c | Some a \<Rightarrow> abort_attempt E a (Realtime superseded) c)"

text \<open>A new \<open>AbortController\<close>, and the call of \<open>openSocket\<close> that uses it.\<close>

definition start_attempt :: "env \<Rightarrow> bool \<Rightarrow> nat option \<Rightarrow> client \<Rightarrow> client" where
  "start_attempt E reconnecting signal c =
     (let a = nextId c;
          c1 = abort_current E (c\<lparr>nextId := Suc a\<rparr>);
          c2 = c1\<lparr>connectAbortController := Some a,
                  attempts := (attempts c1)(a \<mapsto> new_attempt reconnecting signal (signal_aborted c1 signal))\<rparr>
      in openSocket E a c2)"

text \<open>The result names the attempt whose promise is returned, none for an open client.\<close>

definition connect :: "env \<Rightarrow> nat option \<Rightarrow> client \<Rightarrow> client \<times> nat option" where
  "connect E signal c =
     (if stateValue c = Open \<and> socket_open c then (c, None)
      else case connectPromise c of
        Some a \<Rightarrow> (c, Some a)
      | None \<Rightarrow>
          let a = nextId c;
              c1 = start_attempt E False signal (clearReconnectTimer (c\<lparr>intentionalClose := False\<rparr>))
          in (c1\<lparr>connectPromise := Some a\<rparr>, Some a))"

text \<open>The callback of the reconnect timer.\<close>

definition reconnect_timer_fired :: "env \<Rightarrow> client \<Rightarrow> client" where
  "reconnect_timer_fired E c = start_attempt E True None (c\<lparr>reconnectTimer := None\<rparr>)"

section \<open>Callbacks on the promise of an attempt\<close>

definition release_attempt :: "nat \<Rightarrow> client \<Rightarrow> client" where
  "release_attempt a c =
     (let c1 = (if connectPromise c = Some a then c\<lparr>connectPromise := None\<rparr> else c)
      in if connectAbortController c1 = Some a then c1\<lparr>connectAbortController := None\<rparr> else c1)"

definition connect_failed :: "env \<Rightarrow> nat \<Rightarrow> thrown \<Rightarrow> client \<Rightarrow> client" where
  "connect_failed E a e c =
     (if connectPromise c = Some a
      then rejectQueued (if instanceof_Error e then e else Realtime (normalizeError e)) (setState E Closed c)
      else c)"

definition reconnect_failed :: "env \<Rightarrow> thrown \<Rightarrow> client \<Rightarrow> client" where
  "reconnect_failed E e c =
     (if re_code (normalizeError e) \<noteq> ''connection_superseded''
      then scheduleReconnect E (emit E (ErrorEvent (normalizeError e)) c)
      else c)"

text \<open>
  The \<open>catch\<close> and \<open>finally\<close> callbacks on the promise, and then, for each command that
  called \<open>connect\<close> itself, its own \<open>catch\<close>.
\<close>

definition attempt_settled :: "env \<Rightarrow> nat \<Rightarrow> client \<Rightarrow> client" where
  "attempt_settled E a c = (case at_result (attempt_of c a) of
     None \<Rightarrow> c
   | Some r \<Rightarrow>
       let c1 = update_attempt a (\<lambda>t. t\<lparr>at_handled := True\<rparr>) c; t = attempt_of c1 a
       in case r of
            None \<Rightarrow> release_attempt a c1
          | Some e \<Rightarrow>
              if at_reconnecting t then release_attempt a (reconnect_failed E e c1)
              else (emit E (ErrorEvent (normalizeError e)) ^^ at_watchers t)
                     (release_attempt a (connect_failed E a e c1)))"

section \<open>Sending commands\<close>

definition make_envelope ::
  "env \<Rightarrow> heap \<Rightarrow> string \<Rightarrow> string \<Rightarrow> jsval \<Rightarrow> client \<Rightarrow> client \<times> (thrown + message_envelope)" where
  "make_envelope E h type route payload c =
     (c\<lparr>uuids := Suc (uuids c)\<rparr>,
      createEnvelope (dateParse E) (toISOString E) (clock E (uuids c)) h type route payload
        (randomUUID E (uuids c)))"

definition watch_attempt :: "nat option \<Rightarrow> client \<Rightarrow> client" where
  "watch_attempt joined c = (case joined of None \<Rightarrow> c
     | Some a \<Rightarrow> update_attempt a (\<lambda>t. t\<lparr>at_watchers := Suc (at_watchers t)\<rparr>) c)"

text \<open>The promise of the command has the number \<open>nextId c\<close>.\<close>

definition sendCommand :: "env \<Rightarrow> message_envelope \<Rightarrow> nat option \<Rightarrow> client \<Rightarrow> client" where
  "sendCommand E envelope signal c0 =
     (let p = nextId c0; c = c0\<lparr>nextId := Suc p\<rparr>;
          command = \<lparr>qc_id = p, qc_envelope = envelope, qc_waiters = [Caller p], qc_signal = signal,
                     qc_listening = signal \<noteq> None\<rparr>
      in case signal_aborted c signal of
        Some reason \<Rightarrow> reject [Caller p] (abortError reason) c
      | None \<Rightarrow>
        if socket_open c \<and> stateValue c = Open then transmit E command True c
        else if length (queued c) \<ge> maximumQueuedCommands (options E) then
          reject [Caller p] (Realtime RealtimeQueueError) c
        else
          let c1 = c\<lparr>queued := queued c @ [command]\<rparr>
          in if stateValue c1 = Idle \<or> stateValue c1 = Closed then
               let (c2, joined) = connect E None c1 in watch_attempt joined c2
             else c1)"

text \<open>
  The three calls return the promise of the command, or throw when the envelope is refused.
\<close>

definition send_envelope ::
  "env \<Rightarrow> nat option \<Rightarrow> client \<times> (thrown + message_envelope) \<Rightarrow> client \<times> (thrown + nat)" where
  "send_envelope E signal r = (case r of
     (c, Inl e) \<Rightarrow> (c, Inl e) | (c, Inr m) \<Rightarrow> (sendCommand E m signal c, Inr (nextId c)))"

definition publish :: "env \<Rightarrow> heap \<Rightarrow> string \<Rightarrow> jsval \<Rightarrow> nat option \<Rightarrow> client \<Rightarrow> client \<times> (thrown + nat)" where
  "publish E h route payload signal c =
     send_envelope E signal (make_envelope E h (mt_publish messageTypes) route payload c)"

definition ping :: "env \<Rightarrow> nat option \<Rightarrow> client \<Rightarrow> client \<times> (thrown + nat)" where
  "ping E signal c =
     send_envelope E signal (make_envelope E [] (mt_ping messageTypes) ''system/heartbeat'' Undefined c)"

text \<open>The interval of \<open>startHeartbeat\<close>, and the \<open>catch\<close> on the ping it sent.\<close>

definition heartbeat_tick :: "env \<Rightarrow> client \<Rightarrow> client" where
  "heartbeat_tick E c = (case ping E None c of
     (c1, Inl e) \<Rightarrow> c1 | (c1, Inr p) \<Rightarrow> c1\<lparr>heartbeats := heartbeats c1 @ [p]\<rparr>)"

definition close_current :: "env \<Rightarrow> int \<Rightarrow> string \<Rightarrow> client \<Rightarrow> client" where
  "close_current E code reason c = (case socket c of None \<Rightarrow> c | Some s \<Rightarrow> close_socket E s code reason c)"

definition heartbeat_failed :: "env \<Rightarrow> nat \<Rightarrow> client \<Rightarrow> client" where
  "heartbeat_failed E p c = (case promises c p of
     Some (Rejected e) \<Rightarrow>
       close_current E (cc_heartbeatTimeout closeCodes) ''heartbeat_failed''
         (emit E (ErrorEvent (normalizeError e)) (c\<lparr>heartbeats := removeAll p (heartbeats c)\<rparr>))
   | _ \<Rightarrow> c)"

section \<open>Restoring subscriptions\<close>

definition assertOpenGeneration :: "nat \<Rightarrow> client \<Rightarrow> thrown + unit" where
  "assertOpenGeneration g c =
     (if g \<noteq> generation c \<or> \<not> socket_open c
      then Inl (Realtime (RealtimeConnectionError ''The connection closed during subscription restoration.'' ''connection_closed''))
      else Inr ())"

text \<open>The first loop: from the end of the queue, so an earlier command replaces a later one.\<close>

definition is_subscribe :: "queued_command \<Rightarrow> bool" where
  "is_subscribe q = (me_type (qc_envelope q) = mt_subscribe messageTypes)"

definition take_subscriptions :: "queued_command list \<Rightarrow> queued_command list \<times> (string, queued_command) jsmap" where
  "take_subscriptions qs =
     (filter (\<lambda>q. \<not> is_subscribe q) qs,
      fold (\<lambda>q. map_set (me_route (qc_envelope q)) q) (rev (filter is_subscribe qs)) [])"

text \<open>The \<open>catch\<close> after \<open>restoreSubscriptionsAndFlush\<close>.\<close>

definition restore_failed :: "env \<Rightarrow> nat \<Rightarrow> thrown \<Rightarrow> client \<Rightarrow> client" where
  "restore_failed E a e c =
     (if at_settled (attempt_of c a) then c
      else
        let normalized = Realtime (normalizeError e);
            c1 = settle_attempt a (Some normalized) (rejectQueued normalized
              (update_attempt a (\<lambda>t. t\<lparr>at_settled := True\<rparr>) c))
        in if at_readyState (attempt_of c1 a) = OPEN then close_socket E a 4000 ''subscription_restore_failed'' c1
           else c1)"

text \<open>The \<open>then\<close> after it.\<close>

definition established :: "env \<Rightarrow> nat \<Rightarrow> client \<Rightarrow> client" where
  "established E a c =
     (if at_generation (attempt_of c a) \<noteq> generation c \<or> intentionalClose c
      then restore_failed E a (Realtime superseded) c
      else
        let c1 = update_attempt a (\<lambda>t. t\<lparr>at_established := True\<rparr>)
                   (c\<lparr>reconnectAttempt := 0, serverReconnectAdvice := None\<rparr>);
            c2 = setState E Open c1
        in if at_generation (attempt_of c2 a) \<noteq> generation c2 \<or> intentionalClose c2
              \<or> at_readyState (attempt_of c2 a) \<noteq> OPEN
           then restore_failed E a (Realtime superseded) c2
           else settle_attempt a None (update_attempt a (\<lambda>t. t\<lparr>at_settled := True\<rparr>) (startHeartbeat c2)))"

definition restore_finish :: "env \<Rightarrow> nat \<Rightarrow> realtime_error list \<Rightarrow> client \<Rightarrow> client option" where
  "restore_finish E a failures c =
     (if failures \<noteq> [] then Some (restore_failed E a (Realtime (RealtimeConnectionError
        ''One or more subscriptions could not be restored.'' ''subscription_restore_failed'')) c)
      else case assertOpenGeneration (at_generation (attempt_of c a)) c of
        Inl e \<Rightarrow> Some (restore_failed E a e c)
      | Inr _ \<Rightarrow> map_option (established E a) (flush E c))"

definition suspend_restoration :: "nat \<Rightarrow> restoration option \<Rightarrow> client \<Rightarrow> client" where
  "suspend_restoration a r = update_attempt a (\<lambda>t. t\<lparr>at_restoration := r\<rparr>)"

text \<open>\<open>transmitEnvelope\<close> and \<open>transmitQueuedCommand\<close>, awaited by the loop of attempt \<open>a\<close>.\<close>

definition transmitEnvelope :: "env \<Rightarrow> nat \<Rightarrow> message_envelope \<Rightarrow> client \<Rightarrow> client" where
  "transmitEnvelope E a m c = transmit E \<lparr>qc_id = nextId c, qc_envelope = m, qc_waiters = [Restoration a],
     qc_signal = None, qc_listening = False\<rparr> False (c\<lparr>nextId := Suc (nextId c)\<rparr>)"

definition transmitQueuedCommand :: "env \<Rightarrow> nat \<Rightarrow> queued_command \<Rightarrow> client \<Rightarrow> client" where
  "transmitQueuedCommand E a q c = transmit E (q\<lparr>qc_waiters := qc_waiters q @ [Restoration a]\<rparr>) False c"

text \<open>
  One iteration up to its first \<open>await\<close>: the state in which the loop is suspended, or the
  error its \<open>catch\<close> gets.
\<close>

definition restore_route ::
  "env \<Rightarrow> nat \<Rightarrow> (string, queued_command) jsmap \<Rightarrow> realtime_error list \<Rightarrow> string \<Rightarrow> string list \<Rightarrow> client
     \<Rightarrow> client \<times> thrown option" where
  "restore_route E a taken failures route routes c =
     (let wait = suspend_restoration a (Some \<lparr>rs_route = route, rs_unsubscribing = False, rs_routes = routes,
            rs_queued = taken, rs_failures = failures, rs_outcome = None\<rparr>)
      in case assertOpenGeneration (at_generation (attempt_of c a)) c of
        Inl e \<Rightarrow> (c, Some e)
      | Inr _ \<Rightarrow> (case map_get taken route of
          Some q \<Rightarrow> (transmitQueuedCommand E a q (wait c), None)
        | None \<Rightarrow> (case make_envelope E [] (mt_subscribe messageTypes) route Undefined c of
            (c1, Inl e) \<Rightarrow> (c1, Some e)
          | (c1, Inr m) \<Rightarrow> (transmitEnvelope E a m (wait c1), None))))"

fun restore_next ::
  "env \<Rightarrow> nat \<Rightarrow> (string, queued_command) jsmap \<Rightarrow> realtime_error list \<Rightarrow> string list \<Rightarrow> client \<Rightarrow> client option" where
  "restore_next E a taken failures [] c = restore_finish E a failures (suspend_restoration a None c)"
| "restore_next E a taken failures (route # routes) c =
     (case restore_route E a taken failures route routes c of
        (c1, None) \<Rightarrow> Some c1
      | (c1, Some e) \<Rightarrow> restore_next E a taken (failures @ [normalizeError e]) routes
          (emit E (ErrorEvent (normalizeError e)) c1))"

definition restoreSubscriptionsAndFlush :: "env \<Rightarrow> nat \<Rightarrow> client \<Rightarrow> client option" where
  "restoreSubscriptionsAndFlush E a c =
     (let (rest, taken) = take_subscriptions (queued c);
          c1 = c\<lparr>queued := rest\<rparr>
      in restore_next E a taken [] (new_Set (map_keys (subscriptions c1) @ map_keys taken)) c1)"

text \<open>The loop continues once the command it awaits is settled.\<close>

definition restore_unsubscribe :: "env \<Rightarrow> nat \<Rightarrow> restoration \<Rightarrow> client \<Rightarrow> client \<times> thrown option" where
  "restore_unsubscribe E a rs c =
     (case assertOpenGeneration (at_generation (attempt_of c a)) c of
        Inl e \<Rightarrow> (c, Some e)
      | Inr _ \<Rightarrow> (case make_envelope E [] (mt_unsubscribe messageTypes) (rs_route rs) Undefined c of
          (c1, Inl e) \<Rightarrow> (c1, Some e)
        | (c1, Inr m) \<Rightarrow> (transmitEnvelope E a m (suspend_restoration a
            (Some (rs\<lparr>rs_unsubscribing := True, rs_outcome := None\<rparr>)) c1), None)))"

definition restore_continue :: "env \<Rightarrow> nat \<Rightarrow> restoration \<Rightarrow> client \<times> thrown option \<Rightarrow> client option" where
  "restore_continue E a rs r = (case r of
     (c, None) \<Rightarrow> restore_next E a (rs_queued rs) (rs_failures rs) (rs_routes rs) c
   | (c, Some e) \<Rightarrow> restore_next E a (rs_queued rs) (rs_failures rs @ [normalizeError e]) (rs_routes rs)
       (emit E (ErrorEvent (normalizeError e)) c))"

definition restore_resume :: "env \<Rightarrow> nat \<Rightarrow> client \<Rightarrow> client option" where
  "restore_resume E a c0 = (case at_restoration (attempt_of c0 a) of
     None \<Rightarrow> Some c0
   | Some rs \<Rightarrow>
       let c = suspend_restoration a None c0
       in case rs_outcome rs of
            None \<Rightarrow> Some c0
          | Some (Rejected e) \<Rightarrow> restore_continue E a rs (c, Some e)
          | Some (Resolved _) \<Rightarrow>
              if \<not> rs_unsubscribing rs \<and> map_get (subscriptions c) (rs_route rs) = None
              then (case restore_unsubscribe E a rs c of
                  (c1, None) \<Rightarrow> Some c1
                | (c1, Some e) \<Rightarrow> restore_continue E a rs (c1, Some e))
              else restore_continue E a rs (c, None))"

text \<open>The handler \<open>socket.onopen\<close>.\<close>

definition on_open :: "env \<Rightarrow> nat \<Rightarrow> client \<Rightarrow> client option" where
  "on_open E a c =
     (let c1 = update_attempt a (\<lambda>t. t\<lparr>at_readyState := OPEN\<rparr>) c; t = attempt_of c1 a
      in if at_settled t \<or> at_generation t \<noteq> generation c1
         then Some (close_socket E a (cc_normal closeCodes) ''stale_connection'' c1)
         else restoreSubscriptionsAndFlush E a (update_attempt a (\<lambda>t. t\<lparr>at_listening := False\<rparr>) c1))"

section \<open>Disconnecting\<close>

definition client_disconnect :: thrown where
  "client_disconnect = Realtime (RealtimeConnectionError ''The client disconnected.'' ''client_disconnect'')"

fun code_of :: "jsnum \<Rightarrow> int" where
  "code_of (Fin x) = \<lfloor>x\<rfloor>"
| "code_of _ = 0"

definition disconnect :: "env \<Rightarrow> jsnum \<Rightarrow> string \<Rightarrow> client \<Rightarrow> thrown + client" where
  "disconnect E code reason c =
     (if \<not> isInteger code \<or> (code_of code \<noteq> cc_normal closeCodes \<and> (code_of code < 3000 \<or> code_of code > 4999)) then
        Inl (ErrorObject ''RangeError'' ''The WebSocket close code must be 1000 or between 3000 and 4999.'')
      else if utf8_length reason > 123 then
        Inl (ErrorObject ''RangeError'' ''The WebSocket close reason must not exceed 123 UTF-8 bytes.'')
      else
        let c1 = abort_current E (c\<lparr>intentionalClose := True, generation := Suc (generation c)\<rparr>);
            c2 = stopHeartbeat (clearReconnectTimer (c1\<lparr>connectAbortController := None, connectPromise := None\<rparr>));
            c3 = setState E Closing c2;
            c4 = rejectQueued client_disconnect (rejectPending client_disconnect c3);
            old = socket c4;
            c5 = c4\<lparr>socket := None\<rparr>;
            c6 = (case old of Some s \<Rightarrow> if at_readyState (attempt_of c5 s) \<in> {OPEN, CONNECTING}
                     then close_socket E s (code_of code) reason c5 else c5 | None \<Rightarrow> c5)
        in Inr (setState E Closed c6))"

end
