(* ===== verification/Client_Subscriptions.thy ===== *)
theory Client_Subscriptions
  imports Client_Connect
begin

text \<open>
  \<open>subscribe\<close>, the function it returns, and \<open>establishSubscription\<close>. The listeners of
  a route are a \<open>Set\<close> object that several calls hold on to, so \<open>subscriptions\<close> maps a
  route to the number of a set and \<open>registrations\<close> gives the set's elements. A call that
  waits is a task, continued when the promise it awaits is settled.
\<close>

section \<open>Establishing\<close>

definition settle_promise :: "nat \<Rightarrow> outcome \<Rightarrow> client \<Rightarrow> client" where
  "settle_promise p r = settle [Caller p] r"

text \<open>
  \<open>establishSubscription\<close> up to its first \<open>await\<close>, with the promise it returns: that of
  the command in progress, or its own.
\<close>

definition establishSubscription :: "env \<Rightarrow> string \<Rightarrow> client \<Rightarrow> client \<times> nat" where
  "establishSubscription E route c = (case map_get (subscriptionCommands c) route of
     Some p \<Rightarrow> (c, p)
   | None \<Rightarrow>
       let own = nextId c; c0 = c\<lparr>nextId := Suc own\<rparr>
       in case send_envelope E None (make_envelope E [] (mt_subscribe messageTypes) route Undefined c0) of
            (c1, Inl e) \<Rightarrow> (settle_promise own (Rejected e) c1, own)
          | (c1, Inr p) \<Rightarrow>
              (c1\<lparr>subscriptionCommands := map_set route p (subscriptionCommands c1),
                  establishing := (establishing c1)(own \<mapsto>
                    \<lparr>es_route = route, es_command = p, es_promise = own, es_unsubscribe = None\<rparr>)\<rparr>, own))"

text \<open>The \<open>finally\<close> block, after which the promise of the call settles.\<close>

definition establish_done :: "establish_task \<Rightarrow> outcome \<Rightarrow> client \<Rightarrow> client" where
  "establish_done t r c =
     (let c1 = (if map_get (subscriptionCommands c) (es_route t) = Some (es_command t)
                then c\<lparr>subscriptionCommands := map_delete (es_route t) (subscriptionCommands c)\<rparr> else c)
      in settle_promise (es_promise t) r (c1\<lparr>establishing := (establishing c1)(es_promise t := None)\<rparr>))"

definition establish_resume :: "env \<Rightarrow> nat \<Rightarrow> client \<Rightarrow> client" where
  "establish_resume E i c = (case establishing c i of
     None \<Rightarrow> c
   | Some t \<Rightarrow> (case es_unsubscribe t of
       Some p \<Rightarrow> (case promises c p of None \<Rightarrow> c | Some r \<Rightarrow> establish_done t r c)
     | None \<Rightarrow> (case promises c (es_command t) of
         None \<Rightarrow> c
       | Some (Rejected e) \<Rightarrow> establish_done t (Rejected e) c
       | Some (Resolved m) \<Rightarrow>
           if map_get (subscriptions c) (es_route t) = None \<and> stateValue c = Open then
             (case send_envelope E None (make_envelope E [] (mt_unsubscribe messageTypes) (es_route t) Undefined c) of
                (c1, Inl e) \<Rightarrow> establish_done t (Rejected e) c1
              | (c1, Inr p) \<Rightarrow> c1\<lparr>establishing := (establishing c1)(i \<mapsto> t\<lparr>es_unsubscribe := Some p\<rparr>)\<rparr>)
           else establish_done t (Resolved m) c)))"

section \<open>Subscribing\<close>

definition subscribe :: "env \<Rightarrow> string \<Rightarrow> nat option \<Rightarrow> client \<Rightarrow> client \<times> nat" where
  "subscribe E route signal c =
     (let isNewRoute = (map_get (subscriptions c) route = None);
          s = (case map_get (subscriptions c) route of Some s \<Rightarrow> s | None \<Rightarrow> nextId c);
          c1 = (if isNewRoute
                then c\<lparr>subscriptions := map_set route s (subscriptions c), nextId := Suc s,
                       registrations := (registrations c)(s := [])\<rparr> else c);
          registration = nextId c1;
          c2 = c1\<lparr>nextId := Suc registration,
                  registrations := (registrations c1)(s := set_add registration (registrations c1 s))\<rparr>;
          (c3, command) = (if isNewRoute then (case establishSubscription E route c2 of (c', p) \<Rightarrow> (c', Some p))
                           else (c2, map_get (subscriptionCommands c2) route))
      in (c3\<lparr>subscribing := (subscribing c3)(registration \<mapsto>
            \<lparr>su_route = route, su_registration = registration, su_set = s, su_signal = signal, su_promise = command\<rparr>)\<rparr>,
          registration))"

text \<open>The \<open>catch\<close> of \<open>subscribe\<close>.\<close>

definition subscribe_failed :: "subscribe_task \<Rightarrow> client \<Rightarrow> client" where
  "subscribe_failed t c =
     (let left = set_delete (su_registration t) (registrations c (su_set t));
          c1 = c\<lparr>registrations := (registrations c)(su_set t := left)\<rparr>
      in if left = [] then c1\<lparr>subscriptions := map_delete (su_route t) (subscriptions c1)\<rparr> else c1)"

definition subscribe_done :: "nat \<Rightarrow> subscribe_task \<Rightarrow> client \<Rightarrow> client" where
  "subscribe_done i t c = c\<lparr>unsubscribers := (unsubscribers c)(i \<mapsto>
     \<lparr>un_route = su_route t, un_registration = su_registration t, un_active = True, un_running = None\<rparr>)\<rparr>"

text \<open>\<open>waitForSubscription\<close> returned, or its command failed.\<close>

definition subscribe_resume :: "nat \<Rightarrow> client \<Rightarrow> client" where
  "subscribe_resume i c = (case subscribing c i of
     None \<Rightarrow> c
   | Some t \<Rightarrow>
       let c1 = c\<lparr>subscribing := (subscribing c)(i := None)\<rparr>
       in case su_promise t of
            None \<Rightarrow> subscribe_done i t c1
          | Some p \<Rightarrow> (case promises c p of
              None \<Rightarrow> c
            | Some (Resolved _) \<Rightarrow> subscribe_done i t c1
            | Some (Rejected _) \<Rightarrow> subscribe_failed t c1))"

text \<open>The caller's signal ended the wait.\<close>

definition subscribe_aborted :: "nat \<Rightarrow> client \<Rightarrow> client" where
  "subscribe_aborted i c = (case subscribing c i of
     None \<Rightarrow> c
   | Some t \<Rightarrow>
       if su_promise t \<noteq> None \<and> signal_aborted c (su_signal t) \<noteq> None
       then subscribe_failed t (c\<lparr>subscribing := (subscribing c)(i := None)\<rparr>) else c)"

section \<open>Unsubscribing\<close>

definition unsubscribe_failed :: "env \<Rightarrow> nat \<Rightarrow> unsubscriber \<Rightarrow> nat \<Rightarrow> client \<Rightarrow> client" where
  "unsubscribe_failed E i u current c =
     close_current E 4000 ''unsubscribe_failed''
       (c\<lparr>registrations := (registrations c)(current := set_add (un_registration u) (registrations c current)),
          subscriptions := map_set (un_route u) current (subscriptions c),
          unsubscribers := (unsubscribers c)(i \<mapsto> u\<lparr>un_running := None\<rparr>)\<rparr>)"

definition unsubscribe_done :: "nat \<Rightarrow> unsubscriber \<Rightarrow> client \<Rightarrow> client" where
  "unsubscribe_done i u c =
     c\<lparr>unsubscribers := (unsubscribers c)(i \<mapsto> u\<lparr>un_active := False, un_running := None\<rparr>)\<rparr>"

text \<open>A call of the function returned by \<open>subscribe\<close>, up to its first \<open>await\<close>.\<close>

definition unsubscribe :: "env \<Rightarrow> nat \<Rightarrow> client \<Rightarrow> client" where
  "unsubscribe E i c = (case unsubscribers c i of
     None \<Rightarrow> c
   | Some u \<Rightarrow>
       if \<not> un_active u \<or> un_running u \<noteq> None then c
       else case map_get (subscriptions c) (un_route u) of
         None \<Rightarrow> unsubscribe_done i u c
       | Some current \<Rightarrow>
           let left = set_delete (un_registration u) (registrations c current);
               c1 = c\<lparr>registrations := (registrations c)(current := left)\<rparr>
           in if left \<noteq> [] then unsubscribe_done i u c1
              else
                let c2 = c1\<lparr>subscriptions := map_delete (un_route u) (subscriptions c1)\<rparr>
                in if stateValue c2 \<noteq> Open then unsubscribe_done i u c2
                   else case send_envelope E None
                       (make_envelope E [] (mt_unsubscribe messageTypes) (un_route u) Undefined c2) of
                     (c3, Inl e) \<Rightarrow> unsubscribe_failed E i u current c3
                   | (c3, Inr p) \<Rightarrow>
                       c3\<lparr>unsubscribers := (unsubscribers c3)(i \<mapsto> u\<lparr>un_running := Some (current, p)\<rparr>)\<rparr>)"

definition unsubscribe_resume :: "env \<Rightarrow> nat \<Rightarrow> client \<Rightarrow> client" where
  "unsubscribe_resume E i c = (case unsubscribers c i of
     None \<Rightarrow> c
   | Some u \<Rightarrow> (case un_running u of
       None \<Rightarrow> c
     | Some (current, p) \<Rightarrow> (case promises c p of
         None \<Rightarrow> c
       | Some (Resolved _) \<Rightarrow> unsubscribe_done i u c
       | Some (Rejected e) \<Rightarrow> unsubscribe_failed E i u current c)))"

definition desiredSubscriptions :: "client \<Rightarrow> string list" where
  "desiredSubscriptions c = map_keys (subscriptions c)"

end
