(* ===== verification/Client_Machine.thy ===== *)
theory Client_Machine
  imports Client_Subscriptions
begin

text \<open>
  The client as a state machine. A label is a call by the application, an event of a socket, a
  timer, or the continuation of suspended code; \<open>enabled\<close> says when the platform can produce
  it. \<open>step\<close> is \<open>None\<close> when the code it runs does not return.
\<close>

section \<open>Calls of the application\<close>

datatype api_call =
    Connect "nat option"
  | Disconnect jsnum string
  | Publish heap string jsval "nat option"
  | Subscribe string "nat option"
  | Unsubscribe nat
  | Ping "nat option"
  | AddListener event_kind nat
  | RemoveListener event_kind nat
  | Abort nat thrown

fun api :: "env \<Rightarrow> api_call \<Rightarrow> client \<Rightarrow> client" where
  "api E (Connect s) c = fst (connect E s c)"
| "api E (Disconnect code reason) c = (case disconnect E code reason c of Inl e \<Rightarrow> c | Inr c1 \<Rightarrow> c1)"
| "api E (Publish h route payload s) c = fst (publish E h route payload s c)"
| "api E (Subscribe route s) c = fst (subscribe E route s c)"
| "api E (Unsubscribe u) c = unsubscribe E u c"
| "api E (Ping s) c = fst (ping E s c)"
| "api E (AddListener k l) c = on k l c"
| "api E (RemoveListener k l) c = off k l c"
| "api E (Abort s reason) c = abort_signal E s reason c"

text \<open>
  A listener may call the client back. The calls it makes while it handles an event deliver
  events themselves, and those to listeners one level deeper, so the environments of executions
  with listeners nested to some depth are built from one whose listeners make no calls.
\<close>

inductive reentrant :: "env \<Rightarrow> bool" where
  quiet: "consumer E = (\<lambda>ev c. c) \<Longrightarrow> reentrant E"
| calls: "\<lbrakk>reentrant E; \<And>ev c. \<exists>cs. f ev c = fold (api E) cs c\<rbrakk> \<Longrightarrow> reentrant (E\<lparr>consumer := f\<rparr>)"

section \<open>Steps\<close>

datatype label =
    Call api_call
  | UrlReady nat url_result
  | SocketOpened nat
  | SocketMessage nat message_data
  | SocketError nat
  | SocketClosed nat int string
  | AttemptSettled nat
  | RestoreResumed nat
  | CommandTimeout string
  | ReconnectTimer
  | HeartbeatTick
  | HeartbeatFailed nat
  | SubscribeResumed nat
  | SubscribeAborted nat
  | EstablishResumed nat
  | UnsubscribeResumed nat

definition has_socket :: "client \<Rightarrow> nat \<Rightarrow> bool" where
  "has_socket c a = at_hasSocket (attempt_of c a)"

fun enabled :: "client \<Rightarrow> label \<Rightarrow> bool" where
  "enabled c (Call call) = True"
| "enabled c (UrlReady a r) = at_fetching (attempt_of c a)"
| "enabled c (SocketOpened a) = (has_socket c a \<and> at_readyState (attempt_of c a) = CONNECTING)"
| "enabled c (SocketMessage a d) = (has_socket c a \<and> at_readyState (attempt_of c a) \<in> {OPEN, CLOSING})"
| "enabled c (SocketError a) = (has_socket c a \<and> at_readyState (attempt_of c a) \<noteq> CLOSED)"
| "enabled c (SocketClosed a code reason) = (has_socket c a \<and> at_readyState (attempt_of c a) \<noteq> CLOSED)"
| "enabled c (AttemptSettled a) =
     (at_result (attempt_of c a) \<noteq> None \<and> \<not> at_handled (attempt_of c a))"
| "enabled c (RestoreResumed a) = (case at_restoration (attempt_of c a) of
     None \<Rightarrow> False | Some rs \<Rightarrow> rs_outcome rs \<noteq> None)"
| "enabled c (CommandTimeout k) = (map_get (pending c) k \<noteq> None)"
| "enabled c ReconnectTimer = (reconnectTimer c \<noteq> None)"
| "enabled c HeartbeatTick = heartbeatTimer c"
| "enabled c (HeartbeatFailed p) = (p \<in> set (heartbeats c))"
| "enabled c (SubscribeResumed i) = (subscribing c i \<noteq> None)"
| "enabled c (SubscribeAborted i) = (subscribing c i \<noteq> None)"
| "enabled c (EstablishResumed i) = (establishing c i \<noteq> None)"
| "enabled c (UnsubscribeResumed i) = (unsubscribers c i \<noteq> None)"

fun step :: "env \<Rightarrow> label \<Rightarrow> client \<Rightarrow> client option" where
  "step E (Call call) c = Some (api E call c)"
| "step E (UrlReady a r) c = Some (url_ready a r c)"
| "step E (SocketOpened a) c = on_open E a c"
| "step E (SocketMessage a d) c = Some (handleMessage E d c)"
| "step E (SocketError a) c = Some (on_error a c)"
| "step E (SocketClosed a code reason) c = Some (on_close E a code reason c)"
| "step E (AttemptSettled a) c = Some (attempt_settled E a c)"
| "step E (RestoreResumed a) c = restore_resume E a c"
| "step E (CommandTimeout k) c = Some (command_timeout k c)"
| "step E ReconnectTimer c = Some (reconnect_timer_fired E c)"
| "step E HeartbeatTick c = Some (heartbeat_tick E c)"
| "step E (HeartbeatFailed p) c = Some (heartbeat_failed E p c)"
| "step E (SubscribeResumed i) c = Some (subscribe_resume i c)"
| "step E (SubscribeAborted i) c = Some (subscribe_aborted i c)"
| "step E (EstablishResumed i) c = Some (establish_resume E i c)"
| "step E (UnsubscribeResumed i) c = Some (unsubscribe_resume E i c)"

inductive reachable :: "env \<Rightarrow> client \<Rightarrow> bool" for E where
  start: "reachable E new_client"
| step: "\<lbrakk>reachable E c; enabled c l; step E l c = Some c'\<rbrakk> \<Longrightarrow> reachable E c'"

text \<open>A run along given labels, for concrete executions.\<close>

fun run :: "env \<Rightarrow> label list \<Rightarrow> client \<Rightarrow> client option" where
  "run E [] c = Some c"
| "run E (l # ls) c = (if enabled c l then Option.bind (step E l c) (run E ls) else None)"

lemma run_reachable: "reachable E c \<Longrightarrow> run E ls c = Some c' \<Longrightarrow> reachable E c'"
  by (induction E ls c rule: run.induct) (auto split: if_splits bind_splits intro: reachable.step)

end
