(* ===== verification/Client_Delay.thy ===== *)
theory Client_Delay
  imports Client_Core
begin

text \<open>
  The delay computed by \<open>scheduleReconnect\<close>, with its floating-point roundings: bounds for
  every jitter ratio and random number, the exact value without jitter.
\<close>

section \<open>Roundings used by the delay\<close>

lemma ilog2_double: "0 < x \<Longrightarrow> ilog2 (2 * x) = ilog2 x + 1"
proof -
  assume x: "0 < x"
  note b = ilog2_bounds [OF x] and b2 = ilog2_bounds [of "2 * x"]
  have "2 powi ilog2 (2 * x) < (2 :: rat) powi (ilog2 x + 2)" "2 powi (ilog2 x + 1) < (2 :: rat) powi (ilog2 (2 * x) + 1)"
    using b b2 x by (auto simp: power_int_add)
  then show ?thesis unfolding powi2_less_iff by linarith
qed

lemma fl_double:
  assumes "1 / 2 \<le> x"
  shows "fl (2 * x) = 2 * fl x"
proof -
  have x: "0 < x" using assms by linarith
  have "2 powi - 1 < (2 :: rat) powi (ilog2 x + 1)"
    using ilog2_bounds [OF x] assms by (simp add: power_int_minus)
  then have "- 1 \<le> ilog2 x" unfolding powi2_less_iff by linarith
  then have "ulp_exponent (2 * x) = ulp_exponent x + 1"
    using x by (simp add: ulp_exponent_def ilog2_double)
  then show ?thesis using x by (simp add: fl_def power_int_add)
qed

lemma round_even_le_double:
  assumes "0 \<le> y"
  shows "of_int (round_even y) \<le> 2 * y"
proof -
  define f where "f = (of_int \<lfloor>y\<rfloor> :: rat)"
  have "0 \<le> f" "f \<le> y" using assms by (simp_all add: f_def)
  then show ?thesis unfolding round_even_def Let_def f_def [symmetric]
    by (cases "y - f < 1 / 2") (auto simp: f_def [symmetric])
qed

lemma fl_le_double:
  assumes "0 \<le> x"
  shows "fl x \<le> 2 * x"
proof (cases "x = 0")
  case False
  let ?u = "2 powi ulp_exponent x :: rat" and ?y = "x / 2 powi ulp_exponent x :: rat"
  have "of_int (round_even ?y) * ?u \<le> 2 * ?y * ?u"
    using assms by (intro mult_right_mono round_even_le_double) simp_all
  then show ?thesis using False by (simp add: fl_def)
qed simp

lemma num_small: "\<bar>fl x\<bar> < 2 ^ 1024 \<Longrightarrow> num x = Fin (fl x)"
  by (simp add: num_def Let_def abs_less_iff)

lemma num_bounded:
  assumes "0 \<le> x" "x \<le> of_nat n" "n < 2 ^ 53"
  shows "num x = Fin (fl x)" "0 \<le> fl x" "fl x \<le> of_nat n"
proof -
  show ge: "0 \<le> fl x" using assms(1) by (rule fl_ge_0)
  have "fl (of_int (int n)) = of_int (int n)" using assms(3) by (intro fl_of_int) simp
  then show le: "fl x \<le> of_nat n" using fl_mono [OF assms(2)] by simp
  have "of_nat n < (2 :: rat) ^ 1024"
  proof -
    have "of_nat n < (2 ^ 53 :: rat)" using assms(3) by (metis of_nat_less_iff of_nat_numeral of_nat_power)
    also have "\<dots> \<le> 2 ^ 1024" by (rule power_increasing) simp_all
    finally show ?thesis .
  qed
  then show "num x = Fin (fl x)" using ge le by (intro num_small) (simp add: abs_less_iff)
qed

section \<open>The delay\<close>

text \<open>The factor \<open>1 - jitter + 2 * jitter * random\<close> lies between 0 and 2.\<close>

definition jitter_factor :: "jsnum \<Rightarrow> jsnum \<Rightarrow> jsnum" where
  "jitter_factor jitter rnd =
     num_add (num_sub (Fin 1) jitter) (num_mul (num_mul (Fin 2) jitter) rnd)"

lemma jitter_sum_le:
  assumes "0 \<le> j" "j \<le> 1" "fl j = j" "0 \<le> r" "r \<le> 1"
  shows "fl (1 - j) + fl (fl (2 * j) * r) \<le> 2"
proof -
  have f2: "0 \<le> fl (2 * j)" using assms by (intro fl_ge_0) simp
  have "fl (fl (2 * j) * r) \<le> fl (fl (2 * j))"
    using assms f2 by (intro fl_mono) (simp add: mult_left_le)
  show ?thesis
  proof (cases "1 / 2 \<le> j")
    case True
    then have "fl (2 * j) = 2 * j" using fl_double assms(3) by simp
    moreover have "fl (1 - j) \<le> 2 * (1 - j)" using assms by (intro fl_le_double) simp
    ultimately show ?thesis using \<open>fl (fl (2 * j) * r) \<le> fl (fl (2 * j))\<close> by simp
  next
    case False
    have "fl (2 * j) \<le> fl 1" using False by (intro fl_mono) simp
    then have "fl (fl (2 * j)) \<le> fl 1" by (intro fl_mono) (simp add: fl_numerals)
    moreover have "fl (1 - j) \<le> fl 1" using assms by (intro fl_mono) simp
    ultimately show ?thesis using \<open>fl (fl (2 * j) * r) \<le> fl (fl (2 * j))\<close> by (simp add: fl_numerals)
  qed
qed

lemma jitter_factor_bounds:
  assumes "0 \<le> j" "j \<le> 1" "fl j = j" "0 \<le> r" "r \<le> 1"
  obtains f where "jitter_factor (Fin j) (Fin r) = Fin f" "0 \<le> f" "f \<le> 2"
proof -
  have a: "num (1 - j) = Fin (fl (1 - j))" "0 \<le> fl (1 - j)"
    using num_bounded [of "1 - j" 1] assms by simp_all
  have b: "num (2 * j) = Fin (fl (2 * j))" "0 \<le> fl (2 * j)" "fl (2 * j) \<le> 2"
    using num_bounded [of "2 * j" 2] assms by simp_all
  have "fl (2 * j) * r \<le> 2" using b(2,3) assms by (meson mult_left_le order_trans)
  then have p: "num (fl (2 * j) * r) = Fin (fl (fl (2 * j) * r))" "0 \<le> fl (fl (2 * j) * r)"
    using num_bounded [of "fl (2 * j) * r" 2] b assms by simp_all
  let ?s = "fl (1 - j) + fl (fl (2 * j) * r)"
  have "num ?s = Fin (fl ?s)" "0 \<le> fl ?s" "fl ?s \<le> 2"
    using num_bounded [of ?s 2] jitter_sum_le [OF assms] a(2) p(2) by simp_all
  then show thesis using that a(1) b(1) p(1) by (simp add: jitter_factor_def num_sub_def)
qed

lemma num_min_le:
  assumes "b \<noteq> NaN" "\<not> num_less b (Fin 0)" "0 \<le> m"
  obtains e where "num_min (Fin m) b = Fin e" "0 \<le> e" "e \<le> m"
proof (cases b)
  case (Fin x)
  with assms that show thesis by (cases "x < m") (auto simp: num_min_def)
qed (use assms that in \<open>auto simp: num_min_def\<close>)

lemma num_nonneg:
  assumes "0 \<le> x"
  shows "num x \<noteq> NaN \<and> \<not> num_less (num x) (Fin 0)"
proof -
  have "(0 :: rat) < 2 ^ 1024" by (rule zero_less_power) simp
  then have "\<not> fl x \<le> - (2 ^ 1024)" using fl_ge_0 [OF assms] by linarith
  then show ?thesis using fl_ge_0 [OF assms] unfolding num_def Let_def by simp
qed

lemma attempt_delay_nonneg:
  assumes "0 < b"
  shows "num_mul (Fin b) (num_pow2 n) \<noteq> NaN \<and> \<not> num_less (num_mul (Fin b) (num_pow2 n)) (Fin 0)"
  using assms num_nonneg [of "b * 2 ^ n"] by (simp add: num_pow2_def signed_inf_def)

lemma rounded_product:
  assumes "0 \<le> e" "e \<le> of_nat m" "0 \<le> f" "f \<le> 2" "m \<le> 2147483647"
  obtains d where "num_max (Fin 0) (num_round (num_mul (Fin e) (Fin f))) = Fin (of_nat d)" "d \<le> 2 * m"
proof -
  have "e * f \<le> of_nat m * 2" using assms by (intro mult_mono) simp_all
  then have n: "num (e * f) = Fin (fl (e * f))" "0 \<le> fl (e * f)" "fl (e * f) \<le> of_nat (2 * m)"
    using num_bounded [of "e * f" "2 * m"] assms by simp_all
  define d where "d = nat \<lfloor>fl (e * f) + 1 / 2\<rfloor>"
  have "\<lfloor>fl (e * f) + 1 / 2\<rfloor> \<le> int (2 * m)" using n(3) by (simp add: floor_le_iff)
  moreover have "0 \<le> \<lfloor>fl (e * f) + 1 / 2\<rfloor>" using n(2) by simp
  ultimately have d: "d \<le> 2 * m" "(of_int \<lfloor>fl (e * f) + 1 / 2\<rfloor> :: rat) = of_nat d"
    by (simp_all add: d_def)
  have "num_max (Fin 0) (num_round (num_mul (Fin e) (Fin f))) = Fin (of_nat d)"
    by (cases d) (simp_all add: num_max_def n(1) d(2))
  then show thesis using that d(1) by blast
qed

lemma reconnect_delay_bounded:
  assumes "timer_safe_advice initial (Fin (of_nat m)) (Fin j)" "fl j = j" "0 \<le> r" "r \<le> 1"
  obtains d where "reconnect_delay initial (Fin (of_nat m)) (Fin j) attempt (Fin r) = Fin (of_nat d)" "d \<le> 2 * m"
proof -
  obtain i where i: "initial = Fin (of_nat i)" and m: "m \<le> 2147483647" and j: "0 \<le> j" "j \<le> 1"
    using assms(1) by (auto simp: timer_safe_advice_def)
  obtain f where f: "jitter_factor (Fin j) (Fin r) = Fin f" "0 \<le> f" "f \<le> 2"
    using jitter_factor_bounds [OF j assms(2-4)] .
  define delay where "delay = (if attempt = 0 then initial
     else num_mul (if initial = Fin 0 then Fin 1 else initial) (num_pow2 (attempt - 1)))"
  have "delay \<noteq> NaN \<and> \<not> num_less delay (Fin 0)"
    using attempt_delay_nonneg [of 1 "attempt - 1"] attempt_delay_nonneg [of "of_nat i" "attempt - 1"]
    by (auto simp: delay_def i)
  then obtain e where e: "num_min (Fin (of_nat m)) delay = Fin e" "0 \<le> e" "e \<le> of_nat m"
    using num_min_le [of delay "of_nat m"] by auto
  obtain d where "num_max (Fin 0) (num_round (num_mul (Fin e) (Fin f))) = Fin (of_nat d)" "d \<le> 2 * m"
    using rounded_product [OF e(2,3) f(2,3) m] .
  moreover have "reconnect_delay initial (Fin (of_nat m)) (Fin j) attempt (Fin r) =
      num_max (Fin 0) (num_round (num_mul (Fin e) (Fin f)))"
    unfolding reconnect_delay_def Let_def e(1) [symmetric] f(1) [symmetric] delay_def jitter_factor_def ..
  ultimately show thesis using that by simp
qed

section \<open>The delay without jitter\<close>

text \<open>The schedule the options describe: \<open>initial\<close>, then doubling from it, up to \<open>maximum\<close>.\<close>

definition backoff :: "nat \<Rightarrow> nat \<Rightarrow> nat \<Rightarrow> nat" where
  "backoff initial maximum attempt =
     (if attempt = 0 then initial else min maximum (max 1 initial * 2 ^ (attempt - 1)))"

lemma num_of_nat: "n \<le> 2147483647 \<Longrightarrow> num (of_nat n) = Fin (of_nat n)"
  using num_bounded(1) [of "of_nat n" n] fl_of_int [of "int n"] by simp

lemma num_min_power:
  assumes "b \<le> 2147483647" "0 < b" "m \<le> 2147483647"
  shows "num_min (Fin (of_nat m)) (num_mul (Fin (of_nat b)) (num_pow2 n)) = Fin (of_nat (min m (b * 2 ^ n)))"
proof (cases "n < 1024")
  case True
  have fl: "fl (of_nat b * 2 ^ n) = of_nat b * 2 ^ n"
    using fl_exact [of "int b" "int n"] assms(1) by simp
  have le: "(2 :: rat) ^ 1024 \<le> of_nat b * 2 ^ n \<Longrightarrow> m \<le> b * 2 ^ n"
  proof -
    assume a: "(2 :: rat) ^ 1024 \<le> of_nat b * 2 ^ n"
    have "(of_nat m :: rat) \<le> 2 ^ 31" using assms(3) by simp
    also have "\<dots> \<le> 2 ^ 1024" by (rule power_increasing) simp_all
    also note a
    also have "of_nat b * 2 ^ n = (of_nat (b * 2 ^ n) :: rat)" by simp
    finally show ?thesis by (simp only: of_nat_le_iff)
  qed
  have "\<not> (of_nat b * 2 ^ n :: rat) \<le> - (2 ^ 1024)"
  proof -
    have "(0 :: rat) \<le> of_nat b * 2 ^ n" "(0 :: rat) < 2 ^ 1024" by (simp_all del: power_numeral)
    then show ?thesis by linarith
  qed
  then have "num (of_nat b * 2 ^ n) = (if 2 ^ 1024 \<le> (of_nat b * 2 ^ n :: rat) then PInf else Fin (of_nat (b * 2 ^ n)))"
    unfolding num_def Let_def fl by simp
  then have n: "num_mul (Fin (of_nat b)) (num_pow2 n) =
      (if 2 ^ 1024 \<le> (of_nat b * 2 ^ n :: rat) then PInf else Fin (of_nat (b * 2 ^ n)))"
    using True by (simp only: num_pow2_def num_mul.simps if_True)
  show ?thesis
  proof (cases "(2 :: rat) ^ 1024 \<le> of_nat b * 2 ^ n")
    case big: True
    show ?thesis unfolding n if_P [OF big] using le [OF big] by (simp add: num_min_def)
  next
    case False
    show ?thesis unfolding n if_not_P [OF False]
      by (simp only: num_min_def num_less.simps of_nat_less_iff min_def) auto
  qed
next
  case False
  have "m \<le> 2 ^ 31" using assms(3) by simp
  also have "\<dots> \<le> (2 :: nat) ^ n" using False by (intro power_increasing) simp_all
  also have "\<dots> \<le> b * 2 ^ n" using assms(2) by simp
  finally show ?thesis using False assms(2) by (simp add: num_pow2_def signed_inf_def num_min_def)
qed

lemma reconnect_delay_exact:
  assumes "i \<le> m" "m \<le> 2147483647"
  shows "reconnect_delay (Fin (of_nat i)) (Fin (of_nat m)) (Fin 0) attempt (Fin r) = Fin (of_nat (backoff i m attempt))"
proof -
  have e: "num_min (Fin (of_nat m)) (if attempt = 0 then Fin (of_nat i)
       else num_mul (if Fin (of_nat i) = Fin 0 then Fin 1 else Fin (of_nat i)) (num_pow2 (attempt - 1)))
     = Fin (of_nat (backoff i m attempt))"
    using assms num_min_power [of "max 1 i" m "attempt - 1"]
    by (auto simp: backoff_def num_min_def max_def)
  have "backoff i m attempt \<le> 2147483647" using assms by (auto simp: backoff_def intro: min.coboundedI1)
  then have n: "num (of_nat (backoff i m attempt)) = Fin (of_nat (backoff i m attempt))" by (rule num_of_nat)
  have j: "num_add (num_sub (Fin 1) (Fin 0)) (num_mul (num_mul (Fin 2) (Fin 0)) (Fin r)) = Fin 1"
    using num_of_nat [of 0] num_of_nat [of 1] by (simp add: num_sub_def)
  have "\<lfloor>1 / 2 :: rat\<rfloor> = 0" by (simp add: floor_eq_iff)
  then show ?thesis unfolding reconnect_delay_def Let_def e j by (simp add: n num_max_def)
qed

section \<open>Theorems\<close>

text \<open>
  C29. Without jitter the delay of a reconnect attempt is exactly the configured exponential
  backoff: the initial delay, doubled from the second retry on and capped by the maximum, for every
  number of attempts, although the powers of two leave the range of a double.
\<close>

theorem reconnect_delay_backoff:
  assumes "i \<le> m" "m \<le> 2147483647"
  shows "reconnect_delay (Fin (of_nat i)) (Fin (of_nat m)) (Fin 0) attempt (Fin r)
    = Fin (of_nat (if attempt = 0 then i else min m (max 1 i * 2 ^ (attempt - 1))))"
  using reconnect_delay_exact [OF assms] unfolding backoff_def .

theorem reconnect_delay_backoff_witness:
  "reconnect_delay (Fin 500) (Fin 30000) (Fin 0) 4 (Fin 0) = Fin 4000
    \<and> reconnect_delay (Fin 500) (Fin 30000) (Fin 0) 12 (Fin 0) = Fin 30000"
  using reconnect_delay_backoff [of 500 30000 4 0] reconnect_delay_backoff [of 500 30000 12 0] by simp

end
