(* ===== verification/Client_Invariant.thy ===== *)
theory Client_Invariant
  imports Client_Machine Client_Delay "HOL-Library.Multiset"
begin

text \<open>
  The invariant of the client and its preservation by every operation, with listeners that call
  back into the client at every event.
\<close>

section \<open>The invariant\<close>

definition cid :: "queued_command \<Rightarrow> string" where
  "cid q = me_correlationId (qc_envelope q)"

definition callers :: "waiter list \<Rightarrow> nat set" where
  "callers ws = {p. Caller p \<in> set ws}"

text \<open>The correlation identifiers on the wire, in the order sent.\<close>

fun sent_ids :: "effect list \<Rightarrow> string list" where
  "sent_ids [] = []"
| "sent_ids (Sent s m # es) = me_correlationId m # sent_ids es"
| "sent_ids (_ # es) = sent_ids es"

text \<open>The commands that a restoration has taken and not yet transmitted.\<close>

definition left_commands :: "(string, queued_command) jsmap \<Rightarrow> string list \<Rightarrow> queued_command list" where
  "left_commands taken routes = List.map_filter (map_get taken) routes"

fun held_by :: "restoration option \<Rightarrow> queued_command list" where
  "held_by None = []"
| "held_by (Some rs) = left_commands (rs_queued rs) (rs_routes rs)"

definition held :: "client \<Rightarrow> nat \<Rightarrow> queued_command list" where
  "held c a = (case attempts c a of None \<Rightarrow> [] | Some t \<Rightarrow> held_by (at_restoration t))"

text \<open>
  The identifiers sent or still to be sent; \<open>qs\<close> are commands that the running code has in
  its hands.
\<close>

definition live :: "client \<Rightarrow> queued_command list \<Rightarrow> string multiset" where
  "live c qs = mset (sent_ids (log c)) + mset (map cid (queued c))
     + (\<Sum>a<nextId c. mset (map cid (held c a))) + mset (map cid qs)"

text \<open>The promises of commands that are settled, pending or queued, subscribe commands in the queue apart.\<close>

definition queue_callers :: "queued_command list \<Rightarrow> nat set" where
  "queue_callers qs = (\<Union>q \<in> set qs. if is_subscribe q then {} else callers (qc_waiters q))"

definition accounted :: "client \<Rightarrow> nat set" where
  "accounted c = {p. promises c p \<noteq> None} \<union> (\<Union>e \<in> set (pending c). callers (pc_waiters (snd e)))
     \<union> queue_callers (queued c)"

definition timer_bounded :: "jsnum \<Rightarrow> bool" where
  "timer_bounded d = (\<exists>n. d = Fin (of_nat n) \<and> n \<le> 2 * 2147483647)"

fun effect_ok :: "env \<Rightarrow> effect \<Rightarrow> bool" where
  "effect_ok E (Sent s m) = (serialized_length E m \<le> maximumMessageBytes (options E))"
| "effect_ok E (TimerSet d) = timer_bounded d"
| "effect_ok E _ = True"

definition advice_ok :: "reconnect_advice \<Rightarrow> bool" where
  "advice_ok r = (timer_safe_advice (initialDelayMilliseconds r) (maximumDelayMilliseconds r) (jitterRatio r)
     \<and> (\<forall>j. jitterRatio r = Fin j \<longrightarrow> fl j = j))"

definition doubles :: "heap \<Rightarrow> bool" where
  "doubles h = (\<forall>ob \<in> set h. \<forall>x. Num (Fin x) \<in> set (elements ob) \<longrightarrow> fl x = x)"

text \<open>
  What the client relies on: listeners that only make calls of the client, distinct random
  identifiers, random numbers between 0 and 1, numbers parsed as doubles, and reconnect options
  that the constructor accepts.
\<close>

definition options_advice :: "client_options \<Rightarrow> reconnect_advice" where
  "options_advice opts = \<lparr>initialDelayMilliseconds = reconnectInitialDelay opts,
     maximumDelayMilliseconds = reconnectMaximumDelay opts, jitterRatio = reconnectJitterRatio opts,
     reauthenticate = False\<rparr>"

definition env_ok :: "env \<Rightarrow> bool" where
  "env_ok E = (reentrant E
     \<and> inj (randomUUID E)
     \<and> (\<forall>i. \<exists>x. random E i = Fin x \<and> 0 \<le> x \<and> x \<le> 1)
     \<and> (\<forall>s h v. parseJSON E s = Some (h, v) \<longrightarrow> doubles h)
     \<and> advice_ok (options_advice (options E)))"

definition client_ok :: "env \<Rightarrow> nat set \<Rightarrow> nat \<Rightarrow> queued_command list \<Rightarrow> client \<Rightarrow> bool" where
  "client_ok E A n qs c = (env_ok E
     \<and> n \<le> nextId c
     \<and> length (queued c) \<le> maximumQueuedCommands (options E)
     \<and> length (pending c) \<le> maximumPendingCommands (options E)
     \<and> distinct (map fst (pending c))
     \<and> fst ` set (pending c) \<subseteq> set (sent_ids (log c))
     \<and> list_all (effect_ok E) (log c)
     \<and> pred_option advice_ok (serverReconnectAdvice c)
     \<and> (\<forall>x. count (live c qs) x \<le> 1)
     \<and> set_mset (live c qs) \<subseteq> randomUUID E ` {..<uuids c}
     \<and> (\<forall>a \<ge> nextId c. attempts c a = None)
     \<and> (\<forall>a. list_all is_subscribe (held c a))
     \<and> A \<subseteq> accounted c \<union> queue_callers qs)"

section \<open>Frame laws\<close>

lemma held_frame [simp]:
  "held (c\<lparr>queued := qs\<rparr>) = held c" "held (c\<lparr>pending := ps\<rparr>) = held c" "held (c\<lparr>log := l\<rparr>) = held c"
  "held (c\<lparr>sends := i\<rparr>) = held c" "held (c\<lparr>nextId := i\<rparr>) = held c" "held (c\<lparr>uuids := i\<rparr>) = held c"
  by (simp_all add: held_def fun_eq_iff)

lemmas inv_defs = client_ok_def live_def held_def accounted_def

lemma inv_frame [simp]:
  "client_ok E A n qs (c\<lparr>listeners := l\<rparr>) = client_ok E A n qs c"
  "client_ok E A n qs (c\<lparr>subscriptions := s\<rparr>) = client_ok E A n qs c"
  "client_ok E A n qs (c\<lparr>registrations := r\<rparr>) = client_ok E A n qs c"
  "client_ok E A n qs (c\<lparr>subscriptionCommands := sc\<rparr>) = client_ok E A n qs c"
  "client_ok E A n qs (c\<lparr>socket := k\<rparr>) = client_ok E A n qs c"
  "client_ok E A n qs (c\<lparr>stateValue := st\<rparr>) = client_ok E A n qs c"
  "client_ok E A n qs (c\<lparr>connectPromise := k\<rparr>) = client_ok E A n qs c"
  "client_ok E A n qs (c\<lparr>connectAbortController := k\<rparr>) = client_ok E A n qs c"
  "client_ok E A n qs (c\<lparr>reconnectTimer := t\<rparr>) = client_ok E A n qs c"
  "client_ok E A n qs (c\<lparr>heartbeatTimer := h\<rparr>) = client_ok E A n qs c"
  "client_ok E A n qs (c\<lparr>reconnectAttempt := i\<rparr>) = client_ok E A n qs c"
  "client_ok E A n qs (c\<lparr>generation := i\<rparr>) = client_ok E A n qs c"
  "client_ok E A n qs (c\<lparr>intentionalClose := h\<rparr>) = client_ok E A n qs c"
  "client_ok E A n qs (c\<lparr>signals := g\<rparr>) = client_ok E A n qs c"
  "client_ok E A n qs (c\<lparr>subscribing := sb\<rparr>) = client_ok E A n qs c"
  "client_ok E A n qs (c\<lparr>establishing := es\<rparr>) = client_ok E A n qs c"
  "client_ok E A n qs (c\<lparr>unsubscribers := us\<rparr>) = client_ok E A n qs c"
  "client_ok E A n qs (c\<lparr>heartbeats := hb\<rparr>) = client_ok E A n qs c"
  "client_ok E A n qs (c\<lparr>sends := i\<rparr>) = client_ok E A n qs c"
  "client_ok E A n qs (c\<lparr>randoms := i\<rparr>) = client_ok E A n qs c"
  by (simp_all add: inv_defs)

lemma inv_no_advice: "client_ok E A n qs c \<Longrightarrow> client_ok E A n qs (c\<lparr>serverReconnectAdvice := None\<rparr>)"
  by (simp add: inv_defs)

lemma inv_advice: "advice_ok r \<Longrightarrow> client_ok E A n qs c \<Longrightarrow> client_ok E A n qs (c\<lparr>serverReconnectAdvice := Some r\<rparr>)"
  by (simp add: inv_defs)

lemma sent_ids_append [simp]: "sent_ids (xs @ ys) = sent_ids xs @ sent_ids ys"
  by (induction xs rule: sent_ids.induct) simp_all

lemma inv_effect:
  "sent_ids [e] = [] \<Longrightarrow> effect_ok E e \<Longrightarrow> client_ok E A n qs c \<Longrightarrow> client_ok E A n qs (record_effect e c)"
  by (simp add: inv_defs record_effect_def)

lemma inv_bounds:
  assumes "client_ok E A n qs c"
  shows "length (queued c) \<le> maximumQueuedCommands (options E)"
    "length (pending c) \<le> maximumPendingCommands (options E)"
    "env_ok E" "n \<le> nextId c" "pred_option advice_ok (serverReconnectAdvice c)"
  using assms by (simp_all add: client_ok_def)

lemma inv_mono: "client_ok E A n qs c \<Longrightarrow> B \<subseteq> A \<Longrightarrow> m \<le> n \<Longrightarrow> client_ok E B m qs c"
  by (auto simp: client_ok_def)

lemma inv_nextId: "client_ok E A n qs c \<Longrightarrow> client_ok E A (nextId c) qs c"
  by (simp add: client_ok_def)

text \<open>Dropping commands, or holding fewer, keeps the identifiers unique.\<close>

lemma inv_live:
  assumes "client_ok E A n qs c" "live c' qs' \<subseteq># live c qs"
  shows "\<forall>x. count (live c' qs') x \<le> 1" "set_mset (live c' qs') \<subseteq> randomUUID E ` {..<uuids c}"
proof -
  have "\<forall>x. count (live c qs) x \<le> 1" "set_mset (live c qs) \<subseteq> randomUUID E ` {..<uuids c}"
    using assms(1) by (simp_all add: client_ok_def)
  then show "\<forall>x. count (live c' qs') x \<le> 1" "set_mset (live c' qs') \<subseteq> randomUUID E ` {..<uuids c}"
    using mset_subset_eq_count [OF assms(2)] set_mset_mono [OF assms(2)] by (meson order_trans)+
qed

lemma inv_drop:
  assumes "client_ok E A n (q # qs) c"
  shows "client_ok E (A - callers (qc_waiters q)) n qs c"
proof -
  have "live c qs \<subseteq># live c (q # qs)" by (simp add: live_def)
  from inv_live [OF assms this] assms show ?thesis by (auto simp: client_ok_def queue_callers_def split: if_splits)
qed

lemma sum_fun_upd:
  "(\<Sum>b<(k::nat). f ((g(a := x)) b)) \<subseteq># (\<Sum>b<k. f (g b)) + (f x :: string multiset)"
proof (induction k)
  case (Suc k)
  show ?case
  proof (cases "k = a")
    case True
    have "(\<Sum>b<k. f ((g(a := x)) b)) = (\<Sum>b<k. f (g b))" using True by (intro sum.cong) auto
    then show ?thesis using True by simp
  next
    case False
    then show ?thesis using subset_mset.add_right_mono [OF Suc, of "f (g k)"] by (simp add: ac_simps)
  qed
qed simp

lemma inv_update_attempt:
  assumes "client_ok E A n qs c" "\<And>t. held_by (at_restoration (f t)) = held_by (at_restoration t)"
  shows "client_ok E A n qs (update_attempt a f c)"
proof -
  have "held (update_attempt a f c) = held c"
    using assms(2) by (auto simp: held_def update_attempt_def fun_eq_iff split: option.splits)
  then show ?thesis using assms(1) by (simp add: client_ok_def live_def accounted_def update_attempt_def)
qed

lemma inv_attempt_frame:
  assumes "client_ok E A n qs c" "\<And>t. at_restoration (f t) = at_restoration t"
  shows "client_ok E A n qs (update_attempt a f c)"
  using assms by (intro inv_update_attempt) simp_all

section \<open>Settling commands\<close>

lemma settle_waiter_frame [simp]:
  "queued (settle_waiter w r c) = queued c" "pending (settle_waiter w r c) = pending c"
  "socket (settle_waiter w r c) = socket c" "signals (settle_waiter w r c) = signals c"
  "nextId (settle_waiter w r c) = nextId c" "log (settle_waiter w r c) = log c @ [Settled w r]"
  by (cases w; simp add: record_effect_def update_attempt_def)+

lemma settle_frame [simp]:
  "queued (settle ws r c) = queued c" "pending (settle ws r c) = pending c"
  "socket (settle ws r c) = socket c" "signals (settle ws r c) = signals c"
  "nextId (settle ws r c) = nextId c"
  unfolding settle_def by (induction ws arbitrary: c) simp_all

lemmas reject_frame [simp] = settle_frame [where r = "Rejected e" for e, folded reject_def]

lemma inv_settle_waiter:
  assumes "client_ok E (A - callers [w]) n qs c"
  shows "client_ok E A n qs (settle_waiter w r c)"
proof (cases w)
  case (Caller p)
  have "client_ok E (A - {p}) n qs (record_effect (Settled w r) c)"
    using assms Caller by (intro inv_effect) (simp_all add: callers_def)
  then show ?thesis using Caller by (auto simp: inv_defs record_effect_def)
next
  case (Restoration a)
  then have "client_ok E A n qs c" using assms by (simp add: callers_def)
  then have "client_ok E A n qs (update_attempt a (\<lambda>t. t\<lparr>at_restoration := map_option
      (\<lambda>s. if rs_outcome s = None then s\<lparr>rs_outcome := Some r\<rparr> else s) (at_restoration t)\<rparr>) c)"
  proof (rule inv_update_attempt)
    fix t
    show "held_by (at_restoration (t\<lparr>at_restoration := map_option
        (\<lambda>s. if rs_outcome s = None then s\<lparr>rs_outcome := Some r\<rparr> else s) (at_restoration t)\<rparr>))
      = held_by (at_restoration t)"
      by (cases "at_restoration t") simp_all
  qed
  then show ?thesis using Restoration by (simp add: inv_effect)
qed

lemma callers_Cons: "callers (w # ws) = callers [w] \<union> callers ws"
  by (auto simp: callers_def)

lemma inv_settle:
  assumes "client_ok E (A - callers ws) n qs c"
  shows "client_ok E A n qs (settle ws r c)"
  using assms
proof (induction ws arbitrary: c A)
  case Nil
  then show ?case by (simp add: settle_def callers_def)
next
  case (Cons w ws)
  have "A - callers ws - callers [w] = A - callers (w # ws)" by (auto simp: callers_def)
  then have "client_ok E (A - callers ws) n qs (settle_waiter w r c)"
    using Cons.prems by (intro inv_settle_waiter) simp
  from Cons.IH [OF this] show ?case by (simp add: settle_def)
qed

lemma inv_reject: "client_ok E (A - callers ws) n qs c \<Longrightarrow> client_ok E A n qs (reject ws e c)"
  unfolding reject_def by (rule inv_settle)

lemma inv_reject_drop: "client_ok E A n (q # qs) c \<Longrightarrow> client_ok E A n qs (reject (qc_waiters q) e c)"
  by (intro inv_reject inv_drop)

lemma inv_pending_subset:
  assumes "client_ok E A n qs c" "length ps \<le> length (pending c)" "distinct (map fst ps)"
    "set ps \<subseteq> set (pending c)" "\<And>e. e \<in> set (pending c) - set ps \<Longrightarrow> callers (pc_waiters (snd e)) \<subseteq> B"
  shows "client_ok E (A - B) n qs (c\<lparr>pending := ps\<rparr>)"
proof -
  have "A - B \<subseteq> accounted (c\<lparr>pending := ps\<rparr>) \<union> queue_callers qs"
  proof
    fix p assume p: "p \<in> A - B"
    then have "p \<in> accounted c \<union> queue_callers qs" using assms(1) by (auto simp: client_ok_def)
    moreover have "callers (pc_waiters (snd e)) \<subseteq> B" if "e \<in> set (pending c)" "e \<notin> set ps" for e
      using assms(5) that by blast
    ultimately show "p \<in> accounted (c\<lparr>pending := ps\<rparr>) \<union> queue_callers qs"
      using p unfolding accounted_def by auto
  qed
  moreover have "fst ` set ps \<subseteq> set (sent_ids (log c))" using assms(1,4) by (auto simp: client_ok_def)
  ultimately show ?thesis using assms(1-3) by (simp add: client_ok_def live_def held_def)
qed

lemma inv_pending_delete:
  assumes "client_ok E A n qs c" "map_get (pending c) k = Some p"
  shows "client_ok E (A - callers (pc_waiters p)) n qs (c\<lparr>pending := map_delete k (pending c)\<rparr>)"
proof (rule inv_pending_subset [OF assms(1)])
  show "distinct (map fst (map_delete k (pending c)))"
    using assms(1) by (simp add: client_ok_def AList.distinct_delete)
  show "set (map_delete k (pending c)) \<subseteq> set (pending c)" by (auto simp: set_map_delete)
  show "length (map_delete k (pending c)) \<le> length (pending c)" by (rule length_map_delete_le)
  have d: "distinct (map fst (pending c))" using assms(1) by (simp add: client_ok_def)
  show "callers (pc_waiters (snd e)) \<subseteq> callers (pc_waiters p)"
    if "e \<in> set (pending c) - set (map_delete k (pending c))" for e
    using that assms(2) map_of_is_SomeI [OF d, of "fst e" "snd e"] by (auto simp: set_map_delete)
qed

lemma inv_pending_settle:
  "client_ok E A n qs c \<Longrightarrow> map_get (pending c) k = Some p
    \<Longrightarrow> client_ok E A n qs (settle (pc_waiters p) r (c\<lparr>pending := map_delete k (pending c)\<rparr>))"
  by (intro inv_settle inv_pending_delete)

lemma inv_fold_reject:
  assumes "client_ok E (A - (\<Union>x \<in> set xs. callers (g x))) n qs c"
  shows "client_ok E A n qs (fold (\<lambda>x. reject (g x) e) xs c)"
  using assms
proof (induction xs arbitrary: c)
  case (Cons x xs)
  have "A - (\<Union>x \<in> set xs. callers (g x)) - callers (g x) = A - (\<Union>x \<in> set (x # xs). callers (g x))" by auto
  then have "client_ok E (A - (\<Union>x \<in> set xs. callers (g x))) n qs (reject (g x) e c)"
    using Cons.prems by (intro inv_reject) simp
  then show ?case using Cons.IH by simp
qed simp

lemma fold_reject_pending:
  "(fold (\<lambda>p. reject (pc_waiters (snd p)) e) ps c)\<lparr>pending := []\<rparr>
     = fold (\<lambda>p. reject (pc_waiters (snd p)) e) ps (c\<lparr>pending := []\<rparr>)"
proof (induction ps arbitrary: c)
  case (Cons p ps)
  have w: "(settle_waiter w r c)\<lparr>pending := []\<rparr> = settle_waiter w r (c\<lparr>pending := []\<rparr>)" for w r and c :: client
    by (cases w) (simp_all add: record_effect_def update_attempt_def)
  have "(settle ws r c)\<lparr>pending := []\<rparr> = settle ws r (c\<lparr>pending := []\<rparr>)" for ws r
    unfolding settle_def by (induction ws arbitrary: c) (simp_all add: w)
  then show ?case using Cons by (simp add: reject_def)
qed simp

lemma inv_rejectPending:
  assumes "client_ok E A n qs c"
  shows "client_ok E A n qs (rejectPending e c)"
proof -
  have "client_ok E (A - (\<Union>p \<in> set (pending c). callers (pc_waiters (snd p)))) n qs (c\<lparr>pending := []\<rparr>)"
    using assms by (intro inv_pending_subset) auto
  then show ?thesis unfolding rejectPending_def fold_reject_pending by (rule inv_fold_reject)
qed

lemma inv_queued_subset:
  assumes "client_ok E A n qs c" "mset ps + mset qs' \<subseteq># mset (queued c) + mset qs"
    "length ps \<le> maximumQueuedCommands (options E)"
    "queue_callers (queued c) \<union> queue_callers qs \<subseteq> B \<union> queue_callers ps \<union> queue_callers qs'"
  shows "client_ok E (A - B) n qs' (c\<lparr>queued := ps\<rparr>)"
proof -
  have "image_mset cid (mset ps + mset qs') \<subseteq># image_mset cid (mset (queued c) + mset qs)"
    using assms(2) by (rule image_mset_subseteq_mono)
  then have "live (c\<lparr>queued := ps\<rparr>) qs' \<subseteq># live c qs"
    by (simp add: live_def held_def)
  note inv_live [OF assms(1) this]
  moreover have "A - B \<subseteq> accounted (c\<lparr>queued := ps\<rparr>) \<union> queue_callers qs'"
  proof -
    have "A \<subseteq> accounted c \<union> queue_callers qs" using assms(1) by (simp add: client_ok_def)
    then show ?thesis using assms(4) unfolding accounted_def by auto
  qed
  ultimately show ?thesis using assms(1,3) by (simp add: client_ok_def)
qed

lemma inv_rejectQueued:
  assumes "client_ok E A n qs c"
  shows "client_ok E A n qs (rejectQueued e c)"
proof -
  have "queue_callers (queued c) \<subseteq> (\<Union>q \<in> set (queued c). callers (qc_waiters q))"
    by (auto simp: queue_callers_def split: if_splits)
  then have "client_ok E (A - (\<Union>q \<in> set (queued c). callers (qc_waiters q))) n qs (c\<lparr>queued := []\<rparr>)"
    using assms by (intro inv_queued_subset [OF assms]) (auto simp: queue_callers_def)
  then show ?thesis unfolding rejectQueued_def by (rule inv_fold_reject)
qed

lemma queue_callers_simps [simp]:
  "queue_callers [] = {}"
  "queue_callers (q # qs) = (if is_subscribe q then {} else callers (qc_waiters q)) \<union> queue_callers qs"
  "queue_callers (xs @ ys) = queue_callers xs \<union> queue_callers ys"
  by (auto simp: queue_callers_def)

lemma inv_failQueuedCommand:
  assumes "client_ok E A n qs c"
  shows "client_ok E A n qs (failQueuedCommand q e c)"
proof (cases "q \<in> set (queued c)")
  case True
  have "x = q \<or> x \<in> set (remove1 q (queued c))" if "x \<in> set (queued c)" for x
    using that by (cases "x = q") simp_all
  then have callers: "queue_callers (queued c) \<subseteq> callers (qc_waiters q) \<union> queue_callers (remove1 q (queued c))"
    unfolding queue_callers_def by (fastforce split: if_splits)
  have "client_ok E (A - callers (qc_waiters q)) n qs (c\<lparr>queued := remove1 q (queued c)\<rparr>)"
  proof (rule inv_queued_subset [OF assms])
    show "length (remove1 q (queued c)) \<le> maximumQueuedCommands (options E)"
      using inv_bounds(1) [OF assms] by (auto simp: length_remove1)
  qed (use callers in auto)
  then show ?thesis using True by (simp add: failQueuedCommand_def inv_reject)
qed (simp add: failQueuedCommand_def assms)

lemma inv_enqueue:
  assumes "client_ok E A n (q # qs) c" "length (queued c) < maximumQueuedCommands (options E)"
    "q' = q\<lparr>qc_listening := b\<rparr>"
  shows "client_ok E A n qs (c\<lparr>queued := queued c @ [q']\<rparr>)"
proof -
  have q: "cid q' = cid q" "is_subscribe q' = is_subscribe q" "qc_waiters q' = qc_waiters q"
    using assms(3) by (simp_all add: cid_def is_subscribe_def)
  have "live (c\<lparr>queued := queued c @ [q']\<rparr>) qs \<subseteq># live c (q # qs)" by (simp add: live_def held_def q)
  from inv_live [OF assms(1) this] show ?thesis
    using assms(1,2) by (auto simp: client_ok_def accounted_def q split: if_splits)
qed

lemma inv_dequeue:
  assumes "client_ok E A n qs c" "queued c = q # rest"
  shows "client_ok E A n (q # qs) (c\<lparr>queued := rest\<rparr>)"
proof -
  have "client_ok E (A - {}) n (q # qs) (c\<lparr>queued := rest\<rparr>)"
  proof (rule inv_queued_subset [OF assms(1)])
    show "length rest \<le> maximumQueuedCommands (options E)" using assms by (simp add: client_ok_def)
  qed (auto simp: assms(2))
  then show ?thesis by simp
qed

lemma inv_fresh:
  assumes "client_ok E A n (q # qs) c"
  shows "cid q \<notin> fst ` set (pending c)"
proof -
  have "count (live c (q # qs)) (cid q) \<le> 1" using assms by (simp add: client_ok_def)
  then have "cid q \<notin> set (sent_ids (log c))" by (auto simp: live_def simp flip: count_eq_zero_iff)
  then show ?thesis using assms by (auto simp: client_ok_def)
qed

lemma inv_send:
  assumes "client_ok E A n (q # qs) c" "length (pending c) < maximumPendingCommands (options E)"
    "serialized_length E (qc_envelope q) \<le> maximumMessageBytes (options E)" "pc_waiters p = qc_waiters q"
  shows "client_ok E A n qs (record_effect (Sent s (qc_envelope q))
     (c\<lparr>pending := map_set (cid q) p (pending c), sends := k\<rparr>))"
proof -
  have fresh: "cid q \<notin> fst ` set (pending c)" using assms(1) by (rule inv_fresh)
  then have set: "map_set (cid q) p (pending c) = pending c @ [(cid q, p)]" by (simp add: map_set_fresh)
  let ?c = "record_effect (Sent s (qc_envelope q)) (c\<lparr>pending := pending c @ [(cid q, p)], sends := k\<rparr>)"
  have ids: "sent_ids (log ?c) = sent_ids (log c) @ [cid q]" by (simp add: record_effect_def cid_def)
  have "live ?c qs \<subseteq># live c (q # qs)"
    unfolding live_def ids by (simp add: held_def record_effect_def)
  note live = inv_live [OF assms(1) this]
  have "A \<subseteq> accounted ?c \<union> queue_callers qs"
  proof -
    have "A \<subseteq> accounted c \<union> queue_callers (q # qs)" using assms(1) by (simp add: client_ok_def)
    also have "\<dots> \<subseteq> accounted ?c \<union> queue_callers qs"
      by (auto simp: accounted_def record_effect_def assms(4) split: if_splits)
    finally show ?thesis .
  qed
  moreover have "fst ` set (pending ?c) \<subseteq> set (sent_ids (log ?c))"
    using assms(1) unfolding ids by (auto simp: client_ok_def record_effect_def)
  ultimately show ?thesis unfolding set client_ok_def using live assms(1-3) fresh
    by (simp add: client_ok_def record_effect_def)
qed

section \<open>Values from the network\<close>

lemma get_prop_doubles:
  assumes "doubles h" "get_prop h v k = Num (Fin x)"
  shows "fl x = x"
proof -
  obtain kvs where kvs: "deref h v = Some (Obj kvs)" "map_get kvs k = Some (Num (Fin x))"
    using assms(2) by (auto simp: get_prop_def split: option.splits jsobj.splits)
  then have "Obj kvs \<in> set h" by (cases v) (auto simp: deref_def in_set_conv_nth split: if_splits)
  moreover have "Num (Fin x) \<in> set (elements (Obj kvs))" using map_of_SomeD [OF kvs(2)] by force
  ultimately show ?thesis using assms(1) unfolding doubles_def by blast
qed

lemma num_of_Fin: "num_of v = Fin x \<Longrightarrow> v = Num (Fin x)"
  by (cases v) simp_all

lemma validated_advice_ok:
  assumes "validateServerEnvelope parse h v = Inr w" "doubles h"
    "sv_type (server_envelope_of h w) = ''service.restart''"
  shows "pred_option advice_ok (sv_reconnect (server_envelope_of h w))"
proof (cases "sv_reconnect (server_envelope_of h w)")
  case (Some r)
  have jitter: "jitterRatio r = num_of (get_prop h (get_prop h w ''reconnect'') ''jitterRatio'')"
    using Some by (auto simp: server_envelope_of_def advice_of_def split: if_splits)
  have "fl j = j" if j: "jitterRatio r = Fin j" for j
    by (rule get_prop_doubles [OF assms(2) num_of_Fin], rule jitter [unfolded j, symmetric])
  then show ?thesis using validateServerEnvelope_advice [OF assms(1,3) Some] Some by (simp add: advice_ok_def)
qed simp

section \<open>Attempts and envelopes\<close>

text \<open>Storing an attempt, whose restoration takes over some of the commands in hand.\<close>

lemma inv_attempts:
  assumes "client_ok E A n (held_by (at_restoration t) @ qs) c" "a < nextId c" "g = (attempts c)(a \<mapsto> t)"
    "list_all is_subscribe (held_by (at_restoration t))"
  shows "client_ok E A n qs (c\<lparr>attempts := g\<rparr>)"
proof -
  let ?H = "mset (map cid (held_by (at_restoration t)))" and ?Q = "mset (map cid qs)"
  have upd: "held (c\<lparr>attempts := g\<rparr>) = (held c)(a := held_by (at_restoration t))"
    by (simp add: held_def assms(3) fun_eq_iff)
  have "(\<Sum>b<nextId c. mset (map cid (held (c\<lparr>attempts := g\<rparr>) b)))
      \<subseteq># (\<Sum>b<nextId c. mset (map cid (held c b))) + ?H"
    unfolding upd by (rule sum_fun_upd [of "\<lambda>qs. mset (map cid qs)"])
  then have "(\<Sum>b<nextId c. mset (map cid (held (c\<lparr>attempts := g\<rparr>) b))) + ?Q
      \<subseteq># (\<Sum>b<nextId c. mset (map cid (held c b))) + (?H + ?Q)"
    using subset_mset.add_right_mono by (simp add: add.assoc [symmetric])
  then have "live (c\<lparr>attempts := g\<rparr>) qs \<subseteq># live c (held_by (at_restoration t) @ qs)"
    by (simp add: live_def add.assoc)
  note live = inv_live [OF assms(1) this]
  have "queue_callers (held_by (at_restoration t)) = {}"
    using assms(4) by (auto simp: queue_callers_def list_all_iff)
  moreover have "\<forall>b. list_all is_subscribe (held (c\<lparr>attempts := g\<rparr>) b)"
    using assms(1,4) by (simp add: upd client_ok_def)
  ultimately show ?thesis using live assms by (auto simp: client_ok_def accounted_def)
qed

lemma inv_fresh_id:
  assumes "client_ok E A n qs c"
  shows "client_ok E A (Suc (nextId c)) qs (c\<lparr>nextId := Suc (nextId c)\<rparr>)"
proof -
  have "held c (nextId c) = []" using assms by (simp add: client_ok_def held_def)
  then have "live (c\<lparr>nextId := Suc (nextId c)\<rparr>) qs = live c qs" by (simp add: live_def held_def)
  then show ?thesis using assms by (simp add: client_ok_def accounted_def)
qed

lemma createEnvelope_Inr:
  "createEnvelope parse toISO now h type route payload k = Inr m \<Longrightarrow> me_correlationId m = k \<and> me_type m = type"
  by (auto simp: createEnvelope_def Let_def split: sum.splits)

lemma inv_new_command:
  assumes "client_ok E A n qs c" "cid q = randomUUID E (uuids c)"
  shows "client_ok E (A \<union> queue_callers [q]) n (q # qs) (c\<lparr>uuids := Suc (uuids c)\<rparr>)"
proof -
  let ?c = "c\<lparr>uuids := Suc (uuids c)\<rparr>"
  have ids: "set_mset (live c qs) \<subseteq> randomUUID E ` {..<uuids c}" and inj: "inj (randomUUID E)"
    using assms(1) by (simp_all add: client_ok_def env_ok_def)
  then have new: "cid q \<notin># live c qs" using assms(2) by (auto dest: injD)
  have live: "live ?c (q # qs) = add_mset (cid q) (live c qs)" by (simp add: live_def held_def)
  have "count (live ?c (q # qs)) x \<le> 1" for x
    using new assms(1) by (cases "x = cid q") (auto simp: live client_ok_def not_in_iff)
  moreover have "set_mset (live ?c (q # qs)) \<subseteq> randomUUID E ` {..<uuids ?c}"
    using ids by (auto simp: live assms(2) less_Suc_eq)
  ultimately show ?thesis using assms(1) by (auto simp: client_ok_def accounted_def)
qed

lemma inv_make_envelope:
  assumes "client_ok E A n qs c" "make_envelope E h type route payload c = (c1, r)"
  shows "client_ok E A n qs c1" "nextId c1 = nextId c"
    "r = Inr m \<Longrightarrow> qc_envelope q = m \<Longrightarrow> client_ok E (A \<union> queue_callers [q]) n (q # qs) c1"
proof -
  have c1: "c1 = c\<lparr>uuids := Suc (uuids c)\<rparr>" using assms(2) by (simp add: make_envelope_def)
  then show "nextId c1 = nextId c" by simp
  have cmd: "client_ok E (A \<union> queue_callers [q]) n (q # qs) c1" if "cid q = randomUUID E (uuids c)" for q
    unfolding c1 using assms(1) that by (rule inv_new_command)
  then show "r = Inr m \<Longrightarrow> qc_envelope q = m \<Longrightarrow> client_ok E (A \<union> queue_callers [q]) n (q # qs) c1"
    using assms(2) createEnvelope_Inr unfolding make_envelope_def cid_def by (metis Pair_inject)
  let ?q = "\<lparr>qc_id = 0, qc_envelope = \<lparr>me_type = [], me_correlationId = randomUUID E (uuids c), me_timestamp = [],
    me_route = [], me_payload = None\<rparr>, qc_waiters = [], qc_signal = None, qc_listening = False\<rparr>"
  have "client_ok E (A \<union> queue_callers [?q]) n (?q # qs) c1" by (rule cmd) (simp add: cid_def)
  from inv_mono [OF inv_drop [OF this], of A n] show "client_ok E A n qs c1" by (simp add: callers_def)
qed

section \<open>Commands in hand\<close>

lemma inv_commands_cong:
  assumes "image_mset cid (mset qs') = image_mset cid (mset qs)" "queue_callers qs' = queue_callers qs"
  shows "client_ok E A n qs' c = client_ok E A n qs c"
proof -
  have "live c qs' = live c qs" using assms(1) by (simp add: live_def)
  then show ?thesis using assms(2) by (simp add: client_ok_def)
qed

lemma inv_perm: "mset qs' = mset qs \<Longrightarrow> client_ok E A n qs' c = client_ok E A n qs c"
  by (rule inv_commands_cong) (simp_all add: queue_callers_def, metis set_mset_mset)

lemma inv_drop_subscribe: "client_ok E A n (q # qs) c \<Longrightarrow> is_subscribe q \<Longrightarrow> client_ok E A n qs c"
proof -
  assume ok: "client_ok E A n (q # qs) c" and q: "is_subscribe q"
  have "live c qs \<subseteq># live c (q # qs)" by (simp add: live_def)
  from inv_live [OF ok this] show ?thesis using ok q by (simp add: client_ok_def)
qed

lemma inv_drop_subscribes: "client_ok E A n (hs @ qs) c \<Longrightarrow> list_all is_subscribe hs \<Longrightarrow> client_ok E A n qs c"
  by (induction hs) (auto dest: inv_drop_subscribe)

lemma inv_suspend:
  assumes "client_ok E A n (held_by r @ qs) c" "list_all is_subscribe (held_by r)"
  shows "client_ok E A n qs (suspend_restoration a r c)"
proof (cases "attempts c a")
  case None
  then have "suspend_restoration a r c = c" by (simp add: suspend_restoration_def update_attempt_def fun_upd_idem)
  then show ?thesis using inv_drop_subscribes [OF assms] by simp
next
  case (Some t)
  have "a < nextId c" using Some assms(1) by (metis client_ok_def not_le option.distinct(1))
  then have "client_ok E A n qs (c\<lparr>attempts := (attempts c)(a \<mapsto> t\<lparr>at_restoration := r\<rparr>)\<rparr>)"
    using assms by (intro inv_attempts) (simp_all, simp_all)
  then show ?thesis using Some by (simp add: suspend_restoration_def update_attempt_def)
qed

lemma sum_move:
  "a < (k::nat) \<Longrightarrow> (\<Sum>b<k. f ((g(a := x)) b)) + f (g a) = (\<Sum>b<k. f (g b)) + (f x :: string multiset)"
proof (induction k)
  case (Suc k)
  show ?case
  proof (cases "k = a")
    case True
    have "(\<Sum>b<k. f ((g(a := x)) b)) = (\<Sum>b<k. f (g b))" using True by (intro sum.cong) auto
    then show ?thesis using True by simp
  next
    case False
    then show ?thesis using Suc by (simp add: ac_simps)
  qed
qed simp

lemma inv_detach:
  assumes "client_ok E A n qs c" "at_restoration (attempt_of c a) = Some rs"
  shows "client_ok E A n (held_by (Some rs) @ qs) (suspend_restoration a None c)"
    "list_all is_subscribe (held_by (Some rs))"
proof -
  obtain t where t: "attempts c a = Some t" "at_restoration t = Some rs"
    using assms(2) by (auto simp: attempt_of_def split: option.splits)
  then have a: "a < nextId c" using assms(1) by (metis client_ok_def not_le option.distinct(1))
  let ?c = "suspend_restoration a None c"
  have held: "held c a = held_by (Some rs)" "held ?c = (held c)(a := [])"
    using t by (auto simp: held_def suspend_restoration_def update_attempt_def)
  show sub: "list_all is_subscribe (held_by (Some rs))" using assms(1) held(1) by (metis client_ok_def)
  have "live ?c (held_by (Some rs) @ qs) = live c qs"
    using sum_move [OF a, of "\<lambda>qs. mset (map cid qs)" "held c" "[]"]
    unfolding live_def held(1) [symmetric] held(2)
    by (simp add: suspend_restoration_def update_attempt_def)
  moreover have "queue_callers (held_by (Some rs)) = {}" using sub by (auto simp: queue_callers_def list_all_iff)
  ultimately show "client_ok E A n (held_by (Some rs) @ qs) ?c"
    using assms(1) t a by (simp add: client_ok_def held(2) accounted_def)
      (simp add: suspend_restoration_def update_attempt_def)
qed

section \<open>Commands taken by a restoration\<close>

lemma left_commands_simps [simp]:
  "left_commands taken [] = []"
  "left_commands taken (r # rs) = (case map_get taken r of None \<Rightarrow> [] | Some q \<Rightarrow> [q]) @ left_commands taken rs"
  by (auto simp: left_commands_def map_filter_def split: option.splits)

lemma map_set_values: "mset (map snd (map_set k v m)) \<subseteq># add_mset v (mset (map snd m))"
  by (induction m) (auto intro: subset_mset.order_trans)

lemma taken_subset:
  "mset (map snd (fold (\<lambda>q. map_set (f q) q) xs m)) \<subseteq># mset (map snd m) + mset xs"
proof (induction xs arbitrary: m)
  case (Cons x xs)
  have "mset (map snd (fold (\<lambda>q. map_set (f q) q) (x # xs) m)) \<subseteq># mset (map snd (map_set (f x) x m)) + mset xs"
    using Cons [of "map_set (f x) x m"] by simp
  also have "\<dots> \<subseteq># add_mset x (mset (map snd m)) + mset xs" by (intro subset_mset.add_right_mono map_set_values)
  finally show ?case by simp
qed simp

lemma taken_distinct:
  "distinct (map fst m) \<Longrightarrow> distinct (map fst (fold (\<lambda>q. map_set (f q) q) xs m))"
  by (induction xs arbitrary: m) (simp_all add: AList.distinct_update)

lemma left_commands_subset:
  assumes "distinct routes" "distinct (map fst m)"
  shows "mset (left_commands m routes) \<subseteq># mset (map snd m)"
proof -
  have "left_commands m routes = map (\<lambda>r. the (map_of m r)) (filter (\<lambda>r. r \<in> fst ` set m) routes)"
    by (induction routes) (auto simp: dom_map_of_conv_image_fst [symmetric] split: option.splits)
  moreover have "mset (filter (\<lambda>r. r \<in> fst ` set m) routes) \<subseteq># mset (map fst m)"
    using assms by (auto simp: mset_set_set [symmetric] simp del: mset_map intro!: subset_imp_msubset_mset_set)
  moreover have "map (\<lambda>r. the (map_of m r)) (map fst m) = map snd m"
    using assms(2) by (auto simp: map_of_is_SomeI)
  ultimately show ?thesis by (metis image_mset_subseteq_mono mset_map)
qed

section \<open>The flush loop\<close>

lemma flush_invariant:
  assumes "flush E c = Some c'" "P c"
    "\<And>c q rest. P c \<Longrightarrow> queued c = q # rest \<Longrightarrow> P (transmit E q True (c\<lparr>queued := rest\<rparr>))"
  shows "P c' \<and> queued c' = []"
proof -
  have "flush F c = Some c' \<Longrightarrow> F = E \<longrightarrow> P c \<longrightarrow> P c' \<and> queued c' = []" for F c c'
  proof (erule flush.raw_induct [rotated 1])
    fix flush F c c'
    assume IH: "\<And>F c c'. flush F c = Some c' \<Longrightarrow> F = E \<longrightarrow> P c \<longrightarrow> P c' \<and> queued c' = []"
      and body: "(case queued c of [] \<Rightarrow> Some c
        | command # rest \<Rightarrow> flush F (transmit F command True (c\<lparr>queued := rest\<rparr>))) = Some c'"
    show "F = E \<longrightarrow> P c \<longrightarrow> P c' \<and> queued c' = []"
      using body IH assms(3) by (cases "queued c") auto
  qed
  then show ?thesis using assms(1,2) by blast
qed

section \<open>Operations that deliver events\<close>

text \<open>The contract of the application's listeners: what they do to the client keeps its invariant.\<close>

locale listening =
  fixes E :: env
  assumes consumer: "client_ok E A n qs c \<Longrightarrow> client_ok E A n qs (consumer E ev c)"
begin

lemma inv_emit: "client_ok E A n qs c \<Longrightarrow> client_ok E A n qs (emit E ev c)"
  unfolding emit_def by (intro consumer inv_effect) simp_all

lemma inv_setState: "client_ok E A n qs c \<Longrightarrow> client_ok E A n qs (setState E st c)"
  by (simp add: setState_def inv_emit)

lemma inv_scheduled_delay:
  assumes "client_ok E A n qs c"
  shows "timer_bounded (reconnect_delay
     (case serverReconnectAdvice c of Some r \<Rightarrow> initialDelayMilliseconds r | None \<Rightarrow> reconnectInitialDelay (options E))
     (case serverReconnectAdvice c of Some r \<Rightarrow> maximumDelayMilliseconds r | None \<Rightarrow> reconnectMaximumDelay (options E))
     (case serverReconnectAdvice c of Some r \<Rightarrow> jitterRatio r | None \<Rightarrow> reconnectJitterRatio (options E)) k (random E i))"
proof -
  have bounded: "timer_bounded (reconnect_delay (initialDelayMilliseconds r) (maximumDelayMilliseconds r)
      (jitterRatio r) k (random E i))" if adv: "advice_ok r" for r
  proof -
    obtain x where x: "random E i = Fin x" "0 \<le> x" "x \<le> 1"
      using inv_bounds(3) [OF assms] unfolding env_ok_def by blast
    obtain m j where r: "maximumDelayMilliseconds r = Fin (of_nat m)" "jitterRatio r = Fin j" "m \<le> 2147483647"
      using adv by (auto simp: advice_ok_def timer_safe_advice_def)
    then have "timer_safe_advice (initialDelayMilliseconds r) (Fin (of_nat m)) (Fin j)" "fl j = j"
      using adv by (auto simp: advice_ok_def)
    from reconnect_delay_bounded [OF this x(2,3)] obtain d where
      "reconnect_delay (initialDelayMilliseconds r) (Fin (of_nat m)) (Fin j) k (Fin x) = Fin (of_nat d)" "d \<le> 2 * m" .
    then show ?thesis using r x by (auto simp: timer_bounded_def)
  qed
  show ?thesis
  proof (cases "serverReconnectAdvice c")
    case None
    then show ?thesis using bounded [of "options_advice (options E)"] inv_bounds(3) [OF assms]
      by (simp add: env_ok_def options_advice_def)
  next
    case (Some r)
    then show ?thesis using bounded [of r] inv_bounds(5) [OF assms] by simp
  qed
qed

lemma inv_scheduleReconnect:
  assumes "client_ok E A n qs c"
  shows "client_ok E A n qs (scheduleReconnect E c)"
proof -
  have "client_ok E A n qs (setState E Reconnecting c)" using assms by (rule inv_setState)
  from inv_scheduled_delay [OF this] this have
    "client_ok E A n qs (scheduleReconnect E c)" if "\<not> (reconnectTimer c \<noteq> None \<or> intentionalClose c \<or> socket_open c)"
      "\<not> reconnectAttempt c \<ge> reconnectMaximumAttempts (options E)"
    using that by (simp add: scheduleReconnect_def Let_def inv_effect)
  moreover have "client_ok E A n qs (emit E ev (rejectQueued e (setState E Closed c)))" for ev e
    by (intro inv_emit inv_rejectQueued inv_setState assms)
  ultimately show ?thesis using assms by (auto simp: scheduleReconnect_def Let_def)
qed

lemma inv_handleClose:
  assumes "client_ok E A n qs c"
  shows "client_ok E A n qs (handleClose E code reason g allow c)"
proof -
  have "client_ok E A n qs (emit E ev (setState E Closed (rejectPending e ((stopHeartbeat c)\<lparr>socket := None\<rparr>))))" for ev e
    using assms by (intro inv_emit inv_setState inv_rejectPending) (simp add: stopHeartbeat_def)
  then show ?thesis using assms by (simp add: handleClose_def Let_def inv_scheduleReconnect)
qed

lemma inv_settle_attempt: "client_ok E A n qs c \<Longrightarrow> client_ok E A n qs (settle_attempt a r c)"
  unfolding settle_attempt_def by (rule inv_attempt_frame) simp_all

lemma inv_on_close:
  assumes "client_ok E A n qs c"
  shows "client_ok E A n qs (on_close E a code reason c)"
  unfolding on_close_def Let_def using assms
  by (auto intro!: inv_handleClose inv_settle_attempt inv_attempt_frame)

lemma inv_close_socket: "client_ok E A n qs c \<Longrightarrow> client_ok E A n qs (close_socket E a code reason c)"
  unfolding close_socket_def Let_def
  by (auto intro!: inv_on_close inv_effect inv_attempt_frame)

lemma inv_on_error: "client_ok E A n qs c \<Longrightarrow> client_ok E A n qs (on_error a c)"
  unfolding on_error_def by (auto intro!: inv_settle_attempt inv_attempt_frame)

lemma inv_abort_attempt: "client_ok E A n qs c \<Longrightarrow> client_ok E A n qs (abort_attempt E a reason c)"
  unfolding abort_attempt_def Let_def
  by (auto intro!: inv_settle_attempt inv_close_socket inv_attempt_frame)

lemma inv_close_current: "client_ok E A n qs c \<Longrightarrow> client_ok E A n qs (close_current E code reason c)"
  by (auto simp: close_current_def intro: inv_close_socket split: option.splits)

lemma inv_transmit:
  assumes "client_ok E A n (q # qs) c"
  shows "client_ok E A n qs (transmit E q b c)"
proof -
  have rej: "client_ok E A n qs (reject (qc_waiters q) e c)" for e
    using assms by (rule inv_reject_drop)
  have queue: "client_ok E A n qs (c\<lparr>queued := queued c @ [q\<lparr>qc_listening := False\<rparr>]\<rparr>)"
    if "length (queued c) < maximumQueuedCommands (options E)"
    using inv_enqueue [OF assms that refl] .
  let ?p = "\<lparr>pc_waiters = qc_waiters q, pc_signal = qc_signal q\<rparr>"
  have sent: "client_ok E A n qs (record_effect (Sent s (qc_envelope q))
      (c\<lparr>pending := map_set (cid q) ?p (pending c), sends := Suc (sends c)\<rparr>))"
    if "length (pending c) < maximumPendingCommands (options E)"
      "serialized_length E (qc_envelope q) \<le> maximumMessageBytes (options E)" for s
    using inv_send [OF assms that] by simp
  have "map_delete (cid q) (map_set (cid q) ?p (pending c)) = pending c"
    using inv_fresh [OF assms] by (simp add: map_delete_set_fresh)
  then have failed: "client_ok E A n qs (reject (qc_waiters q) e (c\<lparr>sends := Suc (sends c),
      pending := map_delete (cid q) (map_set (cid q) ?p (pending c))\<rparr>))" for e
    using inv_reject_drop [of E A n q qs "c\<lparr>sends := Suc (sends c)\<rparr>" e] assms by simp
  show ?thesis
    using rej queue sent failed
    by (auto simp: transmit_def Let_def cid_def not_le not_less split: option.splits intro: inv_close_socket)
qed

lemma inv_flush:
  assumes "flush E c = Some c'" "client_ok E A n qs c"
  shows "client_ok E A n qs c'"
  using flush_invariant [where P = "client_ok E A n qs", OF assms] inv_transmit inv_dequeue by blast

lemma inv_abort_pending: "client_ok E A n qs c \<Longrightarrow> client_ok E A n qs (abort_pending k reason c)"
  by (auto simp: abort_pending_def reject_def intro: inv_pending_settle split: option.splits)

lemma inv_command_timeout: "client_ok E A n qs c \<Longrightarrow> client_ok E A n qs (command_timeout k c)"
  by (auto simp: command_timeout_def reject_def intro: inv_pending_settle split: option.splits)

lemma inv_fold:
  assumes "\<And>x c. x \<in> set xs \<Longrightarrow> client_ok E A n qs c \<Longrightarrow> client_ok E A n qs (f x c)" "client_ok E A n qs c"
  shows "client_ok E A n qs (fold f xs c)"
  using assms by (induction xs arbitrary: c) simp_all

lemma inv_abort_signal:
  assumes "client_ok E A n qs c"
  shows "client_ok E A n qs (abort_signal E s reason c)"
  unfolding abort_signal_def Let_def using assms
  by (auto intro!: inv_fold inv_failQueuedCommand inv_abort_pending inv_abort_attempt)

lemma inv_handleEnvelope:
  assumes "client_ok E A n qs c" "sv_type m = ''service.restart'' \<Longrightarrow> pred_option advice_ok (sv_reconnect m)"
  shows "client_ok E A n qs (handleEnvelope E m c)"
proof -
  have deliver: "client_ok E A n qs (deliver m rs c)" if "client_ok E A n qs c" for rs c
    using that by (induction rs arbitrary: c) (simp_all add: inv_effect)
  have "client_ok E A n qs (deliver m rs (emit E (MessageEvent m) c))" for rs
    by (intro deliver inv_emit assms(1))
  moreover have "client_ok E A n qs (settle (pc_waiters p) r (c\<lparr>pending := map_delete k (pending c)\<rparr>))"
    if "map_get (pending c) k = Some p" for p k r
    using assms(1) that by (rule inv_pending_settle)
  ultimately show ?thesis using assms
    by (auto simp: handleEnvelope_def Let_def reject_def intro: inv_advice inv_emit split: option.splits)
qed

lemma inv_handleMessage:
  assumes "client_ok E A n qs c"
  shows "client_ok E A n qs (handleMessage E d c)"
proof -
  have "client_ok E A n qs (handleEnvelope E (server_envelope_of h w) c)"
    if "parseJSON E s = Some (h, v)" "validateServerEnvelope (dateParse E) h v = Inr w" for s h v w
  proof -
    have "doubles h" using inv_bounds(3) [OF assms] that(1) by (auto simp: env_ok_def)
    then show ?thesis using validated_advice_ok that(2) by (intro inv_handleEnvelope assms) blast
  qed
  then show ?thesis using assms
    by (auto simp: handleMessage_def intro: inv_emit split: message_data.splits option.splits sum.splits)
qed

lemma inv_openSocket: "client_ok E A n qs c \<Longrightarrow> client_ok E A n qs (openSocket E a c)"
  by (auto simp: openSocket_def Let_def intro!: inv_settle_attempt inv_setState inv_attempt_frame split: option.splits)

lemma inv_url_ready: "client_ok E A n qs c \<Longrightarrow> client_ok E A n qs (url_ready a r c)"
  by (auto simp: url_ready_def Let_def intro!: inv_settle_attempt inv_attempt_frame split: option.splits url_result.splits)

lemma inv_abort_current: "client_ok E A n qs c \<Longrightarrow> client_ok E A n qs (abort_current E c)"
  by (auto simp: abort_current_def intro: inv_abort_attempt split: option.splits)

lemma new_attempt_restoration: "at_restoration (new_attempt b signal r) = None"
  by (simp add: new_attempt_def)

lemma inv_start_attempt:
  assumes "client_ok E A n qs c"
  shows "client_ok E A n qs (start_attempt E b signal c)"
proof -
  let ?c1 = "abort_current E (c\<lparr>nextId := Suc (nextId c)\<rparr>)"
  have c1: "client_ok E A (Suc (nextId c)) qs ?c1" using assms by (intro inv_abort_current inv_fresh_id)
  let ?c2 = "?c1\<lparr>connectAbortController := Some (nextId c)\<rparr>"
  have "client_ok E A (Suc (nextId c)) qs (?c2\<lparr>attempts := (attempts ?c1)(nextId c \<mapsto>
      new_attempt b signal (signal_aborted ?c1 signal))\<rparr>)"
    using c1 inv_bounds(4) [OF c1] by (intro inv_attempts) (simp_all add: new_attempt_restoration)+
  then have "client_ok E A n qs (?c2\<lparr>attempts := (attempts ?c1)(nextId c \<mapsto>
      new_attempt b signal (signal_aborted ?c1 signal))\<rparr>)"
    by (rule inv_mono) (use inv_bounds(4) [OF assms] in simp_all)
  then show ?thesis unfolding start_attempt_def Let_def by (intro inv_openSocket)
qed

lemma inv_connect: "client_ok E A n qs c \<Longrightarrow> client_ok E A n qs (fst (connect E signal c))"
  by (auto simp: connect_def Let_def clearReconnectTimer_def intro!: inv_start_attempt split: option.splits)

lemma inv_watch_attempt: "client_ok E A n qs c \<Longrightarrow> client_ok E A n qs (watch_attempt a c)"
  by (auto simp: watch_attempt_def intro!: inv_attempt_frame split: option.splits)

lemma inv_sendCommand:
  assumes "client_ok E A n (q # qs) c"
    "q = \<lparr>qc_id = nextId c, qc_envelope = m, qc_waiters = [Caller (nextId c)], qc_signal = signal,
       qc_listening = signal \<noteq> None\<rparr>"
  shows "client_ok E A n qs (sendCommand E m signal c)"
proof -
  let ?c = "c\<lparr>nextId := Suc (nextId c)\<rparr>"
  have c: "client_ok E A n (q # qs) ?c"
    using inv_mono [OF inv_fresh_id [OF assms(1)], of A n] inv_bounds(4) [OF assms(1)] by simp
  have w: "qc_waiters q = [Caller (nextId c)]" using assms(2) by simp
  have rej: "client_ok E A n qs (reject [Caller (nextId c)] e ?c)" for e
    using inv_reject_drop [OF c] unfolding w .
  have queue: "client_ok E A n qs (?c\<lparr>queued := queued ?c @ [q]\<rparr>)"
    if "length (queued c) < maximumQueuedCommands (options E)"
    using inv_enqueue [OF c, of q "qc_listening q"] that by simp
  have joined: "client_ok E A n qs (watch_attempt k d)"
    if "length (queued c) < maximumQueuedCommands (options E)"
      "connect E None (?c\<lparr>queued := queued ?c @ [q]\<rparr>) = (d, k)" for d k
    using inv_watch_attempt [OF inv_connect [OF queue [OF that(1)], of None]] that(2) by simp
  have "sendCommand E m signal c = (case signal_aborted ?c signal of
        Some reason \<Rightarrow> reject [Caller (nextId c)] (abortError reason) ?c
      | None \<Rightarrow>
        if socket_open ?c \<and> stateValue ?c = Open then transmit E q True ?c
        else if length (queued ?c) \<ge> maximumQueuedCommands (options E) then
          reject [Caller (nextId c)] (Realtime RealtimeQueueError) ?c
        else
          let c1 = ?c\<lparr>queued := queued ?c @ [q]\<rparr>
          in if stateValue c1 = Idle \<or> stateValue c1 = Closed then
               let (c2, joined) = connect E None c1 in watch_attempt joined c2
             else c1)"
    unfolding sendCommand_def Let_def assms(2) ..
  then show ?thesis
    using rej queue joined inv_transmit [OF c]
    by (simp add: Let_def not_le split: option.split prod.split)
qed

lemma inv_send_envelope:
  assumes "client_ok E A n qs c"
  shows "client_ok E A n qs (fst (send_envelope E signal (make_envelope E h type route payload c)))"
proof (cases "make_envelope E h type route payload c")
  case (Pair c1 r)
  note made = inv_make_envelope [OF assms Pair]
  show ?thesis
  proof (cases r)
    case (Inl e)
    then show ?thesis using Pair made(1) by (simp add: send_envelope_def)
  next
    case (Inr m)
    let ?q = "\<lparr>qc_id = nextId c1, qc_envelope = m, qc_waiters = [Caller (nextId c1)], qc_signal = signal,
       qc_listening = signal \<noteq> None\<rparr>"
    have "client_ok E (A \<union> queue_callers [?q]) n (?q # qs) c1" using made(3) [OF Inr] by simp
    from inv_mono [OF this, of A n] have "client_ok E A n (?q # qs) c1" by simp
    from inv_sendCommand [OF this refl] show ?thesis using Pair Inr by (simp add: send_envelope_def)
  qed
qed

text \<open>The promise of an accepted command is accounted for; the queue alone does not vouch for a subscribe command.\<close>

lemma inv_send_envelope_caller:
  assumes "client_ok E A n qs c" "send_envelope E signal (make_envelope E h type route payload c) = (c1, Inr p)"
    "type \<noteq> ''subscribe''"
  shows "client_ok E (insert p A) n qs c1"
proof (cases "make_envelope E h type route payload c")
  case (Pair d r)
  then obtain m where m: "r = Inr m" "p = nextId d" "c1 = sendCommand E m signal d"
    using assms(2) by (auto simp: send_envelope_def split: sum.splits)
  let ?q = "\<lparr>qc_id = nextId d, qc_envelope = m, qc_waiters = [Caller (nextId d)], qc_signal = signal,
     qc_listening = signal \<noteq> None\<rparr>"
  have "me_type m = type" using Pair m(1) by (auto simp: make_envelope_def dest: createEnvelope_Inr)
  then have "queue_callers [?q] = {p}" using assms(3) m(2) by (simp add: is_subscribe_def callers_def)
  then have "client_ok E (insert p A) n (?q # qs) d"
    using inv_make_envelope(3) [OF assms(1) Pair m(1), of ?q] by simp
  from inv_sendCommand [OF this refl] show ?thesis using m(3) by simp
qed

lemma send_envelope_split:
  "client_ok E A n qs c \<Longrightarrow> send_envelope E signal (make_envelope E h type route payload c) = (c1, r)
    \<Longrightarrow> client_ok E A n qs c1"
  using inv_send_envelope by (metis fst_conv)

lemma inv_heartbeat_tick: "client_ok E A n qs c \<Longrightarrow> client_ok E A n qs (heartbeat_tick E c)"
  by (auto simp: heartbeat_tick_def ping_def split: prod.split sum.split dest: send_envelope_split)

lemma inv_heartbeat_failed: "client_ok E A n qs c \<Longrightarrow> client_ok E A n qs (heartbeat_failed E p c)"
  by (auto simp: heartbeat_failed_def intro!: inv_close_current inv_emit split: option.split outcome.split)

lemma inv_release_attempt: "client_ok E A n qs c \<Longrightarrow> client_ok E A n qs (release_attempt a c)"
  by (simp add: release_attempt_def Let_def)

lemma inv_attempt_settled:
  assumes "client_ok E A n qs c"
  shows "client_ok E A n qs (attempt_settled E a c)"
proof -
  have pow: "client_ok E A n qs ((emit E ev ^^ k) c)" if "client_ok E A n qs c" for ev k c
    using that by (induction k) (simp_all add: inv_emit)
  have "client_ok E A n qs (update_attempt a (\<lambda>t. t\<lparr>at_handled := True\<rparr>) c)"
    using assms by (rule inv_attempt_frame) simp
  then show ?thesis using assms
    by (auto simp: attempt_settled_def Let_def connect_failed_def reconnect_failed_def
        intro!: pow inv_release_attempt inv_scheduleReconnect inv_emit inv_rejectQueued inv_setState split: option.split)
qed

lemma inv_restore_failed: "client_ok E A n qs c \<Longrightarrow> client_ok E A n qs (restore_failed E a e c)"
  by (auto simp: restore_failed_def Let_def
      intro!: inv_close_socket inv_settle_attempt inv_rejectQueued inv_attempt_frame)

lemma inv_established:
  assumes "client_ok E A n qs c"
  shows "client_ok E A n qs (established E a c)"
proof -
  have "client_ok E A n qs (setState E Open (update_attempt a (\<lambda>t. t\<lparr>at_established := True\<rparr>)
      (c\<lparr>reconnectAttempt := 0, serverReconnectAdvice := None\<rparr>)))"
    using assms by (intro inv_setState inv_attempt_frame inv_no_advice) simp_all
  then show ?thesis using assms
    by (auto simp: established_def Let_def startHeartbeat_def
        intro!: inv_restore_failed inv_settle_attempt inv_attempt_frame)
qed

lemma inv_restore_finish:
  assumes "client_ok E A n qs c" "restore_finish E a failures c = Some c'"
  shows "client_ok E A n qs c'"
  using assms
  by (auto simp: restore_finish_def inv_restore_failed inv_established split: if_splits sum.splits dest: inv_flush)

lemma inv_transmitEnvelope:
  assumes "client_ok E A n (q # qs) c" "qc_envelope q = m" "callers (qc_waiters q) = {}"
  shows "client_ok E A n qs (transmitEnvelope E a m c)"
proof -
  let ?q = "\<lparr>qc_id = nextId c, qc_envelope = m, qc_waiters = [Restoration a], qc_signal = None, qc_listening = False\<rparr>"
  have "client_ok E A n (?q # qs) c = client_ok E A n (q # qs) c"
    using assms(2,3) by (intro inv_commands_cong) (auto simp: cid_def callers_def is_subscribe_def)
  then have "client_ok E A (Suc (nextId c)) (?q # qs) (c\<lparr>nextId := Suc (nextId c)\<rparr>)"
    using assms(1) inv_fresh_id by blast
  then have "client_ok E A n (?q # qs) (c\<lparr>nextId := Suc (nextId c)\<rparr>)"
    by (rule inv_mono) (use inv_bounds(4) [OF assms(1)] in simp_all)
  then show ?thesis unfolding transmitEnvelope_def by (rule inv_transmit)
qed

lemma inv_transmitQueuedCommand:
  assumes "client_ok E A n (q # qs) c"
  shows "client_ok E A n qs (transmitQueuedCommand E a q c)"
proof -
  have "client_ok E A n (q\<lparr>qc_waiters := qc_waiters q @ [Restoration a]\<rparr> # qs) c = client_ok E A n (q # qs) c"
    by (intro inv_commands_cong) (auto simp: cid_def callers_def is_subscribe_def)
  then show ?thesis unfolding transmitQueuedCommand_def using assms by (intro inv_transmit) simp
qed

text \<open>Making an envelope for attempt \<open>a\<close>, suspending its loop, and transmitting.\<close>

lemma inv_suspend_transmit:
  assumes "client_ok E A n (held_by r @ qs) c" "list_all is_subscribe (held_by r)"
    "make_envelope E [] type route Undefined c = (c1, Inr m)"
  shows "client_ok E A n qs (transmitEnvelope E a m (suspend_restoration a r c1))"
proof -
  let ?q = "\<lparr>qc_id = 0, qc_envelope = m, qc_waiters = [], qc_signal = None, qc_listening = False\<rparr>"
  have "client_ok E (A \<union> queue_callers [?q]) n (?q # held_by r @ qs) c1"
    using inv_make_envelope(3) [OF assms(1,3) refl] by simp
  from inv_mono [OF this, of A n] have "client_ok E A n (?q # held_by r @ qs) c1" by simp
  then have "client_ok E A n (held_by r @ ?q # qs) c1" by (subst inv_perm [where qs = "?q # held_by r @ qs"]) simp_all
  from inv_suspend [OF this assms(2)] show ?thesis
    by (rule inv_transmitEnvelope) (simp_all add: callers_def)
qed

lemma inv_restore_route:
  assumes "client_ok E A n (left_commands taken (route # routes) @ qs) c"
    "list_all is_subscribe (left_commands taken (route # routes))"
    "restore_route E a taken failures route routes c = (c1, r)"
  shows "r = None \<Longrightarrow> client_ok E A n qs c1" "r = Some e \<Longrightarrow> client_ok E A n (left_commands taken routes @ qs) c1"
proof -
  let ?rs = "Some \<lparr>rs_route = route, rs_unsubscribing = False, rs_routes = routes,
            rs_queued = taken, rs_failures = failures, rs_outcome = None\<rparr>"
  have left: "list_all is_subscribe (held_by ?rs)" using assms(2) by simp
  have held: "held_by ?rs = left_commands taken routes" by simp
  have "(r = None \<longrightarrow> client_ok E A n qs c1) \<and> (\<forall>e. r = Some e \<longrightarrow> client_ok E A n (left_commands taken routes @ qs) c1)"
  proof (cases "map_get taken route")
    case None
    then have ok: "client_ok E A n (held_by ?rs @ qs) c" using assms(1) by simp
    show ?thesis
    proof (cases "make_envelope E [] ''subscribe'' route Undefined c")
      case (Pair d s)
      have "client_ok E A n (held_by ?rs @ qs) d" using inv_make_envelope(1) [OF ok Pair] .
      moreover have "client_ok E A n qs (transmitEnvelope E a m (suspend_restoration a ?rs d))" if "s = Inr m" for m
        using inv_suspend_transmit [OF ok left] Pair that by blast
      ultimately show ?thesis using assms(3) ok None Pair
        by (auto simp: restore_route_def Let_def split: sum.splits)
    qed
  next
    case (Some q)
    then have q: "client_ok E A n (q # left_commands taken routes @ qs) c" "is_subscribe q"
      using assms(1,2) by simp_all
    then have "client_ok E A n (held_by ?rs @ q # qs) c"
      by (subst inv_perm [where qs = "q # left_commands taken routes @ qs"]) simp_all
    from inv_suspend [OF this left] have "client_ok E A n qs (transmitQueuedCommand E a q (suspend_restoration a ?rs c))"
      by (rule inv_transmitQueuedCommand)
    then show ?thesis using assms(3) Some inv_drop_subscribe [OF q]
      by (auto simp: restore_route_def Let_def split: sum.splits)
  qed
  then show "r = None \<Longrightarrow> client_ok E A n qs c1" "r = Some e \<Longrightarrow> client_ok E A n (left_commands taken routes @ qs) c1"
    by auto
qed

lemma inv_restore_next:
  assumes "restore_next E a taken failures routes c = Some c'" "client_ok E A n (left_commands taken routes @ qs) c"
    "list_all is_subscribe (left_commands taken routes)"
  shows "client_ok E A n qs c'"
  using assms
proof (induction routes arbitrary: failures c)
  case Nil
  have "client_ok E A n qs (suspend_restoration a None c)" using Nil.prems(2) by (intro inv_suspend) simp_all
  then show ?case using inv_restore_finish Nil.prems(1) by simp
next
  case (Cons route routes)
  show ?case
  proof (cases "restore_route E a taken failures route routes c")
    case (Pair c1 r)
    note route = inv_restore_route [OF Cons.prems(2,3) Pair]
    show ?thesis
    proof (cases r)
      case None
      then show ?thesis using Cons.prems(1) Pair route(1) by simp
    next
      case (Some e)
      then show ?thesis using Cons.IH Cons.prems(1,3) Pair inv_emit [OF route(2)] by simp
    qed
  qed
qed

lemma inv_restoreSubscriptionsAndFlush:
  assumes "client_ok E A n qs c" "restoreSubscriptionsAndFlush E a c = Some c'"
  shows "client_ok E A n qs c'"
proof -
  define taken where "taken = fold (\<lambda>q. map_set (me_route (qc_envelope q)) q) (rev (filter is_subscribe (queued c))) []"
  define rest where "rest = filter (\<lambda>q. \<not> is_subscribe q) (queued c)"
  define routes where "routes = new_Set (map_keys (subscriptions c) @ map_keys taken)"
  have run: "restore_next E a taken [] routes (c\<lparr>queued := rest\<rparr>) = Some c'"
    using assms(2) by (simp add: restoreSubscriptionsAndFlush_def take_subscriptions_def taken_def rest_def routes_def)
  have "mset (left_commands taken routes) \<subseteq># mset (map snd taken)"
    unfolding routes_def taken_def by (intro left_commands_subset distinct_set_of_list taken_distinct) simp_all
  also have "\<dots> \<subseteq># mset (filter is_subscribe (queued c))"
    using taken_subset [of _ "rev (filter is_subscribe (queued c))" "[]"] by (simp add: taken_def)
  finally have left: "mset (left_commands taken routes) \<subseteq># mset (filter is_subscribe (queued c))" .
  then have sub: "list_all is_subscribe (left_commands taken routes)"
    by (auto simp: list_all_iff dest!: mset_subset_eqD)
  have "mset rest + mset (left_commands taken routes) \<subseteq># mset rest + mset (filter is_subscribe (queued c))"
    using left by (rule subset_mset.add_left_mono)
  also have "\<dots> = mset (queued c)" unfolding rest_def by (simp add: add.commute flip: multiset_partition)
  finally have "mset rest + mset (left_commands taken routes) \<subseteq># mset (queued c)" .
  moreover have "queue_callers (queued c) = queue_callers rest" by (auto simp: queue_callers_def rest_def)
  moreover have "length rest \<le> maximumQueuedCommands (options E)"
    using inv_bounds(1) [OF assms(1)] length_filter_le order_trans unfolding rest_def by blast
  ultimately have "client_ok E (A - {}) n (left_commands taken routes @ qs) (c\<lparr>queued := rest\<rparr>)"
    using assms(1) by (intro inv_queued_subset) (auto simp: add.assoc [symmetric])
  then show ?thesis using inv_restore_next [OF run] sub by simp
qed

lemma inv_restore_continue:
  assumes "restore_continue E a rs (c, r) = Some c'" "client_ok E A n (held_by (Some rs) @ qs) c"
    "list_all is_subscribe (held_by (Some rs))"
  shows "client_ok E A n qs c'"
proof (cases r)
  case None
  then show ?thesis using assms inv_restore_next by (simp add: restore_continue_def)
next
  case (Some e)
  then show ?thesis using assms inv_restore_next inv_emit [OF assms(2)] by (simp add: restore_continue_def)
qed

lemma inv_restore_unsubscribe:
  assumes "client_ok E A n (held_by (Some rs) @ qs) c" "list_all is_subscribe (held_by (Some rs))"
    "restore_unsubscribe E a rs c = (c1, r)"
  shows "r = None \<Longrightarrow> client_ok E A n qs c1" "r = Some e \<Longrightarrow> client_ok E A n (held_by (Some rs) @ qs) c1"
proof -
  let ?rs = "Some (rs\<lparr>rs_unsubscribing := True, rs_outcome := None\<rparr>)"
  have held: "held_by ?rs = held_by (Some rs)" by simp
  have "(r = None \<longrightarrow> client_ok E A n qs c1) \<and> (\<forall>e. r = Some e \<longrightarrow> client_ok E A n (held_by (Some rs) @ qs) c1)"
  proof (cases "make_envelope E [] ''unsubscribe'' (rs_route rs) Undefined c")
    case (Pair d s)
    have "client_ok E A n (held_by (Some rs) @ qs) d" using inv_make_envelope(1) [OF assms(1) Pair] .
    moreover have "client_ok E A n qs (transmitEnvelope E a m (suspend_restoration a ?rs d))" if "s = Inr m" for m
      using inv_suspend_transmit [of A n ?rs qs c] assms(1,2) Pair that unfolding held by blast
    ultimately show ?thesis using assms(1,3) Pair
      by (auto simp: restore_unsubscribe_def split: sum.splits)
  qed
  then show "r = None \<Longrightarrow> client_ok E A n qs c1" "r = Some e \<Longrightarrow> client_ok E A n (held_by (Some rs) @ qs) c1"
    by auto
qed

lemma inv_restore_resume:
  assumes "client_ok E A n qs c" "restore_resume E a c = Some c'"
  shows "client_ok E A n qs c'"
proof (cases "at_restoration (attempt_of c a)")
  case None
  then show ?thesis using assms by (simp add: restore_resume_def)
next
  case (Some rs)
  let ?c = "suspend_restoration a None c"
  note detached = inv_detach [OF assms(1) Some]
  note continue = inv_restore_continue [OF _ detached]
  have fail: "client_ok E A n qs c'" if "restore_unsubscribe E a rs ?c = (d, Some e)"
      "restore_continue E a rs (d, Some e) = Some c'" for d e
    using inv_restore_continue [OF that(2) _ detached(2)] inv_restore_unsubscribe(2) [OF detached that(1)] by blast
  show ?thesis
  proof (cases "restore_unsubscribe E a rs ?c")
    case (Pair d r)
    show ?thesis using assms Some Pair continue fail inv_restore_unsubscribe(1) [OF detached Pair]
      by (auto simp: restore_resume_def Let_def split: option.splits outcome.splits if_splits)
  qed
qed

lemma inv_on_open:
  assumes "client_ok E A n qs c" "on_open E a c = Some c'"
  shows "client_ok E A n qs c'"
proof -
  have "client_ok E A n qs (update_attempt a (\<lambda>t. t\<lparr>at_readyState := OPEN\<rparr>) c)"
    using assms(1) by (rule inv_attempt_frame) simp
  moreover from this have "client_ok E A n qs (update_attempt a (\<lambda>t. t\<lparr>at_listening := False\<rparr>)
      (update_attempt a (\<lambda>t. t\<lparr>at_readyState := OPEN\<rparr>) c))"
    by (rule inv_attempt_frame) simp
  ultimately show ?thesis using assms(2) inv_close_socket inv_restoreSubscriptionsAndFlush
    by (auto simp: on_open_def Let_def split: if_splits)
qed

lemma inv_disconnect:
  assumes "client_ok E A n qs c" "disconnect E code reason c = Inr c'"
  shows "client_ok E A n qs c'"
proof -
  have "client_ok E A n qs (rejectQueued client_disconnect (rejectPending client_disconnect (setState E Closing
      (stopHeartbeat (clearReconnectTimer ((abort_current E (c\<lparr>intentionalClose := True, generation := Suc (generation c)\<rparr>))
        \<lparr>connectAbortController := None, connectPromise := None\<rparr>))))))"
    using assms(1) by (intro inv_rejectQueued inv_rejectPending inv_setState)
      (simp add: stopHeartbeat_def clearReconnectTimer_def inv_abort_current)
  then show ?thesis using assms(2)
    by (auto simp: disconnect_def Let_def intro!: inv_setState inv_close_socket split: if_splits option.splits)
qed

lemma inv_settle_promise: "client_ok E A n qs c \<Longrightarrow> client_ok E A n qs (settle_promise p r c)"
  unfolding settle_promise_def by (intro inv_settle) (erule inv_mono, simp_all)

lemma inv_next: "client_ok E A n qs c \<Longrightarrow> client_ok E A n qs (c\<lparr>nextId := Suc (nextId c)\<rparr>)"
  using inv_mono [OF inv_fresh_id, of E A n qs c A n] inv_bounds(4) by fastforce

lemma inv_establishSubscription:
  assumes "client_ok E A n qs c"
  shows "client_ok E A n qs (fst (establishSubscription E route c))"
proof (cases "send_envelope E None (make_envelope E [] ''subscribe'' route Undefined (c\<lparr>nextId := Suc (nextId c)\<rparr>))")
  case (Pair c1 r)
  have "client_ok E A n qs c1" using send_envelope_split [OF inv_next [OF assms] Pair] .
  then show ?thesis using assms Pair
    by (auto simp: establishSubscription_def Let_def inv_settle_promise split: option.splits sum.splits)
qed

lemma inv_establish_done: "client_ok E A n qs c \<Longrightarrow> client_ok E A n qs (establish_done t r c)"
  by (simp add: establish_done_def Let_def inv_settle_promise)

lemma inv_establish_resume:
  assumes "client_ok E A n qs c"
  shows "client_ok E A n qs (establish_resume E i c)"
  using assms by (auto simp: establish_resume_def intro: inv_establish_done send_envelope_split
      split: option.splits outcome.splits prod.splits sum.splits)

lemma inv_subscribe:
  assumes "client_ok E A n qs c"
  shows "client_ok E A n qs (fst (subscribe E route signal c))"
proof -
  have next_id: "client_ok E A n qs (d\<lparr>nextId := k\<rparr>)" if "client_ok E A n qs d" "k = Suc (nextId d)" for d k
    using inv_next [OF that(1)] that(2) by simp
  have next_ids: "client_ok E A n qs (d\<lparr>nextId := k\<rparr>)" if "client_ok E A n qs d" "k = Suc (Suc (nextId d))" for d k
    using next_id [OF next_id [OF that(1) refl], of k] that(2) by simp
  have establish: "client_ok E A n qs d'" if "client_ok E A n qs d" "establishSubscription E route d = (d', p)" for d d' p
    using inv_establishSubscription [OF that(1), of route] that(2) by simp
  show ?thesis
  proof (cases "map_get (subscriptions c) route")
    case (Some s)
    then show ?thesis using assms by (simp add: subscribe_def Let_def next_id)
  next
    case None
    then show ?thesis using assms
      by (auto simp: subscribe_def Let_def next_ids split: prod.splits elim!: establish [rotated])
  qed
qed

lemma inv_subscribe_resume: "client_ok E A n qs c \<Longrightarrow> client_ok E A n qs (subscribe_resume i c)"
  by (simp add: subscribe_resume_def subscribe_done_def subscribe_failed_def Let_def split: option.split outcome.split)

lemma inv_subscribe_aborted: "client_ok E A n qs c \<Longrightarrow> client_ok E A n qs (subscribe_aborted i c)"
  by (simp add: subscribe_aborted_def subscribe_failed_def Let_def split: option.split)

lemma inv_unsubscribe_failed: "client_ok E A n qs c \<Longrightarrow> client_ok E A n qs (unsubscribe_failed E i u s c)"
  by (simp add: unsubscribe_failed_def inv_close_current)

lemma inv_unsubscribe:
  assumes "client_ok E A n qs c"
  shows "client_ok E A n qs (unsubscribe E i c)"
proof -
  have sent: "client_ok E A n qs d'" if "client_ok E A n qs d"
      "send_envelope E None (make_envelope E [] type route Undefined d) = (d', r)" for d d' r type route
    using that by (rule send_envelope_split)
  show ?thesis using assms
    by (auto simp: unsubscribe_def unsubscribe_done_def Let_def intro!: inv_unsubscribe_failed
        split: option.splits prod.splits sum.splits elim!: sent [rotated])
qed

lemma inv_unsubscribe_resume: "client_ok E A n qs c \<Longrightarrow> client_ok E A n qs (unsubscribe_resume E i c)"
  by (simp add: unsubscribe_resume_def unsubscribe_done_def inv_unsubscribe_failed split: option.split outcome.split prod.split)

lemma inv_api: "client_ok E A n qs c \<Longrightarrow> client_ok E A n qs (api E call c)"
  by (cases call) (auto simp: publish_def ping_def on_def off_def inv_connect inv_send_envelope inv_subscribe
      inv_unsubscribe inv_abort_signal split: sum.split intro: inv_disconnect)

lemma inv_step:
  assumes "client_ok E A n qs c" "step E l c = Some c'"
  shows "client_ok E A n qs c'"
proof (cases l)
  case (SocketOpened a)
  then show ?thesis using assms inv_on_open by simp
next
  case (RestoreResumed a)
  then show ?thesis using assms inv_restore_resume by simp
qed (use assms in \<open>auto intro: inv_api inv_url_ready inv_handleMessage inv_on_error inv_on_close inv_attempt_settled
  inv_command_timeout inv_heartbeat_tick inv_heartbeat_failed inv_subscribe_resume inv_subscribe_aborted
  inv_establish_resume inv_unsubscribe_resume\<close>, simp add: reconnect_timer_fired_def inv_start_attempt)

end

section \<open>Listeners that call back\<close>

lemma client_ok_consumer:
  assumes "reentrant E" "reentrant (E\<lparr>consumer := f\<rparr>)"
  shows "client_ok (E\<lparr>consumer := f\<rparr>) A n qs c = client_ok E A n qs c"
proof -
  have "effect_ok (E\<lparr>consumer := f\<rparr>) e = effect_ok E e" for e
    by (cases e) (simp_all add: serialized_length_def)
  then show ?thesis using assms by (simp add: client_ok_def env_ok_def list_all_iff)
qed

lemma reentrant_listening: "reentrant E \<Longrightarrow> listening E"
proof (induction rule: reentrant.induct)
  case (quiet E)
  then show ?case by unfold_locales simp
next
  case (calls E f)
  have api: "client_ok E A n qs (fold (api E) cs c)" if "client_ok E A n qs c" for A n qs cs c
    using that by (induction cs arbitrary: c) (simp_all add: listening.inv_api [OF calls.IH])
  note same = client_ok_consumer [OF calls.hyps(1) reentrant.calls [OF calls.hyps(1), of f]]
  show ?case
  proof
    fix A n qs c ev
    assume "client_ok (E\<lparr>consumer := f\<rparr>) A n qs c"
    moreover obtain cs where "f ev c = fold (api E) cs c" using calls.hyps(2) by blast
    ultimately show "client_ok (E\<lparr>consumer := f\<rparr>) A n qs (consumer (E\<lparr>consumer := f\<rparr>) ev c)"
      using api calls.hyps(2) by (simp add: same)
  qed
qed

text \<open>The listeners of every environment keep the contract.\<close>

interpretation client: listening E for E
proof (cases "reentrant E")
  case True
  then show "listening E" by (rule reentrant_listening)
next
  case False
  then show "listening E" by unfold_locales (simp add: client_ok_def env_ok_def)
qed

section \<open>Reachable states\<close>

lemma client_ok_new: "env_ok E \<Longrightarrow> client_ok E {} 0 [] new_client"
  by (simp add: inv_defs new_client_def)

lemma reachable_ok: "reachable E c \<Longrightarrow> env_ok E \<Longrightarrow> client_ok E {} 0 [] c"
  by (induction rule: reachable.induct) (auto intro: client_ok_new client.inv_step)

lemma run_ok: "run E ls c = Some c' \<Longrightarrow> client_ok E A n qs c \<Longrightarrow> client_ok E A n qs c'"
  by (induction E ls c rule: run.induct) (auto split: if_splits bind_splits intro: client.inv_step)

lemma client_ok_accounted: "client_ok E A n [] c \<Longrightarrow> client_ok E (A \<union> accounted c) n [] c"
  by (auto simp: client_ok_def)

end
