(* ===== verification/Client_Theorems.thy ===== *)
theory Client_Theorems
  imports Client_Invariant
begin

text \<open>
  Theorems on the client over all reachable states, and an environment with the default options
  for concrete executions.
\<close>

section \<open>A concrete environment\<close>

text \<open>The defaults of the constructor; the jitter ratio is the double nearest to \<open>0.2\<close>.\<close>

definition default_jitter :: rat where
  "default_jitter = 3602879701896397 / 18014398509481984"

definition default_options :: client_options where
  "default_options = \<lparr>ticketAuthentication = False, maximumQueuedCommands = 128, maximumPendingCommands = 128,
     commandTimeoutMilliseconds = 10000, heartbeatIntervalMilliseconds = 15000, maximumMessageBytes = 16384,
     reconnectEnabled = True, reconnectInitialDelay = Fin 500, reconnectMaximumDelay = Fin 30000,
     reconnectJitterRatio = Fin default_jitter, reconnectMaximumAttempts = 12\<rparr>"

definition plain_env :: env where
  "plain_env = \<lparr>options = default_options, sendResult = (\<lambda>_. None), random = (\<lambda>_. Fin (1 / 2)),
     randomUUID = (\<lambda>n. replicate (Suc n) CHR ''u''), clock = (\<lambda>_. 0), dateParse = (\<lambda>_. Some 0),
     toISOString = (\<lambda>_. ''t''), numberToString = (\<lambda>_. ''0''), parseJSON = (\<lambda>_. None),
     closesSynchronously = (\<lambda>_. False), consumer = (\<lambda>_ c. c)\<rparr>"

lemma default_jitter: "0 \<le> default_jitter" "default_jitter \<le> 1" "fl default_jitter = default_jitter"
proof -
  have "fl (of_int 3602879701896397 * 2 powi (- 54)) = of_int 3602879701896397 * 2 powi (- 54)"
    by (rule fl_exact) simp_all
  then show "fl default_jitter = default_jitter" by (simp add: default_jitter_def power_int_def power_divide)
qed (simp_all add: default_jitter_def)

lemma default_advice_ok: "advice_ok (options_advice default_options)"
  using default_jitter
  by (auto simp: advice_ok_def options_advice_def default_options_def timer_safe_advice_def
      intro!: exI [of _ 500] exI [of _ 30000])

lemma plain_env_ok: "env_ok plain_env"
proof -
  have "reentrant plain_env" by (rule reentrant.quiet) (simp add: plain_env_def fun_eq_iff)
  moreover have "inj (randomUUID plain_env)" by (rule injI) (simp add: plain_env_def)
  moreover have "random plain_env i = Fin (1 / 2)" "parseJSON plain_env s = None" "options plain_env = default_options" for i s
    by (simp_all add: plain_env_def)
  ultimately show ?thesis using default_advice_ok by (auto simp: env_ok_def intro!: exI [of _ "1 / 2"])
qed

text \<open>The definitions that evaluate a concrete execution.\<close>

lemmas client_eval =
  set_add_def set_delete_def js_space_def trimStart_def trim_def startsWith_def endsWith_def
  utf8_units_def utf8_length_def int_str_def deref_def get_prop_def has_prop_def hex_digit_def
  quote_char_def quote_json_def unseen_def child_def RealtimeError_def fromEnvelope_def
  RealtimeConnectionError_def connection_failed_def RealtimeQueueError_def instanceof_Error_def
  clientTypes_def serverTypes_def maximumTimerDelayMilliseconds_def isRecord_def hasEnvelopeStrings_def
  nullish_def payload_ok_def validateClientEnvelope_def validAdvice_def validateServerEnvelope_def
  advice_of_def error_of_def server_envelope_of_def envelope_object_def createEnvelope_def
  message_json_def record_effect_def update_attempt_def attempt_of_def new_attempt_def socket_open_def
  settle_def settle_attempt_def superseded_def abort_exception_def on_def off_def emit_def setState_def
  abortError_def startHeartbeat_def stopHeartbeat_def clearReconnectTimer_def reject_def
  rejectPending_def rejectQueued_def failQueuedCommand_def scheduleReconnect_def handleClose_def
  on_close_def close_socket_def on_error_def abort_attempt_def serialized_length_def signal_aborted_def
  transmit_def route_registrations_def handleEnvelope_def handleMessage_def command_timeout_def
  abort_pending_def abort_signal_def openSocket_def url_ready_def abort_current_def start_attempt_def
  connect_def reconnect_timer_fired_def release_attempt_def connect_failed_def reconnect_failed_def
  attempt_settled_def make_envelope_def watch_attempt_def sendCommand_def send_envelope_def publish_def
  ping_def heartbeat_tick_def close_current_def heartbeat_failed_def assertOpenGeneration_def
  is_subscribe_def take_subscriptions_def restore_failed_def established_def restore_finish_def
  suspend_restoration_def transmitEnvelope_def transmitQueuedCommand_def restore_route_def
  restoreSubscriptionsAndFlush_def restore_unsubscribe_def restore_continue_def restore_resume_def
  on_open_def client_disconnect_def disconnect_def settle_promise_def establishSubscription_def
  establish_done_def establish_resume_def subscribe_def subscribe_failed_def subscribe_done_def
  subscribe_resume_def subscribe_aborted_def unsubscribe_failed_def unsubscribe_done_def unsubscribe_def
  unsubscribe_resume_def desiredSubscriptions_def has_socket_def flush.simps

text \<open>A publish on a new client, up to the open connection.\<close>

definition first_publish :: "label list" where
  "first_publish = [Call (Publish [] ''room'' (Str ''hello'') None), UrlReady 1 SocketCreated, SocketOpened 1, AttemptSettled 1]"

lemma run_reachable_new: "run E ls new_client = Some c \<Longrightarrow> reachable E c"
  using run_reachable [OF reachable.start] .

definition published :: client where
  "published = the (run plain_env first_publish new_client)"

lemma published_run: "run plain_env first_publish new_client = Some published"
proof -
  have "run plain_env first_publish new_client \<noteq> None"
    by (simp add: client_eval first_publish_def plain_env_def default_options_def new_client_def)
  then show ?thesis by (simp add: published_def)
qed

section \<open>Invariants of every reachable state\<close>

text \<open>
  C4. In every reachable state the queue and the pending commands stay within the configured
  limits, whatever the application, the server, the network and re-entrant listeners do.
\<close>

theorem buffers_bounded:
  assumes "env_ok E" "reachable E c"
  shows "length (queued c) \<le> maximumQueuedCommands (options E)
    \<and> length (pending c) \<le> maximumPendingCommands (options E)"
  using inv_bounds(1,2) [OF reachable_ok [OF assms(2,1)]] by simp

theorem buffers_bounded_witness:
  "length (queued published) \<le> 128 \<and> length (pending published) \<le> 128"
  using buffers_bounded [OF plain_env_ok run_reachable_new [OF published_run]]
  by (simp add: plain_env_def default_options_def)

text \<open>
  C2. No command is transmitted twice: the correlation identifiers on the wire are distinct over
  the whole life of a client, across reconnects, and the pending commands are among those sent.
\<close>

theorem sent_at_most_once:
  assumes "env_ok E" "reachable E c"
  shows "distinct (sent_ids (log c)) \<and> distinct (map fst (pending c))
    \<and> fst ` set (pending c) \<subseteq> set (sent_ids (log c))"
proof -
  have ok: "client_ok E {} 0 [] c" using assms by (simp add: reachable_ok)
  have "count (mset (sent_ids (log c))) x \<le> count (live c []) x" for x by (simp add: live_def)
  then have "count (mset (sent_ids (log c))) x \<le> 1" for x
    using ok by (meson client_ok_def order_trans)
  then have "distinct (sent_ids (log c))"
    by (metis (no_types, lifting) count_mset_0_iff distinct_count_atmost_1 le_antisym less_one linorder_not_less)
  then show ?thesis using ok by (simp add: client_ok_def)
qed

lemmas published_eval = published_def client_eval first_publish_def plain_env_def default_options_def new_client_def

theorem sent_at_most_once_witness:
  "distinct (sent_ids (log published)) \<and> sent_ids (log published) = [''u''] \<and> map fst (pending published) = [''u'']"
  using sent_at_most_once [OF plain_env_ok run_reachable_new [OF published_run]]
  by (simp add: published_eval)

text \<open>
  C1. A command accepted by \<open>publish\<close> is never lost: in every later state its promise is
  settled, or the command waits for its acknowledgement, or it waits in the queue.
\<close>

theorem publish_not_lost:
  assumes "env_ok E" "reachable E c" "publish E h route payload signal c = (c1, Inr p)" "run E ls c1 = Some c'"
  shows "promises c' p \<noteq> None \<or> (\<exists>e \<in> set (pending c'). Caller p \<in> set (pc_waiters (snd e)))
    \<or> (\<exists>q \<in> set (queued c'). Caller p \<in> set (qc_waiters q))"
proof -
  have "client_ok E {} 0 [] c" using assms(1,2) by (simp add: reachable_ok)
  then have "client_ok E {p} 0 [] c1"
    using client.inv_send_envelope_caller [of E "{}" 0 "[]" c] assms(3) by (simp add: publish_def)
  then have "client_ok E {p} 0 [] c'" using run_ok [OF assms(4)] by simp
  then have "p \<in> accounted c'" by (simp add: client_ok_def)
  then show ?thesis by (auto simp: accounted_def queue_callers_def callers_def split: if_splits)
qed

theorem publish_not_lost_witness:
  "\<exists>e \<in> set (pending published). Caller 0 \<in> set (pc_waiters (snd e))"
proof -
  let ?call = "publish plain_env [] ''room'' (Str ''hello'') None new_client"
  have call: "?call = (fst ?call, Inr 0)"
    by (simp add: client_eval plain_env_def default_options_def new_client_def)
  have run: "run plain_env (tl first_publish) (fst ?call) = Some published"
    using published_run by (simp add: first_publish_def)
  have "promises published 0 = None" "queued published = []" by (simp_all add: published_eval)
  then show ?thesis using publish_not_lost [OF plain_env_ok reachable.start call run] by simp
qed

text \<open>Every message put on the wire is within the configured size.\<close>

theorem sent_within_limit:
  assumes "env_ok E" "reachable E c" "Sent s m \<in> set (log c)"
  shows "serialized_length E m \<le> maximumMessageBytes (options E)"
proof -
  have "list_all (effect_ok E) (log c)" using reachable_ok [OF assms(2,1)] by (simp add: client_ok_def)
  then show ?thesis using assms(3) by (auto simp: list_all_iff)
qed

definition hello :: message_envelope where
  "hello = \<lparr>me_type = ''publish'', me_correlationId = ''u'', me_timestamp = ''t'', me_route = ''room'',
     me_payload = Some (JStr ''hello'')\<rparr>"

theorem sent_within_limit_witness: "Sent 1 hello \<in> set (log published) \<and> serialized_length plain_env hello \<le> 16384"
proof -
  have sent: "Sent 1 hello \<in> set (log published)" by (simp add: published_eval hello_def)
  from sent_within_limit [OF plain_env_ok run_reachable_new [OF published_run] this]
  have "serialized_length plain_env hello \<le> 16384" by (simp add: plain_env_def default_options_def)
  with sent show ?thesis ..
qed

text \<open>
  C14. Every reconnect timer ever set has a delay that is a natural number of at most twice the
  largest timer delay: validated options and validated server advice keep the computation,
  roundings included, away from \<open>NaN\<close>, infinities and negative values.
\<close>

theorem reconnect_timers_bounded:
  assumes "env_ok E" "reachable E c" "TimerSet d \<in> set (log c)"
  shows "\<exists>n. d = Fin (of_nat n) \<and> n \<le> 2 * 2147483647"
proof -
  have "list_all (effect_ok E) (log c)" using reachable_ok [OF assms(2,1)] by (simp add: client_ok_def)
  then show ?thesis using assms(3) by (auto simp: list_all_iff timer_bounded_def)
qed

text \<open>The connection of \<open>published\<close> breaks, and a reconnect is scheduled.\<close>

definition broken :: client where
  "broken = on_close plain_env 1 1006 [] published"

lemma broken_reachable: "reachable plain_env broken"
proof (rule reachable.step [OF run_reachable_new [OF published_run]])
  show "enabled published (SocketClosed 1 1006 [])" by (simp add: published_eval)
qed (simp add: broken_def)

theorem reconnect_timers_bounded_witness:
  "TimerSet (the (reconnectTimer broken)) \<in> set (log broken)
    \<and> (\<exists>n. the (reconnectTimer broken) = Fin (of_nat n) \<and> n \<le> 2 * 2147483647)"
proof -
  have "TimerSet (the (reconnectTimer broken)) \<in> set (log broken)"
    by (simp add: broken_def published_eval Let_def)
  with reconnect_timers_bounded [OF plain_env_ok broken_reachable this] show ?thesis by simp
qed

end
