(* ===== verification/Client_Behaviour.thy ===== *)
theory Client_Behaviour
  imports Client_Theorems
begin

text \<open>
  What single operations of the client do: replies and events of the server, closes of stale
  sockets, the flush loop, \<open>disconnect\<close>, and the cases in which the code departs from what
  it means to do.
\<close>

section \<open>Concrete messages\<close>

definition wire_heap :: "string \<Rightarrow> heap" where
  "wire_heap type = [Obj [(''version'', Str ''1.0''), (''type'', Str type), (''correlationId'', Str ''u''),
     (''timestamp'', Str ''t''), (''route'', Str ''room'')]]"

text \<open>An environment in which the text of a message is its type.\<close>

definition wire_env :: env where
  "wire_env = plain_env\<lparr>parseJSON := (\<lambda>s. Some (wire_heap s, Ref 0))\<rparr>"

lemma wire_message:
  "validateServerEnvelope (dateParse wire_env) (wire_heap ''ack'') (Ref 0) = Inr (Ref 0)"
  "validateServerEnvelope (dateParse wire_env) (wire_heap ''event'') (Ref 0) = Inr (Ref 0)"
  "parseJSON wire_env s = Some (wire_heap s, Ref 0)" "consumer wire_env = (\<lambda>ev c. c)"
  by (simp_all add: wire_env_def wire_heap_def plain_env_def client_eval)

lemma wire_envelope:
  "sv_type (server_envelope_of (wire_heap type) (Ref 0)) = type"
  "sv_correlationId (server_envelope_of (wire_heap type) (Ref 0)) = ''u''"
  "sv_route (server_envelope_of (wire_heap type) (Ref 0)) = ''room''"
  by (simp_all add: wire_heap_def client_eval)

section \<open>Messages of the server\<close>

lemma promises_settle_waiter:
  "promises (settle_waiter w r c) =
     (\<lambda>p. if w = Caller p \<and> promises c p = None then Some r else promises c p)"
  by (cases w) (auto simp: record_effect_def update_attempt_def fun_eq_iff)

lemma promises_settle:
  "promises (settle ws r c) = (\<lambda>p. if Caller p \<in> set ws \<and> promises c p = None then Some r else promises c p)"
  unfolding settle_def
proof (induction ws arbitrary: c)
  case (Cons w ws)
  show ?case by (auto simp: Cons promises_settle_waiter fun_eq_iff)
qed simp

lemma settle_waiter_frame2 [simp]:
  "stateValue (settle_waiter w r c) = stateValue c" "subscriptions (settle_waiter w r c) = subscriptions c"
  by (cases w; simp add: record_effect_def update_attempt_def)+

lemma settle_frame2 [simp]:
  "stateValue (settle ws r c) = stateValue c" "subscriptions (settle ws r c) = subscriptions c"
  unfolding settle_def by (induction ws arbitrary: c) simp_all

lemma emit_quiet: "consumer E = (\<lambda>ev c. c) \<Longrightarrow> emit E ev c = record_effect (Emitted ev (listeners c (kind_of ev))) c"
  by (simp add: emit_def)

lemma handleMessage_valid:
  assumes "parseJSON E s = Some (h, v)" "validateServerEnvelope (dateParse E) h v = Inr w"
  shows "handleMessage E (Text s) c = handleEnvelope E (server_envelope_of h w) c"
  using assms by (simp add: handleMessage_def)

text \<open>
  C15. A reply that carries the identifier of a pending command settles exactly that command: its
  promise is resolved with the reply, or rejected with the server's error, the command leaves the
  pending commands, and no other promise, pending or queued command changes.
\<close>

theorem reply_settles_command:
  assumes "consumer E = (\<lambda>ev c. c)" "parseJSON E s = Some (h, v)"
    "validateServerEnvelope (dateParse E) h v = Inr w" "m = server_envelope_of h w"
    "sv_type m \<notin> {''event'', ''service.restart''}" "map_get (pending c) (sv_correlationId m) = Some p"
    "c' = handleMessage E (Text s) c"
  shows "promises c' = (\<lambda>i. if Caller i \<in> set (pc_waiters p) \<and> promises c i = None
      then Some (if sv_type m = ''error'' then Rejected (Realtime (fromEnvelope (sv_error m) (sv_correlationId m)))
        else Resolved m) else promises c i)
    \<and> map_get (pending c') = (map_get (pending c))(sv_correlationId m := None)
    \<and> queued c' = queued c \<and> stateValue c' = stateValue c \<and> subscriptions c' = subscriptions c"
proof -
  have c': "c' = handleEnvelope E m c" using assms(2-4,7) handleMessage_valid by simp
  have type: "sv_type m \<noteq> ''event''" "sv_type m \<noteq> ''service.restart''" using assms(5) by simp_all
  show ?thesis
  proof (cases "sv_type m = ''error''")
    case True
    then show ?thesis unfolding c' using assms(1,6)
      by (simp add: handleEnvelope_def emit_quiet record_effect_def reject_def Let_def promises_settle map_delete_get fun_eq_iff)
  next
    case False
    then show ?thesis unfolding c' using type assms(6)
      by (simp add: handleEnvelope_def promises_settle map_delete_get fun_eq_iff)
  qed
qed

theorem reply_settles_command_witness:
  "promises (handleMessage wire_env (Text ''ack'') published) 0
     = Some (Resolved (server_envelope_of (wire_heap ''ack'') (Ref 0)))
   \<and> map_get (pending (handleMessage wire_env (Text ''ack'') published)) ''u'' = None"
proof -
  have p: "map_get (pending published) ''u'' = Some \<lparr>pc_waiters = [Caller 0], pc_signal = None\<rparr>" "promises published 0 = None"
    by (simp_all add: published_eval)
  have "map_get (pending published) (sv_correlationId (server_envelope_of (wire_heap ''ack'') (Ref 0)))
      = Some \<lparr>pc_waiters = [Caller 0], pc_signal = None\<rparr>"
    using p(1) by (simp only: wire_envelope)
  from reply_settles_command [OF wire_message(4) wire_message(3) wire_message(1) refl _ this refl] show ?thesis
    using p(2) by (simp add: wire_envelope)
qed




section \<open>Stale sockets\<close>

lemma update_attempt_eq: "\<exists>t. update_attempt a f c = c\<lparr>attempts := (attempts c)(a := t)\<rparr>"
  unfolding update_attempt_def by blast

lemma update_attempt_twice:
  "\<exists>t. c' = c\<lparr>attempts := (attempts c)(a := t)\<rparr> \<Longrightarrow> \<exists>t. update_attempt a f c' = c\<lparr>attempts := (attempts c)(a := t)\<rparr>"
  by (auto simp: update_attempt_def)

lemma at_generation_update:
  "(\<And>t. at_generation (f t) = at_generation t)
    \<Longrightarrow> at_generation (attempt_of (update_attempt a f c) a) = at_generation (attempt_of c a)"
  by (simp add: update_attempt_def attempt_of_def split: option.split)

lemma generation_update [simp]: "generation (update_attempt a f c) = generation c"
  by (simp add: update_attempt_def)

text \<open>
  The close of a socket that belongs to an earlier connection changes nothing but the record
  of that connection: state, socket, commands, subscriptions and timers stay as they are.
\<close>

theorem stale_close_ignored:
  assumes "at_generation (attempt_of c a) \<noteq> generation c"
  shows "\<exists>t. on_close E a code reason c = c\<lparr>attempts := (attempts c)(a := t)\<rparr>"
proof -
  have "handleClose E code reason (at_generation (attempt_of c' a)) b c' = c'"
    if "at_generation (attempt_of c' a) = at_generation (attempt_of c a)" "generation c' = generation c" for c' b
    using assms that by (simp add: handleClose_def)
  then show ?thesis
    by (simp add: on_close_def Let_def settle_attempt_def at_generation_update
        update_attempt_eq update_attempt_twice)
qed

theorem stale_close_ignored_witness:
  "\<exists>t. on_close plain_env 1 1006 [] (published\<lparr>generation := 2\<rparr>)
     = published\<lparr>generation := 2, attempts := (attempts published)(1 := t)\<rparr>"
proof -
  have "at_generation (attempt_of (published\<lparr>generation := 2\<rparr>) 1) \<noteq> generation (published\<lparr>generation := 2\<rparr>)"
    by (simp add: published_eval)
  from stale_close_ignored [OF this] show ?thesis by simp
qed

section \<open>The flush loop\<close>

text \<open>The first connection opens with two commands waiting.\<close>

definition two_queued :: client where
  "two_queued = update_attempt 1 (\<lambda>t. t\<lparr>at_readyState := OPEN\<rparr>) (the (run plain_env
     [Call (Publish [] ''room'' (Str ''hello'') None), Call (Publish [] ''room'' (Str ''world'') None),
      UrlReady 1 SocketCreated] new_client))"

lemmas two_queued_eval = two_queued_def client_eval plain_env_def default_options_def new_client_def

lemma two_queued:
  "socket_open two_queued" "pending two_queued = []" "map (me_payload \<circ> qc_envelope) (queued two_queued) = [Some (JStr ''hello''), Some (JStr ''world'')]"
  "\<forall>q \<in> set (queued two_queued). signal_aborted two_queued (qc_signal q) = None
       \<and> serialized_length plain_env (qc_envelope q) \<le> 16384"
  by (simp_all add: two_queued_eval)

lemma socket_open_settle_waiter: "socket_open (settle_waiter w r c) = socket_open c"
  by (cases w) (simp_all add: socket_open_def record_effect_def update_attempt_def attempt_of_def split: option.split)

lemma socket_open_reject [simp]: "socket_open (reject ws e c) = socket_open c"
  unfolding reject_def settle_def by (induction ws arbitrary: c) (simp_all add: socket_open_settle_waiter)

lemma socket_open_frame [simp]:
  "socket_open (c\<lparr>queued := qs\<rparr>) = socket_open c" "socket_open (c\<lparr>pending := ps\<rparr>) = socket_open c"
  "socket_open (c\<lparr>sends := k\<rparr>) = socket_open c" "socket_open (c\<lparr>log := l\<rparr>) = socket_open c"
  by (simp_all add: socket_open_def attempt_of_def split: option.split)

lemma signal_aborted_frame [simp]:
  "signal_aborted (c\<lparr>queued := qs\<rparr>) = signal_aborted c" "signal_aborted (c\<lparr>pending := ps\<rparr>) = signal_aborted c"
  "signal_aborted (c\<lparr>sends := k\<rparr>) = signal_aborted c" "signal_aborted (c\<lparr>log := l\<rparr>) = signal_aborted c"
  by (auto simp: signal_aborted_def fun_eq_iff split: option.split)

lemma transmit_open:
  assumes "socket_open c" "\<forall>k. sendResult E k = None"
  shows "queued (transmit E q b c) = queued c" "socket_open (transmit E q b c)"
  using assms by (simp_all add: transmit_def Let_def record_effect_def split: option.split)

text \<open>
  On an open socket whose \<open>send\<close> does not throw, the flush loop returns with an empty
  queue, whatever the limits and the state of the commands' signals.
\<close>

theorem flush_returns:
  assumes "socket_open c" "\<forall>k. sendResult E k = None"
  shows "\<exists>c'. flush E c = Some c' \<and> queued c' = []"
  using assms(1)
proof (induction "queued c" arbitrary: c)
  case Nil
  then show ?case by (simp add: flush.simps)
next
  case (Cons q rest)
  let ?c = "transmit E q True (c\<lparr>queued := rest\<rparr>)"
  have "queued ?c = rest" "socket_open ?c" using Cons.prems transmit_open assms(2) by simp_all
  then obtain c' where "flush E ?c = Some c'" "queued c' = []" using Cons.hyps(1) [of ?c] by auto
  then show ?case using Cons.hyps(2) [symmetric] by (subst flush.simps) simp
qed

theorem flush_returns_witness: "\<exists>c'. flush plain_env two_queued = Some c' \<and> queued c' = []"
  using flush_returns [OF two_queued(1), of plain_env] by (simp add: plain_env_def)

lemma transmit_sent:
  assumes "socket_open c" "sendResult E (sends c) = None" "signal_aborted c (qc_signal q) = None"
    "length (pending c) < maximumPendingCommands (options E)"
    "serialized_length E (qc_envelope q) \<le> maximumMessageBytes (options E)"
  shows "transmit E q b c = c\<lparr>pending := map_set (cid q) \<lparr>pc_waiters = qc_waiters q, pc_signal = qc_signal q\<rparr> (pending c),
     sends := Suc (sends c), log := log c @ [Sent (the (socket c)) (qc_envelope q)]\<rparr>"
  using assms by (simp add: transmit_def Let_def record_effect_def cid_def)

lemma length_map_set_le: "length (map_set k v m) \<le> Suc (length m)"
  by (simp add: length_map_set)

text \<open>
  C28. Where the queued commands fit (the limits leave room, no signal is aborted), the flush loop
  sends all of them, in the order in which they were queued.
\<close>

theorem flush_in_order:
  assumes "socket_open c" "\<forall>k. sendResult E k = None"
    "length (pending c) + length (queued c) \<le> maximumPendingCommands (options E)"
    "\<forall>q \<in> set (queued c). signal_aborted c (qc_signal q) = None
       \<and> serialized_length E (qc_envelope q) \<le> maximumMessageBytes (options E)"
  shows "\<exists>c'. flush E c = Some c' \<and> queued c' = []
    \<and> log c' = log c @ map (\<lambda>q. Sent (the (socket c)) (qc_envelope q)) (queued c)"
  using assms(1,3,4)
proof (induction "queued c" arbitrary: c)
  case Nil
  then show ?case by (simp add: flush.simps)
next
  case (Cons q rest)
  note queue = Cons.hyps(2) [symmetric]
  let ?d = "c\<lparr>queued := rest\<rparr>" and ?c = "transmit E q True (c\<lparr>queued := rest\<rparr>)"
  have c: "?c = ?d\<lparr>pending := map_set (cid q) \<lparr>pc_waiters = qc_waiters q, pc_signal = qc_signal q\<rparr> (pending c),
      sends := Suc (sends c), log := log c @ [Sent (the (socket c)) (qc_envelope q)]\<rparr>"
    using transmit_sent [of ?d E q True] Cons.prems queue assms(2) by simp
  have "\<exists>c'. flush E ?c = Some c' \<and> queued c' = []
      \<and> log c' = log ?c @ map (\<lambda>q. Sent (the (socket ?c)) (qc_envelope q)) (queued ?c)"
  proof (rule Cons.hyps(1))
    show "rest = queued ?c" by (simp add: c)
    show "socket_open ?c" using Cons.prems(1) by (simp add: c)
    show "length (pending ?c) + length (queued ?c) \<le> maximumPendingCommands (options E)"
      using Cons.prems(2) queue
        length_map_set_le [of "cid q" "\<lparr>pc_waiters = qc_waiters q, pc_signal = qc_signal q\<rparr>" "pending c"]
      unfolding c by simp
    show "\<forall>q \<in> set (queued ?c). signal_aborted ?c (qc_signal q) = None
        \<and> serialized_length E (qc_envelope q) \<le> maximumMessageBytes (options E)"
      using Cons.prems(3) queue by (simp add: c)
  qed
  then show ?case using queue by (subst flush.simps) (simp add: c)
qed

theorem flush_in_order_witness:
  "\<exists>c'. flush plain_env two_queued = Some c' \<and> queued c' = []
    \<and> log c' = log two_queued @ map (\<lambda>q. Sent (the (socket two_queued)) (qc_envelope q)) (queued two_queued)"
proof (rule flush_in_order [OF two_queued(1)])
  have "length (queued two_queued) = 2" using two_queued(3) by (metis length_Cons length_map list.size(3) numeral_2_eq_2)
  then show "length (pending two_queued) + length (queued two_queued) \<le> maximumPendingCommands (options plain_env)"
    using two_queued(2) by (simp add: plain_env_def default_options_def)
qed (use two_queued(4) in \<open>simp_all add: plain_env_def default_options_def\<close>)

text \<open>
  Nothing bounds the loop when the socket is not open: \<open>transmit\<close> puts the command back at
  the end of the queue, and the loop takes the next one.
\<close>

definition rotating :: "env \<Rightarrow> client \<Rightarrow> bool" where
  "rotating E c = (\<not> socket_open c \<and> queued c \<noteq> []
     \<and> length (pending c) < maximumPendingCommands (options E)
     \<and> length (queued c) \<le> maximumQueuedCommands (options E)
     \<and> (\<forall>q \<in> set (queued c). signal_aborted c (qc_signal q) = None))"

lemma rotating_transmit:
  assumes "rotating E c" "queued c = q # rest"
  shows "rotating E (transmit E q True (c\<lparr>queued := rest\<rparr>))"
  using assms by (simp add: rotating_def transmit_def Let_def)

lemma rotating_diverges:
  assumes "rotating E c"
  shows "flush E c = None"
proof (rule ccontr)
  assume "flush E c \<noteq> None"
  then obtain c' where "flush E c = Some c'" by blast
  from flush_invariant [where P = "rotating E", OF this assms rotating_transmit] show False
    unfolding rotating_def by blast
qed

text \<open>
  C36. If \<open>send\<close> throws for the first queued command and another one waits behind it, the
  flush loop never returns: closing the socket makes every later command go back into the queue.
\<close>

theorem flush_hangs_after_failed_send:
  assumes "socket_open c" "queued c = q # r # rest" "sendResult E (sends c) = Some e"
    "\<not> closesSynchronously E (the (socket c))"
    "\<forall>q \<in> set (queued c). signal_aborted c (qc_signal q) = None"
    "length (pending c) < maximumPendingCommands (options E)"
    "length (queued c) \<le> maximumQueuedCommands (options E)"
    "serialized_length E (qc_envelope q) \<le> maximumMessageBytes (options E)"
    "cid q \<notin> fst ` set (pending c)"
  shows "flush E c = None"
proof -
  obtain s t where s: "socket c = Some s" "attempts c s = Some t" "at_readyState t = OPEN"
    using assms(1) by (auto simp: socket_open_def attempt_of_def split: option.splits)
  let ?c = "transmit E q True (c\<lparr>queued := r # rest\<rparr>)"
  define d where "d = reject (qc_waiters q) (Realtime (normalizeError e))
    (c\<lparr>queued := r # rest, sends := Suc (sends c), pending := pending c\<rparr>)"
  have d: "socket d = Some s" "queued d = r # rest" "pending d = pending c" "signals d = signals c" "socket_open d"
    using s assms(1) by (simp_all add: d_def)
  have "map_delete (cid q) (map_set (cid q) \<lparr>pc_waiters = qc_waiters q, pc_signal = qc_signal q\<rparr> (pending c)) = pending c"
    using assms(9) by (simp add: map_delete_set_fresh)
  then have c: "?c = close_socket E s 4009 ''send_failed'' d"
    using assms s d(1) by (simp add: transmit_def Let_def cid_def d_def)
  have "at_readyState (attempt_of d s) = OPEN" using d(1,5) by (simp add: socket_open_def)
  then have closed: "?c = record_effect (CloseCalled s 4009 ''send_failed'')
      (update_attempt s (\<lambda>t. t\<lparr>at_readyState := CLOSING\<rparr>) d)"
    using assms(4) s unfolding c by (simp add: close_socket_def Let_def)
  have "\<not> socket_open ?c" unfolding closed using d(1)
    by (simp add: socket_open_def record_effect_def update_attempt_def attempt_of_def split: option.split)
  moreover have "queued ?c = r # rest" "pending ?c = pending c" "signals ?c = signals c"
    unfolding closed using d by (simp_all add: record_effect_def update_attempt_def)
  moreover from this have "signal_aborted ?c = signal_aborted c"
    by (simp add: signal_aborted_def fun_eq_iff split: option.split)
  ultimately have "rotating E ?c" using assms(2,5,6,7) by (simp add: rotating_def)
  then show ?thesis using assms(2) rotating_diverges by (subst flush.simps) simp
qed

definition failing_env :: env where
  "failing_env = plain_env\<lparr>sendResult := (\<lambda>_. Some NonError)\<rparr>"

theorem flush_hangs_after_failed_send_witness: "flush failing_env two_queued = None"
proof -
  obtain q r where q: "queued two_queued = [q, r]"
    using two_queued(3) by (auto simp: map_eq_Cons_conv)
  have "serialized_length failing_env = serialized_length plain_env"
    by (simp add: serialized_length_def failing_env_def plain_env_def fun_eq_iff)
  then show ?thesis using two_queued q
    by (intro flush_hangs_after_failed_send [OF two_queued(1) q, of failing_env NonError])
      (simp_all add: failing_env_def plain_env_def default_options_def)
qed

section \<open>Disconnecting\<close>

definition quiescent :: "client \<Rightarrow> bool" where
  "quiescent c = (pending c = [] \<and> queued c = [] \<and> socket c = None \<and> reconnectTimer c = None
     \<and> \<not> heartbeatTimer c \<and> connectPromise c = None \<and> connectAbortController c = None \<and> intentionalClose c)"

lemma quiescent_setState: "consumer E = (\<lambda>ev c. c) \<Longrightarrow> quiescent c \<Longrightarrow> quiescent (setState E st c)"
  by (simp add: setState_def emit_quiet record_effect_def quiescent_def)

lemma quiescent_update [simp]: "quiescent (update_attempt a f c) = quiescent c"
  by (simp add: update_attempt_def quiescent_def)

lemma quiescent_effect [simp]: "quiescent (record_effect e c) = quiescent c"
  by (simp add: record_effect_def quiescent_def)

lemma quiescent_handleClose:
  assumes "consumer E = (\<lambda>ev c. c)" "quiescent c"
  shows "quiescent (handleClose E code reason g b c)"
proof -
  have "(rejectPending e ((stopHeartbeat c)\<lparr>socket := None\<rparr>)) = c" for e
    using assms(2) by (simp add: rejectPending_def stopHeartbeat_def quiescent_def)
  moreover have "intentionalClose ((stopHeartbeat c)\<lparr>socket := None\<rparr>)"
    using assms(2) by (simp add: stopHeartbeat_def quiescent_def)
  ultimately show ?thesis using assms quiescent_setState [OF assms]
    by (simp add: handleClose_def Let_def emit_quiet [OF assms(1)])
qed

lemma quiescent_close_socket:
  assumes "consumer E = (\<lambda>ev c. c)" "quiescent c"
  shows "quiescent (close_socket E a code reason c)"
  using assms quiescent_handleClose [OF assms(1)]
  by (simp add: close_socket_def on_close_def Let_def settle_attempt_def)

lemma settle_waiter_frame3:
  "reconnectTimer (settle_waiter w r c) = reconnectTimer c" "heartbeatTimer (settle_waiter w r c) = heartbeatTimer c"
  "connectPromise (settle_waiter w r c) = connectPromise c"
  "connectAbortController (settle_waiter w r c) = connectAbortController c"
  "intentionalClose (settle_waiter w r c) = intentionalClose c" "generation (settle_waiter w r c) = generation c"
  by (cases w; simp add: record_effect_def update_attempt_def)+

lemma settle_frame3 [simp]:
  "reconnectTimer (settle ws r c) = reconnectTimer c" "heartbeatTimer (settle ws r c) = heartbeatTimer c"
  "connectPromise (settle ws r c) = connectPromise c" "connectAbortController (settle ws r c) = connectAbortController c"
  "intentionalClose (settle ws r c) = intentionalClose c" "generation (settle ws r c) = generation c"
  unfolding settle_def by (induction ws arbitrary: c) (simp_all add: settle_waiter_frame3)

lemma fold_reject_frame [simp]:
  "reconnectTimer (fold (\<lambda>x. reject (g x) e) xs c) = reconnectTimer c"
  "heartbeatTimer (fold (\<lambda>x. reject (g x) e) xs c) = heartbeatTimer c"
  "connectPromise (fold (\<lambda>x. reject (g x) e) xs c) = connectPromise c"
  "connectAbortController (fold (\<lambda>x. reject (g x) e) xs c) = connectAbortController c"
  "intentionalClose (fold (\<lambda>x. reject (g x) e) xs c) = intentionalClose c"
  "queued (fold (\<lambda>x. reject (g x) e) xs c) = queued c" "pending (fold (\<lambda>x. reject (g x) e) xs c) = pending c"
  by (induction xs arbitrary: c; simp add: reject_def)+

text \<open>An intentional close stays intentional, and schedules no reconnect.\<close>

lemma intentionalClose_abort_current:
  assumes "consumer E = (\<lambda>ev c. c)" "intentionalClose c"
  shows "intentionalClose (abort_current E c)"
proof -
  have "intentionalClose (handleClose E code reason g b d)" if "intentionalClose d" for code reason g b d
    using that assms(1) by (simp add: handleClose_def Let_def setState_def emit_quiet record_effect_def
        rejectPending_def stopHeartbeat_def)
  then have "intentionalClose (close_socket E a code reason d)" if "intentionalClose d" for a code reason d
    using that by (simp add: close_socket_def on_close_def Let_def settle_attempt_def update_attempt_def record_effect_def)
  then show ?thesis using assms(2)
    by (simp add: abort_current_def abort_attempt_def Let_def settle_attempt_def update_attempt_def split: option.split)
qed

lemma disconnect_cleared:
  assumes "consumer E = (\<lambda>ev c. c)" "intentionalClose c"
  shows "quiescent ((rejectQueued e (rejectPending e (setState E st (stopHeartbeat (clearReconnectTimer
     (c\<lparr>connectAbortController := None, connectPromise := None\<rparr>))))))\<lparr>socket := None\<rparr>)"
  using assms
  by (simp add: quiescent_def rejectQueued_def rejectPending_def setState_def emit_quiet record_effect_def
      stopHeartbeat_def clearReconnectTimer_def)

text \<open>
  C7. After \<open>disconnect\<close> the client is closed and at rest: nothing pending or queued, no
  socket, no timer, no connection attempt, and every command that was pending, or queued and not a
  subscription, is settled.
\<close>

theorem disconnect_quiesces:
  assumes "consumer E = (\<lambda>ev c. c)" "env_ok E" "reachable E c" "disconnect E code reason c = Inr c'"
  shows "quiescent c' \<and> stateValue c' = Closed \<and> (\<forall>p \<in> accounted c. promises c' p \<noteq> None)"
proof -
  let ?c = "abort_current E (c\<lparr>intentionalClose := True, generation := Suc (generation c)\<rparr>)"
  let ?c4 = "rejectQueued client_disconnect (rejectPending client_disconnect (setState E Closing
    (stopHeartbeat (clearReconnectTimer (?c\<lparr>connectAbortController := None, connectPromise := None\<rparr>)))))"
  have i: "intentionalClose ?c" using assms(1) by (rule intentionalClose_abort_current) simp
  have "quiescent (?c4\<lparr>socket := None\<rparr>)" using disconnect_cleared [OF assms(1) i] .
  then have "quiescent c'" using assms(4) quiescent_setState [OF assms(1)] quiescent_close_socket [OF assms(1)]
    by (auto simp: disconnect_def Let_def split: if_splits option.splits)
  moreover have "stateValue c' = Closed"
    using assms(1,4) by (auto simp: disconnect_def Let_def setState_def emit_quiet record_effect_def split: if_splits)
  moreover have "accounted c \<subseteq> accounted c'"
  proof -
    have "client_ok E ({} \<union> accounted c) 0 [] c" by (rule client_ok_accounted [OF reachable_ok [OF assms(3,2)]])
    from client.inv_disconnect [OF this assms(4)] show ?thesis by (simp add: client_ok_def)
  qed
  ultimately show ?thesis by (auto simp: quiescent_def accounted_def)
qed

theorem disconnect_quiesces_witness:
  "\<exists>c'. disconnect plain_env (Fin 1000) ''bye'' published = Inr c' \<and> quiescent c' \<and> stateValue c' = Closed
    \<and> promises c' 0 \<noteq> None"
proof -
  obtain c' where c': "disconnect plain_env (Fin 1000) ''bye'' published = Inr c'"
    by (cases "disconnect plain_env (Fin 1000) ''bye'' published")
      (auto simp: disconnect_def is_integral_def utf8_length_def utf8_units_def Let_def split: if_splits)
  have "0 \<in> accounted published" by (simp add: accounted_def published_eval callers_def)
  moreover have "consumer plain_env = (\<lambda>ev c. c)" by (simp add: plain_env_def)
  ultimately show ?thesis
    using disconnect_quiesces [OF _ plain_env_ok run_reachable_new [OF published_run] c'] c' by blast
qed

end
