(* ===== verification/Client_Findings.thy ===== *)
theory Client_Findings
  imports Client_Behaviour
begin

text \<open>
  Executions in which the client does not do what its documentation or the rest of the code
  expects. Each is a theorem on the model of the code as it is.
\<close>

section \<open>Jitter and the timer limit\<close>

text \<open>
  The delays of the options and of server advice are limited to what a timer takes, and the delay
  is capped by the maximum; the jitter is applied after the cap and can nearly double it.
\<close>

theorem jitter_exceeds_timer_limit:
  "reconnect_delay (Fin 2147483647) (Fin 2147483647) (Fin 1) 0 (Fin (3 / 4)) = Fin 3221225471"
proof -
  have f: "num 0 = Fin 0" "num 2 = Fin 2"
    using num_of_nat [of 0] num_of_nat [of 2] by simp_all
  have half: "fl (of_int m * 2 powi - 1) = of_int m * 2 powi - 1" if "\<bar>m\<bar> \<le> 2 ^ 53" for m
    using that by (intro fl_exact) simp_all
  have "fl (3 / 2) = 3 / 2" "fl (6442450941 / 2) = 6442450941 / 2"
    using half [of 3] half [of 6442450941] by (simp_all add: power_int_minus)
  then have g: "num (3 / 2) = Fin (3 / 2)" "num (6442450941 / 2) = Fin (6442450941 / 2)"
    by (simp_all add: num_def Let_def)
  show ?thesis by (simp add: reconnect_delay_def num_min_def num_sub_def f g num_max_def Let_def floor_eq_iff)
qed

section \<open>Subscriptions\<close>

text \<open>Closing a socket keeps the sets of listeners.\<close>

definition same_listeners :: "client \<Rightarrow> client \<Rightarrow> bool" where
  "same_listeners c d = (subscriptions d = subscriptions c \<and> registrations d = registrations c)"

lemma registrations_settle [simp]: "registrations (settle ws r c) = registrations c"
proof -
  have "registrations (settle_waiter w r c) = registrations c" for w c
    by (cases w) (simp_all add: record_effect_def update_attempt_def)
  then show ?thesis unfolding settle_def by (induction ws arbitrary: c) simp_all
qed

lemma fold_reject_listeners [simp]:
  "subscriptions (fold (\<lambda>x. reject (g x) e) xs c) = subscriptions c"
  "registrations (fold (\<lambda>x. reject (g x) e) xs c) = registrations c"
  by (induction xs arbitrary: c; simp add: reject_def)+

lemma same_listeners_scheduleReconnect:
  "consumer E = (\<lambda>ev c. c) \<Longrightarrow> same_listeners c (scheduleReconnect E c)"
  by (simp add: same_listeners_def scheduleReconnect_def Let_def setState_def emit_quiet record_effect_def rejectQueued_def)

lemma same_listeners_handleClose:
  assumes "consumer E = (\<lambda>ev c. c)"
  shows "same_listeners c (handleClose E code reason g b c)"
proof -
  have "same_listeners c (emit E (CloseEvent code reason x) (setState E Closed
      (rejectPending e ((stopHeartbeat c)\<lparr>socket := None\<rparr>))))" for x e
    using assms by (simp add: same_listeners_def setState_def emit_quiet record_effect_def rejectPending_def stopHeartbeat_def)
  then show ?thesis using same_listeners_scheduleReconnect [OF assms]
    by (simp add: handleClose_def Let_def) (simp add: same_listeners_def)
qed

lemma same_listeners_close_current:
  assumes "consumer E = (\<lambda>ev c. c)"
  shows "same_listeners c (close_current E code reason c)"
proof -
  have "same_listeners d (close_socket E a code reason d)" for a d
    using same_listeners_handleClose [OF assms]
    by (simp add: close_socket_def on_close_def Let_def settle_attempt_def update_attempt_def record_effect_def same_listeners_def)
  then show ?thesis by (simp add: close_current_def same_listeners_def split: option.split)
qed

text \<open>
  A failed unsubscribe puts its own set of listeners back, over a set that a later
  \<open>subscribe\<close> has created: the listeners of that set get no events any more.
\<close>

theorem failed_unsubscribe_drops_registration:
  assumes "consumer E = (\<lambda>ev c. c)" "map_get (subscriptions c) (un_route u) = Some s" "s \<noteq> current"
    "r \<in> set (registrations c s)" "r \<notin> set (registrations c current)" "r \<noteq> un_registration u"
  shows "r \<notin> set (route_registrations (unsubscribe_failed E i u current c) (un_route u))"
  using assms same_listeners_close_current [OF assms(1)]
  by (simp add: unsubscribe_failed_def route_registrations_def same_listeners_def set_set_add)

definition replaced :: client where
  "replaced = new_client\<lparr>subscriptions := [(''room'', 8)], registrations := (\<lambda>_. [])(8 := [9])\<rparr>"

theorem failed_unsubscribe_drops_registration_witness:
  "9 \<in> set (route_registrations replaced ''room'')
   \<and> 9 \<notin> set (route_registrations (unsubscribe_failed plain_env 0
      \<lparr>un_route = ''room'', un_registration = 1, un_active = True, un_running = None\<rparr> 2 replaced) ''room'')"
  using failed_unsubscribe_drops_registration [of plain_env replaced
      "\<lparr>un_route = ''room'', un_registration = 1, un_active = True, un_running = None\<rparr>" 8 2 9 0]
  by (simp add: replaced_def plain_env_def new_client_def route_registrations_def)

section \<open>Concrete executions\<close>

lemmas run_eval = client_eval plain_env_def default_options_def new_client_def first_publish_def Let_def





text \<open>
  A listener disconnects the client when it starts to reconnect. The reconnect timer is set all
  the same, after \<open>disconnect\<close> has returned.
\<close>

definition disconnecting_env :: env where
  "disconnecting_env = plain_env\<lparr>consumer := (\<lambda>ev c.
     if ev = StateEvent Reconnecting then api plain_env (Disconnect (Fin 1000) []) c else c)\<rparr>"

theorem timer_set_after_disconnect:
  "\<exists>c. run disconnecting_env (first_publish @ [SocketClosed 1 1006 []]) new_client = Some c
    \<and> intentionalClose c \<and> stateValue c = Closed \<and> reconnectTimer c \<noteq> None"
  by (simp add: run_eval disconnecting_env_def is_integral_def)

text \<open>
  A socket that fails to open reports an error and then a close. The error schedules the next
  reconnect, and the close sets the state to \<open>closed\<close> while that timer is running.
\<close>

theorem closed_while_reconnecting:
  "\<exists>c. run plain_env (first_publish @ [SocketClosed 1 1006 [], ReconnectTimer, UrlReady 2 SocketCreated,
      SocketError 2, AttemptSettled 2, SocketClosed 2 1006 []]) new_client = Some c
    \<and> stateValue c = Closed \<and> reconnectTimer c \<noteq> None \<and> \<not> intentionalClose c"
  by (simp add: run_eval)

end
