(* ===== verification/Js_Url.thy ===== *)
theory Js_Url
  imports Errors
begin

text \<open>
  The parts of the URL standard that the sources use. Parsing a URL is a parameter of the
  definitions that do it (\<open>url_parser\<close>: the text, an optional base, \<open>None\<close> where
  \<open>new URL\<close> throws); what the sources read and set of a parsed URL is a record. The encoders
  \<open>encodeURIComponent\<close> and the one of \<open>URLSearchParams\<close> are given for the code units
  0 to 255.
\<close>

section \<open>URLs and their query\<close>

record url =
  protocol :: string
  host :: string
  pathname :: string
  searchParams :: "(string \<times> string) list"

type_synonym url_parser = "string \<Rightarrow> string option \<Rightarrow> url option"

definition invalid_url :: thrown where
  "invalid_url = ErrorObject ''TypeError'' ''Invalid URL''"

text \<open>\<open>new URL(text, base)\<close>\<close>

definition new_URL :: "url_parser \<Rightarrow> string \<Rightarrow> string option \<Rightarrow> thrown + url" where
  "new_URL parse text base = (case parse text base of None \<Rightarrow> Inl invalid_url | Some u \<Rightarrow> Inr u)"

definition params_get :: "string \<Rightarrow> (string \<times> string) list \<Rightarrow> string option" where
  "params_get name ps = map_of ps name"

text \<open>\<open>URLSearchParams.set\<close>: the first pair of the name gets the value, its other pairs go.\<close>

fun params_set :: "string \<Rightarrow> string \<Rightarrow> (string \<times> string) list \<Rightarrow> (string \<times> string) list" where
  "params_set name v [] = [(name, v)]"
| "params_set name v (p # ps) =
     (if fst p = name then (name, v) # filter (\<lambda>q. fst q \<noteq> name) ps else p # params_set name v ps)"

definition set_param :: "string \<Rightarrow> string \<Rightarrow> url \<Rightarrow> url" where
  "set_param name v u = u\<lparr>searchParams := params_set name v (searchParams u)\<rparr>"

lemma params_get_set [simp]:
  "params_get k (params_set name v ps) = (if k = name then Some v else params_get k ps)"
proof -
  have "map_of (filter (\<lambda>q. fst q \<noteq> name) ps) k = map_of ps k" if "k \<noteq> name" for ps :: "(string \<times> string) list"
    using that by (induction ps) auto
  then show ?thesis by (induction ps) (auto simp: params_get_def)
qed

text \<open>After \<open>set\<close> the name occurs once.\<close>

lemma params_set_once: "filter (\<lambda>q. fst q = name) (params_set name v ps) = [(name, v)]"
  by (induction ps) (auto simp: filter_empty_conv)

text \<open>An answer of \<open>fetch\<close> whose body is read as JSON.\<close>

record 'a json_response =
  jr_ok :: bool
  jr_status :: nat
  jr_json :: "thrown + 'a"

section \<open>Letters\<close>

definition lower_char :: "char \<Rightarrow> char" where
  "lower_char c = (let n = (of_char c :: nat) in
     if 65 \<le> n \<and> n \<le> 90 \<or> 192 \<le> n \<and> n \<le> 222 \<and> n \<noteq> 215 then char_of (n + 32) else c)"

definition toLowerCase :: "string \<Rightarrow> string" where
  "toLowerCase s = map lower_char s"

definition is_alnum :: "char \<Rightarrow> bool" where
  "is_alnum c = (let n = (of_char c :: nat) in
     48 \<le> n \<and> n \<le> 57 \<or> 65 \<le> n \<and> n \<le> 90 \<or> 97 \<le> n \<and> n \<le> 122)"

section \<open>Percent encoding\<close>

definition upper_hex :: "nat \<Rightarrow> char" where
  "upper_hex n = (if n < 10 then char_of (48 + n) else char_of (55 + n))"

definition percent :: "nat \<Rightarrow> string" where
  "percent b = [CHR ''%'', upper_hex (b div 16), upper_hex (b mod 16)]"

text \<open>The UTF-8 bytes of a code unit.\<close>

definition utf8_bytes :: "char \<Rightarrow> nat list" where
  "utf8_bytes c = (let n = (of_char c :: nat) in if n < 128 then [n] else [192 + n div 64, 128 + n mod 64])"

definition component_char :: "char \<Rightarrow> bool" where
  "component_char c = (is_alnum c \<or> c \<in> set ''-_.!~*()'' \<or> c = CHR 0x27)"

definition encodeURIComponent :: "string \<Rightarrow> string" where
  "encodeURIComponent s = concat (map (\<lambda>c. if component_char c then [c] else concat (map percent (utf8_bytes c))) s)"

definition form_char :: "char \<Rightarrow> bool" where
  "form_char c = (is_alnum c \<or> c \<in> set ''*-._'')"

definition form_encode :: "string \<Rightarrow> string" where
  "form_encode s = concat (map (\<lambda>c. if c = CHR '' '' then ''+''
     else if form_char c then [c] else concat (map percent (utf8_bytes c))) s)"

text \<open>\<open>URLSearchParams.toString\<close>\<close>

fun params_str :: "(string \<times> string) list \<Rightarrow> string" where
  "params_str [] = []"
| "params_str [(k, v)] = form_encode k @ ''='' @ form_encode v"
| "params_str ((k, v) # ps) = form_encode k @ ''='' @ form_encode v @ ''&'' @ params_str ps"

section \<open>Paths\<close>

text \<open>The segments of a path, and the dot segments that the URL parser resolves.\<close>

fun split_on :: "char \<Rightarrow> string \<Rightarrow> string list" where
  "split_on d [] = [[]]"
| "split_on d (c # s) = (if c = d then [] # split_on d s
     else case split_on d s of [] \<Rightarrow> [[c]] | w # ws \<Rightarrow> (c # w) # ws)"

definition single_dot :: "string \<Rightarrow> bool" where
  "single_dot s = (toLowerCase s \<in> {''.'', ''%2e''})"

definition double_dot :: "string \<Rightarrow> bool" where
  "double_dot s = (toLowerCase s \<in> {''..'', ''.%2e'', ''%2e.'', ''%2e%2e''})"

fun resolve_dots :: "string list \<Rightarrow> string list \<Rightarrow> string list" where
  "resolve_dots acc [] = acc"
| "resolve_dots acc [s] = (if double_dot s then butlast acc @ [[]] else if single_dot s then acc @ [[]] else acc @ [s])"
| "resolve_dots acc (s # ss) = resolve_dots (if double_dot s then butlast acc else if single_dot s then acc else acc @ [s]) ss"

definition join_path :: "string list \<Rightarrow> string" where
  "join_path ss = concat (map (\<lambda>s. CHR ''/'' # s) ss)"

text \<open>The \<open>pathname\<close> setter, for an absolute path in which nothing is left to encode.\<close>

definition set_pathname :: "string \<Rightarrow> url \<Rightarrow> url" where
  "set_pathname p u = u\<lparr>pathname := join_path (resolve_dots [] (split_on CHR ''/'' (tl p)))\<rparr>"

text \<open>\<open>path.replace(/\/$/u, "")\<close>\<close>

definition strip_slash :: "string \<Rightarrow> string" where
  "strip_slash s = (if s \<noteq> [] \<and> last s = CHR ''/'' then butlast s else s)"

section \<open>Encoded text is harmless\<close>

lemma of_char_bound: "(of_char c :: nat) < 256"
  by (metis of_char_mod_256 mod_less_divisor zero_less_numeral)

lemma upper_hex_safe:
  assumes "n < 16"
  shows "component_char (upper_hex n)"
  using assms by (cases "n < 10") (simp_all add: upper_hex_def component_char_def is_alnum_def Let_def of_char_of)

lemma utf8_byte_bound: "b \<in> set (utf8_bytes c) \<Longrightarrow> b < 256"
proof -
  assume b: "b \<in> set (utf8_bytes c)"
  have "(of_char c :: nat) div 64 < 4" using of_char_bound [of c] by (simp add: div_less_iff_less_mult)
  moreover have "(of_char c :: nat) mod 64 < 64" by simp
  ultimately show ?thesis using b of_char_bound [of c]
    by (auto simp: utf8_bytes_def Let_def split: if_splits)
qed

lemma percent_safe: "b < 256 \<Longrightarrow> x \<in> set (percent b) \<Longrightarrow> x = CHR ''%'' \<or> component_char x"
  by (auto simp: percent_def upper_hex_safe div_less_iff_less_mult)

text \<open>Nothing in an encoded component separates parts of a URL.\<close>

lemma encodeURIComponent_safe:
  assumes "x \<in> set (encodeURIComponent s)"
  shows "x = CHR ''%'' \<or> component_char x"
proof -
  obtain c where c: "c \<in> set s" "x \<in> set (if component_char c then [c] else concat (map percent (utf8_bytes c)))"
    using assms unfolding encodeURIComponent_def set_concat set_map by blast
  show ?thesis
  proof (cases "component_char c")
    case False
    with c(2) obtain b where "b \<in> set (utf8_bytes c)" "x \<in> set (percent b)" by auto
    then show ?thesis by (intro percent_safe [OF utf8_byte_bound])
  qed (use c(2) in simp)
qed

lemma component_char_not_slash: "component_char x \<Longrightarrow> x \<noteq> CHR ''/''"
  by (auto simp: component_char_def is_alnum_def)

lemma encodeURIComponent_no_slash: "CHR ''/'' \<notin> set (encodeURIComponent s)"
  using encodeURIComponent_safe component_char_not_slash by force

section \<open>Paths are rebuilt from their segments\<close>

lemma split_on_nonempty [simp]: "split_on d s \<noteq> []"
  by (induction s) (auto split: list.splits)

lemma split_on_no_sep: "d \<notin> set w \<Longrightarrow> split_on d w = [w]"
  by (induction w) auto

lemma split_on_append:
  "split_on d (s @ d # t) = split_on d s @ split_on d t"
  by (induction s) (auto split: list.splits)

lemma split_on_segments: "w \<in> set (split_on d s) \<Longrightarrow> d \<notin> set w"
  by (induction s arbitrary: w) (auto split: list.splits if_splits)

lemma join_split: "join_path (split_on CHR ''/'' s) = CHR ''/'' # s"
  by (induction s) (auto simp: join_path_def split: list.splits)

lemma resolve_dots_plain:
  "\<forall>s \<in> set ss. \<not> single_dot s \<and> \<not> double_dot s \<Longrightarrow> resolve_dots acc ss = acc @ ss"
  by (induction acc ss rule: resolve_dots.induct) auto

text \<open>Without dot segments the setter stores the path as it is.\<close>

lemma set_pathname_plain:
  assumes "\<forall>s \<in> set (split_on CHR ''/'' p). \<not> single_dot s \<and> \<not> double_dot s"
  shows "pathname (set_pathname (CHR ''/'' # p) u) = CHR ''/'' # p"
  using assms by (simp add: set_pathname_def resolve_dots_plain join_split)

end
