(* ===== verification/Client_Setup.thy ===== *)
theory Client_Setup
  imports Client_Theorems Js_Url
begin

text \<open>
  The constructor of \<open>RealtimeClient\<close>, which validates what the caller passes, and
  \<open>createConnectionUrl\<close>, which turns the configured URL into the one a socket connects to. An
  option of the caller is \<open>None\<close> where the property is absent; a property that is present
  replaces the default, whatever its value.
\<close>

section \<open>Raw options\<close>

record raw_reconnect =
  rr_enabled :: "jsval option"
  rr_initialDelayMilliseconds :: "jsval option"
  rr_maximumDelayMilliseconds :: "jsval option"
  rr_jitterRatio :: "jsval option"
  rr_maximumAttempts :: "jsval option"

record raw_options =
  ro_url :: string
  ro_ticket :: bool
  ro_maximumQueuedCommands :: "jsval option"
  ro_maximumPendingCommands :: "jsval option"
  ro_commandTimeoutMilliseconds :: "jsval option"
  ro_maximumMessageBytes :: "jsval option"
  ro_heartbeatIntervalMilliseconds :: "jsval option"
  ro_reconnect :: raw_reconnect
  ro_transports :: "string list option"
  ro_httpStreaming :: bool

text \<open>Spreading a property over its default.\<close>

definition spread :: "jsval \<Rightarrow> jsval option \<Rightarrow> jsval" where
  "spread d v = (case v of None \<Rightarrow> d | Some x \<Rightarrow> x)"

fun truthy :: "jsval \<Rightarrow> bool" where
  "truthy Undefined = False"
| "truthy Null = False"
| "truthy (Bool b) = b"
| "truthy (Num n) = (n \<noteq> NaN \<and> n \<noteq> Fin 0)"
| "truthy (Str s) = (s \<noteq> [])"
| "truthy (Ref a) = True"
| "truthy Other = True"

section \<open>Assertions\<close>

definition rangeError :: "string \<Rightarrow> thrown" where
  "rangeError message = ErrorObject ''RangeError'' message"

definition typeError :: "string \<Rightarrow> thrown" where
  "typeError message = ErrorObject ''TypeError'' message"

definition assertPositiveInteger :: "jsval \<Rightarrow> string \<Rightarrow> thrown + unit" where
  "assertPositiveInteger v name =
     (if \<not> isSafeInteger (num_of v) \<or> \<not> num_less (Fin 0) (num_of v)
      then Inl (rangeError (name @ '' must be a positive integer.'')) else Inr ())"

definition assertNonNegativeInteger :: "jsval \<Rightarrow> string \<Rightarrow> thrown + unit" where
  "assertNonNegativeInteger v name =
     (if \<not> isSafeInteger (num_of v) \<or> num_less (num_of v) (Fin 0) \<or> num_less (Fin 2147483647) (num_of v)
      then Inl (rangeError (name @ '' must be a nonnegative timer-safe integer.'')) else Inr ())"

fun integer_of :: "jsnum \<Rightarrow> nat" where
  "integer_of (Fin x) = nat \<lfloor>x\<rfloor>"
| "integer_of _ = 0"

section \<open>The constructor\<close>

definition check_url :: "url_parser \<Rightarrow> raw_options \<Rightarrow> thrown + unit" where
  "check_url parse opts =
     bind_result (guard (trim (ro_url opts) \<noteq> []) (typeError ''A WebSocket URL is required.''))
       (\<lambda>_. bind_result (new_URL parse (ro_url opts) (Some ''http://localhost''))
         (\<lambda>u. guard (\<not> list_ex (\<lambda>p. toLowerCase (fst p) = ''reconnect'') (searchParams u))
            (typeError ''The realtime URL must not contain the reserved reconnect query parameter.'')))"

definition check_transports :: "raw_options \<Rightarrow> thrown + unit" where
  "check_transports opts =
     (let transports = (case ro_transports opts of None \<Rightarrow> [''websocket''] | Some ts \<Rightarrow> ts) in
      bind_result (guard (transports \<noteq> [] \<and> length (new_Set transports) = length transports)
          (typeError ''transports must contain one or more unique transport names.''))
        (\<lambda>_. bind_result (guard (\<not> list_ex (\<lambda>t. t \<noteq> ''websocket'' \<and> t \<noteq> ''http-streaming'') transports)
            (typeError ''transports contains an unsupported transport.''))
          (\<lambda>_. guard (\<not> (''http-streaming'' \<in> set transports \<and> \<not> ro_httpStreaming opts))
            (typeError ''httpStreaming is required when the http-streaming transport is selected.''))))"

definition check_reconnect :: "jsval \<Rightarrow> jsval \<Rightarrow> jsval \<Rightarrow> jsval \<Rightarrow> thrown + unit" where
  "check_reconnect limit initial maximum jitter =
     bind_result (assertPositiveInteger limit ''reconnect.maximumAttempts'')
       (\<lambda>_. bind_result (assertNonNegativeInteger initial ''reconnect.initialDelayMilliseconds'')
       (\<lambda>_. bind_result (assertNonNegativeInteger maximum ''reconnect.maximumDelayMilliseconds'')
       (\<lambda>_. bind_result (guard (\<not> num_less (num_of maximum) (num_of initial))
          (rangeError ''reconnect.maximumDelayMilliseconds must not be less than reconnect.initialDelayMilliseconds.''))
       (\<lambda>_. guard (isFinite (num_of jitter) \<and> \<not> num_less (num_of jitter) (Fin 0) \<and> \<not> num_less (Fin 1) (num_of jitter))
          (rangeError ''reconnect.jitterRatio must be between 0 and 1.'')))))"

definition constructor :: "url_parser \<Rightarrow> raw_options \<Rightarrow> thrown + client_options" where
  "constructor parse opts =
     (let queuedMax = spread (Num (Fin 128)) (ro_maximumQueuedCommands opts);
          pendingMax = spread (Num (Fin 128)) (ro_maximumPendingCommands opts);
          timeout = spread (Num (Fin 10000)) (ro_commandTimeoutMilliseconds opts);
          heartbeat = spread (Num (Fin 15000)) (ro_heartbeatIntervalMilliseconds opts);
          bytes = spread (Num (Fin 16384)) (ro_maximumMessageBytes opts);
          r = ro_reconnect opts;
          enabled = spread (Bool True) (rr_enabled r);
          initial = spread (Num (Fin 500)) (rr_initialDelayMilliseconds r);
          maximum = spread (Num (Fin 30000)) (rr_maximumDelayMilliseconds r);
          jitter = spread (Num (Fin default_jitter)) (rr_jitterRatio r);
          limit = spread (Num (Fin 12)) (rr_maximumAttempts r)
      in bind_result (check_url parse opts)
       (\<lambda>_. bind_result (check_transports opts)
       (\<lambda>_. bind_result (assertPositiveInteger queuedMax ''maximumQueuedCommands'')
       (\<lambda>_. bind_result (assertPositiveInteger pendingMax ''maximumPendingCommands'')
       (\<lambda>_. bind_result (assertPositiveInteger timeout ''commandTimeoutMilliseconds'')
       (\<lambda>_. bind_result (assertPositiveInteger heartbeat ''heartbeatIntervalMilliseconds'')
       (\<lambda>_. bind_result (assertPositiveInteger bytes ''maximumMessageBytes'')
       (\<lambda>_. bind_result (check_reconnect limit initial maximum jitter)
       (\<lambda>_. Inr \<lparr>ticketAuthentication = ro_ticket opts,
          maximumQueuedCommands = integer_of (num_of queuedMax),
          maximumPendingCommands = integer_of (num_of pendingMax),
          commandTimeoutMilliseconds = integer_of (num_of timeout),
          heartbeatIntervalMilliseconds = integer_of (num_of heartbeat),
          maximumMessageBytes = integer_of (num_of bytes),
          reconnectEnabled = truthy enabled, reconnectInitialDelay = num_of initial,
          reconnectMaximumDelay = num_of maximum, reconnectJitterRatio = num_of jitter,
          reconnectMaximumAttempts = integer_of (num_of limit)\<rparr>)))))))))"

section \<open>The URL of a connection\<close>

text \<open>
  What the platform and the caller give: the page's own URL, the \<open>authentication\<close> option
  with its endpoint and \<open>fetch\<close>, the global \<open>fetch\<close>, and the serializer of URLs.
  A \<open>fetch\<close> is the answer it ends with.
\<close>

record ticket_response =
  tr_ok :: bool
  tr_status :: nat
  tr_json :: "thrown + heap \<times> jsval"

type_synonym fetcher = "url \<Rightarrow> thrown + ticket_response"

record url_env =
  ue_parse :: url_parser
  ue_href :: "url \<Rightarrow> string"
  ue_location :: "string option"
  ue_url :: string
  ue_ticket :: bool
  ue_endpoint :: "string option"
  ue_fetch :: "fetcher option"
  ue_globalFetch :: "fetcher option"
  ue_dateParse :: date_parse

text \<open>
  \<open>waitForAbort\<close>: the signal was aborted before, or it is aborted while the operation is
  awaited, or the operation decides.
\<close>

definition waitForAbort :: "thrown option \<Rightarrow> thrown option \<Rightarrow> (thrown + 'a) \<Rightarrow> thrown + 'a" where
  "waitForAbort before during operation = (case before of
     Some reason \<Rightarrow> Inl reason
   | None \<Rightarrow> (case during of Some reason \<Rightarrow> Inl (abortError reason) | None \<Rightarrow> operation))"

definition isTicketResponse :: "date_parse \<Rightarrow> heap \<Rightarrow> jsval \<Rightarrow> bool" where
  "isTicketResponse parse h v =
     (deref h v \<noteq> None
      \<and> has_prop h v ''ticket''
      \<and> is_string (get_prop h v ''ticket'')
      \<and> 32 \<le> length (str_of (get_prop h v ''ticket''))
      \<and> has_prop h v ''expiresAt''
      \<and> is_string (get_prop h v ''expiresAt'')
      \<and> parse (str_of (get_prop h v ''expiresAt'')) \<noteq> None)"

definition ticket_endpoint :: "url_env \<Rightarrow> url \<Rightarrow> thrown + url" where
  "ticket_endpoint U u =
     (let base = (if protocol u = ''ws:'' then u\<lparr>protocol := ''http:''\<rparr>
                  else if protocol u = ''wss:'' then u\<lparr>protocol := ''https:''\<rparr> else u)
      in bind_result (new_URL (ue_parse U) (case ue_endpoint U of Some e \<Rightarrow> e | None \<Rightarrow> ''/realtime/tickets'')
           (Some (ue_href U base)))
         (\<lambda>endpoint. if protocol endpoint \<noteq> ''http:'' \<and> protocol endpoint \<noteq> ''https:''
            then Inl (typeError ''The ticket endpoint must use http or https.'') else Inr endpoint))"

text \<open>The ticket of a connection; \<open>aborts\<close> says when the signal is aborted around the two awaits.\<close>

record aborts =
  ab_beforeFetch :: "thrown option"
  ab_duringFetch :: "thrown option"
  ab_beforeJson :: "thrown option"
  ab_duringJson :: "thrown option"

definition obtain_ticket :: "url_env \<Rightarrow> aborts \<Rightarrow> url \<Rightarrow> thrown + string" where
  "obtain_ticket U ab u =
     bind_result (ticket_endpoint U u)
     (\<lambda>endpoint. case (case ue_fetch U of Some f \<Rightarrow> Some f | None \<Rightarrow> ue_globalFetch U) of
        None \<Rightarrow> Inl (Realtime (RealtimeConnectionError ''Ticket authentication requires the Fetch API.'' ''ticket_unavailable''))
      | Some fetcher \<Rightarrow>
          bind_result (waitForAbort (ab_beforeFetch ab) (ab_duringFetch ab) (fetcher endpoint))
     (\<lambda>response. bind_result (guard (tr_ok response) (Realtime (RealtimeConnectionError
        (''Connection ticket request failed ('' @ nat_str (tr_status response) @ '').'') ''ticket_rejected'')))
     (\<lambda>_. bind_result (waitForAbort (ab_beforeJson ab) (ab_duringJson ab) (tr_json response))
     (\<lambda>(h, v). bind_result (guard (isTicketResponse (ue_dateParse U) h v) (Realtime (RealtimeConnectionError
        ''Connection ticket response was invalid.'' ''ticket_invalid'')))
     (\<lambda>_. Inr (str_of (get_prop h v ''ticket'')))))))"

definition socket_protocol :: "url \<Rightarrow> thrown + url" where
  "socket_protocol u =
     (let u1 = (if protocol u = ''http:'' then u\<lparr>protocol := ''ws:''\<rparr>
                else if protocol u = ''https:'' then u\<lparr>protocol := ''wss:''\<rparr> else u)
      in if protocol u1 \<noteq> ''ws:'' \<and> protocol u1 \<noteq> ''wss:''
         then Inl (typeError ''The realtime URL must use ws, wss, http, or https.'') else Inr u1)"

definition connection_url :: "url_env \<Rightarrow> aborts \<Rightarrow> bool \<Rightarrow> thrown + url" where
  "connection_url U ab reconnecting =
     bind_result (new_URL (ue_parse U) (ue_url U) (ue_location U))
     (\<lambda>u. bind_result (if ue_ticket U
        then bind_result (obtain_ticket U ab u) (\<lambda>ticket. Inr (set_param ''ticket'' ticket u)) else Inr u)
     (\<lambda>u1. bind_result (socket_protocol u1)
     (\<lambda>u2. Inr (if reconnecting then set_param ''reconnect'' ''true'' u2 else u2))))"

definition createConnectionUrl :: "url_env \<Rightarrow> aborts \<Rightarrow> bool \<Rightarrow> thrown + string" where
  "createConnectionUrl U ab reconnecting =
     bind_result (connection_url U ab reconnecting) (\<lambda>u. Inr (ue_href U u))"

text \<open>\<open>activeTransport\<close>; \<open>transport_of\<close> is the property of the socket.\<close>

definition activeTransport :: "(nat \<Rightarrow> string option) \<Rightarrow> client \<Rightarrow> string option" where
  "activeTransport transport_of c =
     (if stateValue c = Open
      then Some (case socket c of None \<Rightarrow> ''websocket''
        | Some s \<Rightarrow> (case transport_of s of Some t \<Rightarrow> t | None \<Rightarrow> ''websocket''))
      else None)"

section \<open>What the constructor accepts\<close>

lemma isSafeInteger_nat:
  assumes "isSafeInteger n" "\<not> num_less n (Fin 0)"
  shows "n = Fin (of_nat (integer_of n))" "integer_of n < 2 ^ 53"
proof -
  obtain x where x: "n = Fin x" "of_int \<lfloor>x\<rfloor> = x" "\<bar>x\<bar> \<le> 9007199254740991" "0 \<le> x"
    using assms by (cases n) (auto simp: is_integral_def max_safe_def)
  then have nat: "of_nat (nat \<lfloor>x\<rfloor>) = x" by (metis of_int_of_nat_eq of_int_0_le_iff nat_0_le)
  then show "n = Fin (of_nat (integer_of n))" by (simp add: x(1))
  have "(of_nat (nat \<lfloor>x\<rfloor>) :: rat) < of_nat (2 ^ 53)" using nat x(3,4) by simp
  then show "integer_of n < 2 ^ 53" unfolding of_nat_less_iff using x(1) by simp
qed

lemma assertPositiveInteger_Inr:
  "assertPositiveInteger v name = Inr u \<longleftrightarrow> isSafeInteger (num_of v) \<and> num_less (Fin 0) (num_of v)"
  by (simp add: assertPositiveInteger_def)

lemma assertNonNegativeInteger_Inr:
  "assertNonNegativeInteger v name = Inr u \<longleftrightarrow>
     isSafeInteger (num_of v) \<and> \<not> num_less (num_of v) (Fin 0) \<and> \<not> num_less (Fin 2147483647) (num_of v)"
  by (simp add: assertNonNegativeInteger_def)

lemma positive_nat:
  assumes "isSafeInteger n" "num_less (Fin 0) n"
  shows "0 < integer_of n \<and> integer_of n < 2 ^ 53"
proof -
  have "\<not> num_less n (Fin 0)" using assms(2) by (cases n) auto
  note n = isSafeInteger_nat [OF assms(1) this]
  have "num_less (Fin 0) (Fin (of_nat (integer_of n)))" using assms(2) n(1) by metis
  then show ?thesis using n(2) by simp
qed

text \<open>A delay that the assertion lets through fits a timer.\<close>

lemma timer_safe_nat:
  assumes "assertNonNegativeInteger v name = Inr u"
  shows "num_of v = Fin (of_nat (integer_of (num_of v)))" "integer_of (num_of v) \<le> 2147483647"
proof -
  have safe: "isSafeInteger (num_of v)" "\<not> num_less (num_of v) (Fin 0)" "\<not> num_less (Fin 2147483647) (num_of v)"
    using assms unfolding assertNonNegativeInteger_Inr by blast+
  show eq: "num_of v = Fin (of_nat (integer_of (num_of v)))" using isSafeInteger_nat(1) [OF safe(1,2)] .
  have "\<not> num_less (Fin 2147483647) (Fin (of_nat (integer_of (num_of v))))" using safe(3) eq by metis
  then have "(of_nat (integer_of (num_of v)) :: rat) \<le> of_nat 2147483647" by simp
  then show "integer_of (num_of v) \<le> 2147483647" unfolding of_nat_le_iff .
qed

lemma check_reconnect_safe:
  assumes "check_reconnect limit initial maximum jitter = Inr u"
  shows "timer_safe_advice (num_of initial) (num_of maximum) (num_of jitter)"
proof -
  note c = assms [unfolded check_reconnect_def bind_result_Inr_conv guard_conv]
  have i: "assertNonNegativeInteger initial ''reconnect.initialDelayMilliseconds'' = Inr ()"
    and m: "assertNonNegativeInteger maximum ''reconnect.maximumDelayMilliseconds'' = Inr ()"
    and le: "\<not> num_less (num_of maximum) (num_of initial)"
    and j: "isFinite (num_of jitter)" "\<not> num_less (num_of jitter) (Fin 0)" "\<not> num_less (Fin 1) (num_of jitter)"
    using c by auto
  obtain x where x: "num_of jitter = Fin x" using j(1) by (cases "num_of jitter") auto
  have "\<not> num_less (Fin (of_nat (integer_of (num_of maximum)))) (Fin (of_nat (integer_of (num_of initial))))"
    using le timer_safe_nat(1) [OF i] timer_safe_nat(1) [OF m] by metis
  then have "integer_of (num_of initial) \<le> integer_of (num_of maximum)" by simp
  then show ?thesis unfolding timer_safe_advice_def
    using timer_safe_nat [OF i] timer_safe_nat [OF m] j(2,3) x by auto
qed

lemma constructor_Inr:
  assumes "constructor parse opts = Inr o'"
  obtains limit where
    "check_url parse opts = Inr ()" "check_transports opts = Inr ()"
    "check_reconnect limit (spread (Num (Fin 500)) (rr_initialDelayMilliseconds (ro_reconnect opts)))
       (spread (Num (Fin 30000)) (rr_maximumDelayMilliseconds (ro_reconnect opts)))
       (spread (Num (Fin default_jitter)) (rr_jitterRatio (ro_reconnect opts))) = Inr ()"
    "0 < maximumQueuedCommands o'" "0 < maximumPendingCommands o'" "0 < commandTimeoutMilliseconds o'"
    "0 < heartbeatIntervalMilliseconds o'" "0 < maximumMessageBytes o'"
    "options_advice o' = \<lparr>
       initialDelayMilliseconds = num_of (spread (Num (Fin 500)) (rr_initialDelayMilliseconds (ro_reconnect opts))),
       maximumDelayMilliseconds = num_of (spread (Num (Fin 30000)) (rr_maximumDelayMilliseconds (ro_reconnect opts))),
       jitterRatio = num_of (spread (Num (Fin default_jitter)) (rr_jitterRatio (ro_reconnect opts))),
       reauthenticate = False\<rparr>"
    "0 < reconnectMaximumAttempts o'"
proof (rule that)
  note c = assms [unfolded constructor_def Let_def bind_result_Inr_conv assertPositiveInteger_Inr]
  show "check_url parse opts = Inr ()" "check_transports opts = Inr ()" using c by auto
  show r: "check_reconnect (spread (Num (Fin 12)) (rr_maximumAttempts (ro_reconnect opts)))
       (spread (Num (Fin 500)) (rr_initialDelayMilliseconds (ro_reconnect opts)))
       (spread (Num (Fin 30000)) (rr_maximumDelayMilliseconds (ro_reconnect opts)))
       (spread (Num (Fin default_jitter)) (rr_jitterRatio (ro_reconnect opts))) = Inr ()" using c by auto
  show "0 < maximumQueuedCommands o'" "0 < maximumPendingCommands o'" "0 < commandTimeoutMilliseconds o'"
    "0 < heartbeatIntervalMilliseconds o'" "0 < maximumMessageBytes o'"
    using c positive_nat by auto
  show "0 < reconnectMaximumAttempts o'"
    using c r [unfolded check_reconnect_def bind_result_Inr_conv assertPositiveInteger_Inr] positive_nat by auto
qed (use assms [unfolded constructor_def Let_def bind_result_Inr_conv] in \<open>auto simp: options_advice_def\<close>)

text \<open>
  C16. Whatever the caller passes, if the constructor returns then every limit is a positive
  integer, the two reconnect delays are ordered whole numbers of milliseconds that a platform timer
  can hold, and the jitter ratio lies between 0 and 1; so the client starts with reconnect options
  that the bounds on its timers rely on.
\<close>

theorem constructor_sound:
  assumes "constructor parse opts = Inr o'"
    and "\<And>x. rr_jitterRatio (ro_reconnect opts) = Some (Num (Fin x)) \<Longrightarrow> fl x = x"
  shows "advice_ok (options_advice o')
    \<and> 0 < maximumQueuedCommands o' \<and> 0 < maximumPendingCommands o' \<and> 0 < commandTimeoutMilliseconds o'
    \<and> 0 < heartbeatIntervalMilliseconds o' \<and> 0 < maximumMessageBytes o' \<and> 0 < reconnectMaximumAttempts o'"
proof -
  obtain limit where c: "check_reconnect limit (spread (Num (Fin 500)) (rr_initialDelayMilliseconds (ro_reconnect opts)))
       (spread (Num (Fin 30000)) (rr_maximumDelayMilliseconds (ro_reconnect opts)))
       (spread (Num (Fin default_jitter)) (rr_jitterRatio (ro_reconnect opts))) = Inr ()"
    and adv: "options_advice o' = \<lparr>
       initialDelayMilliseconds = num_of (spread (Num (Fin 500)) (rr_initialDelayMilliseconds (ro_reconnect opts))),
       maximumDelayMilliseconds = num_of (spread (Num (Fin 30000)) (rr_maximumDelayMilliseconds (ro_reconnect opts))),
       jitterRatio = num_of (spread (Num (Fin default_jitter)) (rr_jitterRatio (ro_reconnect opts))),
       reauthenticate = False\<rparr>"
    and pos: "0 < maximumQueuedCommands o'" "0 < maximumPendingCommands o'" "0 < commandTimeoutMilliseconds o'"
    "0 < heartbeatIntervalMilliseconds o'" "0 < maximumMessageBytes o'" "0 < reconnectMaximumAttempts o'"
    using constructor_Inr [OF assms(1)] by metis
  have "fl j = j" if "num_of (spread (Num (Fin default_jitter)) v) = Fin j"
    "\<And>x. v = Some (Num (Fin x)) \<Longrightarrow> fl x = x" for v j
    using that default_jitter(3) by (cases v) (auto simp: spread_def elim: num_of.elims)
  then have "advice_ok (options_advice o')"
    unfolding adv advice_ok_def using check_reconnect_safe [OF c] assms(2) by simp
  then show ?thesis using pos by blast
qed

definition no_reconnect_options :: raw_reconnect where
  "no_reconnect_options = \<lparr>rr_enabled = None, rr_initialDelayMilliseconds = None, rr_maximumDelayMilliseconds = None,
     rr_jitterRatio = None, rr_maximumAttempts = None\<rparr>"

definition url_only :: raw_options where
  "url_only = \<lparr>ro_url = ''/realtime'', ro_ticket = False, ro_maximumQueuedCommands = None, ro_maximumPendingCommands = None,
     ro_commandTimeoutMilliseconds = None, ro_maximumMessageBytes = None, ro_heartbeatIntervalMilliseconds = None,
     ro_reconnect = no_reconnect_options, ro_transports = None, ro_httpStreaming = False\<rparr>"

definition local_parse :: url_parser where
  "local_parse text base = (if text = ''/realtime'' \<or> text = ''/realtime/tickets''
     then Some \<lparr>protocol = ''http:'', host = ''localhost'', pathname = text, searchParams = []\<rparr> else None)"

lemmas setup_eval = constructor_def check_url_def check_transports_def check_reconnect_def spread_def
  assertPositiveInteger_def assertNonNegativeInteger_def guard_def new_URL_def trim_def js_space_def
  set_add_def is_integral_def max_safe_def default_jitter_def url_only_def no_reconnect_options_def
  local_parse_def default_options_def Let_def

lemma constructor_defaults: "constructor local_parse url_only = Inr default_options"
  by (simp add: setup_eval)

theorem constructor_sound_witness:
  "constructor local_parse url_only = Inr default_options \<and> advice_ok (options_advice default_options)
   \<and> maximumQueuedCommands default_options = 128"
  using constructor_sound [OF constructor_defaults] constructor_defaults
  by (simp add: default_options_def url_only_def no_reconnect_options_def)

text \<open>
  Only the reconnect delays are checked against the range of a platform timer: the constructor
  accepts a heartbeat interval and a command timeout of 2147483648 milliseconds, one more than a
  timer can hold, and such a timer fires at once.
\<close>

theorem oversized_timers_accepted:
  "constructor local_parse (url_only\<lparr>ro_heartbeatIntervalMilliseconds := Some (Num (Fin 2147483648)),
     ro_commandTimeoutMilliseconds := Some (Num (Fin 2147483648))\<rparr>)
   = Inr (default_options\<lparr>heartbeatIntervalMilliseconds := 2147483648, commandTimeoutMilliseconds := 2147483648\<rparr>)"
  by (simp add: setup_eval)

section \<open>What a connection URL holds\<close>

lemma set_param_simps [simp]:
  "protocol (set_param k v u) = protocol u" "host (set_param k v u) = host u" "pathname (set_param k v u) = pathname u"
  "searchParams (set_param k v u) = params_set k v (searchParams u)"
  by (simp_all add: set_param_def)

lemma socket_protocol_Inr:
  "socket_protocol u = Inr u' \<Longrightarrow> protocol u' \<in> {''ws:'', ''wss:''} \<and> host u' = host u \<and> pathname u' = pathname u
     \<and> searchParams u' = searchParams u \<and> (protocol u' = ''wss:'' \<longleftrightarrow> protocol u \<in> {''https:'', ''wss:''})"
  by (auto simp: socket_protocol_def Let_def split: if_splits)

lemma waitForAbort_Inr: "waitForAbort b d r = Inr x \<longleftrightarrow> b = None \<and> d = None \<and> r = Inr x"
  by (auto simp: waitForAbort_def split: option.splits)

lemma obtain_ticket_length:
  assumes "obtain_ticket U ab u = Inr t"
  shows "32 \<le> length t"
  using assms
  by (auto simp: obtain_ticket_def bind_result_Inr_conv isTicketResponse_def split: option.splits prod.splits)

text \<open>
  C22. A connection URL that \<open>createConnectionUrl\<close> computes uses \<open>ws:\<close> or
  \<open>wss:\<close>, secure exactly when the configured URL was, with the configured host and path. Its
  query keeps every configured parameter; \<open>reconnect=true\<close> is set exactly on a
  reconnect and, with ticket authentication, there is one \<open>ticket\<close>, of at least 32
  characters, the one that the endpoint issued.
\<close>

theorem connection_url_shape:
  assumes "connection_url U ab reconnecting = Inr u"
    and "new_URL (ue_parse U) (ue_url U) (ue_location U) = Inr configured"
    and "\<not> list_ex (\<lambda>p. toLowerCase (fst p) = ''reconnect'') (searchParams configured)"
  shows "protocol u \<in> {''ws:'', ''wss:''} \<and> (protocol u = ''wss:'' \<longleftrightarrow> protocol configured \<in> {''https:'', ''wss:''})
    \<and> host u = host configured \<and> pathname u = pathname configured
    \<and> params_get ''reconnect'' (searchParams u) = (if reconnecting then Some ''true'' else None)
    \<and> (if ue_ticket U then (\<exists>t. obtain_ticket U ab configured = Inr t \<and> 32 \<le> length t
           \<and> filter (\<lambda>p. fst p = ''ticket'') (searchParams u) = [(''ticket'', t)])
       else params_get ''ticket'' (searchParams u) = params_get ''ticket'' (searchParams configured))
    \<and> (\<forall>k. k \<notin> {''ticket'', ''reconnect''} \<longrightarrow>
          params_get k (searchParams u) = params_get k (searchParams configured))"
proof -
  have fresh: "params_get ''reconnect'' (searchParams configured) = None"
  proof -
    have "toLowerCase ''reconnect'' = ''reconnect''" by (simp add: toLowerCase_def lower_char_def)
    then have "''reconnect'' \<notin> set (map fst (searchParams configured))"
      using assms(3) by (force simp: list_ex_iff)
    then show ?thesis by (simp add: params_get_def map_get_None_iff)
  qed
  obtain u1 u2 where u1: "(if ue_ticket U
        then bind_result (obtain_ticket U ab configured) (\<lambda>ticket. Inr (set_param ''ticket'' ticket configured))
        else Inr configured) = Inr u1"
    and u2: "socket_protocol u1 = Inr u2" and u: "u = (if reconnecting then set_param ''reconnect'' ''true'' u2 else u2)"
    using assms(1,2) by (auto simp: connection_url_def bind_result_Inr_conv simp del: if_split_asm split del: if_split)
  note p = socket_protocol_Inr [OF u2]
  have other: "filter (\<lambda>p. fst p = ''ticket'') (params_set ''reconnect'' v ps) = filter (\<lambda>p. fst p = ''ticket'') ps" for v ps
    by (induction ps) (auto intro: filter_cong)
  show ?thesis
  proof (cases "ue_ticket U")
    case True
    then obtain t where t: "obtain_ticket U ab configured = Inr t" "u1 = set_param ''ticket'' t configured"
      using u1 by (auto simp: bind_result_Inr_conv)
    then show ?thesis using p u True fresh obtain_ticket_length [OF t(1)]
      by (auto simp: params_set_once other)
  next
    case False
    then show ?thesis using p u u1 fresh by auto
  qed
qed

definition ticket_env :: url_env where
  "ticket_env = \<lparr>ue_parse = local_parse, ue_href = (\<lambda>u. protocol u @ ''//'' @ host u @ pathname u), ue_location = None,
     ue_url = ''/realtime'', ue_ticket = True, ue_endpoint = None, ue_fetch = None,
     ue_globalFetch = Some (\<lambda>_. Inr \<lparr>tr_ok = True, tr_status = 200, tr_json =
       Inr ([Obj [(''ticket'', Str (replicate 32 CHR ''k'')), (''expiresAt'', Str ''soon'')]], Ref 0)\<rparr>),
     ue_dateParse = (\<lambda>_. Some 0)\<rparr>"

definition no_aborts :: aborts where
  "no_aborts = \<lparr>ab_beforeFetch = None, ab_duringFetch = None, ab_beforeJson = None, ab_duringJson = None\<rparr>"

lemmas url_eval = connection_url_def obtain_ticket_def ticket_endpoint_def waitForAbort_def isTicketResponse_def
  socket_protocol_def set_param_def new_URL_def local_parse_def ticket_env_def no_aborts_def guard_def
  deref_def has_prop_def get_prop_def Let_def

definition local_page :: url where
  "local_page = \<lparr>protocol = ''http:'', host = ''localhost'', pathname = ''/realtime'', searchParams = []\<rparr>"

definition reconnect_page :: url where
  "reconnect_page = \<lparr>protocol = ''ws:'', host = ''localhost'', pathname = ''/realtime'',
     searchParams = [(''ticket'', replicate 32 CHR ''k''), (''reconnect'', ''true'')]\<rparr>"

theorem connection_url_shape_witness:
  "connection_url ticket_env no_aborts True = Inr reconnect_page \<and> protocol reconnect_page = ''ws:''
   \<and> params_get ''reconnect'' (searchParams reconnect_page) = Some ''true''
   \<and> (\<exists>t. obtain_ticket ticket_env no_aborts local_page = Inr t
        \<and> filter (\<lambda>p. fst p = ''ticket'') (searchParams reconnect_page) = [(''ticket'', t)])"
proof -
  have run: "connection_url ticket_env no_aborts True = Inr reconnect_page"
    by (simp add: url_eval reconnect_page_def)
  have "new_URL (ue_parse ticket_env) (ue_url ticket_env) (ue_location ticket_env) = Inr local_page"
    "\<not> list_ex (\<lambda>p. toLowerCase (fst p) = ''reconnect'') (searchParams local_page)" "ue_ticket ticket_env"
    by (simp_all add: url_eval local_page_def)
  note shape = connection_url_shape [OF run this(1,2)] this(3)
  show ?thesis using run shape by (auto simp: reconnect_page_def)
qed

end
