(* ===== verification/Transport_Http.thy ===== *)
theory Transport_Http
  imports Client_State Js_Url "HOL-Library.Sublist"
begin

text \<open>
  \<open>HttpStreamingSocket\<close> of \<open>sdk/typescript/src/transport.ts\<close>: the fallback transport
  that posts messages and polls for them over HTTP, with the interface of a WebSocket.

  Each operation runs up to its next \<open>await\<close>; the answers of \<open>fetch\<close> come as arguments
  of the operations that continue there. \<open>hs_sends\<close> is the chain of \<open>sendTail\<close>: the
  messages not yet answered, of which the first is in flight when \<open>hs_sending\<close> holds. The
  handlers \<open>onopen\<close>, \<open>onmessage\<close>, \<open>onerror\<close> and \<open>onclose\<close> are the parameter
  \<open>react\<close>, what they do to the socket; \<open>hs_log\<close> records the requests and the events.
\<close>

section \<open>State\<close>

record request =
  rq_method :: string
  rq_url :: url
  rq_headers :: "(string \<times> string) list"
  rq_body :: "string option"
  rq_aborted :: bool \<comment> \<open>its signal is already aborted\<close>

datatype socket_event =
    Opened
  | Message string
  | Errored
  | CloseEvent (close_code: nat) (close_reason: string) (close_wasClean: bool)

datatype http_effect = Request request | Event socket_event

datatype http_phase = Created | ConnectSent | ConnectRead | PollSent | PollRead | Finished

record http_socket =
  hs_state :: ready_state
  hs_aborted :: bool
  hs_baseUrl :: url
  hs_connectionId :: "string option"
  hs_connectionToken :: "string option"
  hs_sends :: "(string \<times> string \<times> string) list" \<comment> \<open>id, token and data\<close>
  hs_sending :: bool
  hs_onclose :: bool \<comment> \<open>a handler is installed\<close>
  hs_phase :: http_phase
  hs_log :: "http_effect list"

type_synonym handlers = "socket_event \<Rightarrow> http_socket \<Rightarrow> http_socket"

record response =
  rs_ok :: bool
  rs_status :: nat

section \<open>Construction\<close>

definition copy_param :: "url \<Rightarrow> string \<Rightarrow> url \<Rightarrow> url" where
  "copy_param source name u = (case params_get name (searchParams source) of
     None \<Rightarrow> u | Some v \<Rightarrow> set_param name v u)"

text \<open>\<open>has_fetch\<close>: the option or the platform provides \<open>fetch\<close>.\<close>

definition new_HttpStreamingSocket ::
  "url_parser \<Rightarrow> string option \<Rightarrow> bool \<Rightarrow> string \<Rightarrow> string \<Rightarrow> thrown + http_socket" where
  "new_HttpStreamingSocket parse location has_fetch options_url websocketUrl =
     bind_result (guard has_fetch (ErrorObject ''TypeError'' ''HTTP streaming requires the Fetch API.''))
     (\<lambda>_. bind_result (new_URL parse options_url location)
     (\<lambda>base. bind_result (guard (protocol base = ''http:'' \<or> protocol base = ''https:'')
        (ErrorObject ''TypeError'' ''The HTTP streaming URL must use http or https.''))
     (\<lambda>_. bind_result (new_URL parse websocketUrl location)
     (\<lambda>source. Inr \<lparr>hs_state = CONNECTING, hs_aborted = False,
        hs_baseUrl = copy_param source ''reconnect'' (copy_param source ''ticket'' base),
        hs_connectionId = None, hs_connectionToken = None, hs_sends = [], hs_sending = False,
        hs_onclose = True, hs_phase = Created, hs_log = []\<rparr>))))"

section \<open>Requests and events\<close>

definition send_request ::
  "string \<Rightarrow> url \<Rightarrow> (string \<times> string) list \<Rightarrow> string option \<Rightarrow> bool \<Rightarrow> http_socket \<Rightarrow> http_socket" where
  "send_request method u headers body abortable s =
     s\<lparr>hs_log := hs_log s @ [Request \<lparr>rq_method = method, rq_url = u, rq_headers = headers, rq_body = body,
        rq_aborted = (abortable \<and> hs_aborted s)\<rparr>]\<rparr>"

definition fire :: "handlers \<Rightarrow> socket_event \<Rightarrow> http_socket \<Rightarrow> http_socket" where
  "fire react ev s = react ev (s\<lparr>hs_log := hs_log s @ [Event ev]\<rparr>)"

definition fire_close :: "handlers \<Rightarrow> nat \<Rightarrow> string \<Rightarrow> bool \<Rightarrow> http_socket \<Rightarrow> http_socket" where
  "fire_close react code reason wasClean s =
     (if hs_onclose s then fire react (CloseEvent code reason wasClean) s else s)"

definition connectionUrl :: "http_socket \<Rightarrow> string \<Rightarrow> string option \<Rightarrow> url" where
  "connectionUrl s ident part =
     set_pathname (strip_slash (pathname (hs_baseUrl s)) @ ''/connections/'' @ encodeURIComponent ident
       @ (case part of None \<Rightarrow> [] | Some x \<Rightarrow> ''/'' @ x)) ((hs_baseUrl s)\<lparr>searchParams := []\<rparr>)"

section \<open>Operations\<close>

definition http_send :: "string \<Rightarrow> http_socket \<Rightarrow> thrown + http_socket" where
  "http_send data s = (case (hs_connectionId s, hs_connectionToken s) of
     (Some ident, Some token) \<Rightarrow>
       if hs_state s = OPEN then Inr (s\<lparr>hs_sends := hs_sends s @ [(ident, token, data)]\<rparr>)
       else Inl (ErrorObject ''InvalidStateError'' ''The connection is not open.'')
   | _ \<Rightarrow> Inl (ErrorObject ''InvalidStateError'' ''The connection is not open.''))"

definition http_close :: "handlers \<Rightarrow> nat \<Rightarrow> string \<Rightarrow> http_socket \<Rightarrow> http_socket" where
  "http_close react code reason s =
     (if hs_state s = CLOSING \<or> hs_state s = CLOSED then s
      else let s1 = (case (hs_connectionId s, hs_connectionToken s) of
          (Some ident, Some token) \<Rightarrow>
            send_request ''DELETE'' (connectionUrl s ident None) [(''X-Realtime-Connection'', token)] None False s
        | _ \<Rightarrow> s)
      in fire_close react code reason True (s1\<lparr>hs_aborted := True, hs_state := CLOSED\<rparr>))"

definition http_fail :: "handlers \<Rightarrow> string \<Rightarrow> http_socket \<Rightarrow> http_socket" where
  "http_fail react reason s =
     (if hs_state s = CLOSED then s
      else let s1 = fire react Errored s
           in fire_close react 1006 reason False (s1\<lparr>hs_aborted := True, hs_state := CLOSED\<rparr>))"

subsection \<open>Sending\<close>

text \<open>The next link of the chain starts once the one before it is settled.\<close>

definition send_turn :: "http_socket \<Rightarrow> http_socket" where
  "send_turn s = (case hs_sends s of
     [] \<Rightarrow> s
   | (ident, token, data) # rest \<Rightarrow>
       if hs_sending s then s
       else send_request ''POST'' (connectionUrl s ident (Some ''messages''))
         [(''Content-Type'', ''application/json''), (''X-Realtime-Connection'', token)] (Some data) True
         (s\<lparr>hs_sending := True\<rparr>))"

definition send_answer :: "handlers \<Rightarrow> thrown + response \<Rightarrow> http_socket \<Rightarrow> http_socket" where
  "send_answer react r s =
     (let s1 = s\<lparr>hs_sends := tl (hs_sends s), hs_sending := False\<rparr> in
      case r of Inr response \<Rightarrow> if rs_ok response then s1 else http_fail react ''send_failed'' s1
      | Inl _ \<Rightarrow> http_fail react ''send_failed'' s1)"

subsection \<open>Connecting and polling\<close>

text \<open>The \<open>catch\<close> of \<open>start\<close>.\<close>

fun error_text :: "thrown \<Rightarrow> string" where
  "error_text (Realtime e) = re_message e"
| "error_text (ErrorObject name message) = message"
| "error_text NonError = ''connection_failed''"

definition start_failed :: "handlers \<Rightarrow> thrown \<Rightarrow> http_socket \<Rightarrow> http_socket" where
  "start_failed react e s =
     (let s1 = s\<lparr>hs_phase := Finished\<rparr> in if hs_aborted s1 then s1 else http_fail react (error_text e) s1)"

definition start :: "http_socket \<Rightarrow> http_socket" where
  "start s = send_request ''POST'' (set_pathname (strip_slash (pathname (hs_baseUrl s)) @ ''/connect'') (hs_baseUrl s))
     [(''Accept'', ''application/json'')] None True (s\<lparr>hs_phase := ConnectSent\<rparr>)"

definition connect_answer :: "handlers \<Rightarrow> thrown + response \<Rightarrow> http_socket \<Rightarrow> http_socket" where
  "connect_answer react r s = (case r of
     Inl e \<Rightarrow> start_failed react e s
   | Inr response \<Rightarrow>
       if rs_ok response then s\<lparr>hs_phase := ConnectRead\<rparr>
       else start_failed react (ErrorObject ''Error''
         (''HTTP streaming connection failed ('' @ nat_str (rs_status response) @ '').'')) s)"

definition isConnectionResponse :: "heap \<Rightarrow> jsval \<Rightarrow> bool" where
  "isConnectionResponse h v = (deref h v \<noteq> None \<and> is_string (get_prop h v ''connectionId'')
     \<and> is_string (get_prop h v ''connectionToken''))"

text \<open>The head of the loop of \<open>poll\<close>.\<close>

definition poll :: "http_socket \<Rightarrow> http_socket" where
  "poll s = (case (hs_connectionId s, hs_connectionToken s) of
     (Some ident, Some token) \<Rightarrow>
       if hs_state s = OPEN
       then send_request ''POST'' (connectionUrl s ident (Some ''poll''))
         [(''Accept'', ''application/json''), (''X-Realtime-Connection'', token)] None True (s\<lparr>hs_phase := PollSent\<rparr>)
       else s\<lparr>hs_phase := Finished\<rparr>
   | _ \<Rightarrow> s\<lparr>hs_phase := Finished\<rparr>)"

definition connect_json :: "handlers \<Rightarrow> thrown + heap \<times> jsval \<Rightarrow> http_socket \<Rightarrow> http_socket" where
  "connect_json react r s = (case r of
     Inl e \<Rightarrow> start_failed react e s
   | Inr (h, v) \<Rightarrow>
       if isConnectionResponse h v
       then poll (fire react Opened (s\<lparr>hs_connectionId := Some (str_of (get_prop h v ''connectionId'')),
         hs_connectionToken := Some (str_of (get_prop h v ''connectionToken'')), hs_state := OPEN\<rparr>))
       else start_failed react (ErrorObject ''Error'' ''HTTP streaming connection response was invalid.'') s)"

definition poll_answer :: "handlers \<Rightarrow> thrown + response \<Rightarrow> http_socket \<Rightarrow> http_socket" where
  "poll_answer react r s = (case r of
     Inl e \<Rightarrow> start_failed react e s
   | Inr response \<Rightarrow>
       if rs_status response = 204 then poll s
       else if rs_ok response then s\<lparr>hs_phase := PollRead\<rparr>
       else start_failed react (ErrorObject ''Error''
         (''HTTP fallback poll failed ('' @ nat_str (rs_status response) @ '').'')) s)"

definition poll_text :: "handlers \<Rightarrow> thrown + string \<Rightarrow> http_socket \<Rightarrow> http_socket" where
  "poll_text react r s = (case r of
     Inl e \<Rightarrow> start_failed react e s
   | Inr message \<Rightarrow> poll (if message \<noteq> [] then fire react (Message message) s else s))"

section \<open>Executions\<close>

datatype http_call = Send string | Close nat string

text \<open>A call on the socket; a \<open>send\<close> that throws changes nothing.\<close>

fun http_api :: "handlers \<Rightarrow> http_call \<Rightarrow> http_socket \<Rightarrow> http_socket" where
  "http_api react (Send data) s = (case http_send data s of Inl _ \<Rightarrow> s | Inr s' \<Rightarrow> s')"
| "http_api react (Close code reason) s = http_close react code reason s"

datatype http_label =
    HttpCall http_call
  | Start
  | ConnectAnswer "thrown + response"
  | ConnectJson "thrown + heap \<times> jsval"
  | PollAnswer "thrown + response"
  | PollText "thrown + string"
  | SendTurn
  | SendAnswer "thrown + response"

text \<open>
  When a step can happen. \<open>fetch\<close> and the readers of its answer are rejected once their
  signal is aborted, so a result that is not an error comes only before.
\<close>

fun http_enabled :: "http_label \<Rightarrow> http_socket \<Rightarrow> bool" where
  "http_enabled (HttpCall call) s = True"
| "http_enabled Start s = (hs_phase s = Created)"
| "http_enabled (ConnectAnswer r) s = (hs_phase s = ConnectSent \<and> (hs_aborted s \<longrightarrow> isl r))"
| "http_enabled (ConnectJson r) s = (hs_phase s = ConnectRead \<and> (hs_aborted s \<longrightarrow> isl r))"
| "http_enabled (PollAnswer r) s = (hs_phase s = PollSent \<and> (hs_aborted s \<longrightarrow> isl r))"
| "http_enabled (PollText r) s = (hs_phase s = PollRead \<and> (hs_aborted s \<longrightarrow> isl r))"
| "http_enabled SendTurn s = (hs_sends s \<noteq> [] \<and> \<not> hs_sending s)"
| "http_enabled (SendAnswer r) s = (hs_sending s \<and> (hs_aborted s \<longrightarrow> isl r))"

fun http_step :: "handlers \<Rightarrow> http_label \<Rightarrow> http_socket \<Rightarrow> http_socket" where
  "http_step react (HttpCall call) s = http_api react call s"
| "http_step react Start s = start s"
| "http_step react (ConnectAnswer r) s = connect_answer react r s"
| "http_step react (ConnectJson r) s = connect_json react r s"
| "http_step react (PollAnswer r) s = poll_answer react r s"
| "http_step react (PollText r) s = poll_text react r s"
| "http_step react SendTurn s = send_turn s"
| "http_step react (SendAnswer r) s = send_answer react r s"

inductive http_reachable :: "handlers \<Rightarrow> http_socket \<Rightarrow> bool" for react where
  created: "new_HttpStreamingSocket parse location has_fetch options_url websocketUrl = Inr s \<Longrightarrow> http_reachable react s"
| step: "http_reachable react s \<Longrightarrow> http_enabled l s \<Longrightarrow> http_reachable react (http_step react l s)"

section \<open>Handlers\<close>

text \<open>
  The handlers of the SDK. Those of the client may call the socket when it opens, delivers or
  closes, but not in \<open>onerror\<close>; those of \<open>InitializingFallbackSocket\<close>
  remove \<open>onclose\<close> in \<open>onerror\<close> and close the socket. What a handler calls
  runs handlers itself, nested to some depth.
\<close>

definition drop_candidate :: "handlers \<Rightarrow> http_socket \<Rightarrow> http_socket" where
  "drop_candidate react s = http_close react 1000 [] (s\<lparr>hs_onclose := False\<rparr>)"

inductive listens :: "handlers \<Rightarrow> bool" where
  quiet: "listens (\<lambda>ev s. s)"
| calls: "listens r \<Longrightarrow> (\<And>ev s. \<exists>cs. f ev s = fold (http_api r) cs s) \<Longrightarrow> (\<And>s. f Errored s = s) \<Longrightarrow> listens f"
| fallback: "listens r \<Longrightarrow> (\<And>ev s. ev \<noteq> Errored \<Longrightarrow> \<exists>cs. f ev s = fold (http_api r) cs s)
    \<Longrightarrow> (\<And>s. f Errored s = drop_candidate r s) \<Longrightarrow> listens f"

section \<open>What handlers cannot do\<close>

definition log_events :: "http_effect list \<Rightarrow> socket_event list" where
  "log_events es = concat (map (\<lambda>e. case e of Event ev \<Rightarrow> [ev] | Request _ \<Rightarrow> []) es)"

abbreviation http_events :: "http_socket \<Rightarrow> socket_event list" where
  "http_events s \<equiv> log_events (hs_log s)"

fun is_close :: "socket_event \<Rightarrow> bool" where
  "is_close (CloseEvent _ _ _) = True"
| "is_close _ = False"

text \<open>\<open>onopen\<close> comes first and nothing comes after \<open>onclose\<close>.\<close>

fun events_ok :: "socket_event list \<Rightarrow> bool" where
  "events_ok [] = True"
| "events_ok (e # es) = ((is_close e \<longrightarrow> es = []) \<and> Opened \<notin> set es \<and> events_ok es)"

definition http_ok :: "http_socket \<Rightarrow> bool" where
  "http_ok s = ((hs_aborted s \<longleftrightarrow> hs_state s = CLOSED) \<and> hs_state s \<noteq> CLOSING
     \<and> (hs_state s = CONNECTING \<longrightarrow> http_events s = [])
     \<and> (hs_state s = OPEN \<longrightarrow> hs_connectionId s \<noteq> None \<and> hs_connectionToken s \<noteq> None)
     \<and> (hs_state s \<noteq> CLOSED \<longrightarrow> list_all (Not \<circ> is_close) (http_events s))
     \<and> events_ok (http_events s))"

lemma events_ok_append:
  "events_ok (es @ [e]) \<longleftrightarrow> events_ok es \<and> list_all (Not \<circ> is_close) es \<and> (es \<noteq> [] \<longrightarrow> e \<noteq> Opened)"
  by (induction es) auto

lemma events_ok_nth:
  assumes "events_ok es" "i < length es"
  shows "(is_close (es ! i) \<longrightarrow> Suc i = length es) \<and> (es ! i = Opened \<longrightarrow> i = 0)"
  using assms
proof (induction es arbitrary: i)
  case (Cons e es)
  then show ?case by (cases i) (auto dest: nth_mem)
qed simp

lemma events_ok_error_close:
  "events_ok (es @ [Errored, CloseEvent code reason wasClean]) \<longleftrightarrow> events_ok es \<and> list_all (Not \<circ> is_close) es"
  using events_ok_append [of "es @ [Errored]" "CloseEvent code reason wasClean"] events_ok_append [of es Errored] by auto

lemma log_events_simps [simp]:
  "log_events [] = []"
  "log_events (es @ [Event ev]) = log_events es @ [ev]"
  "log_events (es @ [Request q]) = log_events es"
  by (simp_all add: log_events_def)

lemma http_ok_frame:
  "http_ok (s\<lparr>hs_sends := q\<rparr>) = http_ok s"
  "http_ok (s\<lparr>hs_sending := b\<rparr>) = http_ok s"
  "http_ok (s\<lparr>hs_phase := ph\<rparr>) = http_ok s"
  "http_ok (s\<lparr>hs_onclose := b\<rparr>) = http_ok s"
  "http_ok (s\<lparr>hs_log := hs_log s @ [Request q']\<rparr>) = http_ok s"
  by (simp_all add: http_ok_def)

lemma http_ok_request [simp]: "http_ok (send_request m u hs b ab s) = http_ok s"
  by (simp add: send_request_def http_ok_frame)

lemma send_request_frame [simp]:
  "hs_state (send_request m u hs b ab s) = hs_state s"
  "hs_phase (send_request m u hs b ab s) = hs_phase s"
  "hs_aborted (send_request m u hs b ab s) = hs_aborted s"
  "hs_onclose (send_request m u hs b ab s) = hs_onclose s"
  "hs_connectionId (send_request m u hs b ab s) = hs_connectionId s"
  "hs_connectionToken (send_request m u hs b ab s) = hs_connectionToken s"
  "hs_sends (send_request m u hs b ab s) = hs_sends s"
  "hs_sending (send_request m u hs b ab s) = hs_sending s"
  "http_events (send_request m u hs b ab s) = http_events s"
  by (simp_all add: send_request_def)

text \<open>Calls on a closed socket change nothing.\<close>

lemma api_closed: "hs_state s = CLOSED \<Longrightarrow> http_api r c s = s"
  by (cases c) (auto simp: http_send_def http_close_def split: option.splits)

lemma apis_closed: "hs_state s = CLOSED \<Longrightarrow> fold (http_api r) cs s = s"
  by (induction cs) (simp_all add: api_closed)

lemma listens_closed:
  assumes "listens r" "hs_state s = CLOSED" "ev \<noteq> Errored"
  shows "r ev s = s"
  using assms by cases (auto dest: apis_closed, metis apis_closed, metis apis_closed)

lemma http_ok_closed: "http_ok s \<Longrightarrow> hs_state s \<noteq> CLOSED \<Longrightarrow> http_ok (s\<lparr>hs_aborted := True, hs_state := CLOSED\<rparr>)"
  by (simp add: http_ok_def)

text \<open>What closing an open socket does.\<close>

definition closing :: "nat \<Rightarrow> string \<Rightarrow> bool \<Rightarrow> http_socket \<Rightarrow> http_socket" where
  "closing code reason wasClean s =
     (let s1 = s\<lparr>hs_aborted := True, hs_state := CLOSED\<rparr>
      in if hs_onclose s then s1\<lparr>hs_log := hs_log s1 @ [Event (CloseEvent code reason wasClean)]\<rparr> else s1)"

lemma fire_close_listens:
  "listens r \<Longrightarrow> fire_close r code reason wasClean (s\<lparr>hs_aborted := True, hs_state := CLOSED\<rparr>) = closing code reason wasClean s"
  by (simp add: fire_close_def fire_def closing_def Let_def listens_closed)

lemma closing_ok: "http_ok s \<Longrightarrow> hs_state s \<noteq> CLOSED \<Longrightarrow> http_ok (closing code reason wasClean s)"
  by (auto simp: closing_def Let_def http_ok_def events_ok_append)

lemma http_close_listens:
  assumes "listens r" "hs_state s \<noteq> CLOSED" "hs_state s \<noteq> CLOSING"
  obtains s1 where "http_close r code reason s = closing code reason True s1" "s1 = s \<or> (\<exists>m u hs. s1 = send_request m u hs None False s)"
  using assms that
  by (cases "hs_connectionId s"; cases "hs_connectionToken s") (simp_all add: http_close_def fire_close_listens, blast)

lemma http_close_ok: "listens r \<Longrightarrow> http_ok s \<Longrightarrow> http_ok (http_close r code reason s)"
proof (cases "hs_state s = CLOSING \<or> hs_state s = CLOSED")
  case False
  assume a: "listens r" "http_ok s"
  with False obtain s1 where "http_close r code reason s = closing code reason True s1"
    "s1 = s \<or> (\<exists>m u hs. s1 = send_request m u hs None False s)"
    using http_close_listens by metis
  then show ?thesis using a False by (auto intro!: closing_ok)
qed (simp add: http_close_def)

lemma http_api_ok: "listens r \<Longrightarrow> http_ok s \<Longrightarrow> http_ok (http_api r c s)"
  by (cases c) (auto simp: http_send_def http_ok_frame http_close_ok split: option.splits)

lemma http_apis_ok: "listens r \<Longrightarrow> http_ok s \<Longrightarrow> http_ok (fold (http_api r) cs s)"
  by (induction cs arbitrary: s) (simp_all add: http_api_ok)

lemma listens_ok:
  assumes "listens r" "http_ok s" "ev \<noteq> Errored"
  shows "http_ok (r ev s)"
  using assms by cases (auto, metis http_apis_ok, metis http_apis_ok)

text \<open>The messages posted so far.\<close>

definition log_bodies :: "http_effect list \<Rightarrow> string list" where
  "log_bodies es = concat (map (\<lambda>e. case e of Request q \<Rightarrow> (case rq_body q of None \<Rightarrow> [] | Some b \<Rightarrow> [b]) | Event _ \<Rightarrow> []) es)"

abbreviation posted :: "http_socket \<Rightarrow> string list" where
  "posted s \<equiv> log_bodies (hs_log s)"

lemma log_bodies_simps [simp]:
  "log_bodies [] = []"
  "log_bodies (es @ [Event ev]) = log_bodies es"
  "log_bodies (es @ [Request q]) = log_bodies es @ (case rq_body q of None \<Rightarrow> [] | Some b \<Rightarrow> [b])"
  by (simp_all add: log_bodies_def split: option.splits)

lemma posted_request [simp]:
  "posted (send_request m u hs b ab s) = posted s @ (case b of None \<Rightarrow> [] | Some x \<Rightarrow> [x])"
  by (simp add: send_request_def)

text \<open>
  A call closes the socket or leaves its state, and it may queue messages behind the others; it
  never moves the loop of \<open>start\<close> and posts nothing itself.
\<close>

definition moves :: "http_socket \<Rightarrow> http_socket \<Rightarrow> bool" where
  "moves s s' = (hs_phase s' = hs_phase s \<and> (hs_state s' = hs_state s \<or> hs_state s' = CLOSED)
     \<and> hs_connectionId s' = hs_connectionId s \<and> hs_connectionToken s' = hs_connectionToken s
     \<and> hs_sending s' = hs_sending s \<and> posted s' = posted s \<and> prefix (hs_sends s) (hs_sends s'))"

lemma moves_refl [simp]: "moves s s"
  by (simp add: moves_def)

lemma moves_trans: "moves s t \<Longrightarrow> moves t u \<Longrightarrow> moves s u"
  by (auto simp: moves_def)

lemma http_close_moves: "listens r \<Longrightarrow> moves s (http_close r code reason s)"
proof (cases "hs_state s = CLOSING \<or> hs_state s = CLOSED")
  case False
  assume a: "listens r"
  with False obtain s1 where "http_close r code reason s = closing code reason True s1"
    "s1 = s \<or> (\<exists>m u hs. s1 = send_request m u hs None False s)"
    using http_close_listens by metis
  then show ?thesis by (auto simp: moves_def closing_def Let_def)
qed (simp add: http_close_def)

lemma http_api_moves: "listens r \<Longrightarrow> moves s (http_api r c s)"
  by (cases c) (auto simp: http_send_def http_close_moves moves_def [of s "s\<lparr>hs_sends := q\<rparr>" for q] split: option.splits)

lemma http_apis_moves: "listens r \<Longrightarrow> moves s (fold (http_api r) cs s)"
  by (induction cs arbitrary: s) (auto intro: moves_trans http_api_moves)

lemma listens_moves: "listens r \<Longrightarrow> ev \<noteq> Errored \<Longrightarrow> moves s (r ev s)"
  by (cases rule: listens.cases) (auto, metis http_apis_moves, metis http_apis_moves)

lemma listens_errored:
  assumes "listens r"
  shows "r Errored s = s \<or> (\<exists>r'. listens r' \<and> r Errored s = drop_candidate r' s)"
  using assms by cases auto

text \<open>A failure logs \<open>onerror\<close>, then closes.\<close>

lemma http_fail_listens:
  assumes "listens r" "hs_state s \<noteq> CLOSED" "hs_state s \<noteq> CLOSING"
  obtains t where "http_fail r reason s = closing 1006 reason False t" "http_events t = http_events s @ [Errored]"
    "moves s t"
proof -
  let ?s = "s\<lparr>hs_log := hs_log s @ [Event Errored]\<rparr>"
  from listens_errored [OF assms(1), of ?s] show thesis
  proof
    assume "r Errored ?s = ?s"
    then show thesis using assms
      by (intro that [of ?s]) (simp_all add: http_fail_def fire_def fire_close_listens moves_def)
  next
    assume "\<exists>r'. listens r' \<and> r Errored ?s = drop_candidate r' ?s"
    then obtain r' where r: "listens r'" "r Errored ?s = drop_candidate r' ?s" by blast
    obtain s1 where s1: "drop_candidate r' ?s = closing 1000 [] True s1"
      "s1 = ?s\<lparr>hs_onclose := False\<rparr> \<or> (\<exists>m u hs. s1 = send_request m u hs None False (?s\<lparr>hs_onclose := False\<rparr>))"
      using http_close_listens [OF r(1), of "?s\<lparr>hs_onclose := False\<rparr>" 1000 "[]"] assms(2,3)
      by (auto simp: drop_candidate_def)
    show thesis using assms r s1
      by (intro that [of "drop_candidate r' ?s"])
         (auto simp: http_fail_def fire_def fire_close_listens moves_def closing_def Let_def)
  qed
qed

lemma http_fail_ok:
  assumes "listens r" "http_ok s"
  shows "http_ok (http_fail r reason s)" "moves s (http_fail r reason s)"
proof -
  show "http_ok (http_fail r reason s)"
  proof (cases "hs_state s = CLOSED")
    case False
    then obtain t where t: "http_fail r reason s = closing 1006 reason False t" "http_events t = http_events s @ [Errored]"
      using http_fail_listens [OF assms(1) False] assms(2) by (metis http_ok_def)
    show ?thesis using assms(2) False unfolding t(1)
      by (auto simp: http_ok_def closing_def Let_def t(2) events_ok_append events_ok_error_close)
  qed (simp add: http_fail_def assms)
  show "moves s (http_fail r reason s)"
  proof (cases "hs_state s = CLOSED")
    case False
    then obtain t where t: "http_fail r reason s = closing 1006 reason False t" "moves s t"
      using http_fail_listens [OF assms(1) False] assms(2) by (metis http_ok_def)
    then show ?thesis by (auto simp: moves_def closing_def Let_def)
  qed (simp add: http_fail_def)
qed

section \<open>The invariant of the socket\<close>

definition http_inv :: "http_socket \<Rightarrow> bool" where
  "http_inv s = (http_ok s
     \<and> (hs_phase s \<in> {Created, ConnectSent, ConnectRead} \<longrightarrow> hs_state s \<noteq> OPEN)
     \<and> (hs_phase s \<in> {PollSent, PollRead} \<longrightarrow> hs_state s \<noteq> CONNECTING))"

lemma http_inv_moves: "http_inv s \<Longrightarrow> moves s t \<Longrightarrow> http_ok t \<Longrightarrow> http_inv t"
  by (auto simp: http_inv_def moves_def)

lemma http_inv_phase:
  "http_ok s \<Longrightarrow> (ph \<in> {Created, ConnectSent, ConnectRead} \<Longrightarrow> hs_state s \<noteq> OPEN)
   \<Longrightarrow> (ph \<in> {PollSent, PollRead} \<Longrightarrow> hs_state s \<noteq> CONNECTING) \<Longrightarrow> http_inv (s\<lparr>hs_phase := ph\<rparr>)"
  by (auto simp: http_inv_def http_ok_frame)

lemma start_failed_inv: "listens r \<Longrightarrow> http_inv s \<Longrightarrow> http_inv (start_failed r e s)"
  unfolding start_failed_def Let_def
  by (auto simp: http_inv_def http_ok_frame moves_def dest: http_fail_ok [of r "s\<lparr>hs_phase := Finished\<rparr>" "error_text e"])

lemma poll_inv: "http_ok s \<Longrightarrow> http_inv (poll s)"
  by (auto simp: poll_def http_inv_def http_ok_frame split: option.splits)

lemma new_HttpStreamingSocket_inv:
  "new_HttpStreamingSocket parse location has_fetch options_url websocketUrl = Inr s \<Longrightarrow> http_inv s"
  by (auto simp: new_HttpStreamingSocket_def bind_result_Inr_conv http_inv_def http_ok_def)

lemma connect_json_inv:
  assumes "listens r" "http_inv s" "hs_phase s = ConnectRead" "hs_aborted s \<longrightarrow> isl v"
  shows "http_inv (connect_json r v s)"
proof (cases v)
  case (Inr p)
  obtain h w where p: "p = (h, w)" by (cases p)
  have s: "http_ok s" "hs_state s = CONNECTING" using assms Inr by (cases "hs_state s"; auto simp: http_inv_def http_ok_def)+
  have "http_ok (s\<lparr>hs_connectionId := Some i, hs_connectionToken := Some t, hs_state := OPEN, hs_log := hs_log s @ [Event Opened]\<rparr>)" for i t
    using s by (simp add: http_ok_def)
  from listens_ok [OF assms(1) this] have "http_ok (fire r Opened (s\<lparr>hs_connectionId := Some i, hs_connectionToken := Some t, hs_state := OPEN\<rparr>))" for i t
    by (simp add: fire_def)
  then show ?thesis using Inr p assms(1,2) by (simp add: connect_json_def poll_inv start_failed_inv)
qed (simp add: connect_json_def assms start_failed_inv)

lemma poll_text_inv:
  assumes "listens r" "http_inv s" "hs_phase s = PollRead" "hs_aborted s \<longrightarrow> isl v"
  shows "http_inv (poll_text r v s)"
proof (cases v)
  case (Inr message)
  have "http_ok (s\<lparr>hs_log := hs_log s @ [Event (Message message)]\<rparr>)"
    using assms Inr by (auto simp: http_inv_def http_ok_def events_ok_append)
  from listens_ok [OF assms(1) this] show ?thesis
    using Inr assms(2) by (auto simp: poll_text_def fire_def http_inv_def [of s] intro!: poll_inv)
qed (simp add: poll_text_def assms start_failed_inv)

lemma http_inv_fail: "listens r \<Longrightarrow> http_inv s \<Longrightarrow> http_inv (http_fail r reason s)"
  using http_fail_ok [of r s reason] http_inv_moves [of s] by (simp add: http_inv_def [of s])

lemma http_inv_frame:
  "http_inv (s\<lparr>hs_sends := q\<rparr>) = http_inv s"
  "http_inv (s\<lparr>hs_sending := b\<rparr>) = http_inv s"
  "http_inv (send_request m u hs bd ab s) = http_inv s"
  by (simp_all add: http_inv_def http_ok_frame)

lemma send_answer_inv: "listens r \<Longrightarrow> http_inv s \<Longrightarrow> http_inv (send_answer r v s)"
  by (cases v) (simp_all add: send_answer_def Let_def http_inv_frame http_inv_fail)

lemma start_inv: "http_inv s \<Longrightarrow> hs_phase s = Created \<Longrightarrow> http_inv (start s)"
  unfolding start_def http_inv_frame by (rule http_inv_phase) (auto simp: http_inv_def)

lemma http_inv_advance:
  "http_inv s \<Longrightarrow> hs_phase s = ConnectSent \<Longrightarrow> http_inv (s\<lparr>hs_phase := ConnectRead\<rparr>)"
  "http_inv s \<Longrightarrow> hs_phase s = PollSent \<Longrightarrow> http_inv (s\<lparr>hs_phase := PollRead\<rparr>)"
  "http_inv s \<Longrightarrow> http_inv (poll s)"
  by (simp add: http_inv_def http_ok_frame, simp add: http_inv_def http_ok_frame, simp add: poll_inv http_inv_def [of s])

lemma connect_answer_inv: "listens r \<Longrightarrow> http_inv s \<Longrightarrow> hs_phase s = ConnectSent \<Longrightarrow> http_inv (connect_answer r v s)"
  by (cases v) (simp_all add: connect_answer_def start_failed_inv http_inv_advance)

lemma poll_answer_inv: "listens r \<Longrightarrow> http_inv s \<Longrightarrow> hs_phase s = PollSent \<Longrightarrow> http_inv (poll_answer r v s)"
  by (cases v) (simp_all add: poll_answer_def start_failed_inv http_inv_advance)

lemma send_turn_inv: "http_inv s \<Longrightarrow> http_inv (send_turn s)"
  by (simp add: send_turn_def http_inv_frame split: list.splits)

lemma http_api_inv: "listens r \<Longrightarrow> http_inv s \<Longrightarrow> http_inv (http_api r c s)"
  using http_inv_moves [OF _ http_api_moves http_api_ok] by (simp add: http_inv_def [of s])

lemma http_step_inv:
  assumes "listens r" "http_inv s" "http_enabled l s"
  shows "http_inv (http_step r l s)"
  using assms
  by (cases l) (simp_all add: http_api_inv connect_json_inv poll_text_inv send_answer_inv start_inv
      connect_answer_inv poll_answer_inv send_turn_inv)

lemma http_reachable_inv: "http_reachable r s \<Longrightarrow> listens r \<Longrightarrow> http_inv s"
  by (induction rule: http_reachable.induct) (auto intro: new_HttpStreamingSocket_inv http_step_inv)

end
