(* ===== verification/Transport_Http_Theorems.thy ===== *)
theory Transport_Http_Theorems
  imports Transport_Http
begin

text \<open>
  Theorems on \<open>HttpStreamingSocket\<close>: the order of its events and of the messages it
  posts, where its requests go, and the contract it keeps as a socket.
\<close>

section \<open>The order of events\<close>



section \<open>The order of messages\<close>

definition waiting :: "http_socket \<Rightarrow> string list" where
  "waiting s = map (snd \<circ> snd) (if hs_sending s then tl (hs_sends s) else hs_sends s)"

definition outbox :: "http_socket \<Rightarrow> string list" where
  "outbox s = posted s @ waiting s"

definition chain_ok :: "http_socket \<Rightarrow> bool" where
  "chain_ok s = (hs_sending s \<longrightarrow> hs_sends s \<noteq> [])"

lemma moves_outbox: "moves s t \<Longrightarrow> chain_ok s \<Longrightarrow> chain_ok t \<and> prefix (outbox s) (outbox t)"
  by (cases "hs_sends s") (auto simp: moves_def chain_ok_def outbox_def waiting_def prefix_def)

definition appends :: "http_socket \<Rightarrow> http_socket \<Rightarrow> bool" where
  "appends s t = (chain_ok s \<longrightarrow> chain_ok t \<and> prefix (outbox s) (outbox t))"

lemma appends_moves: "moves s t \<Longrightarrow> appends s t"
  by (simp add: appends_def moves_outbox)

lemma appends_trans [trans]: "appends s t \<Longrightarrow> appends t u \<Longrightarrow> appends s u"
  by (auto simp: appends_def)

lemma appends_same:
  "hs_sending t = hs_sending s \<Longrightarrow> hs_sends t = hs_sends s \<Longrightarrow> posted t = posted s \<Longrightarrow> appends s t"
  by (simp add: appends_def chain_ok_def outbox_def waiting_def)

lemma appends_poll: "appends s (poll s)"
  by (rule appends_same) (auto simp: poll_def split: option.splits)

lemma appends_start_failed: "listens r \<Longrightarrow> http_ok s \<Longrightarrow> appends s (start_failed r e s)"
proof -
  assume a: "listens r" "http_ok s"
  have "appends s (s\<lparr>hs_phase := Finished\<rparr>)" by (rule appends_same) simp_all
  also have "appends \<dots> (start_failed r e s)"
    using a by (auto simp: start_failed_def Let_def http_ok_frame intro!: appends_moves http_fail_ok)
  finally show ?thesis .
qed

lemma appends_fire: "listens r \<Longrightarrow> ev \<noteq> Errored \<Longrightarrow> appends s (fire r ev s)"
  unfolding fire_def by (rule appends_trans [OF appends_same appends_moves [OF listens_moves]]) simp_all

lemma appends_step:
  assumes "listens r" "http_ok s" "http_enabled l s"
  shows "appends s (http_step r l s)"
proof (cases l)
  case (HttpCall c)
  then show ?thesis using assms by (simp add: appends_moves http_api_moves)
next
  case Start
  then show ?thesis by (simp add: start_def appends_same)
next
  case (ConnectAnswer v)
  then show ?thesis using assms by (cases v) (auto simp: connect_answer_def appends_start_failed intro: appends_same)
next
  case (ConnectJson v)
  have opn: "appends s (s\<lparr>hs_connectionId := i, hs_connectionToken := t, hs_state := OPEN\<rparr>)" for i t
    by (rule appends_same) simp_all
  show ?thesis using ConnectJson assms opn
    by (cases v) (auto simp: connect_json_def appends_start_failed intro!: appends_trans [OF _ appends_poll] appends_trans [OF opn appends_fire])
next
  case (PollAnswer v)
  then show ?thesis using assms
    by (cases v) (auto simp: poll_answer_def appends_start_failed appends_poll intro: appends_same)
next
  case (PollText v)
  then show ?thesis using assms
    by (cases v) (auto simp: poll_text_def appends_start_failed appends_poll intro!: appends_trans [OF _ appends_poll] appends_fire)
next
  case SendTurn
  then show ?thesis
    by (auto simp: send_turn_def appends_def chain_ok_def outbox_def waiting_def split: list.splits)
next
  case (SendAnswer v)
  have ans: "appends s (s\<lparr>hs_sends := tl (hs_sends s), hs_sending := False\<rparr>)"
    using SendAnswer assms(3) by (simp add: appends_def chain_ok_def outbox_def waiting_def)
  have "appends s (http_fail r reason (s\<lparr>hs_sends := tl (hs_sends s), hs_sending := False\<rparr>))" for reason
    using assms by (intro appends_trans [OF ans] appends_moves http_fail_ok) (simp_all add: http_ok_frame)
  then show ?thesis using SendAnswer ans by (cases v) (auto simp: send_answer_def Let_def)
qed

definition http_next :: "handlers \<Rightarrow> http_socket \<Rightarrow> http_socket \<Rightarrow> bool" where
  "http_next react s t = (\<exists>l. http_enabled l s \<and> t = http_step react l s)"

lemma chain_ok_new: "new_HttpStreamingSocket parse location has_fetch options_url websocketUrl = Inr s \<Longrightarrow> chain_ok s"
  by (auto simp: new_HttpStreamingSocket_def bind_result_Inr_conv chain_ok_def)

lemma http_reachable_chain: "http_reachable r s \<Longrightarrow> listens r \<Longrightarrow> chain_ok s"
proof (induction rule: http_reachable.induct)
  case (step s l)
  then have "http_ok s" using http_reachable_inv by (simp add: http_inv_def)
  from appends_step [OF step.prems this step.hyps(2)] step.IH [OF step.prems] show ?case by (simp add: appends_def)
qed (rule chain_ok_new)

lemma http_reachable_next: "http_reachable r s \<Longrightarrow> (http_next r)\<^sup>*\<^sup>* s t \<Longrightarrow> http_reachable r t"
  by (erule rtranclp_induct) (auto simp: http_next_def intro: http_reachable.step)

lemma appends_next:
  assumes "listens r" "http_reachable r s" "(http_next r)\<^sup>*\<^sup>* s t"
  shows "appends s t"
  using assms(3)
proof (induction rule: rtranclp_induct)
  case (step t u)
  have "http_ok t" using http_reachable_inv [OF http_reachable_next [OF assms(2) step.hyps(1)] assms(1)]
    by (simp add: http_inv_def)
  then have "appends t u" using step.hyps(2) appends_step [OF assms(1)] by (auto simp: http_next_def)
  with step.IH show ?case by (rule appends_trans)
qed (simp add: appends_def)

text \<open>
  C17. A message that \<open>send\<close> accepts is posted after every message accepted before it and
  before every later one: the messages posted at any later time are a prefix of the accepted ones
  in their order, none twice and none left out.
\<close>

theorem http_messages_in_order:
  assumes "listens react" "http_reachable react s" "http_send data s = Inr s'" "(http_next react)\<^sup>*\<^sup>* s' t"
  shows "prefix (outbox s @ [data]) (outbox t) \<and> prefix (posted t) (outbox t)"
proof -
  have step: "s' = http_step react (HttpCall (Send data)) s" using assms(3) by simp
  have "http_reachable react s'" unfolding step using assms(2) by (rule http_reachable.step) simp
  then have "appends s' t" "chain_ok s'" using assms(1,4) appends_next http_reachable_chain by blast+
  moreover have "outbox s' = outbox s @ [data]"
    using assms(3) http_reachable_chain [OF assms(2,1)]
    by (cases "hs_sends s") (auto simp: http_send_def outbox_def waiting_def chain_ok_def split: option.splits if_splits)
  ultimately show ?thesis by (simp add: appends_def outbox_def [of t])
qed

section \<open>Where requests go\<close>


section \<open>A concrete socket\<close>

definition gateway_parse :: url_parser where
  "gateway_parse text base = (if text = ''/stream'' then Some \<lparr>protocol = ''https:'', host = ''h'', pathname = ''/stream'', searchParams = []\<rparr>
     else if text = ''ws'' then Some \<lparr>protocol = ''wss:'', host = ''h'', pathname = ''/'', searchParams = [(''ticket'', ''t'')]\<rparr> else None)"

definition fresh_socket :: http_socket where
  "fresh_socket = \<lparr>hs_state = CONNECTING, hs_aborted = False,
     hs_baseUrl = \<lparr>protocol = ''https:'', host = ''h'', pathname = ''/stream'', searchParams = [(''ticket'', ''t'')]\<rparr>,
     hs_connectionId = None, hs_connectionToken = None, hs_sends = [], hs_sending = False,
     hs_onclose = True, hs_phase = Created, hs_log = []\<rparr>"

abbreviation quiet_handlers :: handlers where
  "quiet_handlers \<equiv> \<lambda>ev s. s"

fun http_run :: "handlers \<Rightarrow> http_label list \<Rightarrow> http_socket \<Rightarrow> http_socket option" where
  "http_run react [] s = Some s"
| "http_run react (l # ls) s = (if http_enabled l s then http_run react ls (http_step react l s) else None)"

definition connected :: "http_label list" where
  "connected = [Start, ConnectAnswer (Inr \<lparr>rs_ok = True, rs_status = 200\<rparr>),
     ConnectJson (Inr ([Obj [(''connectionId'', Str ''a/b''), (''connectionToken'', Str ''k'')]], Ref 0))]"

lemma fresh_socket_new: "new_HttpStreamingSocket gateway_parse None True ''/stream'' ''ws'' = Inr fresh_socket"
  by (simp add: new_HttpStreamingSocket_def gateway_parse_def new_URL_def guard_def copy_param_def params_get_def
      set_param_def fresh_socket_def)

lemma http_run_reachable: "http_reachable r s \<Longrightarrow> http_run r ls s = Some t \<Longrightarrow> http_reachable r t"
  by (induction ls arbitrary: s) (auto split: if_splits intro: http_reachable.step)

lemma http_run_next: "http_run r ls s = Some t \<Longrightarrow> (http_next r)\<^sup>*\<^sup>* s t"
proof (induction ls arbitrary: s)
  case (Cons l ls)
  then have l: "http_enabled l s" "(http_next r)\<^sup>*\<^sup>* (http_step r l s) t" by (auto split: if_splits)
  then have "http_next r s (http_step r l s)" by (auto simp: http_next_def)
  then show ?case using l(2) by (rule converse_rtranclp_into_rtranclp)
qed simp

lemmas http_eval = fresh_socket_def connected_def start_def send_request_def connect_answer_def connect_json_def
  isConnectionResponse_def deref_def get_prop_def poll_def fire_def fire_close_def http_close_def http_send_def
  send_turn_def send_answer_def poll_answer_def poll_text_def log_events_def log_bodies_def outbox_def waiting_def






definition opened_socket :: http_socket where
  "opened_socket = the (http_run quiet_handlers (connected @ [HttpCall (Send ''m'')]) fresh_socket)"

definition posted_both :: "http_label list" where
  "posted_both = [SendTurn, SendAnswer (Inr \<lparr>rs_ok = True, rs_status = 202\<rparr>), SendTurn]"

theorem http_messages_in_order_witness:
  "\<exists>s' t. http_send ''n'' opened_socket = Inr s' \<and> http_run quiet_handlers posted_both s' = Some t
     \<and> prefix [''m'', ''n''] (outbox t) \<and> posted t = [''m'', ''n'']"
proof -
  have run: "http_run quiet_handlers (connected @ [HttpCall (Send ''m'')]) fresh_socket = Some opened_socket"
    unfolding opened_socket_def by (simp add: http_eval)
  note r = http_run_reachable [OF http_reachable.created [OF fresh_socket_new] run]
  obtain s' t where s: "http_send ''n'' opened_socket = Inr s'" "http_run quiet_handlers posted_both s' = Some t"
    "posted t = [''m'', ''n'']"
    unfolding opened_socket_def by (simp add: http_eval posted_both_def)
  have "outbox opened_socket = [''m'']" unfolding opened_socket_def by (simp add: http_eval)
  then show ?thesis
    using http_messages_in_order [OF listens.quiet r s(1) http_run_next [OF s(2)]] s by auto
qed



section \<open>The socket contract\<close>

text \<open>
  What the client and the fallback socket rely on of a socket: \<open>close\<close> ends it, once
  ended it stays as it is, \<open>send\<close> throws unless it is open, and the events are in order.
\<close>

locale web_socket =
  fixes ready :: "'s \<Rightarrow> ready_state"
    and send :: "string \<Rightarrow> 's \<Rightarrow> thrown + 's"
    and close :: "nat \<Rightarrow> string \<Rightarrow> 's \<Rightarrow> 's"
    and events :: "'s \<Rightarrow> socket_event list"
    and ok :: "'s \<Rightarrow> bool"
  assumes close_ok: "ok s \<Longrightarrow> ok (close code reason s)"
    and close_ends: "ok s \<Longrightarrow> ready (close code reason s) \<in> {CLOSING, CLOSED}"
    and closed_stays: "ready s \<in> {CLOSING, CLOSED} \<Longrightarrow> close code reason s = s"
    and send_ready: "ok s \<Longrightarrow> (\<exists>s'. send data s = Inr s') \<longleftrightarrow> ready s = OPEN"
    and close_events: "ok s \<Longrightarrow> ready s \<notin> {CLOSING, CLOSED} \<Longrightarrow>
      events (close code reason s) = events s \<or> events (close code reason s) = events s @ [CloseEvent code reason True]"
begin

text \<open>Closing is idempotent, and however often a socket is closed one close event comes.\<close>

lemma close_twice: "ok s \<Longrightarrow> close code' reason' (close code reason s) = close code reason s"
  using close_ends closed_stays by blast

lemma closes_once:
  assumes "ok s" "ready s \<notin> {CLOSING, CLOSED}"
  shows "length (filter is_close (events (close code' reason' (close code reason s)))) \<le> Suc (length (filter is_close (events s)))"
  using close_events [OF assms, of code reason] close_twice [OF assms(1)] by auto

lemma send_after_close: "ok s \<Longrightarrow> \<exists>e. send data (close code reason s) = Inl e"
proof -
  assume "ok s"
  then have "\<not> (\<exists>s'. send data (close code reason s) = Inr s')"
    using send_ready [OF close_ok] close_ends by (metis insertE ready_state.distinct(7,9) singletonD)
  then show ?thesis by (cases "send data (close code reason s)") auto
qed

end

interpretation http: web_socket hs_state http_send "http_close react" "\<lambda>s. http_events s" "\<lambda>s. listens react \<and> http_ok s"
  for react
proof unfold_locales
  show "hs_state (http_close react code reason s) \<in> {CLOSING, CLOSED}" if "listens react \<and> http_ok s" for s code reason
  proof (cases "hs_state s = CLOSING \<or> hs_state s = CLOSED")
    case False
    with that obtain s1 where "http_close react code reason s = closing code reason True s1"
      using http_close_listens by metis
    then show ?thesis by (simp add: closing_def Let_def)
  qed (auto simp: http_close_def)
  show "http_events (http_close react code reason s) = http_events s
      \<or> http_events (http_close react code reason s) = http_events s @ [CloseEvent code reason True]"
    if ok: "listens react \<and> http_ok s" "hs_state s \<notin> {CLOSING, CLOSED}" for s code reason
  proof -
    obtain s1 where "http_close react code reason s = closing code reason True s1"
      "s1 = s \<or> (\<exists>m u hs. s1 = send_request m u hs None False s)"
      using http_close_listens [of react s code reason] ok by blast
    then show ?thesis by (auto simp: closing_def Let_def)
  qed
  show "(\<exists>s'. http_send data s = Inr s') \<longleftrightarrow> hs_state s = OPEN" if "listens react \<and> http_ok s" for s data
    using that by (auto simp: http_send_def http_ok_def split: option.splits)
qed (simp add: http_close_ok, auto simp: http_close_def)

text \<open>
  Closing the HTTP socket is idempotent: a second \<open>close\<close> with any arguments
  changes nothing, and \<open>send\<close> throws from then on.
\<close>

theorem http_close_idempotent:
  assumes "listens react" "http_reachable react s"
  shows "http_close react code' reason' (http_close react code reason s) = http_close react code reason s
    \<and> (\<exists>e. http_send data (http_close react code reason s) = Inl e)"
  using http.close_twice [of react s] http.send_after_close [of react s] http_reachable_inv [OF assms(2,1)] assms(1)
  by (simp add: http_inv_def)

theorem http_close_idempotent_witness:
  "http_close quiet_handlers 1001 [] (http_close quiet_handlers 1000 ''x'' fresh_socket) = http_close quiet_handlers 1000 ''x'' fresh_socket"
  using http_close_idempotent [OF listens.quiet http_reachable.created [OF fresh_socket_new], of 1001 "[]"] by blast

end
