(* ===== verification/Transport_Fallback.thy ===== *)
theory Transport_Fallback
  imports Transport_Http
begin

text \<open>
  \<open>createTransportSocket\<close> and \<open>InitializingFallbackSocket\<close> of
  \<open>sdk/typescript/src/transport.ts\<close>: a socket that tries the configured transports one
  after the other until one opens.

  A candidate is what a factory returned: its transport, whether its \<open>onclose\<close> is still
  installed, and how far its own events have got. The microtasks that run \<open>tryNext\<close>
  (\<open>fb_queued\<close>) and the calls of it that await \<open>nextConnectionUrl\<close>
  (\<open>fb_awaiting\<close>) are counted. A closing HTTP candidate runs its \<open>onclose\<close>
  inside \<open>close\<close>, a WebSocket later. The factories are the parameter \<open>mk\<close>, the
  handlers of the fallback socket the parameter \<open>react\<close>.
\<close>

section \<open>Selecting the transports\<close>

type_synonym maker = "string \<Rightarrow> string \<Rightarrow> thrown + unit"

datatype transport_socket = Direct string | Fallback "string list"

text \<open>
  The factory of a transport: the WebSocket one is the caller's or the platform's, the HTTP one
  needs its configuration.
\<close>

definition transport_factory :: "(string \<Rightarrow> thrown + unit) \<Rightarrow> (string \<Rightarrow> thrown + unit) option \<Rightarrow> maker" where
  "transport_factory webSocketFactory httpStreaming transport candidateUrl =
     (if transport = ''websocket'' then webSocketFactory candidateUrl
      else case httpStreaming of
        None \<Rightarrow> Inl (ErrorObject ''TypeError'' ''httpStreaming is required when the http-streaming transport is selected.'')
      | Some new_socket \<Rightarrow> new_socket candidateUrl)"

definition createTransportSocket :: "maker \<Rightarrow> string list option \<Rightarrow> string \<Rightarrow> thrown + transport_socket" where
  "createTransportSocket mk transports websocketUrl =
     (let ts = (case transports of None \<Rightarrow> [''websocket''] | Some ts \<Rightarrow> ts) in
      if ts = [] then Inl (ErrorObject ''TypeError'' ''At least one transport is required.'')
      else if length ts = 1 then bind_result (mk (hd ts) websocketUrl) (\<lambda>_. Inr (Direct (hd ts)))
      else Inr (Fallback ts))"

section \<open>State\<close>

datatype candidate_phase = CandConnecting | CandOpen | CandFailed | CandClosed

record candidate =
  ca_transport :: string
  ca_phase :: candidate_phase
  ca_onclose :: bool
  ca_closing :: bool \<comment> \<open>\<open>close\<close> was called\<close>

datatype fallback_effect =
    FbEvent socket_event
  | FbCreate nat string \<comment> \<open>the factory called and its URL\<close>
  | FbClose nat "nat option" "string option"
  | FbSend nat string

record fallback =
  fb_initialUrl :: string
  fb_factories :: "string list"
  fb_nextUrl :: bool \<comment> \<open>\<open>nextConnectionUrl\<close> is given\<close>
  fb_socket :: "nat option"
  fb_index :: nat
  fb_state :: ready_state
  fb_opened :: bool
  fb_candidates :: "candidate list"
  fb_queued :: nat
  fb_awaiting :: nat
  fb_log :: "fallback_effect list"

type_synonym fallback_handlers = "socket_event \<Rightarrow> fallback \<Rightarrow> fallback"

definition new_InitializingFallbackSocket :: "string \<Rightarrow> string list \<Rightarrow> bool \<Rightarrow> fallback" where
  "new_InitializingFallbackSocket initialUrl factories nextUrl =
     \<lparr>fb_initialUrl = initialUrl, fb_factories = factories, fb_nextUrl = nextUrl, fb_socket = None, fb_index = 0,
      fb_state = CONNECTING, fb_opened = False, fb_candidates = [], fb_queued = 1, fb_awaiting = 0, fb_log = []\<rparr>"

definition fb_fire :: "fallback_handlers \<Rightarrow> socket_event \<Rightarrow> fallback \<Rightarrow> fallback" where
  "fb_fire react ev s = react ev (s\<lparr>fb_log := fb_log s @ [FbEvent ev]\<rparr>)"

definition update_candidate :: "nat \<Rightarrow> (candidate \<Rightarrow> candidate) \<Rightarrow> fallback \<Rightarrow> fallback" where
  "update_candidate k f s = s\<lparr>fb_candidates := (fb_candidates s)[k := f (fb_candidates s ! k)]\<rparr>"

section \<open>Operations\<close>

text \<open>The \<open>transport\<close> property.\<close>

definition fb_transport :: "fallback \<Rightarrow> string option" where
  "fb_transport s = (case fb_socket s of
     Some k \<Rightarrow> (if ca_transport (fb_candidates s ! k) = ''http-streaming'' then Some ''http-streaming''
       else if fb_opened s then Some ''websocket'' else None)
   | None \<Rightarrow> if fb_opened s then Some ''websocket'' else None)"

definition advance :: "fallback_handlers \<Rightarrow> fallback \<Rightarrow> fallback" where
  "advance react s =
     (if fb_state s \<noteq> CONNECTING then s
      else let s1 = s\<lparr>fb_socket := None, fb_index := Suc (fb_index s)\<rparr> in
        if fb_index s1 < length (fb_factories s1) then s1\<lparr>fb_queued := Suc (fb_queued s1)\<rparr>
        else fb_fire react (CloseEvent 1006 ''transport_initialization_failed'' False)
               (fb_fire react Errored (s1\<lparr>fb_state := CLOSED\<rparr>)))"

definition candidate_onclose :: "fallback_handlers \<Rightarrow> nat \<Rightarrow> string \<Rightarrow> bool \<Rightarrow> fallback \<Rightarrow> fallback" where
  "candidate_onclose react code reason wasClean s =
     (if \<not> fb_opened s \<and> fb_state s = CONNECTING then advance react s
      else fb_fire react (CloseEvent code reason wasClean) (s\<lparr>fb_state := CLOSED\<rparr>))"

text \<open>\<open>candidate.close\<close>\<close>

definition close_candidate :: "fallback_handlers \<Rightarrow> nat \<Rightarrow> nat option \<Rightarrow> string option \<Rightarrow> fallback \<Rightarrow> fallback" where
  "close_candidate react k code reason s =
     (let c = fb_candidates s ! k;
          s1 = update_candidate k (\<lambda>c. c\<lparr>ca_closing := True\<rparr>) (s\<lparr>fb_log := fb_log s @ [FbClose k code reason]\<rparr>)
      in if ca_transport c = ''http-streaming'' \<and> ca_phase c \<noteq> CandClosed
         then let s2 = update_candidate k (\<lambda>c. c\<lparr>ca_phase := CandClosed\<rparr>) s1 in
           if ca_onclose c
           then candidate_onclose react (case code of None \<Rightarrow> 1000 | Some n \<Rightarrow> n) (case reason of None \<Rightarrow> [] | Some r \<Rightarrow> r) True s2
           else s2
         else s1)"

definition fallback_close :: "fallback_handlers \<Rightarrow> nat option \<Rightarrow> string option \<Rightarrow> fallback \<Rightarrow> fallback" where
  "fallback_close react code reason s =
     (let s1 = s\<lparr>fb_state := CLOSING\<rparr> in
      case fb_socket s1 of
        Some k \<Rightarrow> close_candidate react k code reason s1
      | None \<Rightarrow> fb_fire react (CloseEvent (case code of None \<Rightarrow> 1000 | Some n \<Rightarrow> n) (case reason of None \<Rightarrow> [] | Some r \<Rightarrow> r) True)
          (s1\<lparr>fb_state := CLOSED\<rparr>))"

definition fallback_send :: "string \<Rightarrow> fallback \<Rightarrow> thrown + fallback" where
  "fallback_send data s = (case fb_socket s of
     Some k \<Rightarrow> if fb_opened s then Inr (s\<lparr>fb_log := fb_log s @ [FbSend k data]\<rparr>)
       else Inl (ErrorObject ''InvalidStateError'' ''The connection is not open.'')
   | None \<Rightarrow> Inl (ErrorObject ''InvalidStateError'' ''The connection is not open.''))"

text \<open>\<open>tryNext\<close>: the microtask, and what follows the connection URL.\<close>

definition create_candidate :: "maker \<Rightarrow> fallback_handlers \<Rightarrow> string \<Rightarrow> fallback \<Rightarrow> fallback" where
  "create_candidate mk react u s =
     (if fb_state s \<noteq> CONNECTING then s
      else let transport = fb_factories s ! fb_index s;
               s1 = s\<lparr>fb_log := fb_log s @ [FbCreate (fb_index s) u]\<rparr>
           in case mk transport u of
             Inl _ \<Rightarrow> advance react s1
           | Inr _ \<Rightarrow> s1\<lparr>fb_socket := Some (length (fb_candidates s1)),
               fb_candidates := fb_candidates s1 @ [\<lparr>ca_transport = transport, ca_phase = CandConnecting,
                 ca_onclose = True, ca_closing = False\<rparr>]\<rparr>)"

definition tryNext :: "maker \<Rightarrow> fallback_handlers \<Rightarrow> fallback \<Rightarrow> fallback" where
  "tryNext mk react s =
     (let s1 = s\<lparr>fb_queued := fb_queued s - 1\<rparr> in
      if fb_state s1 \<noteq> CONNECTING then s1
      else if fb_index s1 = 0 \<or> \<not> fb_nextUrl s1 then create_candidate mk react (fb_initialUrl s1) s1
      else s1\<lparr>fb_awaiting := Suc (fb_awaiting s1)\<rparr>)"

definition next_url :: "maker \<Rightarrow> fallback_handlers \<Rightarrow> thrown + string \<Rightarrow> fallback \<Rightarrow> fallback" where
  "next_url mk react r s =
     (let s1 = s\<lparr>fb_awaiting := fb_awaiting s - 1\<rparr> in
      case r of Inl _ \<Rightarrow> advance react s1 | Inr u \<Rightarrow> create_candidate mk react u s1)"

text \<open>The handlers that \<open>tryNext\<close> installs on a candidate.\<close>

definition candidate_onopen :: "fallback_handlers \<Rightarrow> nat \<Rightarrow> fallback \<Rightarrow> fallback" where
  "candidate_onopen react k s = fb_fire react Opened (s\<lparr>fb_opened := True, fb_state := OPEN\<rparr>)"

definition candidate_onerror :: "fallback_handlers \<Rightarrow> nat \<Rightarrow> fallback \<Rightarrow> fallback" where
  "candidate_onerror react k s =
     (if fb_opened s then fb_fire react Errored s
      else if fb_state s = CONNECTING
      then advance react (close_candidate react k None None (update_candidate k (\<lambda>c. c\<lparr>ca_onclose := False\<rparr>) s))
      else s)"

section \<open>Executions\<close>

datatype fallback_call = SendCall string | CloseCall "nat option" "string option"

text \<open>As the client does, a socket is closed while it is connecting or open.\<close>

fun fb_api :: "fallback_handlers \<Rightarrow> fallback_call \<Rightarrow> fallback \<Rightarrow> fallback" where
  "fb_api react (SendCall data) s = (case fallback_send data s of Inl _ \<Rightarrow> s | Inr s' \<Rightarrow> s')"
| "fb_api react (CloseCall code reason) s =
     (if fb_state s = CONNECTING \<or> fb_state s = OPEN then fallback_close react code reason s else s)"

datatype fallback_label =
    FbCall fallback_call
  | TryNext
  | NextUrl "thrown + string"
  | CandidateOpened nat
  | CandidateMessage nat string
  | CandidateErrored nat
  | CandidateClosed nat nat string bool

text \<open>
  A candidate follows the WebSocket standard: it opens at most once and not after \<open>close\<close>,
  delivers only while it is open, reports an error at most once and nothing after it closed.
\<close>

fun fb_enabled :: "fallback_label \<Rightarrow> fallback \<Rightarrow> bool" where
  "fb_enabled (FbCall call) s = True"
| "fb_enabled TryNext s = (0 < fb_queued s)"
| "fb_enabled (NextUrl r) s = (0 < fb_awaiting s)"
| "fb_enabled (CandidateOpened k) s = (k < length (fb_candidates s) \<and> ca_phase (fb_candidates s ! k) = CandConnecting
     \<and> \<not> ca_closing (fb_candidates s ! k))"
| "fb_enabled (CandidateMessage k m) s = (k < length (fb_candidates s) \<and> ca_phase (fb_candidates s ! k) = CandOpen
     \<and> \<not> ca_closing (fb_candidates s ! k))"
| "fb_enabled (CandidateErrored k) s = (k < length (fb_candidates s) \<and> ca_phase (fb_candidates s ! k) \<in> {CandConnecting, CandOpen})"
| "fb_enabled (CandidateClosed k code reason wasClean) s =
     (k < length (fb_candidates s) \<and> ca_phase (fb_candidates s ! k) \<noteq> CandClosed)"

fun fb_step :: "maker \<Rightarrow> fallback_handlers \<Rightarrow> fallback_label \<Rightarrow> fallback \<Rightarrow> fallback" where
  "fb_step mk react (FbCall call) s = fb_api react call s"
| "fb_step mk react TryNext s = tryNext mk react s"
| "fb_step mk react (NextUrl r) s = next_url mk react r s"
| "fb_step mk react (CandidateOpened k) s =
     candidate_onopen react k (update_candidate k (\<lambda>c. c\<lparr>ca_phase := CandOpen\<rparr>) s)"
| "fb_step mk react (CandidateMessage k m) s = fb_fire react (Message m) s"
| "fb_step mk react (CandidateErrored k) s =
     candidate_onerror react k (update_candidate k (\<lambda>c. c\<lparr>ca_phase := CandFailed\<rparr>) s)"
| "fb_step mk react (CandidateClosed k code reason wasClean) s =
     (let s1 = update_candidate k (\<lambda>c. c\<lparr>ca_phase := CandClosed\<rparr>) s in
      if ca_onclose (fb_candidates s ! k) then candidate_onclose react code reason wasClean s1 else s1)"

inductive fb_reachable :: "maker \<Rightarrow> fallback_handlers \<Rightarrow> fallback \<Rightarrow> bool" for mk react where
  created: "2 \<le> length factories \<Longrightarrow> fb_reachable mk react (new_InitializingFallbackSocket initialUrl factories nextUrl)"
| step: "fb_reachable mk react s \<Longrightarrow> fb_enabled l s \<Longrightarrow> fb_reachable mk react (fb_step mk react l s)"

text \<open>The handlers of the client: they may call the socket, but not in \<open>onerror\<close>.\<close>

inductive fb_listens :: "fallback_handlers \<Rightarrow> bool" where
  quiet: "fb_listens (\<lambda>ev s. s)"
| calls: "fb_listens r \<Longrightarrow> (\<And>ev s. \<exists>cs. f ev s = fold (fb_api r) cs s) \<Longrightarrow> (\<And>s. f Errored s = s) \<Longrightarrow> fb_listens f"

section \<open>The invariant\<close>

definition fb_log_events :: "fallback_effect list \<Rightarrow> socket_event list" where
  "fb_log_events es = concat (map (\<lambda>e. case e of FbEvent ev \<Rightarrow> [ev] | _ \<Rightarrow> []) es)"

definition fb_log_creates :: "fallback_effect list \<Rightarrow> nat list" where
  "fb_log_creates es = concat (map (\<lambda>e. case e of FbCreate i u \<Rightarrow> [i] | _ \<Rightarrow> []) es)"

abbreviation fb_events :: "fallback \<Rightarrow> socket_event list" where
  "fb_events s \<equiv> fb_log_events (fb_log s)"

abbreviation fb_creates :: "fallback \<Rightarrow> nat list" where
  "fb_creates s \<equiv> fb_log_creates (fb_log s)"

lemma fb_log_simps [simp]:
  "fb_log_events [] = []" "fb_log_creates [] = []"
  "fb_log_events (es @ [FbEvent ev]) = fb_log_events es @ [ev]"
  "fb_log_events (es @ [FbCreate i u]) = fb_log_events es"
  "fb_log_events (es @ [FbClose k code reason]) = fb_log_events es"
  "fb_log_events (es @ [FbSend k d]) = fb_log_events es"
  "fb_log_creates (es @ [FbEvent ev]) = fb_log_creates es"
  "fb_log_creates (es @ [FbCreate i u]) = fb_log_creates es @ [i]"
  "fb_log_creates (es @ [FbClose k code reason]) = fb_log_creates es"
  "fb_log_creates (es @ [FbSend k d]) = fb_log_creates es"
  by (simp_all add: fb_log_events_def fb_log_creates_def)

definition dead :: "candidate \<Rightarrow> bool" where
  "dead c = (ca_phase c = CandClosed \<or> ca_phase c = CandFailed \<and> \<not> ca_onclose c)"

text \<open>All candidates but the current one are done with; it is the last.\<close>

definition others_dead :: "fallback \<Rightarrow> bool" where
  "others_dead s = ((\<forall>k < length (fb_candidates s). fb_socket s \<noteq> Some k \<longrightarrow> dead (fb_candidates s ! k))
     \<and> (\<forall>k. fb_socket s = Some k \<longrightarrow> Suc k = length (fb_candidates s)))"

definition current :: "fallback \<Rightarrow> candidate" where
  "current s = fb_candidates s ! the (fb_socket s)"

definition connecting_ok :: "fallback \<Rightarrow> bool" where
  "connecting_ok s = (\<not> fb_opened s \<and> fb_index s < length (fb_factories s) \<and> fb_events s = []
     \<and> (if fb_socket s = None then fb_queued s + fb_awaiting s = 1 \<and> (\<forall>i \<in> set (fb_creates s). i < fb_index s)
        else fb_queued s + fb_awaiting s = 0 \<and> (\<forall>i \<in> set (fb_creates s). i \<le> fb_index s)
          \<and> ca_phase (current s) = CandConnecting \<and> ca_onclose (current s) \<and> \<not> ca_closing (current s)))"

fun state_ok :: "ready_state \<Rightarrow> fallback \<Rightarrow> bool" where
  "state_ok CONNECTING s = connecting_ok s"
| "state_ok OPEN s = (fb_opened s \<and> fb_socket s \<noteq> None \<and> ca_phase (current s) \<in> {CandOpen, CandFailed}
     \<and> ca_onclose (current s) \<and> \<not> ca_closing (current s))"
| "state_ok CLOSING s = (fb_socket s \<noteq> None \<and> ca_phase (current s) \<noteq> CandClosed
     \<and> ca_onclose (current s) \<and> ca_closing (current s))"
| "state_ok CLOSED s = (fb_socket s = None \<or> ca_phase (current s) = CandClosed)"

definition fb_ok :: "fallback \<Rightarrow> bool" where
  "fb_ok s = (state_ok (fb_state s) s \<and> others_dead s \<and> events_ok (fb_events s)
     \<and> (fb_state s \<noteq> CLOSED \<longrightarrow> list_all (Not \<circ> is_close) (fb_events s))
     \<and> sorted_wrt (<) (fb_creates s) \<and> (\<forall>i \<in> set (fb_creates s). i < length (fb_factories s)))"

lemma update_candidate_simps [simp]:
  "fb_socket (update_candidate k f s) = fb_socket s" "fb_state (update_candidate k f s) = fb_state s"
  "fb_opened (update_candidate k f s) = fb_opened s" "fb_index (update_candidate k f s) = fb_index s"
  "fb_factories (update_candidate k f s) = fb_factories s" "fb_log (update_candidate k f s) = fb_log s"
  "fb_queued (update_candidate k f s) = fb_queued s" "fb_awaiting (update_candidate k f s) = fb_awaiting s"
  "fb_nextUrl (update_candidate k f s) = fb_nextUrl s" "fb_initialUrl (update_candidate k f s) = fb_initialUrl s"
  "length (fb_candidates (update_candidate k f s)) = length (fb_candidates s)"
  by (simp_all add: update_candidate_def)

lemma update_candidate_nth:
  "j < length (fb_candidates s) \<Longrightarrow> fb_candidates (update_candidate k f s) ! j =
     (if j = k then f (fb_candidates s ! k) else fb_candidates s ! j)"
  by (simp add: update_candidate_def nth_list_update)

lemma fb_new_ok: "2 \<le> length factories \<Longrightarrow> fb_ok (new_InitializingFallbackSocket initialUrl factories nextUrl)"
  by (auto simp: fb_ok_def new_InitializingFallbackSocket_def connecting_ok_def others_dead_def)

definition keeps :: "fallback_handlers \<Rightarrow> bool" where
  "keeps react = ((\<forall>ev t. fb_ok t \<longrightarrow> fb_ok (react ev t)) \<and> (\<forall>t. react Errored t = t))"

text \<open>Running the next transport, or giving up.\<close>

lemma advance_ok:
  assumes "keeps react"
    and "fb_state s = CONNECTING" "\<not> fb_opened s" "fb_index s < length (fb_factories s)" "fb_events s = []"
    "fb_queued s + fb_awaiting s = 0" "\<forall>i \<in> set (fb_creates s). i \<le> fb_index s"
    "\<forall>k < length (fb_candidates s). dead (fb_candidates s ! k)" "sorted_wrt (<) (fb_creates s)"
  shows "fb_ok (advance react s)"
proof (cases "Suc (fb_index s) < length (fb_factories s)")
  case True
  then show ?thesis using assms(2-)
    by (auto simp: advance_def fb_ok_def connecting_ok_def others_dead_def le_imp_less_Suc less_Suc_eq_le
        intro: le_less_trans)
next
  case False
  have "fb_ok (s\<lparr>fb_socket := None, fb_index := Suc (fb_index s), fb_state := CLOSED, fb_log := (fb_log s @ [FbEvent Errored]) @
      [FbEvent (CloseEvent 1006 ''transport_initialization_failed'' False)]\<rparr>)"
    using assms(2-) by (auto simp: fb_ok_def others_dead_def intro: le_less_trans simp del: append_assoc)
  then show ?thesis using False assms(1,2) by (simp add: advance_def fb_fire_def keeps_def)
qed

lemma all_dead:
  "others_dead s \<Longrightarrow> (\<And>k. fb_socket s = Some k \<Longrightarrow> dead (fb_candidates s ! k)) \<Longrightarrow>
   \<forall>k < length (fb_candidates s). dead (fb_candidates s ! k)"
  by (auto simp: others_dead_def)

lemma others_dead_update:
  assumes "others_dead s" "fb_socket s = Some k"
  shows "others_dead (update_candidate k f s)"
  using assms by (auto simp: others_dead_def update_candidate_nth)

lemma current_update: "others_dead s \<Longrightarrow> fb_socket s = Some k \<Longrightarrow> current (update_candidate k f s) = f (current s)"
  by (simp add: current_def update_candidate_nth others_dead_def)

text \<open>\<open>fb_ok\<close> without its clause on the current candidate.\<close>

definition fb_base :: "fallback \<Rightarrow> bool" where
  "fb_base s = (others_dead s \<and> events_ok (fb_events s)
     \<and> (fb_state s \<noteq> CLOSED \<longrightarrow> list_all (Not \<circ> is_close) (fb_events s))
     \<and> sorted_wrt (<) (fb_creates s) \<and> (\<forall>i \<in> set (fb_creates s). i < length (fb_factories s)))"

lemma fb_ok_iff: "fb_ok s \<longleftrightarrow> state_ok (fb_state s) s \<and> fb_base s"
  by (auto simp: fb_ok_def fb_base_def)

lemma fb_base_update: "fb_base s \<Longrightarrow> fb_socket s = Some k \<Longrightarrow> fb_base (update_candidate k f s)"
  by (simp add: fb_base_def others_dead_update)

lemma fb_base_close:
  "fb_base s \<Longrightarrow> fb_base (s\<lparr>fb_log := fb_log s @ [FbClose k code reason]\<rparr>)"
  "fb_base s \<Longrightarrow> fb_state s \<noteq> CLOSED \<Longrightarrow> fb_base (s\<lparr>fb_state := CLOSING\<rparr>)"
  "fb_base s \<Longrightarrow> fb_state s \<noteq> CLOSED \<Longrightarrow>
     fb_base (s\<lparr>fb_state := CLOSED, fb_log := fb_log s @ [FbEvent (CloseEvent code' reason' wasClean)]\<rparr>)"
  by (auto simp: fb_base_def others_dead_def events_ok_append)

lemma fire_close_ok:
  assumes "keeps react" "fb_base s" "fb_state s \<noteq> CLOSED" "fb_socket s = None \<or> ca_phase (current s) = CandClosed"
  shows "fb_ok (fb_fire react (CloseEvent code reason wasClean) (s\<lparr>fb_state := CLOSED\<rparr>))"
proof -
  have "fb_ok (s\<lparr>fb_state := CLOSED, fb_log := fb_log s @ [FbEvent (CloseEvent code reason wasClean)]\<rparr>)"
    unfolding fb_ok_iff using assms(2-4) by (auto simp: fb_base_close current_def)
  then show ?thesis using assms(1) by (simp add: fb_fire_def keeps_def)
qed

lemma fallback_close_ok:
  assumes "keeps react" "fb_ok s" "fb_state s = CONNECTING \<or> fb_state s = OPEN"
  shows "fb_ok (fallback_close react code reason s)"
proof (cases "fb_socket s")
  case None
  then show ?thesis using assms
    fire_close_ok [OF assms(1), of "s\<lparr>fb_state := CLOSING\<rparr>"] fb_base_close(2) [of s]
    by (auto simp: fallback_close_def fb_ok_iff [of s])
next
  case (Some k)
  have live: "ca_phase (current s) \<noteq> CandClosed" "ca_onclose (current s)"
    using assms(2,3) Some by (auto simp: fb_ok_def connecting_ok_def)
  define s1 where "s1 = update_candidate k (\<lambda>c. c\<lparr>ca_closing := True\<rparr>) (s\<lparr>fb_state := CLOSING, fb_log := fb_log s @ [FbClose k code reason]\<rparr>)"
  have base: "fb_base s" "others_dead s" "fb_state s \<noteq> CLOSED" using assms(2,3) by (auto simp: fb_ok_iff fb_base_def)
  have s1: "fb_base s1" "fb_socket s1 = Some k" "fb_state s1 = CLOSING" "others_dead s1"
    using base fb_base_close(1) [OF fb_base_close(2) [OF base(1,3)]] Some
    by (auto simp: s1_def intro!: fb_base_update) (simp_all add: fb_base_def fb_base_update others_dead_def update_candidate_nth)
  have c1: "current s1 = (current s)\<lparr>ca_closing := True\<rparr>"
    unfolding s1_def using base(2) Some by (subst current_update) (auto simp: others_dead_def current_def)
  show ?thesis
  proof (cases "ca_transport (fb_candidates s ! k) = ''http-streaming''")
    case True
    have "ca_phase (fb_candidates s ! k) \<noteq> CandClosed" "ca_onclose (fb_candidates s ! k)"
      using live Some by (simp_all add: current_def)
    then have eq: "fallback_close react code reason s = fb_fire react
        (CloseEvent (case code of None \<Rightarrow> 1000 | Some n \<Rightarrow> n) (case reason of None \<Rightarrow> [] | Some r \<Rightarrow> r) True)
        ((update_candidate k (\<lambda>c. c\<lparr>ca_phase := CandClosed\<rparr>) s1)\<lparr>fb_state := CLOSED\<rparr>)"
      using Some True by (simp add: fallback_close_def close_candidate_def candidate_onclose_def s1_def Let_def)
    show ?thesis unfolding eq using s1 assms(1)
      by (intro fire_close_ok) (simp_all add: fb_base_update current_update)
  next
    case False
    have eq: "fallback_close react code reason s = s1"
      using Some False by (simp add: fallback_close_def close_candidate_def s1_def Let_def)
    show ?thesis unfolding eq fb_ok_iff using s1 live c1 by simp
  qed
qed

lemma state_ok_send: "state_ok st (s\<lparr>fb_log := fb_log s @ [FbSend k d]\<rparr>) = state_ok st s"
  by (cases st) (simp_all add: connecting_ok_def current_def)

lemma fb_api_ok: "keeps react \<Longrightarrow> fb_ok s \<Longrightarrow> fb_ok (fb_api react c s)"
proof (cases c)
  case (SendCall d)
  assume "fb_ok s"
  then have "fb_ok (s\<lparr>fb_log := fb_log s @ [FbSend k d]\<rparr>)" for k
    by (simp add: fb_ok_def others_dead_def state_ok_send)
  with \<open>fb_ok s\<close> SendCall show ?thesis by (simp add: fallback_send_def split: option.splits)
next
  case (CloseCall code reason)
  assume "keeps react" "fb_ok s"
  then show ?thesis using CloseCall fallback_close_ok by simp
qed

lemma fb_apis_ok: "keeps react \<Longrightarrow> fb_ok s \<Longrightarrow> fb_ok (fold (fb_api react) cs s)"
  by (induction cs arbitrary: s) (simp_all add: fb_api_ok)

lemma fb_listens_keeps: "fb_listens react \<Longrightarrow> keeps react"
proof (induction rule: fb_listens.induct)
  case (calls r f)
  have "fb_ok (f ev t)" if "fb_ok t" for ev t using calls(2) [of ev t] fb_apis_ok [OF calls.IH that] by metis
  then show ?case using calls(3) by (simp add: keeps_def)
qed (simp add: keeps_def)

lemma state_ok_queue: "st \<noteq> CONNECTING \<Longrightarrow> state_ok st (s\<lparr>fb_queued := q\<rparr>) = state_ok st s
   \<and> state_ok st (s\<lparr>fb_awaiting := q\<rparr>) = state_ok st s"
  by (cases st) (simp_all add: current_def)

lemma fb_ok_queue: "fb_state s \<noteq> CONNECTING \<Longrightarrow> fb_ok s \<Longrightarrow> fb_ok (s\<lparr>fb_queued := q\<rparr>) \<and> fb_ok (s\<lparr>fb_awaiting := q\<rparr>)"
  by (simp add: fb_ok_def others_dead_def state_ok_queue)

text \<open>A socket that is about to try its next transport.\<close>

definition trying :: "fallback \<Rightarrow> bool" where
  "trying s = (fb_state s = CONNECTING \<and> fb_socket s = None \<and> \<not> fb_opened s \<and> fb_index s < length (fb_factories s)
     \<and> fb_events s = [] \<and> fb_queued s + fb_awaiting s = 0 \<and> (\<forall>i \<in> set (fb_creates s). i < fb_index s)
     \<and> (\<forall>k < length (fb_candidates s). dead (fb_candidates s ! k)) \<and> sorted_wrt (<) (fb_creates s))"

lemma trying_dequeued:
  assumes "fb_ok s" "fb_state s = CONNECTING"
  shows "0 < fb_queued s \<Longrightarrow> trying (s\<lparr>fb_queued := fb_queued s - 1\<rparr>)"
    and "0 < fb_awaiting s \<Longrightarrow> trying (s\<lparr>fb_awaiting := fb_awaiting s - 1\<rparr>)"
  using assms by (auto simp: fb_ok_def connecting_ok_def trying_def others_dead_def split: if_splits)

lemma create_candidate_ok:
  assumes "keeps react" "trying s"
  shows "fb_ok (create_candidate mk react u s)"
proof (cases "mk (fb_factories s ! fb_index s) u")
  case (Inl e)
  have "\<forall>i \<in> set (fb_creates s). i \<le> fb_index s" using assms(2) by (simp add: trying_def less_imp_le)
  then show ?thesis using assms(2) Inl
    by (auto simp: create_candidate_def trying_def Let_def sorted_wrt_append intro!: advance_ok [OF assms(1)])
next
  case (Inr x)
  then show ?thesis using assms(2)
    by (auto simp: create_candidate_def trying_def Let_def fb_ok_def connecting_ok_def others_dead_def current_def
        sorted_wrt_append nth_append less_Suc_eq)
qed

lemma tryNext_ok: "keeps react \<Longrightarrow> fb_ok s \<Longrightarrow> 0 < fb_queued s \<Longrightarrow> fb_ok (tryNext mk react s)"
proof (cases "fb_state s = CONNECTING")
  case True
  assume a: "keeps react" "fb_ok s" "0 < fb_queued s"
  note t = trying_dequeued(1) [OF a(2) True a(3)]
  then have "fb_ok (s\<lparr>fb_queued := fb_queued s - 1, fb_awaiting := Suc (fb_awaiting s)\<rparr>)"
    using a(2) True by (auto simp: fb_ok_def connecting_ok_def others_dead_def trying_def)
  then show ?thesis using True create_candidate_ok [OF a(1) t]
    by (auto simp: tryNext_def Let_def)
next
  case False
  assume "fb_ok s"
  then show ?thesis using False fb_ok_queue by (simp add: tryNext_def)
qed

lemma next_url_ok: "keeps react \<Longrightarrow> fb_ok s \<Longrightarrow> 0 < fb_awaiting s \<Longrightarrow> fb_ok (next_url mk react r s)"
proof (cases "fb_state s = CONNECTING")
  case True
  assume a: "keeps react" "fb_ok s" "0 < fb_awaiting s"
  note t = trying_dequeued(2) [OF a(2) True a(3)]
  then have "fb_ok (advance react (s\<lparr>fb_awaiting := fb_awaiting s - 1\<rparr>))"
    by (intro advance_ok a(1)) (auto simp: trying_def)
  then show ?thesis using create_candidate_ok [OF a(1) t] by (simp add: next_url_def Let_def split: sum.splits)
next
  case False
  assume "fb_ok s"
  then show ?thesis using False fb_ok_queue
    by (simp add: next_url_def advance_def create_candidate_def Let_def split: sum.splits)
qed

text \<open>The events of a candidate.\<close>

lemma enabled_current:
  assumes "fb_ok s" "k < length (fb_candidates s)" "\<not> dead (fb_candidates s ! k)"
  shows "fb_socket s = Some k" "current s = fb_candidates s ! k"
proof -
  show "fb_socket s = Some k" using assms by (auto simp: fb_ok_def others_dead_def)
  then show "current s = fb_candidates s ! k" by (simp add: current_def)
qed

lemma candidate_opened_ok:
  assumes "keeps react" "fb_ok s" "fb_enabled (CandidateOpened k) s"
  shows "fb_ok (candidate_onopen react k (update_candidate k (\<lambda>c. c\<lparr>ca_phase := CandOpen\<rparr>) s))"
proof -
  have cur: "fb_socket s = Some k" "current s = fb_candidates s ! k"
    using assms by (auto intro!: enabled_current simp: dead_def)
  have st: "fb_state s = CONNECTING" using assms(2,3) cur by (cases "fb_state s") (auto simp: fb_ok_def)
  have od: "others_dead s" using assms(2) by (simp add: fb_ok_def)
  let ?t = "(update_candidate k (\<lambda>c. c\<lparr>ca_phase := CandOpen\<rparr>) s)\<lparr>fb_opened := True, fb_state := OPEN, fb_log := fb_log s @ [FbEvent Opened]\<rparr>"
  have "current ?t = (current s)\<lparr>ca_phase := CandOpen\<rparr>"
    using current_update [OF od cur(1), of "\<lambda>c. c\<lparr>ca_phase := CandOpen\<rparr>"] by (simp add: current_def)
  moreover have "others_dead ?t" using others_dead_update [OF od cur(1), of "\<lambda>c. c\<lparr>ca_phase := CandOpen\<rparr>"] by (simp add: others_dead_def)
  ultimately have "fb_ok ?t" using assms(2) st cur(1) unfolding fb_ok_def connecting_ok_def by (simp add: connecting_ok_def)
  then show ?thesis using assms(1) by (simp add: candidate_onopen_def fb_fire_def keeps_def)
qed

lemma candidate_message_ok:
  assumes "keeps react" "fb_ok s" "fb_enabled (CandidateMessage k m) s"
  shows "fb_ok (fb_fire react (Message m) s)"
proof -
  have cur: "fb_socket s = Some k" "current s = fb_candidates s ! k"
    using assms by (auto intro!: enabled_current simp: dead_def)
  have st: "fb_state s = OPEN" using assms(2,3) cur by (cases "fb_state s") (auto simp: fb_ok_def connecting_ok_def)
  have "fb_ok (s\<lparr>fb_log := fb_log s @ [FbEvent (Message m)]\<rparr>)"
    using assms(2) st by (auto simp: fb_ok_def events_ok_append others_dead_def current_def)
  then show ?thesis using assms(1) by (simp add: fb_fire_def keeps_def)
qed

lemma candidate_closed_ok:
  assumes "keeps react" "fb_ok s" "fb_enabled (CandidateClosed k code reason wasClean) s"
  shows "fb_ok (fb_step mk react (CandidateClosed k code reason wasClean) s)"
proof (cases "fb_socket s = Some k")
  case True
  let ?t = "update_candidate k (\<lambda>c. c\<lparr>ca_phase := CandClosed\<rparr>) s"
  have od: "others_dead s" using assms(2) by (simp add: fb_ok_def)
  note c = current_update [OF od True, of "\<lambda>c. c\<lparr>ca_phase := CandClosed\<rparr>"]
  have cur: "current s = fb_candidates s ! k" using True by (simp add: current_def)
  have st: "fb_state s \<noteq> CLOSED" "ca_onclose (fb_candidates s ! k)"
    using assms(2,3) True cur by (cases "fb_state s"; auto simp: fb_ok_def connecting_ok_def)+
  have base: "fb_base ?t" using assms(2) True fb_base_update by (simp add: fb_ok_iff)
  show ?thesis
  proof (cases "\<not> fb_opened s \<and> fb_state s = CONNECTING")
    case conn: True
    have "fb_ok (advance react ?t)"
      using assms(2) conn True others_dead_update [OF od True] c
      by (intro advance_ok assms(1) all_dead)
         (auto simp: fb_ok_def connecting_ok_def current_def dead_def)
    then show ?thesis using conn st by (simp add: candidate_onclose_def Let_def)
  next
    case False
    then show ?thesis using fire_close_ok [OF assms(1) base] st c by (auto simp: candidate_onclose_def Let_def)
  qed
next
  case False
  then have d: "dead (fb_candidates s ! k)" using assms(2,3) by (auto simp: fb_ok_def others_dead_def)
  then have "\<not> ca_onclose (fb_candidates s ! k)" using assms(3) by (auto simp: dead_def)
  moreover have "state_ok st (update_candidate k f s) = state_ok st s" for st f
    using False by (cases st; cases "fb_socket s") (auto simp: connecting_ok_def current_def update_candidate_def)
  moreover have "others_dead (update_candidate k (\<lambda>c. c\<lparr>ca_phase := CandClosed\<rparr>) s)"
    using assms(2) False by (auto simp: fb_ok_def others_dead_def update_candidate_nth dead_def)
  ultimately show ?thesis using assms(2) by (simp add: fb_ok_def Let_def)
qed

lemma candidate_errored_ok:
  assumes "keeps react" "fb_ok s" "fb_enabled (CandidateErrored k) s"
  shows "fb_ok (candidate_onerror react k (update_candidate k (\<lambda>c. c\<lparr>ca_phase := CandFailed\<rparr>) s))"
proof -
  let ?t = "update_candidate k (\<lambda>c. c\<lparr>ca_phase := CandFailed\<rparr>) s"
  have cur: "fb_socket s = Some k" "current s = fb_candidates s ! k"
    using assms by (auto intro!: enabled_current simp: dead_def)
  have od: "others_dead s" using assms(2) by (simp add: fb_ok_def)
  note c = current_update [OF od cur(1), of "\<lambda>c. c\<lparr>ca_phase := CandFailed\<rparr>"] and od' = others_dead_update [OF od cur(1)]
  have st: "fb_state s \<noteq> CLOSED" using assms(2,3) cur by (cases "fb_state s") (auto simp: fb_ok_def)
  have k: "k < length (fb_candidates s)" using assms(3) by simp
  show ?thesis
  proof (cases "fb_state s = CONNECTING")
    case True
    define u where "u = close_candidate react k None None (update_candidate k (\<lambda>c. c\<lparr>ca_onclose := False\<rparr>) ?t)"
    have u: "fb_state u = fb_state s" "fb_opened u = fb_opened s" "fb_index u = fb_index s" "fb_factories u = fb_factories s"
      "fb_events u = fb_events s" "fb_creates u = fb_creates s" "fb_queued u = fb_queued s" "fb_awaiting u = fb_awaiting s"
      "length (fb_candidates u) = length (fb_candidates s)"
      using k by (simp_all add: u_def close_candidate_def Let_def update_candidate_nth)
    have "dead (fb_candidates u ! j)" if "j < length (fb_candidates u)" for j
      using that k u(9) od cur(1)
      by (cases "j = k") (auto simp: u_def close_candidate_def Let_def update_candidate_def dead_def others_dead_def)
    then have "fb_ok (advance react u)" using assms(2) True cur(1) u
      by (intro advance_ok assms(1)) (auto simp: fb_ok_def connecting_ok_def)
    moreover have "\<not> fb_opened s" using assms(2) True by (simp add: fb_ok_def connecting_ok_def)
    ultimately show ?thesis using True by (simp add: candidate_onerror_def u_def)
  next
    case False
    have "state_ok (fb_state s) (?t\<lparr>fb_log := l\<rparr>)" for l
      using assms(2,3) False st cur(1) c by (cases "fb_state s") (auto simp: fb_ok_def current_def cur(2))
    moreover have "fb_ok ?t" using assms(2,3) False st cur(1) c od'
      by (cases "fb_state s") (auto simp: fb_ok_def current_def)
    moreover have "others_dead (?t\<lparr>fb_log := l\<rparr>)" for l using od' by (simp add: others_dead_def)
    ultimately have "fb_ok (?t\<lparr>fb_log := fb_log s @ [FbEvent Errored]\<rparr>)" "fb_ok ?t"
      using assms(2) st by (auto simp: fb_ok_def events_ok_append)
    then show ?thesis using False assms(1) by (simp add: candidate_onerror_def fb_fire_def keeps_def)
  qed
qed

lemma fb_step_ok:
  assumes "keeps react" "fb_ok s" "fb_enabled l s"
  shows "fb_ok (fb_step mk react l s)"
proof (cases l)
  case (CandidateClosed k code reason wasClean)
  then show ?thesis using assms candidate_closed_ok by blast
qed (use assms in \<open>auto intro: fb_api_ok tryNext_ok next_url_ok candidate_opened_ok candidate_message_ok candidate_errored_ok\<close>)

lemma fb_reachable_ok: "fb_reachable mk react s \<Longrightarrow> fb_listens react \<Longrightarrow> fb_ok s"
  by (induction rule: fb_reachable.induct) (auto intro: fb_new_ok fb_step_ok fb_listens_keeps)

end
