(* ===== verification/Transport_Fallback_Theorems.thy ===== *)
theory Transport_Fallback_Theorems
  imports Transport_Fallback
begin

text \<open>
  Theorems on \<open>InitializingFallbackSocket\<close>: transports are tried in order and at most
  once, the events are those of one socket, and the first transport that works is used.
\<close>

section \<open>Safety of every execution\<close>

text \<open>
  C20. In every execution the transports are tried in their configured order, each at most once,
  and at most one of them is being tried at a time: every candidate but the current one has closed,
  or has failed and been detached.
\<close>

theorem fallback_in_order:
  assumes "fb_listens react" "fb_reachable mk react s"
  shows "sorted_wrt (<) (fb_creates s) \<and> (\<forall>i \<in> set (fb_creates s). i < length (fb_factories s))
    \<and> (\<forall>k < length (fb_candidates s). fb_socket s \<noteq> Some k \<longrightarrow>
         ca_phase (fb_candidates s ! k) = CandClosed
         \<or> ca_phase (fb_candidates s ! k) = CandFailed \<and> \<not> ca_onclose (fb_candidates s ! k))
    \<and> (fb_state s = CONNECTING \<longrightarrow> fb_queued s + fb_awaiting s + (if fb_socket s = None then 0 else 1) = 1)"
  using fb_reachable_ok [OF assms(2,1)]
  by (auto simp: fb_ok_def others_dead_def dead_def connecting_ok_def)


section \<open>The first transport that works\<close>

text \<open>What becomes of one transport.\<close>

datatype trial = Opens | Errors | Closes nat string bool | UrlFails thrown

definition run_trial :: "maker \<Rightarrow> fallback_handlers \<Rightarrow> string \<Rightarrow> trial \<Rightarrow> fallback \<Rightarrow> fallback" where
  "run_trial mk react u t s =
     (if fb_state s \<noteq> CONNECTING then s
      else let s1 = tryNext mk react s;
               s2 = (if 0 < fb_awaiting s1 then next_url mk react (case t of UrlFails e \<Rightarrow> Inl e | _ \<Rightarrow> Inr u) s1 else s1)
           in case fb_socket s2 of
             None \<Rightarrow> s2
           | Some k \<Rightarrow> (case t of
               Opens \<Rightarrow> fb_step mk react (CandidateOpened k) s2
             | Closes code reason wasClean \<Rightarrow> fb_step mk react (CandidateClosed k code reason wasClean) s2
             | _ \<Rightarrow> fb_step mk react (CandidateErrored k) s2))"

definition trial_url :: "fallback \<Rightarrow> string \<Rightarrow> nat \<Rightarrow> string" where
  "trial_url s u i = (if i = 0 \<or> \<not> fb_nextUrl s then fb_initialUrl s else u)"

text \<open>The specification: a transport works when its factory returns and its socket opens.\<close>

definition works :: "maker \<Rightarrow> fallback \<Rightarrow> string \<Rightarrow> trial list \<Rightarrow> nat \<Rightarrow> bool" where
  "works mk s u ts i = (mk (fb_factories s ! i) (trial_url s u i) = Inr () \<and> ts ! i = Opens)"

definition at_trial :: "nat \<Rightarrow> fallback \<Rightarrow> bool" where
  "at_trial i s = (fb_state s = CONNECTING \<and> fb_socket s = None \<and> \<not> fb_opened s \<and> fb_queued s = 1 \<and> fb_awaiting s = 0
     \<and> fb_index s = i \<and> i < length (fb_factories s) \<and> fb_events s = [])"

definition same_setup :: "fallback \<Rightarrow> fallback \<Rightarrow> bool" where
  "same_setup s t = (fb_factories t = fb_factories s \<and> fb_nextUrl t = fb_nextUrl s \<and> fb_initialUrl t = fb_initialUrl s)"

definition gave_up :: "fallback \<Rightarrow> bool" where
  "gave_up s = (fb_state s = CLOSED \<and> \<not> fb_opened s
     \<and> fb_events s = [Errored, CloseEvent 1006 ''transport_initialization_failed'' False])"

definition uses :: "nat \<Rightarrow> fallback \<Rightarrow> bool" where
  "uses i s = (fb_state s = OPEN \<and> fb_opened s \<and> fb_index s = i \<and> fb_events s = [Opened]
     \<and> (\<exists>k. fb_socket s = Some k \<and> k < length (fb_candidates s) \<and> ca_transport (fb_candidates s ! k) = fb_factories s ! i))"

abbreviation quiet_fallback :: fallback_handlers where
  "quiet_fallback \<equiv> \<lambda>ev s. s"

lemma advance_trial:
  assumes "fb_state s = CONNECTING" "\<not> fb_opened s" "fb_queued s = 0" "fb_awaiting s = 0" "fb_index s = i"
    "fb_events s = []"
  shows "same_setup s (advance quiet_fallback s)
    \<and> (if Suc i < length (fb_factories s) then at_trial (Suc i) (advance quiet_fallback s) else gave_up (advance quiet_fallback s))"
  using assms by (auto simp: advance_def fb_fire_def at_trial_def same_setup_def gave_up_def fb_log_events_def)

lemma same_setup_trans: "same_setup s t \<Longrightarrow> same_setup t u \<Longrightarrow> same_setup s u"
  by (simp add: same_setup_def)

text \<open>A candidate waiting for its events, and what they lead to.\<close>

definition waiting_on :: "nat \<Rightarrow> nat \<Rightarrow> fallback \<Rightarrow> bool" where
  "waiting_on i k s = (fb_state s = CONNECTING \<and> fb_socket s = Some k \<and> k < length (fb_candidates s)
     \<and> fb_candidates s ! k = \<lparr>ca_transport = fb_factories s ! i, ca_phase = CandConnecting, ca_onclose = True, ca_closing = False\<rparr>
     \<and> \<not> fb_opened s \<and> fb_queued s = 0 \<and> fb_awaiting s = 0 \<and> fb_index s = i \<and> fb_events s = [])"

lemma waiting_opens:
  assumes "waiting_on i k s"
  shows "uses i (fb_step mk quiet_fallback (CandidateOpened k) s)" "same_setup s (fb_step mk quiet_fallback (CandidateOpened k) s)"
  using assms
  by (auto simp: waiting_on_def uses_def same_setup_def candidate_onopen_def fb_fire_def update_candidate_nth)

lemma waiting_errors:
  assumes "waiting_on i k s"
  shows "same_setup s (fb_step mk quiet_fallback (CandidateErrored k) s)
    \<and> (if Suc i < length (fb_factories s) then at_trial (Suc i) (fb_step mk quiet_fallback (CandidateErrored k) s)
       else gave_up (fb_step mk quiet_fallback (CandidateErrored k) s))"
proof -
  define t where "t = close_candidate quiet_fallback k None None (update_candidate k (\<lambda>c. c\<lparr>ca_onclose := False\<rparr>)
    (update_candidate k (\<lambda>c. c\<lparr>ca_phase := CandFailed\<rparr>) s))"
  have t: "fb_state t = CONNECTING" "\<not> fb_opened t" "fb_queued t = 0" "fb_awaiting t = 0" "fb_index t = i" "fb_events t = []"
    "same_setup s t"
    using assms by (auto simp: t_def waiting_on_def close_candidate_def Let_def update_candidate_nth same_setup_def)
  have "fb_step mk quiet_fallback (CandidateErrored k) s = advance quiet_fallback t"
    using assms by (simp add: t_def candidate_onerror_def waiting_on_def)
  then show ?thesis using advance_trial [OF t(1-6)] t(7) same_setup_trans by (auto simp: same_setup_def)
qed

lemma waiting_closes:
  assumes "waiting_on i k s"
  shows "same_setup s (fb_step mk quiet_fallback (CandidateClosed k code reason wasClean) s)
    \<and> (if Suc i < length (fb_factories s) then at_trial (Suc i) (fb_step mk quiet_fallback (CandidateClosed k code reason wasClean) s)
       else gave_up (fb_step mk quiet_fallback (CandidateClosed k code reason wasClean) s))"
proof -
  define t where "t = update_candidate k (\<lambda>c. c\<lparr>ca_phase := CandClosed\<rparr>) s"
  have t: "fb_state t = CONNECTING" "\<not> fb_opened t" "fb_queued t = 0" "fb_awaiting t = 0" "fb_index t = i" "fb_events t = []"
    "same_setup s t"
    using assms by (auto simp: t_def waiting_on_def same_setup_def)
  have "fb_step mk quiet_fallback (CandidateClosed k code reason wasClean) s = advance quiet_fallback t"
    using assms by (simp add: t_def waiting_on_def candidate_onclose_def)
  then show ?thesis using advance_trial [OF t(1-6)] t(7) by (auto simp: same_setup_def)
qed

lemma create_trial:
  assumes "fb_state s = CONNECTING" "fb_socket s = None" "\<not> fb_opened s" "fb_queued s = 0" "fb_awaiting s = 0"
    "fb_index s = i" "fb_events s = []"
  shows "mk (fb_factories s ! i) u = Inr () \<Longrightarrow> \<exists>k. waiting_on i k (create_candidate mk quiet_fallback u s)
      \<and> same_setup s (create_candidate mk quiet_fallback u s)"
    and "mk (fb_factories s ! i) u = Inl e \<Longrightarrow> create_candidate mk quiet_fallback u s
      = advance quiet_fallback (s\<lparr>fb_log := fb_log s @ [FbCreate i u]\<rparr>)"
  using assms by (auto simp: create_candidate_def Let_def waiting_on_def same_setup_def)

text \<open>One trial: the transport is used, or the next is tried, or all have failed.\<close>

lemma create_awaiting: "fb_awaiting (create_candidate mk quiet_fallback u s) = fb_awaiting s"
  by (auto simp: create_candidate_def advance_def fb_fire_def Let_def split: sum.splits)

lemma run_trial_result:
  fixes mk u
  assumes "at_trial i s" "ts ! i = t"
  defines "s' \<equiv> run_trial mk quiet_fallback u t s"
  shows "same_setup s s' \<and> (if works mk s u ts i then uses i s'
    else if Suc i < length (fb_factories s) then at_trial (Suc i) s' else gave_up s')"
proof -
  define s0 where "s0 = s\<lparr>fb_queued := 0\<rparr>"
  have s0: "fb_state s0 = CONNECTING" "fb_socket s0 = None" "\<not> fb_opened s0" "fb_queued s0 = 0" "fb_awaiting s0 = 0"
    "fb_index s0 = i" "fb_events s0 = []" "fb_factories s0 = fb_factories s" "same_setup s s0"
    using assms(1) by (auto simp: s0_def at_trial_def same_setup_def)
  define c where "c = create_candidate mk quiet_fallback (trial_url s u i) s0"
  have next_socket: "fb_socket (advance quiet_fallback x) = None" "fb_awaiting (advance quiet_fallback x) = fb_awaiting x"
    if "fb_state x = CONNECTING" for x
    using that by (simp_all add: advance_def fb_fire_def Let_def)
  have restore: "s0\<lparr>fb_awaiting := 0\<rparr> = s0" using s0(5) by (cases s0) simp
  show ?thesis
  proof (cases "\<exists>e. t = UrlFails e \<and> i \<noteq> 0 \<and> fb_nextUrl s")
    case True
    have "tryNext mk quiet_fallback s = s0\<lparr>fb_awaiting := 1\<rparr>"
      using True assms(1) by (auto simp: tryNext_def at_trial_def s0_def Let_def)
    moreover have "next_url mk quiet_fallback (case t of UrlFails e \<Rightarrow> Inl e | _ \<Rightarrow> Inr u) (s0\<lparr>fb_awaiting := 1\<rparr>)
        = advance quiet_fallback s0"
      using True restore by (auto simp: next_url_def)
    ultimately have "s' = advance quiet_fallback s0"
      using assms(1) next_socket [of s0] s0(1) by (simp add: s'_def run_trial_def at_trial_def)
    then show ?thesis using True advance_trial [OF s0(1,3-7)] s0(8,9) assms(2) by (auto simp: works_def same_setup_def)
  next
    case False
    have s': "s' = (case fb_socket c of
             None \<Rightarrow> c
           | Some k \<Rightarrow> (case t of
               Opens \<Rightarrow> fb_step mk quiet_fallback (CandidateOpened k) c
             | Closes code reason wasClean \<Rightarrow> fb_step mk quiet_fallback (CandidateClosed k code reason wasClean) c
             | _ \<Rightarrow> fb_step mk quiet_fallback (CandidateErrored k) c))"
    proof (cases "i = 0 \<or> \<not> fb_nextUrl s")
      case True
      then have "tryNext mk quiet_fallback s = c" "fb_awaiting c = 0"
        using assms(1) s0(5) by (auto simp: tryNext_def at_trial_def c_def s0_def trial_url_def Let_def create_awaiting)
      then show ?thesis using assms(1) by (simp add: s'_def run_trial_def at_trial_def)
    next
      case awaits: False
      have "tryNext mk quiet_fallback s = s0\<lparr>fb_awaiting := 1\<rparr>"
        using awaits assms(1) by (auto simp: tryNext_def at_trial_def s0_def Let_def)
      moreover have "next_url mk quiet_fallback (case t of UrlFails e \<Rightarrow> Inl e | _ \<Rightarrow> Inr u) (s0\<lparr>fb_awaiting := 1\<rparr>) = c"
        using awaits False restore by (cases t) (auto simp: next_url_def c_def trial_url_def)
      ultimately show ?thesis using assms(1) by (simp add: s'_def run_trial_def at_trial_def)
    qed
    show ?thesis
    proof (cases "mk (fb_factories s ! i) (trial_url s u i)")
      case (Inl e)
      then have "c = advance quiet_fallback (s0\<lparr>fb_log := fb_log s0 @ [FbCreate i (trial_url s u i)]\<rparr>)"
        using create_trial(2) [OF s0(1-7)] s0(8) by (simp add: c_def)
      moreover from this have "s' = c" unfolding s' using next_socket s0(1) by simp
      ultimately show ?thesis
        using advance_trial [of "s0\<lparr>fb_log := fb_log s0 @ [FbCreate i (trial_url s u i)]\<rparr>" i] s0 Inl
        by (auto simp: works_def same_setup_def)
    next
      case (Inr x)
      then obtain k where k: "waiting_on i k c" "same_setup s0 c"
        using create_trial(1) [OF s0(1-7)] s0(8) by (auto simp: c_def)
      then have "fb_socket c = Some k" "same_setup s c" using s0(9) same_setup_trans by (auto simp: waiting_on_def)
      then show ?thesis unfolding s'
        using Inr assms(2) waiting_opens [OF k(1)] waiting_errors [OF k(1), of mk] waiting_closes [OF k(1), of mk]
        by (cases t) (auto simp: works_def same_setup_def simp del: fb_step.simps)
    qed
  qed
qed

definition run_trials :: "maker \<Rightarrow> string \<Rightarrow> trial list \<Rightarrow> fallback \<Rightarrow> fallback" where
  "run_trials mk u ts s = fold (run_trial mk quiet_fallback u) ts s"

lemma run_trials_done: "fb_state s \<noteq> CONNECTING \<Longrightarrow> run_trials mk u ts s = s"
  by (induction ts arbitrary: s) (simp_all add: run_trials_def run_trial_def)

lemma run_trials_from:
  assumes "at_trial i s" "length ts = length (fb_factories s)"
  shows "case find (works mk s u ts) [i..<length ts] of
      Some j \<Rightarrow> uses j (run_trials mk u (drop i ts) s) | None \<Rightarrow> gave_up (run_trials mk u (drop i ts) s)"
  using assms
proof (induction "length ts - i" arbitrary: i s)
  case 0
  then show ?case by (simp add: at_trial_def)
next
  case (Suc n)
  have i: "i < length ts" using Suc.prems by (simp add: at_trial_def)
  let ?s = "run_trial mk quiet_fallback u (ts ! i) s"
  note r = run_trial_result [OF Suc.prems(1) refl, of mk u ts]
  have run: "run_trials mk u (drop i ts) s = run_trials mk u (drop (Suc i) ts) ?s"
    using i by (simp add: run_trials_def Cons_nth_drop_Suc [symmetric])
  have same: "works mk ?s u ts = works mk s u ts" "length ts = length (fb_factories ?s)"
    using r Suc.prems(2) by (auto simp: works_def trial_url_def same_setup_def fun_eq_iff)
  have upt: "[i..<length ts] = i # [Suc i..<length ts]" using i by (rule upt_conv_Cons)
  show ?case
  proof (cases "works mk s u ts i")
    case True
    then show ?thesis using r upt unfolding run
      by (simp add: run_trials_done uses_def)
  next
    case False
    show ?thesis
    proof (cases "Suc i < length (fb_factories s)")
      case True
      have "at_trial (Suc i) ?s" using r False True by simp
      from Suc.hyps(1) [OF _ this same(2)] show ?thesis using Suc.hyps(2) False i
        unfolding run upt by (simp add: same(1))
    next
      case last: False
      then have e: "[Suc i..<length ts] = []" "gave_up ?s" using r False Suc.prems(2) by auto
      then show ?thesis using False unfolding run upt e(1) by (simp add: run_trials_done gave_up_def)
    qed
  qed
qed

text \<open>
  C6. The fallback socket implements its specification. Whatever happens to each transport (its
  factory throws, the URL for it cannot be had, its socket reports an error, closes or opens), the
  socket ends open on the first transport that works, with one \<open>onopen\<close>; if none does,
  it reports one error and one close with code 1006.
\<close>

theorem fallback_first_working:
  assumes "2 \<le> length factories" "length ts = length factories"
    and "s = new_InitializingFallbackSocket initialUrl factories nextUrl"
  shows "case find (works mk s u ts) [0..<length factories] of
      Some j \<Rightarrow> uses j (run_trials mk u ts s) | None \<Rightarrow> gave_up (run_trials mk u ts s)"
proof -
  have s: "at_trial 0 s" "length ts = length (fb_factories s)"
    using assms by (auto simp: at_trial_def new_InitializingFallbackSocket_def)
  show ?thesis using run_trials_from [OF s, of mk u] unfolding assms(2) drop_0 .
qed

section \<open>Concrete executions\<close>

definition both :: fallback where
  "both = new_InitializingFallbackSocket ''ws'' [''websocket'', ''http-streaming''] True"

abbreviation any_maker :: maker where
  "any_maker \<equiv> \<lambda>transport u. Inr ()"

theorem fallback_first_working_witness:
  "uses 1 (run_trials any_maker ''ws2'' [Errors, Opens] both)
   \<and> gave_up (run_trials any_maker ''ws2'' [Errors, Closes 1006 [] False] both)"
  using fallback_first_working [of "[''websocket'', ''http-streaming'']" "[Errors, Opens]" both "''ws''" True any_maker "''ws2''"]
    fallback_first_working [of "[''websocket'', ''http-streaming'']" "[Errors, Closes 1006 [] False]" both "''ws''" True any_maker "''ws2''"]
  by (simp add: both_def works_def)

fun fb_run :: "maker \<Rightarrow> fallback_handlers \<Rightarrow> fallback_label list \<Rightarrow> fallback \<Rightarrow> fallback option" where
  "fb_run mk react [] s = Some s"
| "fb_run mk react (l # ls) s = (if fb_enabled l s then fb_run mk react ls (fb_step mk react l s) else None)"

lemma fb_run_reachable: "fb_reachable mk r s \<Longrightarrow> fb_run mk r ls s = Some t \<Longrightarrow> fb_reachable mk r t"
  by (induction ls arbitrary: s) (auto split: if_splits intro: fb_reachable.step)

lemma both_reachable: "fb_reachable mk r both"
  unfolding both_def by (rule fb_reachable.created) simp

definition switched :: fallback where
  "switched = the (fb_run any_maker quiet_fallback [TryNext, CandidateErrored 0, TryNext, NextUrl (Inr ''ws2''), CandidateOpened 1,
     FbCall (CloseCall (Some 1000) (Some ''bye''))] both)"

lemmas fb_eval = both_def new_InitializingFallbackSocket_def tryNext_def create_candidate_def candidate_onerror_def
  update_candidate_def close_candidate_def advance_def next_url_def candidate_onopen_def fb_fire_def fallback_close_def
  candidate_onclose_def fb_log_events_def fb_log_creates_def Let_def

lemma switched_reachable: "fb_reachable any_maker quiet_fallback switched"
proof -
  have "fb_run any_maker quiet_fallback [TryNext, CandidateErrored 0, TryNext, NextUrl (Inr ''ws2''), CandidateOpened 1,
     FbCall (CloseCall (Some 1000) (Some ''bye''))] both = Some switched"
    unfolding switched_def by (simp add: fb_eval)
  then show ?thesis by (rule fb_run_reachable [OF both_reachable])
qed

theorem fallback_in_order_witness:
  "fb_creates switched = [0, 1] \<and> sorted_wrt (<) (fb_creates switched) \<and> length (fb_factories switched) = 2"
  using fallback_in_order [OF fb_listens.quiet switched_reachable]
  unfolding switched_def by (simp add: fb_eval)


end
