(* ===== verification/Diagnostics.thy ===== *)
theory Diagnostics
  imports Js_Value Js_Url
begin

text \<open>
  \<open>DiagnosticsClient\<close> of \<open>sdk/typescript/src/diagnostics.ts\<close>: the requests it
  makes, the parser of its event streams and the loop that reconnects them.

  A stream is read as the chunks that \<open>reader.read\<close> and the text decoder yield;
  \<open>parse\<close> is \<open>JSON.parse\<close> (\<open>None\<close> where it throws) and \<open>handle\<close> is
  what the caller's \<open>onEvent\<close> does with an event.
\<close>

section \<open>Requests\<close>

record diagnostics =
  dg_baseUrl :: string
  dg_headers :: "(string, string) jsmap"
  dg_retry :: jsnum

definition new_DiagnosticsClient ::
  "string option \<Rightarrow> (string, string) jsmap option \<Rightarrow> jsnum option \<Rightarrow> thrown + diagnostics" where
  "new_DiagnosticsClient baseUrl headers streamRetryMilliseconds =
     (let retry = (case streamRetryMilliseconds of None \<Rightarrow> Fin 1000 | Some n \<Rightarrow> n) in
      if \<not> isSafeInteger retry \<or> num_less retry (Fin 100) \<or> num_less (Fin 60000) retry
      then Inl (ErrorObject ''RangeError'' ''streamRetryMilliseconds must be between 100 and 60000.'')
      else Inr \<lparr>dg_baseUrl = strip_slash (case baseUrl of None \<Rightarrow> ''/diagnostics/v1'' | Some u \<Rightarrow> u),
        dg_headers = (case headers of None \<Rightarrow> [] | Some hs \<Rightarrow> hs), dg_retry = retry\<rparr>)"

record fetch_call =
  fc_url :: string
  fc_method :: "string option"
  fc_headers :: "(string, string) jsmap"
  fc_body :: "string option"

definition spread_map :: "('k, 'v) jsmap \<Rightarrow> ('k, 'v) jsmap \<Rightarrow> ('k, 'v) jsmap" where
  "spread_map m n = fold (\<lambda>(k, v). map_set k v) n m"

definition dg_request :: "diagnostics \<Rightarrow> string \<Rightarrow> string option \<Rightarrow> (string, string) jsmap \<Rightarrow> string option \<Rightarrow> fetch_call" where
  "dg_request d path method headers body =
     \<lparr>fc_url = dg_baseUrl d @ path, fc_method = method, fc_headers = spread_map (dg_headers d) headers, fc_body = body\<rparr>"

definition dg_answer :: "'a json_response \<Rightarrow> thrown + 'a option" where
  "dg_answer r =
     (if \<not> jr_ok r
      then Inl (ErrorObject ''Error'' (''Diagnostics request failed with HTTP '' @ nat_str (jr_status r) @ ''.''))
      else if jr_status r = 204 then Inr None
      else bind_result (jr_json r) (\<lambda>v. Inr (Some v)))"

definition snapshot_request :: "diagnostics \<Rightarrow> fetch_call" where
  "snapshot_request d = dg_request d ''/snapshot'' None [] None"

definition activeLogLevels :: "diagnostics \<Rightarrow> fetch_call" where
  "activeLogLevels d = dg_request d ''/logging/overrides'' None [] None"

definition audit :: "diagnostics \<Rightarrow> int \<Rightarrow> int \<Rightarrow> fetch_call" where
  "audit d offset limit = dg_request d
     (''/logging/audit?'' @ params_str [(''offset'', int_str offset), (''limit'', int_str limit)]) None [] None"

definition applyLogLevel :: "(rat \<Rightarrow> string) \<Rightarrow> diagnostics \<Rightarrow> (string, json) jsmap \<Rightarrow> fetch_call" where
  "applyLogLevel num_str d change =
     (let scope = (case map_get change ''scope'' of None \<Rightarrow> JStr ''all'' | Some JNull \<Rightarrow> JStr ''all'' | Some v \<Rightarrow> v)
      in dg_request d ''/logging/overrides'' (Some ''POST'') [(''content-type'', ''application/json'')]
           (Some (stringify num_str (JObj (map_set ''scope'' scope change)))))"

definition revertLogLevel :: "diagnostics \<Rightarrow> string \<Rightarrow> fetch_call" where
  "revertLogLevel d ident = dg_request d (''/logging/overrides/'' @ encodeURIComponent ident) (Some ''DELETE'') [] None"

section \<open>The URL of a stream\<close>

text \<open>\<open>String(value)\<close> of a filter's text or number.\<close>

fun js_str :: "(rat \<Rightarrow> string) \<Rightarrow> jsval \<Rightarrow> string" where
  "js_str num_str (Str s) = s"
| "js_str num_str (Num (Fin x)) = num_str x"
| "js_str num_str (Num NaN) = ''NaN''"
| "js_str num_str (Num PInf) = ''Infinity''"
| "js_str num_str (Num NInf) = ''-Infinity''"
| "js_str num_str _ = []"

fun stream_parameters :: "(rat \<Rightarrow> string) \<Rightarrow> (string \<times> jsval) list \<Rightarrow> (string \<times> string) list \<Rightarrow> (string \<times> string) list" where
  "stream_parameters num_str [] ps = ps"
| "stream_parameters num_str ((name, v) # q) ps =
     stream_parameters num_str q (if v \<noteq> Undefined then params_set name (js_str num_str v) ps else ps)"

definition stream_url :: "(rat \<Rightarrow> string) \<Rightarrow> diagnostics \<Rightarrow> string \<Rightarrow> (string \<times> jsval) list \<Rightarrow> string" where
  "stream_url num_str d path query =
     (let parameters = stream_parameters num_str query [] in
      dg_baseUrl d @ path @ (if parameters = [] then [] else ''?'' @ params_str parameters))"

text \<open>The delay of the timer that ends a stream, where one is set.\<close>

definition duration_timer :: "jsval \<Rightarrow> jsnum option" where
  "duration_timer durationSeconds =
     (if is_number durationSeconds \<and> isFinite (num_of durationSeconds) \<and> num_less (Fin 0) (num_of durationSeconds)
      then Some (num_mul (num_of durationSeconds) (Fin 1000)) else None)"

definition streamEvents :: "(rat \<Rightarrow> string) \<Rightarrow> diagnostics \<Rightarrow> string \<times> jsnum option" where
  "streamEvents num_str d = (stream_url num_str d ''/events'' [], duration_timer Undefined)"

definition tailLogs :: "(rat \<Rightarrow> string) \<Rightarrow> diagnostics \<Rightarrow> (string \<times> jsval) list \<Rightarrow> string \<times> jsnum option" where
  "tailLogs num_str d filter_entries =
     (stream_url num_str d ''/logs/tail'' filter_entries,
      duration_timer (case map_get filter_entries ''durationSeconds'' of None \<Rightarrow> Undefined | Some v \<Rightarrow> v))"

section \<open>Blocks\<close>

abbreviation CR :: char where "CR \<equiv> CHR 0x0D"
abbreviation LF :: char where "LF \<equiv> CHR 0x0A"

text \<open>\<open>/\r?\n/\<close> and \<open>/\r?\n\r?\n/\<close> at the start of a text: the rest after the match.\<close>

fun match_newline :: "string \<Rightarrow> string option" where
  "match_newline [] = None"
| "match_newline (c # s) =
     (if c = LF then Some s
      else if c = CR then (case s of d # t \<Rightarrow> if d = LF then Some t else None | [] \<Rightarrow> None)
      else None)"

definition match_blank :: "string \<Rightarrow> string option" where
  "match_blank s = (case match_newline s of None \<Rightarrow> None | Some t \<Rightarrow> match_newline t)"

text \<open>\<open>buffer.search\<close>: the text before the first match and the text after it.\<close>

fun next_block :: "string \<Rightarrow> (string \<times> string) option" where
  "next_block s = (case match_blank s of
     Some rest \<Rightarrow> Some ([], rest)
   | None \<Rightarrow> (case s of [] \<Rightarrow> None | c # t \<Rightarrow> map_option (\<lambda>(block, rest). (c # block, rest)) (next_block t)))"

declare next_block.simps [simp del]

text \<open>\<open>block.split(/\r?\n/)\<close>\<close>

function split_lines :: "string \<Rightarrow> string list" where
  "split_lines [] = [[]]"
| "split_lines (c # s) = (case match_newline (c # s) of
     Some rest \<Rightarrow> [] # split_lines rest
   | None \<Rightarrow> (case split_lines s of [] \<Rightarrow> [[c]] | w # ws \<Rightarrow> (c # w) # ws))"
  by pat_completeness auto
termination
  by (relation "measure length") (auto split: if_splits list.splits)

datatype dispatch = Disconnect | Ignore | Deliver string

text \<open>The name and the data lines of a block.\<close>

definition block_line :: "string \<Rightarrow> string \<times> string list \<Rightarrow> string \<times> string list" where
  "block_line line st = (case st of (eventName, data) \<Rightarrow>
     (if startsWith line ''event:'' then trim (drop 6 line) else eventName,
      if startsWith line ''data:'' then data @ [trimStart (drop 5 line)] else data))"

definition dispatchStreamBlock :: "string \<Rightarrow> dispatch" where
  "dispatchStreamBlock block = (case fold block_line (split_lines block) (''message'', []) of (eventName, data) \<Rightarrow>
     if eventName = ''disconnect'' then Disconnect
     else if eventName = ''message'' \<and> data \<noteq> [] then Deliver (separated [LF] data)
     else Ignore)"

section \<open>Reading a stream\<close>

datatype handled = Returns | Stops | Throws thrown

datatype stream_error = HttpError nat | OtherError thrown

definition isPermanent :: "nat \<Rightarrow> bool" where
  "isPermanent status = (400 \<le> status \<and> status < 500 \<and> status \<noteq> 408 \<and> status \<noteq> 429)"

fun permanent :: "stream_error \<Rightarrow> bool" where
  "permanent (HttpError status) = isPermanent status"
| "permanent (OtherError _) = False"

datatype stream_result = Waiting | Ended | Disconnected | Failed stream_error

record 'e stream =
  sm_buffer :: string
  sm_aborted :: bool
  sm_events :: "'e list"
  sm_result :: stream_result

lemma match_newline_shorter: "match_newline s = Some t \<Longrightarrow> length t < length s"
  by (cases s) (auto split: if_splits list.splits)

lemma match_blank_shorter: "match_blank s = Some t \<Longrightarrow> length t < length s"
  by (auto simp: match_blank_def split: option.splits dest!: match_newline_shorter)

lemma next_block_shorter: "next_block s = Some (block, rest) \<Longrightarrow> length rest < length s"
proof (induction s arbitrary: block rest)
  case Nil
  then show ?case by (simp add: next_block.simps [of "[]"] match_blank_def)
next
  case (Cons c s)
  show ?case
  proof (cases "match_blank (c # s)")
    case None
    with Cons.prems obtain b where "next_block s = Some (b, rest)" by (auto simp: next_block.simps [of "c # s"])
    then show ?thesis using Cons.IH by (simp add: less_SucI)
  next
    case (Some t)
    with Cons.prems show ?thesis by (auto simp: next_block.simps [of "c # s"] dest: match_blank_shorter)
  qed
qed

text \<open>The inner loop of \<open>consumeStream\<close>: the complete blocks of the buffer.\<close>

function drain :: "(string \<Rightarrow> 'e option) \<Rightarrow> ('e \<Rightarrow> handled) \<Rightarrow> 'e stream \<Rightarrow> 'e stream" where
  "drain parse handle s = (case next_block (sm_buffer s) of
     None \<Rightarrow> s
   | Some (block, rest) \<Rightarrow> (case dispatchStreamBlock block of
       Disconnect \<Rightarrow> s\<lparr>sm_buffer := rest, sm_aborted := True, sm_result := Disconnected\<rparr>
     | Ignore \<Rightarrow> drain parse handle (s\<lparr>sm_buffer := rest\<rparr>)
     | Deliver data \<Rightarrow> (case parse data of
         None \<Rightarrow> s\<lparr>sm_buffer := rest, sm_result := Failed (OtherError (ErrorObject ''SyntaxError'' data))\<rparr>
       | Some e \<Rightarrow>
           let s1 = s\<lparr>sm_events := sm_events s @ [e]\<rparr> in
           (case handle e of
              Returns \<Rightarrow> drain parse handle (s1\<lparr>sm_buffer := rest\<rparr>)
            | Stops \<Rightarrow> drain parse handle (s1\<lparr>sm_aborted := True, sm_buffer := rest\<rparr>)
            | Throws t \<Rightarrow> s1\<lparr>sm_result := Failed (OtherError t), sm_buffer := rest\<rparr>))))"
  by pat_completeness auto
termination
  by (relation "measure (\<lambda>(parse, handle, s). length (sm_buffer s))") (auto dest: next_block_shorter)

declare drain.simps [simp del]

datatype read = Chunk string bool | ReadFails thrown | ReadCancelled thrown

fun consume :: "(string \<Rightarrow> 'e option) \<Rightarrow> ('e \<Rightarrow> handled) \<Rightarrow> read list \<Rightarrow> 'e stream \<Rightarrow> 'e stream" where
  "consume parse handle [] s = (if sm_aborted s then s\<lparr>sm_result := Ended\<rparr> else s)"
| "consume parse handle (r # rs) s =
     (if sm_aborted s then s\<lparr>sm_result := Ended\<rparr>
      else case r of
        ReadFails e \<Rightarrow> s\<lparr>sm_result := Failed (OtherError e)\<rparr>
      | ReadCancelled e \<Rightarrow> s\<lparr>sm_aborted := True, sm_result := Failed (OtherError e)\<rparr>
      | Chunk text is_done \<Rightarrow>
          let s1 = drain parse handle (s\<lparr>sm_buffer := sm_buffer s @ text\<rparr>) in
          if sm_result s1 \<noteq> Waiting then s1
          else if is_done then s1\<lparr>sm_result := Ended\<rparr>
          else consume parse handle rs s1)"

datatype attempt_answer =
    FetchFails thrown
  | FetchCancelled thrown
  | Answered (an_ok: bool) (an_status: nat) (an_body: bool) (an_reads: "read list")

definition consumeStream :: "(string \<Rightarrow> 'e option) \<Rightarrow> ('e \<Rightarrow> handled) \<Rightarrow> attempt_answer \<Rightarrow> 'e stream \<Rightarrow> 'e stream" where
  "consumeStream parse handle a s = (case a of
     FetchFails e \<Rightarrow> s\<lparr>sm_result := Failed (OtherError e)\<rparr>
   | FetchCancelled e \<Rightarrow> s\<lparr>sm_aborted := True, sm_result := Failed (OtherError e)\<rparr>
   | Answered ok status body reads \<Rightarrow>
       if \<not> ok \<or> \<not> body then s\<lparr>sm_result := Failed (HttpError status)\<rparr>
       else consume parse handle reads (s\<lparr>sm_buffer := [], sm_result := Waiting\<rparr>))"

section \<open>Reconnecting\<close>

text \<open>What a stream goes through: an attempt, or the caller stopping it while it waits to retry.\<close>

datatype stream_step = Attempt attempt_answer | StoppedWaiting

record 'e run =
  rn_stream :: "'e stream"
  rn_reported :: "stream_error list"
  rn_requests :: nat
  rn_finished :: bool

fun runStream :: "(string \<Rightarrow> 'e option) \<Rightarrow> ('e \<Rightarrow> handled) \<Rightarrow> stream_step list \<Rightarrow> 'e run \<Rightarrow> 'e run" where
  "runStream parse handle [] r = (if sm_aborted (rn_stream r) then r\<lparr>rn_finished := True\<rparr> else r)"
| "runStream parse handle (StoppedWaiting # as) r =
     r\<lparr>rn_stream := (rn_stream r)\<lparr>sm_aborted := True\<rparr>, rn_finished := True\<rparr>"
| "runStream parse handle (Attempt a # as) r =
     (if sm_aborted (rn_stream r) then r\<lparr>rn_finished := True\<rparr>
      else let s = consumeStream parse handle a (rn_stream r);
               r1 = r\<lparr>rn_stream := s, rn_requests := Suc (rn_requests r)\<rparr>
           in case sm_result s of
             Waiting \<Rightarrow> r1
           | Disconnected \<Rightarrow> r1\<lparr>rn_finished := True\<rparr>
           | Ended \<Rightarrow> runStream parse handle as r1
           | Failed e \<Rightarrow>
               if sm_aborted s then r1\<lparr>rn_finished := True\<rparr>
               else let r2 = r1\<lparr>rn_reported := rn_reported r1 @ [e]\<rparr> in
                 if permanent e then r2\<lparr>rn_finished := True\<rparr> else runStream parse handle as r2)"

definition new_stream :: "'e stream" where
  "new_stream = \<lparr>sm_buffer = [], sm_aborted = False, sm_events = [], sm_result = Waiting\<rparr>"

definition new_run :: "'e run" where
  "new_run = \<lparr>rn_stream = new_stream, rn_reported = [], rn_requests = 0, rn_finished = False\<rparr>"

section \<open>Blocks do not depend on the chunks\<close>

lemma match_newline_append: "match_newline s = Some t \<Longrightarrow> match_newline (s @ c) = Some (t @ c)"
  by (cases s) (auto split: if_splits list.splits)

lemma match_blank_append: "match_blank s = Some t \<Longrightarrow> match_blank (s @ c) = Some (t @ c)"
  by (auto simp: match_blank_def match_newline_append split: option.splits)

lemma match_newline_late: "match_newline s = None \<Longrightarrow> match_newline (s @ c) \<noteq> None \<Longrightarrow> s = [] \<or> s = [CR]"
  by (cases s) (auto split: if_splits list.splits)

text \<open>A blank line that later text completes is the end of the buffer, and no block precedes it there.\<close>

lemma match_blank_late:
  assumes "match_blank s = None" "match_blank (s @ c) \<noteq> None"
  shows "s \<in> {[], [CR], [LF], [LF, CR], [CR, LF], [CR, LF, CR]}"
proof (cases "match_newline s")
  case None
  then have "match_newline (s @ c) \<noteq> None" using assms(2) by (auto simp: match_blank_def split: option.splits)
  with None show ?thesis using match_newline_late by blast
next
  case (Some t)
  then have "match_newline t = None" "match_newline (t @ c) \<noteq> None"
    using assms match_newline_append [OF Some, of c] by (auto simp: match_blank_def)
  then have "t = [] \<or> t = [CR]" by (rule match_newline_late)
  with Some show ?thesis by (cases s) (auto split: if_splits list.splits)
qed

lemma next_block_short: "s \<in> {[], [CR], [LF], [LF, CR], [CR, LF], [CR, LF, CR]} \<Longrightarrow> next_block s = None"
  by (auto simp: next_block.simps match_blank_def)

lemma next_block_append: "next_block s = Some (block, rest) \<Longrightarrow> next_block (s @ c) = Some (block, rest @ c)"
proof (induction s arbitrary: block)
  case Nil
  then show ?case by (simp add: next_block.simps [of "[]"] match_blank_def)
next
  case (Cons x s)
  show ?case
  proof (cases "match_blank (x # s)")
    case None
    with Cons.prems obtain b where b: "next_block s = Some (b, rest)" "block = x # b"
      by (auto simp: next_block.simps [of "x # s"])
    have "match_blank ((x # s) @ c) = None"
      using match_blank_late [OF None, of c] next_block_short [of "x # s"] Cons.prems by fastforce
    then show ?thesis using Cons.IH [OF b(1)] b(2) by (simp add: next_block.simps [of "x # s @ c"])
  next
    case (Some t)
    with Cons.prems show ?thesis using match_blank_append [OF Some, of c]
      by (simp add: next_block.simps [of "x # s"] next_block.simps [of "x # s @ c"])
  qed
qed

lemma drain_append:
  "sm_result s = Waiting \<Longrightarrow>
   drain parse handle (s\<lparr>sm_buffer := sm_buffer s @ c\<rparr>) =
     (let s1 = drain parse handle s; s2 = s1\<lparr>sm_buffer := sm_buffer s1 @ c\<rparr>
      in if sm_result s1 \<noteq> Waiting then s2 else drain parse handle s2)"
proof (induction parse handle s rule: drain.induct)
  case (1 parse handle s)
  show ?case
  proof (cases "next_block (sm_buffer s)")
    case None
    then show ?thesis using 1 by (simp add: drain.simps [of parse handle s])
  next
    case (Some p)
    obtain block rest where p: "p = (block, rest)" by (cases p)
    note eqs = drain.simps [of parse handle s] drain.simps [of parse handle "s\<lparr>sm_buffer := sm_buffer s @ c\<rparr>"]
      next_block_append [of "sm_buffer s" block rest c]
    show ?thesis
    proof (cases "dispatchStreamBlock block")
      case Disconnect
      then show ?thesis using Some p by (simp add: eqs)
    next
      case Ignore
      then show ?thesis using Some p 1 by (simp add: eqs)
    next
      case (Deliver data)
      show ?thesis
      proof (cases "parse data")
        case None
        then show ?thesis using Some p Deliver by (simp add: eqs)
      next
        case (Some e)
        then show ?thesis using \<open>next_block (sm_buffer s) = Some p\<close> p Deliver 1
          by (cases "handle e") (simp_all add: eqs Let_def)
      qed
    qed
  qed
qed

lemma drain_running:
  "(\<And>e. handle e \<noteq> Stops) \<Longrightarrow> sm_result (drain parse handle s) = Waiting \<Longrightarrow> sm_aborted (drain parse handle s) = sm_aborted s"
proof (induction parse handle s rule: drain.induct)
  case (1 parse handle s)
  show ?case
  proof (cases "next_block (sm_buffer s)")
    case (Some p)
    obtain block rest where p: "p = (block, rest)" by (cases p)
    from 1 Some p show ?thesis
      by (simp add: drain.simps [of parse handle s] Let_def split: dispatch.splits option.splits handled.splits)
  qed (simp add: drain.simps [of parse handle s])
qed

definition observed :: "'e stream \<Rightarrow> 'e list \<times> bool \<times> stream_result" where
  "observed s = (sm_events s, sm_aborted s, sm_result s)"

text \<open>
  How the network cuts a stream into chunks does not matter: unless the handler stops the
  stream, reading a text in any chunks delivers the same events and ends in the same way as reading
  it at once. A blank line may be cut anywhere, also inside a carriage return and line feed.
\<close>

theorem consume_chunks:
  assumes "\<And>e. handle e \<noteq> Stops" "\<not> sm_aborted s" "sm_result s = Waiting"
  shows "observed (consume parse handle (map (\<lambda>t. Chunk t False) ts @ [Chunk t' True]) s)
    = observed (consume parse handle [Chunk (concat ts @ t') True] s)"
  using assms(2,3)
proof (induction ts arbitrary: s)
  case (Cons t ts)
  let ?s = "drain parse handle (s\<lparr>sm_buffer := sm_buffer s @ t\<rparr>)"
  have app: "drain parse handle (s\<lparr>sm_buffer := sm_buffer s @ t @ concat ts @ t'\<rparr>) =
      (let s2 = ?s\<lparr>sm_buffer := sm_buffer ?s @ concat ts @ t'\<rparr> in if sm_result ?s \<noteq> Waiting then s2 else drain parse handle s2)"
    using drain_append [of "s\<lparr>sm_buffer := sm_buffer s @ t\<rparr>" parse handle "concat ts @ t'"] Cons.prems by (simp add: Let_def)
  show ?case
  proof (cases "sm_result ?s = Waiting")
    case True
    then have running: "\<not> sm_aborted ?s" using drain_running [OF assms(1) True] Cons.prems by simp
    from Cons.IH [OF this True] show ?thesis using Cons.prems True running by (simp add: app Let_def)
  next
    case False
    then show ?thesis using Cons.prems by (simp add: app Let_def observed_def)
  qed
qed simp

section \<open>A stream delivers what was sent\<close>

definition plain_data :: "string \<Rightarrow> bool" where
  "plain_data m = (CR \<notin> set m \<and> LF \<notin> set m \<and> trimStart m = m)"

definition sse :: "string \<Rightarrow> string" where
  "sse m = ''data: '' @ m @ [LF, LF]"

lemma match_newline_plain: "c \<noteq> CR \<Longrightarrow> c \<noteq> LF \<Longrightarrow> match_newline (c # s) = None"
  by simp

lemma next_block_plain:
  "CR \<notin> set w \<Longrightarrow> LF \<notin> set w \<Longrightarrow> next_block (w @ LF # LF # rest) = Some (w, rest)"
proof (induction w)
  case (Cons c w)
  then have "match_blank (c # w @ LF # LF # rest) = None" by (auto simp: match_blank_def)
  then show ?case using Cons by (simp add: next_block.simps [of "c # w @ LF # LF # rest"])
qed (simp add: next_block.simps match_blank_def)

lemma split_lines_plain: "CR \<notin> set w \<Longrightarrow> LF \<notin> set w \<Longrightarrow> split_lines w = [w]"
  by (induction w) auto

lemma dispatch_plain: "plain_data m \<Longrightarrow> dispatchStreamBlock (''data: '' @ m) = Deliver m"
proof -
  assume m: "plain_data m"
  then have "split_lines (''data: '' @ m) = [''data: '' @ m]" by (intro split_lines_plain) (auto simp: plain_data_def)
  moreover have "trimStart (CHR '' '' # m) = m" using m by (simp add: trimStart_def js_space_def plain_data_def)
  ultimately show ?thesis by (simp add: dispatchStreamBlock_def block_line_def startsWith_def)
qed

lemma drain_sse:
  assumes "\<forall>m \<in> set ms. plain_data m \<and> parse m \<noteq> None" "\<And>e. handle e = Returns" "sm_buffer s = concat (map sse ms)"
  shows "drain parse handle s = s\<lparr>sm_events := sm_events s @ map (the \<circ> parse) ms, sm_buffer := []\<rparr>"
  using assms(1,3)
proof (induction ms arbitrary: s)
  case Nil
  then show ?case by (simp add: drain.simps [of parse handle s] next_block_short)
next
  case (Cons m ms)
  have "CR \<notin> set (''data: '' @ m)" "LF \<notin> set (''data: '' @ m)" using Cons.prems by (auto simp: plain_data_def)
  note block = next_block_plain [OF this, of "concat (map sse ms)"]
  have buffer: "sm_buffer s = (''data: '' @ m) @ LF # LF # concat (map sse ms)" using Cons.prems by (simp add: sse_def [of m])
  obtain e where "parse m = Some e" using Cons.prems by auto
  then have "drain parse handle s = drain parse handle (s\<lparr>sm_events := sm_events s @ [e], sm_buffer := concat (map sse ms)\<rparr>)"
    using Cons.prems assms(2) unfolding drain.simps [of parse handle s] buffer block
    by (simp add: dispatch_plain Let_def del: append.simps)
  then show ?case using Cons.prems Cons.IH \<open>parse m = Some e\<close> by simp
qed

text \<open>
  C10. Round trip: messages that a server writes as \<open>data:\<close> blocks, one line of JSON each,
  come out of the stream in order and each once, however the text is cut into chunks.
\<close>

theorem stream_round_trip:
  assumes "\<forall>m \<in> set ms. plain_data m \<and> parse m \<noteq> None" "\<And>e. handle e = Returns"
    and "concat ts @ t' = concat (map sse ms)"
  shows "observed (consumeStream parse handle (Answered True 200 True (map (\<lambda>t. Chunk t False) ts @ [Chunk t' True])) new_stream)
    = (map (the \<circ> parse) ms, False, Ended)"
proof -
  have h: "\<And>e. handle e \<noteq> Stops" using assms(2) by simp
  have "drain parse handle (new_stream\<lparr>sm_buffer := concat (map sse ms)\<rparr>)
      = (new_stream\<lparr>sm_buffer := concat (map sse ms)\<rparr>)\<lparr>sm_events := map (the \<circ> parse) ms, sm_buffer := []\<rparr>"
    using drain_sse [OF assms(1,2), of "new_stream\<lparr>sm_buffer := concat (map sse ms)\<rparr>"] by (simp add: new_stream_def)
  then have "observed (consume parse handle [Chunk (concat ts @ t') True] new_stream) = (map (the \<circ> parse) ms, False, Ended)"
    by (simp add: assms(3) new_stream_def observed_def Let_def)
  then show ?thesis using consume_chunks [where handle = handle and s = new_stream and parse = parse and ts = ts and t' = t'] h by (simp add: consumeStream_def new_stream_def)
qed

definition digit_parse :: "string \<Rightarrow> string option" where
  "digit_parse s = (if s = [] then None else Some s)"

theorem consume_chunks_witness:
  "observed (consume digit_parse (\<lambda>_. Returns) [Chunk (''data: 1'' @ [CR]) False, Chunk [LF, CR] False, Chunk [LF] True] new_stream)
   = ([''1''], False, Ended)"
proof -
  have "consume digit_parse (\<lambda>_. Returns) [Chunk (''data: 1'' @ [CR, LF, CR, LF]) True] new_stream
      = new_stream\<lparr>sm_events := [''1''], sm_result := Ended\<rparr>"
    by (simp add: new_stream_def drain.simps next_block.simps match_blank_def dispatchStreamBlock_def block_line_def
        startsWith_def trimStart_def js_space_def digit_parse_def Let_def)
  then show ?thesis
    using consume_chunks [of "\<lambda>_. Returns" new_stream digit_parse "[''data: 1'' @ [CR], [LF, CR]]" "[LF]"]
    by (simp add: new_stream_def observed_def)
qed

theorem stream_round_trip_witness:
  "observed (consumeStream digit_parse (\<lambda>_. Returns)
     (Answered True 200 True [Chunk ''data: 1'' False, Chunk [LF] False, Chunk (LF # ''data: 2'' @ [LF, LF]) True]) new_stream)
   = ([''1'', ''2''], False, Ended)"
proof -
  have "\<forall>m \<in> set [''1'', ''2'']. plain_data m \<and> digit_parse m \<noteq> None"
    by (simp add: plain_data_def trimStart_def js_space_def digit_parse_def)
  from stream_round_trip [OF this, of "\<lambda>_. Returns" "[''data: 1'', [LF]]" "LF # ''data: 2'' @ [LF, LF]"]
  show ?thesis by (simp add: sse_def digit_parse_def [of "[c]" for c])
qed

text \<open>
  Stopping a stream from its handler does not stop the events of the text already read: the
  loop over the blocks of the buffer does not look at the signal, so the handler is called again
  after it has stopped the stream.
\<close>

theorem events_after_stop:
  "sm_events (consume digit_parse (\<lambda>_. Stops) [Chunk (sse ''1'' @ sse ''2'') False] new_stream) = [''1'', ''2'']"
  by (simp add: new_stream_def drain.simps next_block.simps match_blank_def dispatchStreamBlock_def block_line_def
      startsWith_def trimStart_def js_space_def digit_parse_def sse_def Let_def)

section \<open>Which failures are retried\<close>

fun failure_of :: "attempt_answer \<Rightarrow> stream_error option" where
  "failure_of (FetchFails e) = Some (OtherError e)"
| "failure_of (FetchCancelled e) = None"
| "failure_of (Answered ok status body reads) = (if \<not> ok \<or> \<not> body then Some (HttpError status) else None)"

lemma consumeStream_failure:
  "failure_of a = Some e \<Longrightarrow> consumeStream parse handle a s = s\<lparr>sm_result := Failed e\<rparr>"
  by (cases a) (auto simp: consumeStream_def split: if_splits)

lemma runStream_retries:
  assumes "\<forall>a \<in> set as. \<exists>e. failure_of a = Some e \<and> \<not> permanent e" "\<not> sm_aborted (rn_stream r)"
  shows "\<exists>r'. runStream parse handle (map Attempt as @ rest) r = runStream parse handle rest r'
    \<and> \<not> sm_aborted (rn_stream r') \<and> rn_requests r' = rn_requests r + length as \<and> rn_finished r' = rn_finished r
    \<and> sm_events (rn_stream r') = sm_events (rn_stream r) \<and> rn_reported r' = rn_reported r @ map (the \<circ> failure_of) as"
  using assms
proof (induction as arbitrary: r)
  case (Cons a as)
  obtain e where e: "failure_of a = Some e" "\<not> permanent e" using Cons.prems(1) by auto
  let ?r = "r\<lparr>rn_stream := (rn_stream r)\<lparr>sm_result := Failed e\<rparr>, rn_requests := Suc (rn_requests r),
    rn_reported := rn_reported r @ [e]\<rparr>"
  have "runStream parse handle (map Attempt (a # as) @ rest) r = runStream parse handle (map Attempt as @ rest) ?r"
    using Cons.prems(2) e by (simp add: consumeStream_failure Let_def)
  then show ?case using Cons.IH [of ?r] Cons.prems e(1) by auto
qed auto

text \<open>
  C32. A stream that fails is requested again, after each failure is reported once, until an answer
  that no retry can mend: with a status from 400 to 499 other than 408 and 429 the stream ends, and
  no further request is made whatever would follow.
\<close>

theorem stream_retries_until_permanent:
  assumes "\<forall>a \<in> set as. \<exists>e. failure_of a = Some e \<and> \<not> permanent e" "isPermanent status"
    and r_def: "r = runStream parse handle (map Attempt as @ Attempt (Answered False status body reads) # rest) new_run"
  shows "rn_finished r \<and> rn_requests r = Suc (length as) \<and> sm_events (rn_stream r) = []
    \<and> rn_reported r = map (the \<circ> failure_of) as @ [HttpError status]"
proof -
  have "\<not> sm_aborted (rn_stream new_run)" by (simp add: new_run_def new_stream_def)
  note ex = runStream_retries [OF assms(1) this, of parse handle "Attempt (Answered False status body reads) # rest"]
  show ?thesis
  proof (rule exE [OF ex], elim conjE)
    fix r'
    assume "runStream parse handle (map Attempt as @ Attempt (Answered False status body reads) # rest) new_run
        = runStream parse handle (Attempt (Answered False status body reads) # rest) r'"
      "\<not> sm_aborted (rn_stream r')" "rn_requests r' = rn_requests new_run + length as"
      "sm_events (rn_stream r') = sm_events (rn_stream new_run)" "rn_reported r' = rn_reported new_run @ map (the \<circ> failure_of) as"
    then show ?thesis unfolding r_def using assms(2) by (simp add: consumeStream_def new_run_def new_stream_def Let_def)
  qed
qed

theorem stream_retries_until_permanent_witness:
  "rn_requests (runStream digit_parse (\<lambda>_. Returns)
     [Attempt (FetchFails NonError), Attempt (Answered False 503 False []), Attempt (Answered False 403 False []),
      Attempt (Answered True 200 True [])] new_run) = 3"
proof -
  have "\<forall>a \<in> set [FetchFails NonError, Answered False 503 False []]. \<exists>e. failure_of a = Some e \<and> \<not> permanent e" "isPermanent 403"
    by (simp_all add: isPermanent_def)
  from stream_retries_until_permanent [OF this refl, of digit_parse "\<lambda>_. Returns" False "[]" "[Attempt (Answered True 200 True [])]"]
  show ?thesis by simp
qed

end
