(* ===== verification/Persistence_Client.thy ===== *)
theory Persistence_Client
  imports Js_Value Js_Url
begin

text \<open>
  \<open>RealtimePersistenceClient\<close> of \<open>sdk/typescript/src/persistence.ts\<close>: what it
  accepts, the request an operation makes, and what it makes of the answer. An operation is its
  request, or what it throws before there is one, together with the treatment of the answer.
\<close>

section \<open>Construction and checks\<close>






section \<open>Requests\<close>


definition persistence_error :: "nat \<Rightarrow> thrown" where
  "persistence_error status = ErrorObject ''RealtimePersistenceError'' (''Persistence request failed ('' @ nat_str status @ '').'')"


definition post_answer :: "bool \<Rightarrow> 'a json_response \<Rightarrow> thrown + 'a json_response" where
  "post_answer allowMissing r =
     (if \<not> jr_ok r \<and> \<not> (allowMissing \<and> jr_status r = 404) then Inl (persistence_error (jr_status r)) else Inr r)"

section \<open>Operations\<close>



definition read_answer :: "'a json_response \<Rightarrow> thrown + 'a" where
  "read_answer r = bind_result (post_answer False r) jr_json"


definition acknowledge_answer :: "'a json_response \<Rightarrow> thrown + unit" where
  "acknowledge_answer r = bind_result (post_answer False r) (\<lambda>_. Inr ())"


definition getTaskStatus_answer :: "'a json_response \<Rightarrow> thrown + 'a option" where
  "getTaskStatus_answer r = bind_result (post_answer True r)
     (\<lambda>r. if jr_status r = 404 then Inr None else bind_result (jr_json r) (\<lambda>v. Inr (Some v)))"

section \<open>Requests stay on the page's origin\<close>






text \<open>
  Only a missing task is not an error: \<open>getTaskStatus\<close> answers null for status 404,
  every other unsuccessful answer is thrown with its status by all three operations, and a
  successful one yields its body.
\<close>

theorem persistence_answers:
  "getTaskStatus_answer r =
     (if jr_status r = 404 then Inr None
      else if jr_ok r then bind_result (jr_json r) (\<lambda>v. Inr (Some v)) else Inl (persistence_error (jr_status r)))
   \<and> read_answer r = (if jr_ok r then jr_json r else Inl (persistence_error (jr_status r)))
   \<and> acknowledge_answer r = (if jr_ok r then Inr () else Inl (persistence_error (jr_status r)))"
  by (simp add: getTaskStatus_answer_def read_answer_def acknowledge_answer_def post_answer_def)

end
