(* ===== verification/Js_Regex.thy ===== *)
theory Js_Regex
  imports Js_Url
begin

text \<open>
  The regular expressions of the sources, as data: characters are matched by classes, and a
  look-ahead is an intersection (\<open>Both\<close>) or, where it is negative, one with a complement
  (\<open>Except\<close>). \<open>rx_match\<close> decides by derivatives whether a whole text matches, and
  does so exactly by the language \<open>rx_lang\<close>.
\<close>

section \<open>Expressions and their languages\<close>

datatype rx =
    Never
  | Nothing
  | Cls "char \<Rightarrow> bool"
  | Alt rx rx
  | Cat rx rx
  | Many rx
  | Both rx rx
  | Except rx

inductive_set iterate :: "string set \<Rightarrow> string set" for A where
  stop: "[] \<in> iterate A"
| more: "s \<in> A \<Longrightarrow> t \<in> iterate A \<Longrightarrow> s @ t \<in> iterate A"

primrec rx_lang :: "rx \<Rightarrow> string set" where
  "rx_lang Never = {}"
| "rx_lang Nothing = {[]}"
| "rx_lang (Cls P) = {[c] | c. P c}"
| "rx_lang (Alt r q) = rx_lang r \<union> rx_lang q"
| "rx_lang (Cat r q) = {s @ t | s t. s \<in> rx_lang r \<and> t \<in> rx_lang q}"
| "rx_lang (Many r) = iterate (rx_lang r)"
| "rx_lang (Both r q) = rx_lang r \<inter> rx_lang q"
| "rx_lang (Except r) = - rx_lang r"

section \<open>Matching\<close>

primrec accepts_empty :: "rx \<Rightarrow> bool" where
  "accepts_empty Never = False"
| "accepts_empty Nothing = True"
| "accepts_empty (Cls P) = False"
| "accepts_empty (Alt r q) = (accepts_empty r \<or> accepts_empty q)"
| "accepts_empty (Cat r q) = (accepts_empty r \<and> accepts_empty q)"
| "accepts_empty (Many r) = True"
| "accepts_empty (Both r q) = (accepts_empty r \<and> accepts_empty q)"
| "accepts_empty (Except r) = (\<not> accepts_empty r)"

text \<open>Constructors that drop what cannot match, so that derivatives stay small.\<close>

fun alt :: "rx \<Rightarrow> rx \<Rightarrow> rx" where
  "alt Never q = q"
| "alt r Never = r"
| "alt r q = Alt r q"

fun cat :: "rx \<Rightarrow> rx \<Rightarrow> rx" where
  "cat Never q = Never"
| "cat Nothing q = q"
| "cat r q = Cat r q"

fun both :: "rx \<Rightarrow> rx \<Rightarrow> rx" where
  "both Never q = Never"
| "both r Never = Never"
| "both r q = Both r q"

primrec after :: "char \<Rightarrow> rx \<Rightarrow> rx" where
  "after c Never = Never"
| "after c Nothing = Never"
| "after c (Cls P) = (if P c then Nothing else Never)"
| "after c (Alt r q) = alt (after c r) (after c q)"
| "after c (Cat r q) = (if accepts_empty r then alt (cat (after c r) q) (after c q) else cat (after c r) q)"
| "after c (Many r) = cat (after c r) (Many r)"
| "after c (Both r q) = both (after c r) (after c q)"
| "after c (Except r) = Except (after c r)"

fun rx_match :: "rx \<Rightarrow> string \<Rightarrow> bool" where
  "rx_match r [] = accepts_empty r"
| "rx_match r (c # s) = rx_match (after c r) s"

section \<open>Correctness of matching\<close>

lemma accepts_empty_iff: "accepts_empty r \<longleftrightarrow> [] \<in> rx_lang r"
  by (induction r) (auto intro: iterate.stop)

lemma alt_lang [simp]: "rx_lang (alt r q) = rx_lang r \<union> rx_lang q"
  by (cases "(r, q)" rule: alt.cases) auto

lemma cat_lang [simp]: "rx_lang (cat r q) = rx_lang (Cat r q)"
  by (cases "(r, q)" rule: cat.cases) auto

lemma both_lang [simp]: "rx_lang (both r q) = rx_lang r \<inter> rx_lang q"
  by (cases "(r, q)" rule: both.cases) auto

lemma iterate_step:
  "c # s \<in> iterate A \<longleftrightarrow> (\<exists>u v. s = u @ v \<and> c # u \<in> A \<and> v \<in> iterate A)"
proof
  show "\<exists>u v. s = u @ v \<and> c # u \<in> A \<and> v \<in> iterate A" if "c # s \<in> iterate A"
    using that
  proof (induction "c # s" arbitrary: s rule: iterate.induct)
    case (more x y)
    then show ?case by (cases x) auto
  qed
  show "c # s \<in> iterate A" if "\<exists>u v. s = u @ v \<and> c # u \<in> A \<and> v \<in> iterate A"
    using that iterate.more [of "c # u" A v for u v] by auto
qed

lemma after_lang: "s \<in> rx_lang (after c r) \<longleftrightarrow> c # s \<in> rx_lang r"
proof (induction r arbitrary: s)
  case (Cat r q)
  show ?case by (auto simp: Cat.IH accepts_empty_iff Cons_eq_append_conv)
next
  case (Many r)
  show ?case by (auto simp: Many.IH iterate_step)
qed auto

text \<open>Matching by derivatives is membership in the language.\<close>

lemma rx_match_iff: "rx_match r s \<longleftrightarrow> s \<in> rx_lang r"
  by (induction s arbitrary: r) (simp_all add: accepts_empty_iff after_lang)

section \<open>Building expressions\<close>

definition lit :: "string \<Rightarrow> rx" where
  "lit s = foldr (\<lambda>c r. Cat (Cls (\<lambda>d. d = c)) r) s Nothing"

text \<open>A text with the flag \<open>i\<close>, given in lower case.\<close>

definition lit_i :: "string \<Rightarrow> rx" where
  "lit_i s = foldr (\<lambda>c r. Cat (Cls (\<lambda>d. lower_char d = c)) r) s Nothing"

definition maybe :: "rx \<Rightarrow> rx" where
  "maybe r = Alt Nothing r"

definition some :: "rx \<Rightarrow> rx" where
  "some r = Cat r (Many r)"

primrec up_to :: "nat \<Rightarrow> rx \<Rightarrow> rx" where
  "up_to 0 r = Nothing"
| "up_to (Suc n) r = Alt Nothing (Cat r (up_to n r))"

primrec exactly :: "nat \<Rightarrow> rx \<Rightarrow> rx" where
  "exactly 0 r = Nothing"
| "exactly (Suc n) r = Cat r (exactly n r)"

definition between :: "nat \<Rightarrow> nat \<Rightarrow> rx \<Rightarrow> rx" where
  "between m n r = Cat (exactly m r) (up_to (n - m) r)"

primrec one_of :: "rx list \<Rightarrow> rx" where
  "one_of [] = Never"
| "one_of (r # rs) = Alt r (one_of rs)"

primrec seq_of :: "rx list \<Rightarrow> rx" where
  "seq_of [] = Nothing"
| "seq_of (r # rs) = Cat r (seq_of rs)"

definition is_digit :: "char \<Rightarrow> bool" where
  "is_digit c = (let n = (of_char c :: nat) in 48 \<le> n \<and> n \<le> 57)"

definition is_lower :: "char \<Rightarrow> bool" where
  "is_lower c = (let n = (of_char c :: nat) in 97 \<le> n \<and> n \<le> 122)"

definition any_char :: "char \<Rightarrow> bool" where
  "any_char c = (c \<noteq> CHR 0x0A \<and> c \<noteq> CHR 0x0D)"

text \<open>Expressions that are not anchored: the text contains, starts or ends with a match.\<close>

abbreviation anything :: rx where
  "anything \<equiv> Many (Cls (\<lambda>c. True))"

definition ends_with :: "rx \<Rightarrow> rx" where
  "ends_with r = Cat anything r"

definition starts_with :: "rx \<Rightarrow> rx" where
  "starts_with r = Cat r anything"

definition contains :: "rx \<Rightarrow> rx" where
  "contains r = Cat anything (Cat r anything)"

text \<open>\<open>(?=.{m,n}$)\<close> in front of an expression.\<close>

definition of_length :: "nat \<Rightarrow> nat \<Rightarrow> rx \<Rightarrow> rx" where
  "of_length m n r = Both (between m n (Cls any_char)) r"

section \<open>Lengths and characters of what matches\<close>

lemma lit_lang [simp]: "rx_lang (lit s) = {s}"
  by (induction s) (auto simp: lit_def)

lemma Cat_Cls: "s \<in> rx_lang (Cat (Cls P) r) \<longleftrightarrow> (\<exists>c t. s = c # t \<and> P c \<and> t \<in> rx_lang r)"
proof
  show "s \<in> rx_lang (Cat (Cls P) r)" if "\<exists>c t. s = c # t \<and> P c \<and> t \<in> rx_lang r"
  proof -
    from that obtain c t where "s = [c] @ t" "P c" "t \<in> rx_lang r" by auto
    then show ?thesis unfolding rx_lang.simps by blast
  qed
qed auto

lemma up_to_length: "s \<in> rx_lang (up_to n (Cls P)) \<longleftrightarrow> length s \<le> n \<and> list_all P s"
proof (induction n arbitrary: s)
  case (Suc n)
  show ?case by (cases s) (auto simp: Suc.IH Cat_Cls simp del: rx_lang.simps(5))
qed auto

lemma exactly_length: "s \<in> rx_lang (exactly n (Cls P)) \<longleftrightarrow> length s = n \<and> list_all P s"
proof (induction n arbitrary: s)
  case (Suc n)
  show ?case by (cases s) (auto simp: Suc.IH Cat_Cls simp del: rx_lang.simps(5))
qed auto

lemma between_length:
  assumes "m \<le> n"
  shows "s \<in> rx_lang (between m n (Cls P)) \<longleftrightarrow> m \<le> length s \<and> length s \<le> n \<and> list_all P s"
proof
  assume "s \<in> rx_lang (between m n (Cls P))"
  then show "m \<le> length s \<and> length s \<le> n \<and> list_all P s"
    using assms by (auto simp: between_def up_to_length exactly_length)
next
  assume s: "m \<le> length s \<and> length s \<le> n \<and> list_all P s"
  then have "take m s \<in> rx_lang (exactly m (Cls P))" "drop m s \<in> rx_lang (up_to (n - m) (Cls P))"
    by (auto simp: up_to_length exactly_length list_all_iff dest: in_set_takeD in_set_dropD)
  then show "s \<in> rx_lang (between m n (Cls P))"
    unfolding between_def by (simp, intro exI [of _ "take m s"] exI [of _ "drop m s"]) simp
qed

lemma iterate_chars: "s \<in> iterate A \<Longrightarrow> (\<And>w. w \<in> A \<Longrightarrow> list_all P w) \<Longrightarrow> list_all P s"
  by (induction rule: iterate.induct) auto

lemma iterate_Cls: "s \<in> rx_lang (Many (Cls P)) \<longleftrightarrow> list_all P s"
proof
  show "list_all P s" if "s \<in> rx_lang (Many (Cls P))"
    using that by (auto elim: iterate_chars [where P = P])
  show "s \<in> rx_lang (Many (Cls P))" if "list_all P s"
    using that
  proof (induction s)
    case (Cons c s)
    then show ?case using iterate.more [of "[c]" "rx_lang (Cls P)" s] by auto
  qed (simp add: iterate.stop)
qed

lemma ends_with_lang: "s \<in> rx_lang (ends_with r) \<longleftrightarrow> (\<exists>u v. s = u @ v \<and> v \<in> rx_lang r)"
  using iterate_Cls [where P = "\<lambda>c. True"] by (auto simp: ends_with_def list_all_iff)

end
