(* ===== verification/Js_Json.thy ===== *)
theory Js_Json
  imports Js_Regex Js_Value
begin

text \<open>
  What the scripts use of parsed JSON and of the platform: fields of objects with
  \<open>undefined\<close> as \<open>None\<close>, truth and equality of values, \<open>Number\<close> of a text, and
  \<open>isIP\<close> of Node.js. The numbers of a parsed document are finite.
\<close>

section \<open>Fields\<close>

type_synonym fields = "(string \<times> json) list"

type_synonym jsopt = "json option" \<comment> \<open>\<open>None\<close> is \<open>undefined\<close>\<close>

fun fields_of :: "jsopt \<Rightarrow> fields option" where
  "fields_of (Some (JObj kvs)) = Some kvs"
| "fields_of _ = None"

abbreviation field :: "fields \<Rightarrow> string \<Rightarrow> jsopt" where
  "field \<equiv> map_of"

text \<open>\<open>value?.name\<close> of a value that may not be an object.\<close>

definition opt_field :: "jsopt \<Rightarrow> string \<Rightarrow> jsopt" where
  "opt_field v k = (case fields_of v of None \<Rightarrow> None | Some kvs \<Rightarrow> field kvs k)"

fun items_of :: "jsopt \<Rightarrow> json list option" where
  "items_of (Some (JArr js)) = Some js"
| "items_of _ = None"

fun jstring :: "jsopt \<Rightarrow> string option" where
  "jstring (Some (JStr s)) = Some s"
| "jstring _ = None"

fun is_bool :: "jsopt \<Rightarrow> bool" where
  "is_bool (Some (JBool _)) = True"
| "is_bool _ = False"

fun jtruthy :: "jsopt \<Rightarrow> bool" where
  "jtruthy None = False"
| "jtruthy (Some JNull) = False"
| "jtruthy (Some (JBool b)) = b"
| "jtruthy (Some (JNum x)) = (x \<noteq> 0)"
| "jtruthy (Some (JStr s)) = (s \<noteq> [])"
| "jtruthy (Some (JArr _)) = True"
| "jtruthy (Some (JObj _)) = True"

text \<open>\<open>===\<close> of two values that do not share objects.\<close>

fun strict_eq :: "jsopt \<Rightarrow> jsopt \<Rightarrow> bool" where
  "strict_eq (Some (JArr _)) _ = False"
| "strict_eq (Some (JObj _)) _ = False"
| "strict_eq a b = (a = b)"

text \<open>\<open>value ?? other\<close>\<close>

definition coalesce :: "jsopt \<Rightarrow> json \<Rightarrow> json" where
  "coalesce v other = (case v of None \<Rightarrow> other | Some JNull \<Rightarrow> other | Some x \<Rightarrow> x)"

fun is_integer :: "jsopt \<Rightarrow> bool" where
  "is_integer (Some (JNum x)) = is_integral x"
| "is_integer _ = False"

definition string_in :: "jsopt \<Rightarrow> string list \<Rightarrow> bool" where
  "string_in v ss = (case jstring v of None \<Rightarrow> False | Some s \<Rightarrow> s \<in> set ss)"

section \<open>Numbers of texts\<close>

definition digit_value :: "char \<Rightarrow> nat" where
  "digit_value c = (let n = (of_char (lower_char c) :: nat) in if n < 97 then n - 48 else n - 87)"

definition digits_value :: "nat \<Rightarrow> string \<Rightarrow> nat" where
  "digits_value base s = foldl (\<lambda>n c. base * n + digit_value c) 0 s"

definition is_hex :: "char \<Rightarrow> bool" where
  "is_hex c = (is_digit c \<or> (let n = (of_char (lower_char c) :: nat) in 97 \<le> n \<and> n \<le> 102))"

text \<open>The exponent part of a decimal literal.\<close>

definition exponent_part :: "string \<Rightarrow> int option" where
  "exponent_part s = (case s of
     [] \<Rightarrow> Some 0
   | c # t \<Rightarrow>
       if lower_char c \<noteq> CHR ''e'' then None
       else let negative = (t \<noteq> [] \<and> hd t = CHR ''-'');
                ds = (if t \<noteq> [] \<and> (hd t = CHR ''-'' \<or> hd t = CHR ''+'') then tl t else t)
            in if ds = [] \<or> \<not> list_all is_digit ds then None
               else Some (if negative then - int (digits_value 10 ds) else int (digits_value 10 ds)))"

definition decimal_number :: "string \<Rightarrow> rat option" where
  "decimal_number s =
     (let whole = takeWhile is_digit s; r = dropWhile is_digit s;
          (fraction, rest) = (case r of [] \<Rightarrow> ([], [])
            | c # u \<Rightarrow> if c = CHR ''.'' then (takeWhile is_digit u, dropWhile is_digit u) else ([], r))
      in if whole = [] \<and> fraction = [] then None
         else map_option (\<lambda>e. of_nat (digits_value 10 (whole @ fraction)) * 10 powi (e - int (length fraction)))
           (exponent_part rest))"

text \<open>\<open>Number(text)\<close>\<close>

definition prefixed_number :: "string \<Rightarrow> (char \<Rightarrow> bool) \<Rightarrow> nat \<Rightarrow> jsnum" where
  "prefixed_number ds ok base = (if ds = [] \<or> \<not> list_all ok ds then NaN else num (of_nat (digits_value base ds)))"

definition signed_number :: "string \<Rightarrow> jsnum" where
  "signed_number s =
     (let negative = (s \<noteq> [] \<and> hd s = CHR ''-'');
          t = (if s \<noteq> [] \<and> (hd s = CHR ''-'' \<or> hd s = CHR ''+'') then tl s else s)
      in if t = ''Infinity'' then (if negative then NInf else PInf)
         else case decimal_number t of None \<Rightarrow> NaN | Some x \<Rightarrow> num (if negative then - x else x))"

definition js_number :: "string \<Rightarrow> jsnum" where
  "js_number text =
     (let s = trim text in
      if s = [] then Fin 0
      else if startsWith s ''0x'' \<or> startsWith s ''0X'' then prefixed_number (drop 2 s) is_hex 16
      else if startsWith s ''0o'' \<or> startsWith s ''0O'' then prefixed_number (drop 2 s) (\<lambda>c. is_digit c \<and> digit_value c < 8) 8
      else if startsWith s ''0b'' \<or> startsWith s ''0B'' then prefixed_number (drop 2 s) (\<lambda>c. is_digit c \<and> digit_value c < 2) 2
      else signed_number s)"

text \<open>Numbers and texts that operators make of values.\<close>

fun json_text :: "(rat \<Rightarrow> string) \<Rightarrow> json \<Rightarrow> string" where
  "json_text num_str JNull = ''null''"
| "json_text num_str (JBool b) = (if b then ''true'' else ''false'')"
| "json_text num_str (JNum x) = num_str x"
| "json_text num_str (JStr s) = s"
| "json_text num_str (JArr js) = separated '','' (map (\<lambda>j. if j = JNull then [] else json_text num_str j) js)"
| "json_text num_str (JObj kvs) = ''[object Object]''"

fun to_number :: "(rat \<Rightarrow> string) \<Rightarrow> jsopt \<Rightarrow> jsnum" where
  "to_number num_str None = NaN"
| "to_number num_str (Some JNull) = Fin 0"
| "to_number num_str (Some (JBool b)) = Fin (if b then 1 else 0)"
| "to_number num_str (Some (JNum x)) = Fin x"
| "to_number num_str (Some j) = js_number (json_text num_str j)"

section \<open>Addresses\<close>

text \<open>\<open>isIP\<close>, by the expressions of Node.js.\<close>

definition v4_segment :: rx where
  "v4_segment = one_of [
     Cat (lit ''25'') (Cls (\<lambda>c. is_digit c \<and> digit_value c \<le> 5)),
     seq_of [lit ''2'', Cls (\<lambda>c. is_digit c \<and> digit_value c \<le> 4), Cls is_digit],
     seq_of [lit ''1'', Cls is_digit, Cls is_digit],
     Cat (Cls (\<lambda>c. is_digit c \<and> c \<noteq> CHR ''0'')) (Cls is_digit),
     Cls is_digit]"

definition v4_address :: rx where
  "v4_address = Cat (exactly 3 (Cat v4_segment (lit ''.''))) v4_segment"

definition v6_segment :: rx where
  "v6_segment = between 1 4 (Cls is_hex)"

definition v6_group :: "nat \<Rightarrow> rx list \<Rightarrow> rx" where
  "v6_group n tails = Cat (exactly n (Cat v6_segment (lit '':''))) (one_of tails)"

definition v6_tail :: "nat \<Rightarrow> nat \<Rightarrow> rx list" where
  "v6_tail before most = [Cat (up_to before (Cat (lit '':'') v6_segment)) (Cat (lit '':'') v4_address),
     between 1 most (Cat (lit '':'') v6_segment), lit '':'']"

definition v6_address :: rx where
  "v6_address = Cat (one_of [
       v6_group 7 [v6_segment, lit '':''],
       v6_group 6 [v4_address, Cat (lit '':'') v6_segment, lit '':''],
       v6_group 5 (v6_tail 0 2), v6_group 4 (v6_tail 1 3), v6_group 3 (v6_tail 2 4),
       v6_group 2 (v6_tail 3 5), v6_group 1 (v6_tail 4 6),
       Cat (lit '':'') (one_of (v6_tail 5 7))])
     (maybe (Cat (lit ''%'') (some (Cls (\<lambda>c. is_alnum c \<or> c \<in> set ''-.:'')))))"

definition isIP :: "string \<Rightarrow> nat" where
  "isIP s = (if rx_match v4_address s then 4 else if rx_match v6_address s then 6 else 0)"

end
