(* ===== verification/Bootstrap_Checks.thy ===== *)
theory Bootstrap_Checks
  imports Js_Json
begin

text \<open>
  The formats and checks of \<open>scripts/lib/bootstrap-contract.mjs\<close>: its regular
  expressions, CIDRs, endpoints and labels, and the functions that report problems. A function that
  pushes to the list \<open>errors\<close> returns the problems it pushes.
\<close>

section \<open>Formats\<close>

definition contractVersion :: rat where
  "contractVersion = 2"

definition actions :: "string list" where
  "actions = [''prerequisites'', ''plan'', ''bootstrap'', ''backup'', ''install'', ''update'', ''validate'',
     ''rollback'', ''recover'', ''teardown'', ''organize'', ''restore-layout'']"

definition lower_digit :: "char \<Rightarrow> bool" where
  "lower_digit c = (is_lower c \<or> is_digit c)"

definition inner_label :: rx where
  "inner_label = Cat (Cls lower_digit) (maybe (Cat (Many (Cls (\<lambda>c. c = CHR ''-'' \<or> lower_digit c))) (Cls lower_digit)))"

definition dnsLabel :: rx where
  "dnsLabel = of_length 1 63 inner_label"

definition dnsSubdomain :: rx where
  "dnsSubdomain = of_length 1 253 (Cat inner_label (Many (Cat (lit ''.'') inner_label)))"

definition labelName :: rx where
  "labelName = of_length 1 63 (Cat (Cls is_alnum)
     (maybe (Cat (Many (Cls (\<lambda>c. is_alnum c \<or> c \<in> set ''-_.''))) (Cls is_alnum))))"

definition registry_host :: rx where
  "registry_host = Cat (some (Cls (\<lambda>c. lower_digit c \<or> c \<in> set ''.-''))) (maybe (Cat (lit '':'') (some (Cls is_digit))))"

definition repository_part :: rx where
  "repository_part = some (Cls (\<lambda>c. lower_digit c \<or> c \<in> set ''._-''))"

definition registryRepository :: rx where
  "registryRepository = Cat registry_host (some (Cat (lit ''/'') repository_part))"

definition imageTag :: rx where
  "imageTag = Cat (Cls (\<lambda>c. is_alnum c \<or> c = CHR ''_'')) (up_to 127 (Cls (\<lambda>c. is_alnum c \<or> c \<in> set ''_.-'')))"

definition imageRegistry :: rx where
  "imageRegistry = registry_host"

definition imageRepository :: rx where
  "imageRepository = Cat repository_part (Many (Cat (lit ''/'') repository_part))"

definition sha256Digest :: rx where
  "sha256Digest = Cat (lit ''sha256:'') (exactly 64 (Cls (\<lambda>c. is_digit c \<or> c \<in> set ''abcdef'')))"

definition secretKey :: rx where
  "secretKey = some (Cls (\<lambda>c. is_alnum c \<or> c \<in> set ''._-''))"

definition redisPrefix :: rx where
  "redisPrefix = some (Cls (\<lambda>c. is_alnum c \<or> c \<in> set '':_-''))"

definition quantity :: "string list \<Rightarrow> rx" where
  "quantity units = seq_of [Cls (\<lambda>c. is_digit c \<and> c \<noteq> CHR ''0''), Many (Cls is_digit), one_of (map lit units)]"

definition memoryQuantity :: rx where
  "memoryQuantity = quantity [''Mi'', ''Gi'']"

definition storageQuantity :: rx where
  "storageQuantity = quantity [''Mi'', ''Gi'', ''Ti'']"

text \<open>
  A segment of a path: the placeholder or a name, which is not \<open>.\<close> or \<open>..\<close> since
  the look-ahead in front of it refuses those up to the next slash or the end.
\<close>

definition environmentPathSegment :: rx where
  "environmentPathSegment = Both
     (Alt (some (Cls (\<lambda>c. is_alnum c \<or> c \<in> set ''._-''))) (lit ''{environment}''))
     (Except (Alt (lit ''.'') (lit ''..'')))"

definition directory_path :: "rx \<Rightarrow> rx" where
  "directory_path r = Cat r (Many (Cat (lit ''/'') environmentPathSegment))"

definition bootstrapPath :: rx where
  "bootstrapPath = directory_path (lit ''.bootstrap'')"

definition backupPath :: rx where
  "backupPath = directory_path (lit ''.backups'')"

definition logPath :: rx where
  "logPath = directory_path (Alt (lit ''.logs'') (lit ''.bootstrap''))"

definition secretValueKey :: rx where
  "secretValueKey = ends_with (Cat (one_of [lit_i ''password'', lit_i ''token'', lit_i ''secret'', lit_i ''credential'',
     seq_of [lit_i ''private'', maybe (Cls any_char), lit_i ''key''], seq_of [lit_i ''api'', maybe (Cls any_char), lit_i ''key''],
     lit_i ''authorization'', lit_i ''cookie'']) (maybe (lit_i ''s'')))"

definition windowsDeviceName :: rx where
  "windowsDeviceName = one_of [lit_i ''con'', lit_i ''prn'', lit_i ''aux'', lit_i ''nul'',
     Cat (Alt (lit_i ''com'') (lit_i ''lpt'')) (Cls (\<lambda>c. is_digit c \<and> c \<noteq> CHR ''0''))]"

definition environmentName :: rx where
  "environmentName = between 1 10 (Cls lower_digit)"

section \<open>Predicates\<close>

definition isValidEnvironmentName :: "jsopt \<Rightarrow> bool" where
  "isValidEnvironmentName v = (case jstring v of None \<Rightarrow> False
     | Some s \<Rightarrow> rx_match environmentName s \<and> \<not> rx_match windowsDeviceName s)"

definition pathIsWithin :: "string \<Rightarrow> string \<Rightarrow> bool" where
  "pathIsWithin parent path = (path = parent \<or> startsWith path (parent @ ''/''))"

definition secret_reference_names :: "string list" where
  "secret_reference_names = [''existingsecret'', ''usersecret'', ''credentialssecret'', ''otlpheaderssecret'', ''headerssecret'',
     ''scrapetokensecret'', ''operatortokensecret'', ''connectionsecret'', ''workertokensecret'', ''webhooksecret'',
     ''tlssecretname'', ''secretname'', ''managedimagepullsecrets'', ''imagepullsecrets'']"

definition isSecretReferenceField :: "string \<Rightarrow> string \<Rightarrow> bool" where
  "isSecretReferenceField key parentPath =
     (rx_match (one_of (map lit_i secret_reference_names)) key
      \<or> rx_match (ends_with (Cat (one_of [lit_i ''password'', lit_i ''token'', lit_i ''credential'', lit_i ''secret'']) (lit_i ''key''))) key
      \<or> key = ''key'' \<and> rx_match (contains (lit_i ''secret'')) (last (split_on CHR ''.'' parentPath)))"

text \<open>\<open>lastIndexOf("/")\<close> splits the text; it must not come first.\<close>

definition split_last :: "char \<Rightarrow> string \<Rightarrow> (string \<times> string) option" where
  "split_last d s = (if d \<in> set s
     then Some (rev (tl (dropWhile (\<lambda>c. c \<noteq> d) (rev s))), rev (takeWhile (\<lambda>c. c \<noteq> d) (rev s))) else None)"

definition isCidr :: "jsopt \<Rightarrow> bool" where
  "isCidr v = (case jstring v of
     None \<Rightarrow> False
   | Some s \<Rightarrow> (case split_last CHR ''/'' s of
       None \<Rightarrow> False
     | Some (address, rest) \<Rightarrow>
         if address = [] then False
         else let prefix = js_number rest; family = isIP address in
           (case prefix of
              Fin x \<Rightarrow> is_integral x \<and> (family = 4 \<and> 0 \<le> x \<and> x \<le> 32 \<or> family = 6 \<and> 0 \<le> x \<and> x \<le> 128)
            | _ \<Rightarrow> False)))"

record endpoint =
  ep_host :: string
  ep_port :: nat

text \<open>The two forms of an endpoint: the hostname, its form and the digits of the port.\<close>

definition port_digits :: "string \<Rightarrow> bool" where
  "port_digits s = (1 \<le> length s \<and> length s \<le> 5 \<and> list_all is_digit s)"

definition match_bracketed :: "string \<Rightarrow> (string \<times> string) option" where
  "match_bracketed s = (case s of [] \<Rightarrow> None
     | c # t \<Rightarrow>
         let hostname = takeWhile (\<lambda>d. d \<noteq> CHR '']'') t; r = dropWhile (\<lambda>d. d \<noteq> CHR '']'') t in
         if c = CHR ''['' \<and> hostname \<noteq> [] \<and> startsWith r '']:'' \<and> port_digits (drop 2 r) then Some (hostname, drop 2 r) else None)"

definition match_plain :: "string \<Rightarrow> (string \<times> string) option" where
  "match_plain s =
     (let hostname = takeWhile (\<lambda>d. d \<noteq> CHR '':'') s; r = dropWhile (\<lambda>d. d \<noteq> CHR '':'') s in
      if hostname \<noteq> [] \<and> r \<noteq> [] \<and> port_digits (tl r) then Some (hostname, tl r) else None)"

definition valid_port :: "string \<Rightarrow> bool" where
  "valid_port ds = (1 \<le> digits_value 10 ds \<and> digits_value 10 ds \<le> 65535)"

definition parseRedisEndpoint :: "jsopt \<Rightarrow> endpoint option" where
  "parseRedisEndpoint v = (case jstring v of
     None \<Rightarrow> None
   | Some s \<Rightarrow> (case match_bracketed s of
       Some (hostname, ds) \<Rightarrow>
         if isIP hostname = 6 \<and> valid_port ds then Some \<lparr>ep_host = hostname, ep_port = digits_value 10 ds\<rparr> else None
     | None \<Rightarrow> (case match_plain s of
         Some (hostname, ds) \<Rightarrow>
           if (isIP hostname = 4 \<or> rx_match dnsSubdomain hostname) \<and> valid_port ds
           then Some \<lparr>ep_host = hostname, ep_port = digits_value 10 ds\<rparr> else None
       | None \<Rightarrow> None)))"

definition isLabelKey :: "string \<Rightarrow> bool" where
  "isLabelKey s =
     (if s = [] then False
      else if CHR ''/'' \<notin> set s then rx_match labelName s
      else let prefix = takeWhile (\<lambda>c. c \<noteq> CHR ''/'') s; rest = tl (dropWhile (\<lambda>c. c \<noteq> CHR ''/'') s) in
        CHR ''/'' \<notin> set rest \<and> rx_match dnsSubdomain prefix \<and> rx_match labelName rest)"

definition isLabelValue :: "jsopt \<Rightarrow> bool" where
  "isLabelValue v = (case jstring v of None \<Rightarrow> False | Some s \<Rightarrow> rx_match labelName s)"

section \<open>Problems\<close>

record problem =
  pr_path :: string
  pr_message :: string

abbreviation problem :: "string \<Rightarrow> string \<Rightarrow> problem" where
  "problem path message \<equiv> \<lparr>pr_path = path, pr_message = message\<rparr>"

text \<open>\<open>if (condition) errors.push(problem(path, message))\<close>\<close>

definition report :: "bool \<Rightarrow> string \<Rightarrow> string \<Rightarrow> problem list" where
  "report condition path message = (if condition then [problem path message] else [])"

definition validateLabels :: "fields \<Rightarrow> string \<Rightarrow> problem list" where
  "validateLabels labels path = concat (map (\<lambda>(key, v).
     report (\<not> isLabelKey key) (path @ ''.'' @ key) ''must use Kubernetes label-key syntax''
     @ report (\<not> isLabelValue (Some v)) (path @ ''.'' @ key) ''must be a non-empty Kubernetes label value'') labels)"

definition requireRecord :: "jsopt \<Rightarrow> string \<Rightarrow> problem list \<times> fields" where
  "requireRecord v path = (case fields_of v of
     None \<Rightarrow> ([problem path ''must be an object''], []) | Some kvs \<Rightarrow> ([], kvs))"

definition requireKeys :: "fields \<Rightarrow> string \<Rightarrow> string list \<Rightarrow> string list \<Rightarrow> problem list" where
  "requireKeys kvs path required optional =
     concat (map (\<lambda>key. report (key \<notin> set (map fst kvs)) (path @ ''.'' @ key) ''is required'') required)
     @ concat (map (\<lambda>key. report (key \<notin> set required \<and> key \<notin> set optional) (path @ ''.'' @ key) ''is not a supported field'')
         (map fst kvs))"

definition requireString :: "jsopt \<Rightarrow> string \<Rightarrow> rx option \<Rightarrow> bool \<Rightarrow> problem list" where
  "requireString v path pattern allowEmpty = (case jstring v of
     None \<Rightarrow> [problem path (if allowEmpty then ''must be a string'' else ''must be a non-empty string'')]
   | Some s \<Rightarrow>
       if \<not> allowEmpty \<and> s = [] then [problem path ''must be a non-empty string'']
       else case pattern of
         Some r \<Rightarrow> report (s \<noteq> [] \<and> \<not> rx_match r s) path ''has an invalid format''
       | None \<Rightarrow> [])"

definition validateContainerImage :: "jsopt \<Rightarrow> string \<Rightarrow> problem list" where
  "validateContainerImage v path =
     (case requireRecord v path of (errors, img) \<Rightarrow>
       errors
       @ requireKeys img path [''registry'', ''repository'', ''tag'', ''digest''] []
       @ requireString (field img ''registry'') (path @ ''.registry'') (Some imageRegistry) False
       @ requireString (field img ''repository'') (path @ ''.repository'') (Some imageRepository) False
       @ requireString (field img ''tag'') (path @ ''.tag'') (Some imageTag) False
       @ requireString (field img ''digest'') (path @ ''.digest'') (Some sha256Digest) False)"

section \<open>What passes the checks\<close>

lemma report_Nil [simp]: "report b path message = [] \<longleftrightarrow> \<not> b"
  by (simp add: report_def)

lemma requireString_Nil:
  "requireString v path (Some r) False = [] \<longleftrightarrow> (\<exists>s. v = Some (JStr s) \<and> s \<noteq> [] \<and> s \<in> rx_lang r)"
  "requireString v path (Some r) True = [] \<longleftrightarrow> (\<exists>s. v = Some (JStr s) \<and> (s = [] \<or> s \<in> rx_lang r))"
  "requireString v path None allowEmpty = [] \<longleftrightarrow> (\<exists>s. v = Some (JStr s) \<and> (allowEmpty \<or> s \<noteq> []))"
  by (cases v rule: jstring.cases; auto simp: requireString_def rx_match_iff)+

lemma requireRecord_Nil: "requireRecord v path = ([], kvs) \<longleftrightarrow> v = Some (JObj kvs)"
  by (cases v rule: fields_of.cases) (auto simp: requireRecord_def)

lemma requireKeys_Nil:
  "requireKeys kvs path required optional = [] \<longleftrightarrow>
     set required \<subseteq> set (map fst kvs) \<and> set (map fst kvs) \<subseteq> set required \<union> set optional"
  by (auto simp: requireKeys_def concat_eq_Nil_conv)

end
