(* ===== verification/Bootstrap_Validation.thy ===== *)
theory Bootstrap_Validation
  imports Bootstrap_Checks
begin

text \<open>
  \<open>validateConfiguration\<close> of \<open>scripts/lib/bootstrap-contract.mjs\<close>: each section
  of the configuration is one function that returns the problems of its fields, and the whole
  returns them in the order of the code. The parser of URLs and the printing of numbers are
  parameters. The schema of the persistence section, which the code reads from
  \<open>bootstrap/config.schema.json\<close>, is a value of \<open>rule\<close>.
\<close>

section \<open>The persistence section\<close>

text \<open>The vocabulary of the schema; a pattern is the predicate of its regular expression.\<close>

datatype rule =
    ObjectRule (rule_properties: "(string \<times> rule) list option") (rule_required: "string list")
  | ArrayRule (rule_items: rule)
  | StringRule (rule_minLength: bool) (rule_pattern: "(string \<Rightarrow> bool) option")
  | BooleanRule
  | IntegerRule (rule_minimum: int) (rule_maximum: int)
  | EnumRule (rule_enum: "string list")

lemma size_member: "(k, v) \<in> set kvs \<Longrightarrow> size v < Suc (size_list (size_prod (\<lambda>x. 0) size) kvs)"
  by (induction kvs) auto

lemma size_item: "v \<in> set js \<Longrightarrow> size v < Suc (size_list size js)"
  by (induction js) auto

lemma size_nth: "i < length js \<Longrightarrow> size (js ! i) < Suc (size_list size js)"
  by (simp add: size_item)

function visit :: "json \<Rightarrow> rule \<Rightarrow> string \<Rightarrow> problem list" where
  "visit item (ObjectRule properties required) path = (case item of
     JObj kvs \<Rightarrow>
       (case properties of
          None \<Rightarrow> []
        | Some ps \<Rightarrow>
            requireKeys kvs path required (map fst ps)
            @ concat (map (\<lambda>(key, v). case map_of ps key of
                None \<Rightarrow> [] | Some r \<Rightarrow> visit v r (path @ ''.'' @ key)) kvs))
   | _ \<Rightarrow> [problem path ''must be an object''])"
| "visit item (ArrayRule r) path = (case item of
     JArr js \<Rightarrow> concat (map (\<lambda>(index, v). visit v r (path @ ''['' @ nat_str index @ '']'')) (enumerate 0 js))
   | _ \<Rightarrow> [problem path ''must be an array''])"
| "visit item (StringRule minLength pattern) path =
     requireString (Some item) path None (\<not> minLength)
     @ (case (item, pattern) of
          (JStr s, Some matches) \<Rightarrow> report (\<not> matches s) path ''has an invalid format''
        | _ \<Rightarrow> [])"
| "visit item BooleanRule path = report (\<not> is_bool (Some item)) path ''must be a boolean''"
| "visit item (IntegerRule least most) path =
     report (case item of JNum x \<Rightarrow> \<not> is_integral x \<or> x < of_int least \<or> of_int most < x | _ \<Rightarrow> True) path
       (''must be an integer between '' @ int_str least @ '' and '' @ int_str most)"
| "visit item (EnumRule values) path =
     report (\<not> string_in (Some item) values) path ''must be a supported persistence provider''"
  by pat_completeness auto
termination
  by (relation "measure (\<lambda>(item, r, path). size item)")
     (auto simp: in_set_enumerate_eq dest: size_member intro: size_nth)

text \<open>The schema of the section.\<close>

definition secretSchema :: rule where
  "secretSchema = ObjectRule (Some [
     (''name'', StringRule False (Some (rx_match (maybe (of_length 1 253 (Cat (Cls lower_digit)
        (maybe (Cat (Many (Cls (\<lambda>c. lower_digit c \<or> c \<in> set ''-.''))) (Cls lower_digit))))))))),
     (''key'', StringRule True (Some (rx_match secretKey)))]) [''name'', ''key'']"

definition apiSchema :: rule where
  "apiSchema = ObjectRule (Some [(''enabled'', BooleanRule),
     (''basePath'', StringRule False (Some (rx_match (seq_of [lit ''/'', Many (Cls (\<lambda>c. is_alnum c \<or> c \<in> set ''_/-'')),
        Cls (\<lambda>c. is_alnum c \<or> c \<in> set ''_-'')])))),
     (''workerTokenSecret'', secretSchema),
     (''workerNamespaceSelector'', ObjectRule None []), (''workerPodSelector'', ObjectRule None [])])
     [''enabled'', ''basePath'', ''workerTokenSecret'']"

definition setupJobSchema :: rule where
  "setupJobSchema = ObjectRule (Some [(''enabled'', BooleanRule), (''backoffLimit'', IntegerRule 0 10),
     (''activeDeadlineSeconds'', IntegerRule 30 3600)]) [''enabled'', ''backoffLimit'', ''activeDeadlineSeconds'']"

definition storageSchema :: rule where
  "storageSchema = ObjectRule (Some [(''existingClaim'', StringRule False None),
     (''mountPath'', StringRule False (Some (rx_match (starts_with (Cat (lit ''/'') (Cls (\<lambda>c. c \<noteq> CHR ''.'')))))))])
     [''existingClaim'', ''mountPath'']"

definition egressSchema :: rule where
  "egressSchema = ObjectRule (Some [(''namespaceSelector'', ObjectRule None []), (''podSelector'', ObjectRule None []),
     (''cidrs'', ArrayRule (StringRule True None)), (''ports'', ArrayRule (IntegerRule 1 65535))])
     [''namespaceSelector'', ''podSelector'', ''cidrs'', ''ports'']"

definition persistenceSchema :: rule where
  "persistenceSchema = ObjectRule (Some [(''enabled'', BooleanRule),
     (''provider'', EnumRule [''PostgreSql'', ''MySql'', ''MariaDb'', ''SqlServer'', ''AzureSql'', ''Oracle'', ''Sqlite'',
        ''Db2'', ''CockroachDb'', ''Snowflake'']),
     (''customProviderImage'', BooleanRule),
     (''tableName'', StringRule False (Some (rx_match (Cat (Cls (\<lambda>c. is_alnum c \<and> \<not> is_digit c))
        (up_to 29 (Cls (\<lambda>c. is_alnum c \<or> c = CHR ''_''))))))),
     (''commandTimeoutSeconds'', IntegerRule 1 3600),
     (''connectionSecret'', secretSchema), (''api'', apiSchema), (''setupJob'', setupJobSchema),
     (''storage'', storageSchema), (''egress'', egressSchema)])
     [''enabled'', ''provider'', ''connectionSecret'', ''api'', ''storage'', ''setupJob'', ''egress'', ''tableName'',
      ''commandTimeoutSeconds'', ''customProviderImage'']"

definition check_selector :: "jsopt \<Rightarrow> string \<Rightarrow> problem list" where
  "check_selector selector path = (case fields_of selector of
     None \<Rightarrow> []
   | Some kvs \<Rightarrow> (case field kvs ''matchLabels'' of
       None \<Rightarrow> []
     | Some v \<Rightarrow> (case fields_of (Some v) of
         Some labels \<Rightarrow> validateLabels labels (''$.persistence.'' @ path @ ''.matchLabels'')
       | None \<Rightarrow> [problem (''$.persistence.'' @ path @ ''.matchLabels'') ''must be an object''])))"

text \<open>\<open>value?.length\<close> as a condition, and \<open>Object.keys(value ?? {}).length\<close>.\<close>

definition has_items :: "jsopt \<Rightarrow> bool" where
  "has_items v = (case v of Some (JArr js) \<Rightarrow> js \<noteq> [] | Some (JStr s) \<Rightarrow> s \<noteq> [] | Some (JObj kvs) \<Rightarrow> jtruthy (field kvs ''length'') | _ \<Rightarrow> False)"

definition has_keys :: "jsopt \<Rightarrow> bool" where
  "has_keys v = (case v of Some (JObj kvs) \<Rightarrow> kvs \<noteq> [] | Some (JArr js) \<Rightarrow> js \<noteq> [] | Some (JStr s) \<Rightarrow> s \<noteq> [] | _ \<Rightarrow> False)"

definition check_enabled_persistence :: "fields \<Rightarrow> jsopt \<Rightarrow> problem list" where
  "check_enabled_persistence p topology =
     (let egress = field p ''egress'' in
      report (\<not> jtruthy (opt_field (field p ''connectionSecret'') ''name'')) ''$.persistence.connectionSecret.name''
        ''an existing connection Secret is required''
      @ report (\<not> string_in (field p ''provider'') [''PostgreSql'', ''CockroachDb'', ''Sqlite''] \<and> \<not> jtruthy (field p ''customProviderImage''))
        ''$.persistence.customProviderImage'' ''this provider requires an image registering its database driver''
      @ (if field p ''provider'' = Some (JStr ''Sqlite'')
         then report (topology \<noteq> Some (JStr ''non-ha'') \<or> \<not> jtruthy (opt_field (field p ''storage'') ''existingClaim'')
             \<or> jtruthy (opt_field (field p ''setupJob'') ''enabled''))
           ''$.persistence.storage'' ''SQLite requires non-ha, an existing preinitialized PVC, and setupJob disabled''
         else report (\<not> has_items (opt_field egress ''ports'')
             \<or> \<not> has_items (opt_field egress ''cidrs'') \<and> \<not> has_keys (opt_field egress ''namespaceSelector''))
           ''$.persistence.egress'' ''explicit database ports and CIDRs or a namespace selector are required''))"

definition validatePersistence :: "json \<Rightarrow> jsopt \<Rightarrow> problem list" where
  "validatePersistence v topology =
     visit v persistenceSchema ''$.persistence''
     @ (case fields_of (Some v) of
          None \<Rightarrow> []
        | Some p \<Rightarrow>
            (let api = field p ''api''; egress = field p ''egress'' in
             check_selector (opt_field api ''workerNamespaceSelector'') ''api.workerNamespaceSelector''
             @ check_selector (opt_field api ''workerPodSelector'') ''api.workerPodSelector''
             @ check_selector (opt_field egress ''namespaceSelector'') ''egress.namespaceSelector''
             @ check_selector (opt_field egress ''podSelector'') ''egress.podSelector''
             @ (case items_of (opt_field egress ''cidrs'') of
                  None \<Rightarrow> []
                | Some cidrs \<Rightarrow> concat (map (\<lambda>cidr. report (\<not> isCidr (Some cidr)) ''$.persistence.egress.cidrs'' ''must contain valid CIDRs'') cidrs))
             @ (if jtruthy (field p ''enabled'') then check_enabled_persistence p topology else [])))"

section \<open>Identity, naming and paths\<close>

definition check_environment :: "fields \<Rightarrow> problem list" where
  "check_environment environment =
     requireKeys environment ''$.environment'' [''name'', ''class''] []
     @ requireString (field environment ''name'') ''$.environment.name'' (Some environmentName) False
     @ report (case jstring (field environment ''name'') of None \<Rightarrow> False
         | Some s \<Rightarrow> rx_match environmentName s \<and> \<not> isValidEnvironmentName (field environment ''name''))
       ''$.environment.name'' ''must not use a Windows reserved device name''
     @ report (\<not> string_in (field environment ''class'') [''development'', ''test'', ''staging'', ''production''])
       ''$.environment.class'' ''must be development, test, staging, or production''"

definition namingSuffix :: rx where
  "namingSuffix = Alt Nothing (of_length 1 27 (Cat (some (Cls lower_digit)) (Many (Cat (lit ''-'') (some (Cls lower_digit))))))"

definition check_naming :: "fields \<Rightarrow> problem list" where
  "check_naming naming =
     requireKeys naming ''$.naming'' [''suffix''] []
     @ requireString (field naming ''suffix'') ''$.naming.suffix'' (Some namingSuffix) True"

text \<open>\<open>text.replaceAll("{environment}", name)\<close>\<close>

fun replace_environment :: "string \<Rightarrow> string \<Rightarrow> string" where
  "replace_environment name [] = []"
| "replace_environment name (c # s) =
     (if take 12 s = ''environment}'' \<and> c = CHR ''{'' then name @ replace_environment name (drop 12 s)
      else c # replace_environment name s)"

definition matched_path :: "jsopt \<Rightarrow> rx \<Rightarrow> string option" where
  "matched_path v r = (case jstring v of None \<Rightarrow> None | Some s \<Rightarrow> if rx_match r s then Some s else None)"

definition check_inside :: "jsopt \<Rightarrow> rx \<Rightarrow> string \<Rightarrow> string \<Rightarrow> string \<Rightarrow> problem list" where
  "check_inside v r name directory path = (case matched_path v r of
     None \<Rightarrow> []
   | Some s \<Rightarrow> report (\<not> pathIsWithin directory (replace_environment name s)) path ''must be within paths.environmentDirectory'')"

definition check_paths :: "fields \<Rightarrow> fields \<Rightarrow> problem list" where
  "check_paths environment paths =
     requireKeys paths ''$.paths'' [''generatedDirectory'', ''backupDirectory'', ''logDirectory''] [''environmentDirectory'']
     @ requireString (Some (coalesce (field paths ''environmentDirectory'') (JStr ''.bootstrap/env/{environment}'')))
         ''$.paths.environmentDirectory'' (Some bootstrapPath) False
     @ requireString (field paths ''generatedDirectory'') ''$.paths.generatedDirectory'' (Some bootstrapPath) False
     @ requireString (field paths ''backupDirectory'') ''$.paths.backupDirectory'' (Some backupPath) False
     @ requireString (field paths ''logDirectory'') ''$.paths.logDirectory'' (Some logPath) False
     @ (case (isValidEnvironmentName (field environment ''name''), matched_path (field paths ''environmentDirectory'') bootstrapPath) of
          (True, Some s) \<Rightarrow>
            (let name = the (jstring (field environment ''name'')); directory = replace_environment name s in
             check_inside (field paths ''generatedDirectory'') bootstrapPath name directory ''$.paths.generatedDirectory''
             @ check_inside (field paths ''logDirectory'') logPath name directory ''$.paths.logDirectory'')
        | _ \<Rightarrow> [])"

section \<open>Image and cluster\<close>

definition check_image :: "fields \<Rightarrow> problem list" where
  "check_image img =
     requireKeys img ''$.image'' [''repository'', ''tag'', ''pullPolicy'', ''pullSecretName''] [''digest'']
     @ requireString (field img ''repository'') ''$.image.repository'' (Some registryRepository) False
     @ requireString (field img ''tag'') ''$.image.tag'' (Some imageTag) False
     @ (if field img ''digest'' \<noteq> None then requireString (field img ''digest'') ''$.image.digest'' (Some sha256Digest) True else [])
     @ requireString (field img ''pullSecretName'') ''$.image.pullSecretName'' (Some dnsSubdomain) True
     @ report (\<not> string_in (field img ''pullPolicy'') [''Always'', ''IfNotPresent'', ''Never''])
       ''$.image.pullPolicy'' ''must be Always, IfNotPresent, or Never''"

definition check_kubernetes :: "fields \<Rightarrow> problem list" where
  "check_kubernetes kubernetes =
     requireKeys kubernetes ''$.kubernetes'' [''context'', ''namespace'', ''storageClass'', ''failureDomains''] []
     @ requireString (field kubernetes ''context'') ''$.kubernetes.context'' None False
     @ requireString (field kubernetes ''namespace'') ''$.kubernetes.namespace'' (Some dnsLabel) False
     @ requireString (field kubernetes ''storageClass'') ''$.kubernetes.storageClass'' (Some dnsSubdomain) False
     @ report (case field kubernetes ''failureDomains'' of Some (JNum x) \<Rightarrow> \<not> is_integral x \<or> x < 1 | _ \<Rightarrow> True)
       ''$.kubernetes.failureDomains'' ''must be an integer greater than zero''"

section \<open>Redis\<close>

definition ociChart :: rx where
  "ociChart = Cat (lit ''oci://'') registryRepository"

definition chartVersion :: rx where
  "chartVersion = seq_of [some (Cls is_digit), lit ''.'', some (Cls is_digit), lit ''.'', some (Cls is_digit),
     maybe (Cat (lit ''-'') (some (Cls (\<lambda>c. is_alnum c \<or> c \<in> set ''.-''))))]"

text \<open>\<open>Array.isArray(value) ? value : []\<close>\<close>

definition items_or_none :: "jsopt \<Rightarrow> json list" where
  "items_or_none v = (case items_of v of None \<Rightarrow> [] | Some js \<Rightarrow> js)"

definition bad_cidrs :: "jsopt \<Rightarrow> bool" where
  "bad_cidrs v = (items_of v = None \<or> list_ex (\<lambda>j. \<not> isCidr (Some j)) (items_or_none v))"

definition check_redis_connection :: "fields \<Rightarrow> problem list" where
  "check_redis_connection redis =
     (let mode = field redis ''mode''; endpoint = field redis ''externalEndpoint'' in
      report (\<not> string_in mode [''external'', ''managed'']) ''$.redis.mode'' ''must be external or managed''
      @ requireString endpoint ''$.redis.externalEndpoint'' None (mode \<noteq> Some (JStr ''external''))
      @ report (\<not> is_bool (field redis ''externalHaConfirmed'')) ''$.redis.externalHaConfirmed'' ''must be boolean''
      @ report (\<not> is_bool (field redis ''tls'')) ''$.redis.tls'' ''must be boolean''
      @ report (mode = Some (JStr ''managed'') \<and> field redis ''tls'' = Some (JBool True)) ''$.redis.tls''
        ''managed Redis TLS requires certificate configuration and is not supported by this contract; use false or an external TLS endpoint''
      @ report (mode = Some (JStr ''external'') \<and> parseRedisEndpoint endpoint = None) ''$.redis.externalEndpoint''
        ''must contain a valid DNS name, IPv4 address, or bracketed IPv6 address and TCP port from 1 through 65535''
      @ report (bad_cidrs (field redis ''externalEgressCidrs''))
        ''$.redis.externalEgressCidrs'' ''must contain valid IPv4 or IPv6 CIDRs''
      @ report (mode = Some (JStr ''external'') \<and> items_or_none (field redis ''externalEgressCidrs'') = [])
        ''$.redis.externalEgressCidrs'' ''external Redis requires at least one explicit egress CIDR'')"

definition check_redis_credentials :: "fields \<Rightarrow> problem list" where
  "check_redis_credentials redis =
     requireString (field redis ''credentialsSecret'') ''$.redis.credentialsSecret'' (Some dnsSubdomain) False
     @ requireString (field redis ''credentialKey'') ''$.redis.credentialKey'' (Some secretKey) False
     @ requireString (field redis ''adminCredentialKey'') ''$.redis.adminCredentialKey'' (Some secretKey) False
     @ report (field redis ''mode'' = Some (JStr ''managed'')
         \<and> strict_eq (field redis ''credentialKey'') (field redis ''adminCredentialKey''))
       ''$.redis.adminCredentialKey'' ''must differ from the restricted ACL credential key in managed mode''
     @ requireString (field redis ''instancePrefix'') ''$.redis.instancePrefix'' (Some redisPrefix) False
     @ requireString (field redis ''managedChart'') ''$.redis.managedChart'' (Some ociChart) False
     @ requireString (field redis ''managedChartVersion'') ''$.redis.managedChartVersion'' (Some chartVersion) False
     @ requireString (field redis ''managedChartArchiveSha256'') ''$.redis.managedChartArchiveSha256'' (Some sha256Digest) False"

text \<open>
  A \<open>Set\<close> of values that do not share objects is as large as their list when no primitive
  value occurs twice.
\<close>

fun is_primitive :: "json \<Rightarrow> bool" where
  "is_primitive (JArr _) = False"
| "is_primitive (JObj _) = False"
| "is_primitive _ = True"

definition check_pull_secrets :: "jsopt \<Rightarrow> problem list" where
  "check_pull_secrets v =
     (if v \<noteq> None \<and> items_of v = None
      then [problem ''$.redis.managedImagePullSecrets'' ''must be an array'']
      else let pullSecrets = items_or_none v in
        concat (map (\<lambda>(index, name). requireString (Some name)
          (''$.redis.managedImagePullSecrets['' @ nat_str index @ '']'') (Some dnsSubdomain) False) (enumerate 0 pullSecrets))
        @ report (\<not> distinct (filter is_primitive pullSecrets))
          ''$.redis.managedImagePullSecrets'' ''must not contain duplicates'')"

definition check_managed_images :: "jsopt \<Rightarrow> problem list" where
  "check_managed_images v = (case requireRecord v ''$.redis.managedImages'' of (errors, managedImages) \<Rightarrow>
     errors
     @ requireKeys managedImages ''$.redis.managedImages'' [''allowInsecureRepositories'', ''redis'', ''sentinel'', ''exporter''] []
     @ report (\<not> is_bool (field managedImages ''allowInsecureRepositories''))
       ''$.redis.managedImages.allowInsecureRepositories'' ''must be boolean''
     @ validateContainerImage (field managedImages ''redis'') ''$.redis.managedImages.redis''
     @ validateContainerImage (field managedImages ''sentinel'') ''$.redis.managedImages.sentinel''
     @ validateContainerImage (field managedImages ''exporter'') ''$.redis.managedImages.exporter'')"

definition check_redis :: "fields \<Rightarrow> problem list" where
  "check_redis redis =
     requireKeys redis ''$.redis'' [''mode'', ''externalEndpoint'', ''externalHaConfirmed'', ''externalEgressCidrs'', ''tls'',
       ''credentialsSecret'', ''credentialKey'', ''adminCredentialKey'', ''instancePrefix'', ''managedChart'',
       ''managedChartVersion'', ''managedChartArchiveSha256'', ''managedImages'', ''legacyManagedChart''] [''managedImagePullSecrets'']
     @ check_redis_connection redis
     @ check_redis_credentials redis
     @ check_pull_secrets (field redis ''managedImagePullSecrets'')
     @ check_managed_images (field redis ''managedImages'')
     @ requireString (field redis ''legacyManagedChart'') ''$.redis.legacyManagedChart'' (Some ociChart) False"

section \<open>Ingress\<close>

text \<open>What the code reads of a parsed URL beside the protocol.\<close>

record full_url =
  fu_protocol :: string
  fu_username :: string
  fu_password :: string
  fu_search :: string
  fu_hash :: string
  fu_port :: string

type_synonym full_parser = "string \<Rightarrow> full_url option"

definition ingressHost :: rx where
  "ingressHost = (let part = Cat (Cls lower_digit)
       (maybe (Cat (up_to 61 (Cls (\<lambda>c. c = CHR ''-'' \<or> lower_digit c))) (Cls lower_digit)))
     in Cat (some (Cat part (lit ''.''))) part)"

definition originPattern :: rx where
  "originPattern = seq_of [lit ''http'', maybe (lit ''s''), lit ''://'', some (Cls (\<lambda>c. c \<notin> set ''@/?#'')), maybe (lit ''/'')]"

definition pathPattern :: rx where
  "pathPattern = some (Cat (lit ''/'') (some (Cls (\<lambda>c. is_alnum c \<or> c \<in> set ''._-''))))"

definition check_origin :: "full_parser \<Rightarrow> nat \<Rightarrow> json \<Rightarrow> problem list" where
  "check_origin parse index origin =
     (let path = ''$.ingress.allowedOrigins['' @ nat_str index @ '']'' in
      requireString (Some origin) path (Some originPattern) False
      @ (case jstring (Some origin) of
           None \<Rightarrow> []
         | Some s \<Rightarrow> (case parse s of
             None \<Rightarrow> [problem path ''must be a valid HTTP(S) origin'']
           | Some u \<Rightarrow> report (fu_username u \<noteq> [] \<or> fu_password u \<noteq> []) path ''must not contain URL userinfo'')))"

definition check_origins :: "full_parser \<Rightarrow> jsopt \<Rightarrow> problem list" where
  "check_origins parse v =
     (let origins = items_or_none v in
      if origins = [] then [problem ''$.ingress.allowedOrigins'' ''must contain at least one configured HTTP(S) origin'']
      else concat (map (\<lambda>(index, origin). check_origin parse index origin) (enumerate 0 origins)))"

definition reservedWebSocketPaths :: "string list" where
  "reservedWebSocketPaths = [''/realtime/tickets'', ''/health/startup'', ''/health/live'', ''/health/ready'', ''/metrics'']"

definition lowered :: "jsopt \<Rightarrow> string" where
  "lowered v = (case jstring v of None \<Rightarrow> [] | Some s \<Rightarrow> toLowerCase s)"

definition check_ingress_paths :: "fields \<Rightarrow> problem list" where
  "check_ingress_paths ingress =
     (let webSocketPath = lowered (field ingress ''webSocketPath''); fallbackPath = lowered (field ingress ''httpFallbackPath'') in
      requireString (field ingress ''webSocketPath'') ''$.ingress.webSocketPath'' (Some pathPattern) False
      @ requireString (field ingress ''httpFallbackPath'') ''$.ingress.httpFallbackPath'' (Some pathPattern) False
      @ report (webSocketPath \<noteq> [] \<and> webSocketPath = fallbackPath) ''$.ingress.httpFallbackPath''
        ''must differ case-insensitively from the WebSocket path''
      @ report (webSocketPath \<in> set reservedWebSocketPaths) ''$.ingress.webSocketPath''
        ''must not reuse a fixed gateway ticket, health, or metrics endpoint'')"

definition check_ingress :: "full_parser \<Rightarrow> fields \<Rightarrow> problem list" where
  "check_ingress parse ingress =
     (let disabled = (\<not> jtruthy (field ingress ''enabled'')) in
      requireKeys ingress ''$.ingress'' [''enabled'', ''host'', ''allowedOrigins'', ''entryPoint'', ''webSocketPath'',
        ''httpFallbackPath'', ''tlsSecretName'', ''certificateName''] []
      @ report (\<not> is_bool (field ingress ''enabled'')) ''$.ingress.enabled'' ''must be boolean''
      @ requireString (field ingress ''host'') ''$.ingress.host'' (Some ingressHost) disabled
      @ check_origins parse (field ingress ''allowedOrigins'')
      @ requireString (field ingress ''entryPoint'') ''$.ingress.entryPoint'' (Some secretKey) False
      @ check_ingress_paths ingress
      @ requireString (field ingress ''tlsSecretName'') ''$.ingress.tlsSecretName'' (Some dnsSubdomain) disabled
      @ requireString (field ingress ''certificateName'') ''$.ingress.certificateName'' (Some dnsSubdomain) True)"

section \<open>Observability\<close>

definition check_endpoint_text :: "full_parser \<Rightarrow> jsopt \<Rightarrow> problem list" where
  "check_endpoint_text parse v = (case jstring v of
     None \<Rightarrow> []
   | Some s \<Rightarrow>
       if s = [] then []
       else case parse s of
         None \<Rightarrow> [problem ''$.observability.otlpEndpoint'' ''must be a valid HTTP(S) URL'']
       | Some u \<Rightarrow>
           report (fu_username u \<noteq> [] \<or> fu_password u \<noteq> []) ''$.observability.otlpEndpoint''
             ''must not contain URL userinfo; configure authentication through the headers Secret''
           @ report (fu_search u \<noteq> [] \<or> fu_hash u \<noteq> []) ''$.observability.otlpEndpoint''
             ''must not contain a query string or fragment; configure authentication through the headers Secret'')"

definition endpoint_port :: "full_url \<Rightarrow> jsnum" where
  "endpoint_port u = (if fu_port u \<noteq> [] then js_number (fu_port u) else if fu_protocol u = ''https:'' then Fin 443 else Fin 80)"

fun jsnum_text :: "(rat \<Rightarrow> string) \<Rightarrow> jsnum \<Rightarrow> string" where
  "jsnum_text num_str (Fin x) = num_str x"
| "jsnum_text num_str NaN = ''NaN''"
| "jsnum_text num_str PInf = ''Infinity''"
| "jsnum_text num_str NInf = ''-Infinity''"

definition valid_ports :: "jsopt \<Rightarrow> bool" where
  "valid_ports v = (items_or_none v \<noteq> [] \<and> list_all
     (\<lambda>j. case j of JNum x \<Rightarrow> is_integral x \<and> 1 \<le> x \<and> x \<le> 65535 | _ \<Rightarrow> False) (items_or_none v))"

definition check_endpoint_port :: "(rat \<Rightarrow> string) \<Rightarrow> full_parser \<Rightarrow> json \<Rightarrow> jsopt \<Rightarrow> problem list" where
  "check_endpoint_port num_str parse endpoint ports =
     (case (parse (json_text num_str endpoint), items_of ports) of
        (Some u, Some js) \<Rightarrow>
          report (\<not> list_ex (\<lambda>j. case j of JNum x \<Rightarrow> Fin x = endpoint_port u | _ \<Rightarrow> False) js) ''$.observability.otlpEgressPorts''
            (''must include the OTLP endpoint port '' @ jsnum_text num_str (endpoint_port u))
      | _ \<Rightarrow> [])"

definition check_otlp_egress :: "(rat \<Rightarrow> string) \<Rightarrow> full_parser \<Rightarrow> fields \<Rightarrow> problem list" where
  "check_otlp_egress num_str parse observability =
     (case requireRecord (field observability ''otlpEgressNamespaceLabels'') ''$.observability.otlpEgressNamespaceLabels'' of
        (errors1, namespaceLabels) \<Rightarrow>
      (case requireRecord (field observability ''otlpEgressPodLabels'') ''$.observability.otlpEgressPodLabels'' of
        (errors2, podLabels) \<Rightarrow>
          report (bad_cidrs (field observability ''otlpEgressCidrs''))
            ''$.observability.otlpEgressCidrs'' ''must contain valid IPv4 or IPv6 CIDRs''
          @ errors1 @ errors2
          @ report (\<not> valid_ports (field observability ''otlpEgressPorts''))
            ''$.observability.otlpEgressPorts'' ''must contain valid TCP ports''
          @ (if jtruthy (field observability ''otlpEndpoint'')
             then report (items_or_none (field observability ''otlpEgressCidrs'') = [] \<and> namespaceLabels = []) ''$.observability''
                 ''an enabled OTLP endpoint requires an egress CIDR or namespace selector''
               @ check_endpoint_port num_str parse (the (field observability ''otlpEndpoint'')) (field observability ''otlpEgressPorts'')
             else [])
          @ validateLabels namespaceLabels ''$.observability.otlpEgressNamespaceLabels''
          @ validateLabels podLabels ''$.observability.otlpEgressPodLabels''))"

definition check_monitoring :: "fields \<Rightarrow> problem list" where
  "check_monitoring observability =
     (case requireRecord (field observability ''monitoringNamespaceLabels'') ''$.observability.monitoringNamespaceLabels'' of
        (errors1, namespaceLabels) \<Rightarrow>
      (case requireRecord (field observability ''monitoringPodLabels'') ''$.observability.monitoringPodLabels'' of
        (errors2, podLabels) \<Rightarrow>
          errors1 @ errors2
          @ report (jtruthy (field observability ''serviceMonitor'') \<and> (namespaceLabels = [] \<or> podLabels = []))
            ''$.observability'' ''ServiceMonitor requires explicit monitoring namespace and pod selectors''
          @ validateLabels namespaceLabels ''$.observability.monitoringNamespaceLabels''
          @ validateLabels podLabels ''$.observability.monitoringPodLabels''))"

definition check_observability :: "(rat \<Rightarrow> string) \<Rightarrow> full_parser \<Rightarrow> fields \<Rightarrow> problem list" where
  "check_observability num_str parse observability =
     requireKeys observability ''$.observability'' [''cluster'', ''serviceMonitor'', ''monitoringNamespaceLabels'',
       ''monitoringPodLabels'', ''otlpEndpoint'', ''otlpHeadersSecret'', ''otlpHeadersKey'', ''otlpEgressCidrs'',
       ''otlpEgressNamespaceLabels'', ''otlpEgressPodLabels'', ''otlpEgressPorts''] []
     @ requireString (field observability ''cluster'') ''$.observability.cluster'' (Some dnsLabel) False
     @ report (\<not> is_bool (field observability ''serviceMonitor'')) ''$.observability.serviceMonitor'' ''must be boolean''
     @ requireString (field observability ''otlpEndpoint'') ''$.observability.otlpEndpoint''
         (Some (starts_with (seq_of [lit ''http'', maybe (lit ''s''), lit ''://'']))) True
     @ check_endpoint_text parse (field observability ''otlpEndpoint'')
     @ requireString (field observability ''otlpHeadersSecret'') ''$.observability.otlpHeadersSecret'' (Some dnsSubdomain) True
     @ requireString (field observability ''otlpHeadersKey'') ''$.observability.otlpHeadersKey'' (Some secretKey) False
     @ report (jtruthy (field observability ''otlpHeadersSecret'') \<and> \<not> jtruthy (field observability ''otlpEndpoint''))
       ''$.observability.otlpHeadersSecret'' ''requires an enabled OTLP endpoint''
     @ check_monitoring observability
     @ check_otlp_egress num_str parse observability"

section \<open>Resources, topology and networking\<close>

definition check_resources :: "fields \<Rightarrow> problem list" where
  "check_resources resources =
     requireKeys resources ''$.resources'' [''gatewayCpu'', ''gatewayMemory'', ''redisStorage''] []
     @ requireString (field resources ''gatewayCpu'') ''$.resources.gatewayCpu'' (Some (quantity [''m''])) False
     @ requireString (field resources ''gatewayMemory'') ''$.resources.gatewayMemory'' (Some memoryQuantity) False
     @ requireString (field resources ''redisStorage'') ''$.resources.redisStorage'' (Some storageQuantity) False"

definition check_topology :: "(rat \<Rightarrow> string) \<Rightarrow> jsopt \<Rightarrow> fields \<Rightarrow> fields \<Rightarrow> problem list" where
  "check_topology num_str topology kubernetes redis =
     (let ha = (topology = Some (JStr ''ha'')); external = (field redis ''mode'' = Some (JStr ''external'')) in
      report (\<not> string_in topology [''ha'', ''non-ha'']) ''$.topology'' ''must explicitly be ha or non-ha''
      @ report (ha \<and> num_less (to_number num_str (field kubernetes ''failureDomains'')) (Fin 3))
        ''$.kubernetes.failureDomains'' ''HA requires at least three failure domains''
      @ report (ha \<and> external \<and> \<not> jtruthy (field redis ''externalEndpoint''))
        ''$.redis.externalEndpoint'' ''HA external Redis requires a configured managed-service endpoint''
      @ report (ha \<and> external \<and> field redis ''externalHaConfirmed'' \<noteq> Some (JBool True)) ''$.redis.externalHaConfirmed''
        ''must confirm that the external service supplies persistence, quorum, failover, and recovery'')"

definition check_network_labels :: "fields \<Rightarrow> fields \<Rightarrow> problem list" where
  "check_network_labels ingress networking =
     (case requireRecord (field networking ''traefikPodLabels'') ''$.networking.traefikPodLabels'' of (errors1, traefik) \<Rightarrow>
      (case requireRecord (field networking ''directIngressNamespaceLabels'') ''$.networking.directIngressNamespaceLabels'' of
        (errors2, namespaceLabels) \<Rightarrow>
      (case requireRecord (field networking ''directIngressPodLabels'') ''$.networking.directIngressPodLabels'' of
        (errors3, podLabels) \<Rightarrow>
          errors1
          @ report (traefik = []) ''$.networking.traefikPodLabels'' ''must contain at least one label''
          @ validateLabels traefik ''$.networking.traefikPodLabels''
          @ errors2 @ errors3
          @ report (\<not> jtruthy (field ingress ''enabled'') \<and> namespaceLabels = []) ''$.networking.directIngressNamespaceLabels''
            ''ingress-free mode requires an explicit client namespace selector''
          @ validateLabels namespaceLabels ''$.networking.directIngressNamespaceLabels''
          @ validateLabels podLabels ''$.networking.directIngressPodLabels'')))"

definition check_networking :: "fields \<Rightarrow> fields \<Rightarrow> problem list" where
  "check_networking ingress networking =
     requireKeys networking ''$.networking'' [''traefikNamespace'', ''traefikService'', ''traefikPodLabels'',
       ''directIngressNamespaceLabels'', ''directIngressPodLabels'', ''trustedProxyCidrs'', ''metalLbNamespace'',
       ''metalLbAddress'', ''advertisementMode''] []
     @ requireString (field networking ''traefikNamespace'') ''$.networking.traefikNamespace'' (Some dnsLabel) False
     @ requireString (field networking ''traefikService'') ''$.networking.traefikService'' (Some dnsLabel) False
     @ check_network_labels ingress networking
     @ report (bad_cidrs (field networking ''trustedProxyCidrs'') \<or> items_or_none (field networking ''trustedProxyCidrs'') = [])
       ''$.networking.trustedProxyCidrs'' ''must contain at least one valid IPv4 or IPv6 CIDR''
     @ requireString (field networking ''metalLbNamespace'') ''$.networking.metalLbNamespace'' (Some dnsLabel) False
     @ requireString (field networking ''metalLbAddress'') ''$.networking.metalLbAddress'' None False
     @ report (case jstring (field networking ''metalLbAddress'') of None \<Rightarrow> False | Some s \<Rightarrow> isIP s = 0)
       ''$.networking.metalLbAddress'' ''must be a valid IPv4 or IPv6 address''
     @ report (\<not> string_in (field networking ''advertisementMode'') [''l2'', ''bgp''])
       ''$.networking.advertisementMode'' ''must be l2 or bgp''"

section \<open>The whole configuration\<close>

function rejectInlineSecrets :: "json \<Rightarrow> string \<Rightarrow> problem list" where
  "rejectInlineSecrets v path = (case v of
     JObj kvs \<Rightarrow> concat (map (\<lambda>(key, u).
       report (rx_match secretValueKey key \<and> \<not> isSecretReferenceField key path) (path @ ''.'' @ key)
         ''inline secret values are forbidden; configure a Secret name and key''
       @ rejectInlineSecrets u (path @ ''.'' @ key)) kvs)
   | _ \<Rightarrow> [])"
  by pat_completeness auto
termination
  by (relation "measure (\<lambda>(v, path). size v)") (auto dest: size_member)

declare rejectInlineSecrets.simps [simp del]

definition section_of :: "fields \<Rightarrow> string \<Rightarrow> fields" where
  "section_of config name = snd (requireRecord (field config name) (''$.'' @ name))"

definition with_section :: "fields \<Rightarrow> string \<Rightarrow> (fields \<Rightarrow> problem list) \<Rightarrow> problem list" where
  "with_section config name check =
     (case requireRecord (field config name) (''$.'' @ name) of (errors, kvs) \<Rightarrow> errors @ check kvs)"

definition topKeys :: "string list" where
  "topKeys = [''schemaVersion'', ''environment'', ''naming'', ''paths'', ''image'', ''kubernetes'', ''networking'', ''redis'',
     ''ingress'', ''observability'', ''resources'', ''topology'']"

definition validateConfiguration :: "(rat \<Rightarrow> string) \<Rightarrow> full_parser \<Rightarrow> json \<Rightarrow> problem list" where
  "validateConfiguration num_str parse input =
     (case requireRecord (Some input) ''$'' of (errors, config) \<Rightarrow>
        errors
        @ requireKeys config ''$'' topKeys [''persistence'']
        @ (case field config ''persistence'' of None \<Rightarrow> [] | Some v \<Rightarrow> validatePersistence v (field config ''topology''))
        @ report (field config ''schemaVersion'' \<noteq> Some (JNum contractVersion)) ''$.schemaVersion'' ''must equal 2''
        @ with_section config ''environment'' check_environment
        @ with_section config ''naming'' check_naming
        @ with_section config ''paths'' (check_paths (section_of config ''environment''))
        @ with_section config ''image'' check_image
        @ with_section config ''kubernetes'' check_kubernetes
        @ with_section config ''redis'' check_redis
        @ with_section config ''ingress'' (check_ingress parse)
        @ with_section config ''observability'' (check_observability num_str parse)
        @ with_section config ''resources'' check_resources
        @ check_topology num_str (field config ''topology'') (section_of config ''kubernetes'') (section_of config ''redis'')
        @ with_section config ''networking'' (check_networking (section_of config ''ingress''))
        @ rejectInlineSecrets (JObj config) ''$'')"

end
