(* ===== verification/Node_Path.thy ===== *)
theory Node_Path
  imports Js_Url Errors
begin

text \<open>
  What the scripts use of \<open>node:path\<close> on a POSIX system. A resolved path is the list of
  its segments from the root; \<open>resolve\<close> walks a text from a resolved path.
\<close>

type_synonym path = "string list"

definition push_segment :: "path \<Rightarrow> string \<Rightarrow> path" where
  "push_segment p s = (if s = [] \<or> s = ''.'' then p else if s = ''..'' then butlast p else p @ [s])"

definition isAbsolute :: "string \<Rightarrow> bool" where
  "isAbsolute s = startsWith s ''/''"

definition resolve :: "path \<Rightarrow> string \<Rightarrow> path" where
  "resolve base s = foldl push_segment (if isAbsolute s then [] else base) (split_on CHR ''/'' s)"

fun join_segments :: "string list \<Rightarrow> string" where
  "join_segments [] = []"
| "join_segments [s] = s"
| "join_segments (s # t # ss) = s @ ''/'' @ join_segments (t # ss)"

definition path_text :: "path \<Rightarrow> string" where
  "path_text p = ''/'' @ join_segments p"

fun relative_segments :: "path \<Rightarrow> path \<Rightarrow> string list" where
  "relative_segments [] q = q"
| "relative_segments (x # p) [] = replicate (Suc (length p)) ''..''"
| "relative_segments (x # p) (y # q) =
     (if x = y then relative_segments p q else replicate (Suc (length p)) ''..'' @ y # q)"

definition relative :: "path \<Rightarrow> path \<Rightarrow> string" where
  "relative p q = join_segments (relative_segments p q)"

definition dirname :: "path \<Rightarrow> path" where
  "dirname p = butlast p"

section \<open>Segments\<close>

definition plain_segment :: "string \<Rightarrow> bool" where
  "plain_segment s = (s \<noteq> [] \<and> s \<noteq> ''.'' \<and> s \<noteq> ''..'' \<and> CHR ''/'' \<notin> set s)"

abbreviation plain_path :: "path \<Rightarrow> bool" where
  "plain_path \<equiv> list_all plain_segment"

lemma split_on_slash: "t \<in> set (split_on d s) \<Longrightarrow> d \<notin> set t"
  by (induction d s arbitrary: t rule: split_on.induct) (auto split: list.splits if_splits)

lemma split_on_single: "d \<notin> set s \<Longrightarrow> split_on d s = [s]"
  by (induction d s rule: split_on.induct) auto

lemma push_plain [simp]: "plain_segment s \<Longrightarrow> push_segment p s = p @ [s]"
  by (simp add: push_segment_def plain_segment_def)

lemma foldl_push_plain: "plain_path ss \<Longrightarrow> foldl push_segment p ss = p @ ss"
  by (induction ss arbitrary: p) auto

lemma plain_butlast: "plain_path p \<Longrightarrow> plain_path (butlast p)"
  by (auto simp: list_all_iff dest: in_set_butlastD)

lemma plain_push: "plain_path p \<Longrightarrow> CHR ''/'' \<notin> set s \<Longrightarrow> plain_path (push_segment p s)"
  by (auto simp: push_segment_def plain_segment_def intro: plain_butlast)

lemma plain_foldl: "plain_path p \<Longrightarrow> \<forall>s \<in> set ss. CHR ''/'' \<notin> set s \<Longrightarrow> plain_path (foldl push_segment p ss)"
  by (induction ss arbitrary: p) (auto intro: plain_push)

lemma plain_resolve: "plain_path base \<Longrightarrow> plain_path (resolve base s)"
  by (auto simp: resolve_def intro!: plain_foldl dest: split_on_slash)

lemma resolve_segment: "plain_segment s \<Longrightarrow> resolve base s = base @ [s]"
  by (cases s) (auto simp: resolve_def isAbsolute_def startsWith_def plain_segment_def split_on_single push_segment_def)

lemma relative_append: "relative_segments p (p @ r) = r"
  by (induction p) auto

lemma relative_up: "(\<nexists>r. q = p @ r) \<Longrightarrow> \<exists>t. relative_segments p q = ''..'' # t"
  by (induction p q rule: relative_segments.induct) auto

end
