(* ===== verification/Js_Access.thy ===== *)
theory Js_Access
  imports Js_Json Errors
begin

text \<open>
  Reads of the fields of values that may not be objects, templates, and the errors that scripts
  throw.
\<close>

definition line_break :: string where
  "line_break = [CHR 0x0A]"

fun message_of :: "thrown \<Rightarrow> string" where
  "message_of (ErrorObject _ m) = m"
| "message_of (Realtime e) = re_message e"
| "message_of NonError = ''undefined''"

definition new_Error :: "string \<Rightarrow> thrown" where
  "new_Error m = ErrorObject ''Error'' m"

definition quoted :: "string \<Rightarrow> string" where
  "quoted s = [CHR 0x27] @ s @ [CHR 0x27]"

text \<open>\<open>value.name\<close>, which throws on \<open>undefined\<close> and \<open>null\<close>, and the text of a value in a template.\<close>

definition js_get :: "jsopt \<Rightarrow> string \<Rightarrow> thrown + jsopt" where
  "js_get v k = (if v = None \<or> v = Some JNull
     then Inl (ErrorObject ''TypeError'' (''Cannot read properties of '' @ (if v = None then ''undefined'' else ''null'')
       @ '' (reading '' @ quoted k @ '')''))
     else Inr (opt_field v k))"

fun js_read :: "jsopt \<Rightarrow> string list \<Rightarrow> thrown + jsopt" where
  "js_read v [] = Inr v"
| "js_read v (k # ks) = bind_result (js_get v k) (\<lambda>u. js_read u ks)"

definition opt_text :: "(rat \<Rightarrow> string) \<Rightarrow> jsopt \<Rightarrow> string" where
  "opt_text num_str v = (case v of None \<Rightarrow> ''undefined'' | Some j \<Rightarrow> json_text num_str j)"

end
