(* ===== verification/Bootstrap_Plan.thy ===== *)
theory Bootstrap_Plan
  imports Bootstrap_Validation Node_Path Js_Access "HOL-Library.List_Lexorder" "HOL-Library.Char_ord"
begin

text \<open>
  The rest of \<open>scripts/lib/bootstrap-contract.mjs\<close>: canonical JSON, redaction, the load
  of a configuration, release names, the values rendered for the two charts and the plan of an
  action. A member of an object literal whose value is \<open>undefined\<close> is left out: neither
  the reads of the code nor the JSON text see the difference. Files, the parser of JSON and the
  hash are parameters.
\<close>

section \<open>Canonical form\<close>

text \<open>
  The order in which an object lists its members: array indices first, in ascending order, then
  the other names as they were added.
\<close>

definition is_index :: "string \<Rightarrow> bool" where
  "is_index k = (k \<noteq> [] \<and> list_all is_digit k \<and> (k = ''0'' \<or> hd k \<noteq> CHR ''0'') \<and> digits_value 10 k < 4294967295)"

definition fromEntries :: "fields \<Rightarrow> fields" where
  "fromEntries kvs = sort_key (\<lambda>(k, v). digits_value 10 k) (filter (\<lambda>(k, v). is_index k) kvs)
     @ filter (\<lambda>(k, v). \<not> is_index k) kvs"

fun stable :: "json \<Rightarrow> json" where
  "stable (JArr js) = JArr (map stable js)"
| "stable (JObj kvs) = JObj (fromEntries (sort_key fst (map (\<lambda>(k, v). (k, stable v)) kvs)))"
| "stable v = v"

fun pretty :: "(rat \<Rightarrow> string) \<Rightarrow> string \<Rightarrow> json \<Rightarrow> string" where
  "pretty num_str indent (JArr js) =
     (if js = [] then ''[]''
      else ''['' @ line_break @ indent @ ''  ''
        @ separated ('','' @ line_break @ indent @ ''  '') (map (pretty num_str (indent @ ''  '')) js)
        @ line_break @ indent @ '']'')"
| "pretty num_str indent (JObj kvs) =
     (if kvs = [] then [CHR 0x7B, CHR 0x7D]
      else [CHR 0x7B] @ line_break @ indent @ ''  ''
        @ separated ('','' @ line_break @ indent @ ''  '')
            (map (\<lambda>(k, v). quote_json k @ '': '' @ pretty num_str (indent @ ''  '') v) kvs)
        @ line_break @ indent @ [CHR 0x7D])"
| "pretty num_str indent v = stringify num_str v"

definition stableJson :: "(rat \<Rightarrow> string) \<Rightarrow> json \<Rightarrow> string" where
  "stableJson num_str v = pretty num_str [] (stable v) @ line_break"

type_synonym digest = "string \<Rightarrow> string"

definition deploymentValuesSha256 :: "(rat \<Rightarrow> string) \<Rightarrow> digest \<Rightarrow> json \<Rightarrow> json \<Rightarrow> string" where
  "deploymentValuesSha256 num_str sha256 gateway managedRedis =
     sha256 (stableJson num_str (JObj [(''gateway'', gateway), (''managedRedis'', managedRedis)]))"

text \<open>An object literal, and the assignment of a member.\<close>

definition some_members :: "(string \<times> jsopt) list \<Rightarrow> fields" where
  "some_members ms = concat (map (\<lambda>(k, v). case v of None \<Rightarrow> [] | Some j \<Rightarrow> [(k, j)]) ms)"

definition set_member :: "string \<Rightarrow> json \<Rightarrow> json \<Rightarrow> json" where
  "set_member k v ob = (case ob of JObj kvs \<Rightarrow> JObj (AList.update k v kvs) | _ \<Rightarrow> ob)"

definition useCapturedDeploymentValues ::
  "(rat \<Rightarrow> string) \<Rightarrow> digest \<Rightarrow> json \<Rightarrow> json \<Rightarrow> jsopt \<Rightarrow> jsopt \<Rightarrow> jsopt \<Rightarrow> jsopt \<Rightarrow> json" where
  "useCapturedDeploymentValues num_str sha256 plan gatewayValues managedRedisValues chart version checksum =
     (let captured = stable gatewayValues;
          managedRedis = (if managedRedisValues = None then JNull
            else stable (JObj (some_members [(''chart'', chart), (''chartVersion'', version), (''values'', managedRedisValues),
              (''chartArchiveSha256'', if jtruthy checksum then checksum else None)])))
      in stable (set_member ''valuesSha256'' (JStr (deploymentValuesSha256 num_str sha256 captured managedRedis))
           (set_member ''managedRedis'' managedRedis (set_member ''values'' captured plan))))"

section \<open>Secrets\<close>

definition credentialField :: "string \<Rightarrow> string \<Rightarrow> bool" where
  "credentialField key path = (rx_match secretValueKey key \<and> \<not> isSecretReferenceField key path)"

fun redact :: "json \<Rightarrow> json" where
  "redact (JArr js) = JArr (map redact js)"
| "redact (JObj kvs) = JObj (map (\<lambda>(key, v). (key, if credentialField key [] then JStr ''[REDACTED]'' else redact v)) kvs)"
| "redact v = v"

text \<open>A text that is not empty, or a number.\<close>

fun exposes :: "json \<Rightarrow> bool" where
  "exposes (JStr s) = (s \<noteq> [])"
| "exposes (JNum _) = True"
| "exposes _ = False"

lemma size_nth_of: "size_list size js < n \<Longrightarrow> i < length js \<Longrightarrow> size (js ! i) < Suc n"
  using size_nth [of i js] by simp

function inlineSecretPaths :: "json \<Rightarrow> string \<Rightarrow> string list" where
  "inlineSecretPaths v path = (case v of
     JObj kvs \<Rightarrow> concat (map (\<lambda>(key, u).
       let childPath = path @ ''.'' @ key in
       (if credentialField key path \<and> exposes u then [childPath] else [])
       @ (case u of
            JObj _ \<Rightarrow> inlineSecretPaths u childPath
          | JArr js \<Rightarrow>
              (if credentialField key path
               then concat (map (\<lambda>(index, item). if exposes item then [childPath @ ''['' @ nat_str index @ '']''] else []) (enumerate 0 js))
               else [])
              @ concat (map (\<lambda>(index, item). inlineSecretPaths item (childPath @ ''['' @ nat_str index @ '']'')) (enumerate 0 js))
          | _ \<Rightarrow> [])) kvs)
   | _ \<Rightarrow> [])"
  by pat_completeness auto
termination
  by (relation "measure (\<lambda>(v, path). size v)")
     (auto simp: in_set_enumerate_eq dest!: size_member dest: size_nth_of)

declare inlineSecretPaths.simps [simp del]

section \<open>Loading a configuration\<close>

record platform =
  pf_readFile :: "path \<Rightarrow> thrown + string"
  pf_parse :: "string \<Rightarrow> thrown + json" \<comment> \<open>\<open>JSON.parse\<close>\<close>
  pf_url :: full_parser
  pf_number :: "rat \<Rightarrow> string"
  pf_sha256 :: digest

definition readJson :: "platform \<Rightarrow> path \<Rightarrow> thrown + json" where
  "readJson P p = (case bind_result (pf_readFile P p) (pf_parse P) of
     Inl e \<Rightarrow> Inl (new_Error (''Cannot read JSON from '' @ path_text p @ '': '' @ message_of e))
   | Inr v \<Rightarrow> Inr v)"

definition problem_lines :: "problem list \<Rightarrow> string" where
  "problem_lines errors = separated line_break (map (\<lambda>e. ''- '' @ pr_path e @ '': '' @ pr_message e) errors)"

record contract =
  ct_config :: json
  ct_profile :: json
  ct_configPath :: path

definition loadContract :: "platform \<Rightarrow> path \<Rightarrow> string \<Rightarrow> string option \<Rightarrow> thrown + contract" where
  "loadContract P repositoryRoot configPath requestedProfile =
     (let absoluteConfig = resolve repositoryRoot configPath in
      bind_result (readJson P absoluteConfig) (\<lambda>config.
      let errors = validateConfiguration (pf_number P) (pf_url P) config;
          topology = opt_field (Some config) ''topology'' in
      bind_result (guard (errors = []) (new_Error (''Configuration is invalid:'' @ line_break @ problem_lines errors))) (\<lambda>_.
      bind_result (guard (case requestedProfile of None \<Rightarrow> True | Some s \<Rightarrow> s = [] \<or> Some (JStr s) = topology)
        (new_Error (''Requested profile '' @ quoted (the requestedProfile) @ '' does not match configuration topology ''
           @ quoted (opt_text (pf_number P) topology) @ ''.''))) (\<lambda>_.
      bind_result (readJson P (resolve (repositoryRoot @ [''bootstrap'', ''profiles'']) (opt_text (pf_number P) topology @ ''.json''))) (\<lambda>profile.
      Inr \<lparr>ct_config = config, ct_profile = profile, ct_configPath = absoluteConfig\<rparr>)))))"

section \<open>Release names\<close>

record names =
  nm_application :: string
  nm_release :: string
  nm_redisRelease :: string

definition releaseNames :: "(rat \<Rightarrow> string) \<Rightarrow> jsopt \<Rightarrow> thrown + names" where
  "releaseNames num_str config =
     bind_result (js_read config [''naming'', ''suffix'']) (\<lambda>suff.
     bind_result (js_read config [''environment'', ''name'']) (\<lambda>name.
     let application = (if jtruthy suff then ''realtime-'' @ opt_text num_str suff else ''realtime'');
         release = opt_text num_str name @ ''-'' @ application;
         redisRelease = release @ ''-redis'' in
     if 53 < length release \<or> 53 < length redisRelease
     then Inl (new_Error ''Derived Helm release name exceeds 53 characters; shorten the environment or naming suffix.'')
     else Inr \<lparr>nm_application = application, nm_release = release, nm_redisRelease = redisRelease\<rparr>))"

section \<open>Rendered values\<close>

text \<open>An object literal whose members are computed in order, the first that throws ending it.\<close>

fun members :: "(string \<times> (thrown + jsopt)) list \<Rightarrow> thrown + fields" where
  "members [] = Inr []"
| "members ((k, r) # rest) = bind_result r (\<lambda>v. bind_result (members rest) (\<lambda>kvs.
     Inr (case v of None \<Rightarrow> kvs | Some j \<Rightarrow> (k, j) # kvs)))"

definition object_literal :: "(string \<times> (thrown + jsopt)) list \<Rightarrow> thrown + jsopt" where
  "object_literal ms = bind_result (members ms) (\<lambda>kvs. Inr (Some (JObj kvs)))"

abbreviation plain :: "json \<Rightarrow> thrown + jsopt" where
  "plain j \<equiv> Inr (Some j)"

definition is_truthy :: "thrown + jsopt \<Rightarrow> thrown + bool" where
  "is_truthy r = bind_result r (\<lambda>v. Inr (jtruthy v))"

definition equals_text :: "thrown + jsopt \<Rightarrow> string \<Rightarrow> thrown + bool" where
  "equals_text r s = bind_result r (\<lambda>v. Inr (v = Some (JStr s)))"

definition either :: "thrown + bool \<Rightarrow> thrown + 'a \<Rightarrow> thrown + 'a \<Rightarrow> thrown + 'a" where
  "either c a b = bind_result c (\<lambda>x. if x then a else b)"

text \<open>\<open>Object.keys(labels).length > 0 ? { matchLabels: labels } : {}\<close>\<close>

definition label_selector :: "thrown + jsopt \<Rightarrow> thrown + jsopt" where
  "label_selector r = bind_result r (\<lambda>v.
     if v = None \<or> v = Some JNull then Inl (ErrorObject ''TypeError'' ''Cannot convert undefined or null to object'')
     else if has_keys v then object_literal [(''matchLabels'', Inr v)] else plain (JObj []))"

definition as_stable :: "thrown + jsopt \<Rightarrow> thrown + jsopt" where
  "as_stable r = bind_result r (\<lambda>v. Inr (map_option stable v))"

abbreviation bool_of :: "thrown + bool \<Rightarrow> thrown + jsopt" where
  "bool_of c \<equiv> bind_result c (\<lambda>b. plain (JBool b))"

definition gateway_values :: "(string list \<Rightarrow> thrown + jsopt) \<Rightarrow> thrown + jsopt" where
  "gateway_values config = object_literal [
     (''allowedOrigins'', config [''ingress'', ''allowedOrigins'']),
     (''trustedNetworks'', config [''networking'', ''trustedProxyCidrs'']),
     (''shutdownDrainSeconds'', plain (JNum 25))]"

definition ingressRoute_values :: "(string list \<Rightarrow> thrown + jsopt) \<Rightarrow> thrown + jsopt" where
  "ingressRoute_values config = object_literal [
     (''enabled'', config [''ingress'', ''enabled'']), (''entryPoint'', config [''ingress'', ''entryPoint'']),
     (''host'', config [''ingress'', ''host'']), (''path'', config [''ingress'', ''webSocketPath'']),
     (''fallbackPath'', config [''ingress'', ''httpFallbackPath'']), (''tlsSecretName'', config [''ingress'', ''tlsSecretName''])]"

definition observability_values :: "(string list \<Rightarrow> thrown + jsopt) \<Rightarrow> thrown + jsopt" where
  "observability_values config = object_literal [
     (''cluster'', config [''observability'', ''cluster'']),
     (''environment'', config [''environment'', ''name'']),
     (''platformMetrics'', object_literal [
        (''certificateName'', config [''ingress'', ''certificateName'']),
        (''metalLbAdvertisementMode'', config [''networking'', ''advertisementMode'']),
        (''metalLbNamespace'', config [''networking'', ''metalLbNamespace'']),
        (''metalLbAddress'', config [''networking'', ''metalLbAddress'']),
        (''traefikNamespace'', config [''networking'', ''traefikNamespace''])]),
     (''serviceMonitor'', object_literal [(''enabled'', config [''observability'', ''serviceMonitor''])]),
     (''prometheusRule'', object_literal [(''ingressEnabled'', config [''ingress'', ''enabled''])]),
     (''otlp'', object_literal [
        (''enabled'', bool_of (is_truthy (config [''observability'', ''otlpEndpoint'']))),
        (''endpoint'', config [''observability'', ''otlpEndpoint'']),
        (''egressCidrs'', config [''observability'', ''otlpEgressCidrs'']),
        (''egressNamespaceSelector'', label_selector (config [''observability'', ''otlpEgressNamespaceLabels''])),
        (''egressPodSelector'', label_selector (config [''observability'', ''otlpEgressPodLabels''])),
        (''egressPorts'', config [''observability'', ''otlpEgressPorts'']),
        (''headersSecret'', object_literal [
           (''name'', config [''observability'', ''otlpHeadersSecret'']), (''key'', config [''observability'', ''otlpHeadersKey''])])])]"

definition resources_values :: "(string list \<Rightarrow> thrown + jsopt) \<Rightarrow> thrown + jsopt" where
  "resources_values config =
     (let bounds = object_literal [(''cpu'', config [''resources'', ''gatewayCpu'']), (''memory'', config [''resources'', ''gatewayMemory''])]
      in object_literal [(''requests'', bounds), (''limits'', bounds)])"

definition redis_values :: "(string list \<Rightarrow> thrown + jsopt) \<Rightarrow> names \<Rightarrow> thrown + jsopt" where
  "redis_values config ns = object_literal [
     (''mode'', config [''redis'', ''mode'']),
     (''tls'', config [''redis'', ''tls'']),
     (''externalEndpoint'', config [''redis'', ''externalEndpoint'']),
     (''port'', either (equals_text (config [''redis'', ''mode'']) ''external'')
        (bind_result (config [''redis'', ''externalEndpoint'']) (\<lambda>e. case parseRedisEndpoint e of
           None \<Rightarrow> Inl (ErrorObject ''TypeError'' (''Cannot read properties of undefined (reading '' @ quoted ''port'' @ '')''))
         | Some ep \<Rightarrow> plain (JNum (of_nat (ep_port ep)))))
        (plain (JNum 6379))),
     (''managedReleaseName'', plain (JStr (nm_redisRelease ns))),
     (''credentialsSecret'', object_literal [
        (''name'', config [''redis'', ''credentialsSecret'']), (''passwordKey'', config [''redis'', ''credentialKey''])]),
     (''managedAdminPasswordKey'', config [''redis'', ''adminCredentialKey'']),
     (''username'', config [''redis'', ''credentialKey'']),
     (''instancePrefix'', config [''redis'', ''instancePrefix''])]"

definition networkPolicy_values :: "(string list \<Rightarrow> thrown + jsopt) \<Rightarrow> thrown + jsopt" where
  "networkPolicy_values config = object_literal [
     (''allowExternalRedisEgress'', bool_of (equals_text (config [''redis'', ''mode'']) ''external'')),
     (''externalRedisCidrs'', config [''redis'', ''externalEgressCidrs'']),
     (''ingressNamespaceSelector'', object_literal [(''matchLabels'',
        either (is_truthy (config [''ingress'', ''enabled'']))
          (object_literal [(''kubernetes.io/metadata.name'', config [''networking'', ''traefikNamespace''])])
          (config [''networking'', ''directIngressNamespaceLabels'']))]),
     (''ingressPodSelector'', object_literal [(''matchLabels'',
        either (is_truthy (config [''ingress'', ''enabled'']))
          (config [''networking'', ''traefikPodLabels'']) (config [''networking'', ''directIngressPodLabels'']))]),
     (''monitoringNamespaceSelector'', object_literal [(''matchLabels'', config [''observability'', ''monitoringNamespaceLabels''])]),
     (''monitoringPodSelector'', object_literal [(''matchLabels'', config [''observability'', ''monitoringPodLabels''])])]"

definition value_members ::
  "(string list \<Rightarrow> thrown + jsopt) \<Rightarrow> (string list \<Rightarrow> thrown + jsopt) \<Rightarrow> names \<Rightarrow> (string \<times> (thrown + jsopt)) list" where
  "value_members config profile ns = [
       (''autoscaling'', profile [''gateway'', ''autoscaling'']),
       (''deploymentStrategy'', object_literal [
          (''maxSurge'', profile [''gateway'', ''maxSurge'']), (''maxUnavailable'', profile [''gateway'', ''maxUnavailable''])]),
       (''fullnameOverride'', plain (JStr (nm_release ns))),
       (''gateway'', gateway_values config),
       (''persistence'', config [''persistence'']),
       (''image'', config [''image'']),
       (''ingressRoute'', ingressRoute_values config),
       (''observability'', observability_values config),
       (''podDisruptionBudget'', profile [''gateway'', ''podDisruptionBudget'']),
       (''replicaCount'', profile [''gateway'', ''replicas'']),
       (''resources'', resources_values config),
       (''redis'', redis_values config ns),
       (''networkPolicy'', networkPolicy_values config),
       (''topologySpreadConstraints'', object_literal [
          (''enabled'', profile [''gateway'', ''topologySpread'']),
          (''zoneWhenUnsatisfiable'', profile [''gateway'', ''zoneWhenUnsatisfiable''])]),
       (''topology'', config [''topology''])]"

definition renderValues :: "(rat \<Rightarrow> string) \<Rightarrow> jsopt \<Rightarrow> jsopt \<Rightarrow> thrown + jsopt" where
  "renderValues num_str cfg prof =
     bind_result (releaseNames num_str cfg) (\<lambda>ns. as_stable (object_literal (value_members (js_read cfg) (js_read prof) ns)))"

section \<open>Values of the managed Redis chart\<close>

definition spread_constraints :: "bool \<Rightarrow> names \<Rightarrow> json" where
  "spread_constraints ha ns = JArr (if ha then [JObj [
     (''labelSelector'', JObj [(''matchLabels'', JObj [
        (''app.kubernetes.io/component'', JStr ''node''),
        (''app.kubernetes.io/instance'', JStr (nm_redisRelease ns)),
        (''app.kubernetes.io/name'', JStr ''redis'')])]),
     (''maxSkew'', JNum 1),
     (''topologyKey'', JStr ''topology.kubernetes.io/zone''),
     (''whenUnsatisfiable'', JStr ''DoNotSchedule'')]] else [])"

definition dns_config :: "bool \<Rightarrow> json" where
  "dns_config ha = JObj (if ha then [(''options'', JArr [
     JObj [(''name'', JStr ''timeout''), (''value'', JStr ''2'')],
     JObj [(''name'', JStr ''attempts''), (''value'', JStr ''3'')],
     JObj [(''name'', JStr ''single-request-reopen'')]])] else [])"

definition probe_command :: string where
  "probe_command = ''export REDISCLI_AUTH='' @ [CHR 0x22] @ ''$(< '' @ [CHR 0x22] @ ''$REDIS_PASSWORD_FILE'' @ [CHR 0x22] @ '')'' @ [CHR 0x22]
     @ line_break @ ''redis-cli -h 127.0.0.1 -p 26379 PING >/dev/null''
     @ line_break @ ''redis-cli -h 127.0.0.1 -p 26379 SENTINEL DEBUG tilt-trigger 10000 >/dev/null''"

definition sentinel_probe :: "bool \<Rightarrow> json" where
  "sentinel_probe ha = JObj (if ha then [
     (''exec'', JObj [(''command'', JArr [JStr ''/bin/bash'', JStr ''-ec'', JStr probe_command])]),
     (''failureThreshold'', JNum 60), (''initialDelaySeconds'', JNum 10), (''periodSeconds'', JNum 10),
     (''successThreshold'', JNum 1), (''timeoutSeconds'', JNum 5)] else [])"

definition startup_probe :: "bool \<Rightarrow> json" where
  "startup_probe ha = JObj [(''enabled'', JBool True), (''failureThreshold'', JNum (if ha then 60 else 22))]"

definition acl_values :: "(rat \<Rightarrow> string) \<Rightarrow> (string list \<Rightarrow> thrown + jsopt) \<Rightarrow> thrown + jsopt" where
  "acl_values num_str config = object_literal [
     (''enabled'', plain (JBool True)),
     (''sentinel'', plain (JBool False)),
     (''userSecret'', config [''redis'', ''credentialsSecret'']),
     (''users'', bind_result (object_literal [
        (''username'', config [''redis'', ''credentialKey'']),
        (''enabled'', plain (JStr ''on'')),
        (''commands'', plain (JStr ''+@read +@write +@connection +@pubsub +@scripting +@stream'')),
        (''keys'', bind_result (config [''redis'', ''instancePrefix'']) (\<lambda>v. plain (JStr (''~'' @ opt_text num_str v @ '':*'')))),
        (''channels'', bind_result (config [''redis'', ''instancePrefix'']) (\<lambda>v. plain (JStr (''&'' @ opt_text num_str v @ '':*''))))])
        (\<lambda>user. plain (JArr [the user])))]"

definition managed_chart_values ::
  "(rat \<Rightarrow> string) \<Rightarrow> (string list \<Rightarrow> thrown + jsopt) \<Rightarrow> (string list \<Rightarrow> thrown + jsopt) \<Rightarrow> bool \<Rightarrow> names \<Rightarrow> thrown + jsopt" where
  "managed_chart_values num_str config profile ha ns =
     (let pdb = object_literal [(''create'', profile [''redis'', ''sentinel''])];
          volume = object_literal [(''enabled'', plain (JBool True)), (''size'', config [''resources'', ''redisStorage''])] in
      object_literal [
        (''commonAnnotations'', object_literal [(''realtime.example/managed-chart'', config [''redis'', ''managedChart''])]),
        (''architecture'', profile [''redis'', ''managedArchitecture'']),
        (''global'', object_literal [
           (''imagePullSecrets'', bind_result (config [''redis'', ''managedImagePullSecrets'']) (\<lambda>v. plain (coalesce v (JArr [])))),
           (''security'', object_literal [(''allowInsecureImages'', config [''redis'', ''managedImages'', ''allowInsecureRepositories''])]),
           (''storageClass'', config [''kubernetes'', ''storageClass''])]),
        (''image'', config [''redis'', ''managedImages'', ''redis'']),
        (''auth'', object_literal [
           (''sentinel'', profile [''redis'', ''sentinel'']),
           (''existingSecret'', config [''redis'', ''credentialsSecret'']),
           (''existingSecretPasswordKey'', config [''redis'', ''adminCredentialKey'']),
           (''acl'', acl_values num_str config)]),
        (''master'', object_literal [(''pdb'', pdb), (''persistence'', volume)]),
        (''replica'', object_literal [
           (''dnsConfig'', plain (dns_config ha)),
           (''podManagementPolicy'', plain (JStr (if ha then ''OrderedReady'' else ''Parallel''))),
           (''replicaCount'', profile [''redis'', ''replicas'']),
           (''pdb'', pdb),
           (''persistence'', volume),
           (''startupProbe'', plain (startup_probe ha)),
           (''topologySpreadConstraints'', plain (spread_constraints ha ns))]),
        (''sentinel'', object_literal [
           (''customStartupProbe'', plain (sentinel_probe ha)),
           (''enabled'', profile [''redis'', ''sentinel'']),
           (''image'', config [''redis'', ''managedImages'', ''sentinel'']),
           (''quorum'', plain (JNum 2)),
           (''startupProbe'', plain (startup_probe ha))]),
        (''metrics'', object_literal [(''image'', config [''redis'', ''managedImages'', ''exporter''])])])"

definition renderManagedRedis :: "(rat \<Rightarrow> string) \<Rightarrow> jsopt \<Rightarrow> jsopt \<Rightarrow> thrown + jsopt" where
  "renderManagedRedis num_str cfg prof =
     (let config = js_read cfg in
      either (equals_text (config [''redis'', ''mode'']) ''managed'')
        (bind_result (releaseNames num_str cfg) (\<lambda>ns.
         bind_result (equals_text (config [''topology'']) ''ha'') (\<lambda>ha.
         as_stable (object_literal [
           (''baseValuesPath'', plain (JStr ''cluster/redis/managed-values.yaml'')),
           (''chart'', config [''redis'', ''managedChart'']),
           (''chartArchiveSha256'', config [''redis'', ''managedChartArchiveSha256'']),
           (''chartVersion'', config [''redis'', ''managedChartVersion'']),
           (''values'', managed_chart_values num_str config (js_read prof) ha ns)]))))
        (plain JNull))"

section \<open>The plan\<close>

record plan_options =
  po_previousTopology :: jsopt
  po_dryRun :: bool
  po_timeoutSeconds :: jsopt

definition mutating_actions :: "string list" where
  "mutating_actions = [''install'', ''update'', ''rollback'', ''recover'', ''teardown'']"

definition change_class :: "string \<Rightarrow> jsopt \<Rightarrow> jsopt \<Rightarrow> string" where
  "change_class action previous topology =
     (if jtruthy previous \<and> \<not> strict_eq previous topology then ''topology-conversion''
      else if action = ''install'' then ''installation'' else action)"

definition target_values :: "(string list \<Rightarrow> thrown + jsopt) \<Rightarrow> names \<Rightarrow> thrown + jsopt" where
  "target_values config ns = object_literal [
     (''environment'', config [''environment'', ''name'']),
     (''environmentClass'', config [''environment'', ''class'']),
     (''context'', config [''kubernetes'', ''context'']),
     (''namespace'', config [''kubernetes'', ''namespace'']),
     (''application'', plain (JStr (nm_application ns))),
     (''release'', plain (JStr (nm_release ns))),
     (''redisRelease'', plain (JStr (nm_redisRelease ns)))]"

definition topology_values ::
  "(string list \<Rightarrow> thrown + jsopt) \<Rightarrow> (string list \<Rightarrow> thrown + jsopt) \<Rightarrow> plan_options \<Rightarrow> string \<Rightarrow> thrown + jsopt" where
  "topology_values config profile opts changeClass = object_literal [
     (''selected'', config [''topology'']),
     (''previous'', plain (coalesce (po_previousTopology opts) JNull)),
     (''conversion'', plain (JBool (changeClass = ''topology-conversion''))),
     (''minimumFailureDomains'', profile [''minimumFailureDomains'']),
     (''configuredFailureDomains'', config [''kubernetes'', ''failureDomains'']),
     (''gatewayReplicas'', profile [''gateway'', ''replicas'']),
     (''redisMode'', config [''redis'', ''mode'']),
     (''managedRedisReplicas'', either (equals_text (config [''redis'', ''mode'']) ''managed'')
        (profile [''redis'', ''replicas'']) (plain JNull)),
     (''externalRedisHaConfirmed'', either (equals_text (config [''redis'', ''mode'']) ''external'')
        (config [''redis'', ''externalHaConfirmed'']) (plain JNull)),
     (''guarantees'', profile [''guarantees''])]"

definition safety_values :: "string \<Rightarrow> plan_options \<Rightarrow> string \<Rightarrow> json" where
  "safety_values action opts changeClass = (let mutations = action \<in> set mutating_actions in JObj [
     (''mutation'', JBool mutations),
     (''requiresBackup'', JBool mutations),
     (''requiresTopologyConfirmation'', JBool (changeClass = ''topology-conversion'')),
     (''requiresForce'', JBool (action = ''teardown'')),
     (''boundedTimeoutSeconds'', coalesce (po_timeoutSeconds opts) (JNum 300)),
     (''secretValuesAccepted'', JBool False)])"

definition plan_members ::
  "(rat \<Rightarrow> string) \<Rightarrow> digest \<Rightarrow> string \<Rightarrow> (string list \<Rightarrow> thrown + jsopt) \<Rightarrow> (string list \<Rightarrow> thrown + jsopt) \<Rightarrow> plan_options
     \<Rightarrow> names \<Rightarrow> string \<Rightarrow> jsopt \<Rightarrow> jsopt \<Rightarrow> (string \<times> (thrown + jsopt)) list" where
  "plan_members num_str sha256 action config profile opts ns changeClass gateway managedRedis = [
       (''contractVersion'', plain (JNum contractVersion)),
       (''action'', plain (JStr action)),
       (''changeClass'', plain (JStr changeClass)),
       (''dryRun'', plain (JBool (po_dryRun opts))),
       (''target'', target_values config ns),
       (''paths'', config [''paths'']),
       (''networking'', config [''networking'']),
       (''topology'', topology_values config profile opts changeClass),
       (''safety'', plain (safety_values action opts changeClass)),
       (''managedRedis'', Inr managedRedis),
       (''values'', Inr gateway),
       (''valuesSha256'', plain (JStr (deploymentValuesSha256 num_str sha256 (the gateway) (the managedRedis))))]"

definition buildPlan ::
  "(rat \<Rightarrow> string) \<Rightarrow> digest \<Rightarrow> string \<Rightarrow> jsopt \<Rightarrow> jsopt \<Rightarrow> plan_options \<Rightarrow> thrown + jsopt" where
  "buildPlan num_str sha256 action cfg prof opts =
     bind_result (guard (action \<in> set actions) (new_Error (''Unsupported action '' @ quoted action @ ''.''))) (\<lambda>_.
     bind_result (releaseNames num_str cfg) (\<lambda>ns.
     bind_result (renderValues num_str cfg prof) (\<lambda>gateway.
     bind_result (renderManagedRedis num_str cfg prof) (\<lambda>managedRedis.
     bind_result (js_read cfg [''topology'']) (\<lambda>topology.
       as_stable (object_literal (plan_members num_str sha256 action (js_read cfg) (js_read prof) opts ns
         (change_class action (po_previousTopology opts) topology) gateway managedRedis)))))))"

definition assertPathInside :: "path \<Rightarrow> path \<Rightarrow> string \<Rightarrow> thrown + unit" where
  "assertPathInside parent inner description =
     (let delta = relative parent inner in
      guard (delta = [] \<or> \<not> startsWith delta ''..'' \<and> \<not> isAbsolute delta)
        (new_Error (''Refusing '' @ description @ '' outside '' @ path_text parent @ ''.'')))"

end
