(* ===== verification/Js_Eval.thy ===== *)
theory Js_Eval
  imports Js_Json
begin

text \<open>
  Evaluation of matches on concrete texts: what the character classes and case folding do to the
  letters, digits and signs that occur in names, and the expressions whose matches are simpler to
  decide than by derivatives.
\<close>

named_theorems rx_eval \<open>evaluation of regular expressions\<close>

section \<open>Characters\<close>

lemma lower_char_table [rx_eval]:
  "lower_char CHR ''a'' = CHR ''a''" "lower_char CHR ''b'' = CHR ''b''" "lower_char CHR ''c'' = CHR ''c''"
  "lower_char CHR ''d'' = CHR ''d''" "lower_char CHR ''e'' = CHR ''e''" "lower_char CHR ''f'' = CHR ''f''"
  "lower_char CHR ''g'' = CHR ''g''" "lower_char CHR ''h'' = CHR ''h''" "lower_char CHR ''i'' = CHR ''i''"
  "lower_char CHR ''j'' = CHR ''j''" "lower_char CHR ''k'' = CHR ''k''" "lower_char CHR ''l'' = CHR ''l''"
  "lower_char CHR ''m'' = CHR ''m''" "lower_char CHR ''n'' = CHR ''n''" "lower_char CHR ''o'' = CHR ''o''"
  "lower_char CHR ''p'' = CHR ''p''" "lower_char CHR ''q'' = CHR ''q''" "lower_char CHR ''r'' = CHR ''r''"
  "lower_char CHR ''s'' = CHR ''s''" "lower_char CHR ''t'' = CHR ''t''" "lower_char CHR ''u'' = CHR ''u''"
  "lower_char CHR ''v'' = CHR ''v''" "lower_char CHR ''w'' = CHR ''w''" "lower_char CHR ''x'' = CHR ''x''"
  "lower_char CHR ''y'' = CHR ''y''" "lower_char CHR ''z'' = CHR ''z''" "lower_char CHR ''0'' = CHR ''0''"
  "lower_char CHR ''1'' = CHR ''1''" "lower_char CHR ''2'' = CHR ''2''" "lower_char CHR ''3'' = CHR ''3''"
  "lower_char CHR ''4'' = CHR ''4''" "lower_char CHR ''5'' = CHR ''5''" "lower_char CHR ''6'' = CHR ''6''"
  "lower_char CHR ''7'' = CHR ''7''" "lower_char CHR ''8'' = CHR ''8''" "lower_char CHR ''9'' = CHR ''9''"
  "lower_char CHR ''-'' = CHR ''-''" "lower_char CHR ''.'' = CHR ''.''" "lower_char CHR ''_'' = CHR ''_''"
  "lower_char CHR ''/'' = CHR ''/''" "lower_char CHR '':'' = CHR '':''" "lower_char CHR ''~'' = CHR ''~''"
  "lower_char CHR ''{'' = CHR ''{''" "lower_char CHR ''}'' = CHR ''}''" "lower_char CHR ''#'' = CHR ''#''"
  "lower_char CHR ''?'' = CHR ''?''" "lower_char CHR ''A'' = CHR ''a''" "lower_char CHR ''B'' = CHR ''b''"
  "lower_char CHR ''C'' = CHR ''c''" "lower_char CHR ''D'' = CHR ''d''" "lower_char CHR ''E'' = CHR ''e''"
  "lower_char CHR ''F'' = CHR ''f''" "lower_char CHR ''G'' = CHR ''g''" "lower_char CHR ''H'' = CHR ''h''"
  "lower_char CHR ''I'' = CHR ''i''" "lower_char CHR ''J'' = CHR ''j''" "lower_char CHR ''K'' = CHR ''k''"
  "lower_char CHR ''L'' = CHR ''l''" "lower_char CHR ''M'' = CHR ''m''" "lower_char CHR ''N'' = CHR ''n''"
  "lower_char CHR ''O'' = CHR ''o''" "lower_char CHR ''P'' = CHR ''p''" "lower_char CHR ''Q'' = CHR ''q''"
  "lower_char CHR ''R'' = CHR ''r''" "lower_char CHR ''S'' = CHR ''s''" "lower_char CHR ''T'' = CHR ''t''"
  "lower_char CHR ''U'' = CHR ''u''" "lower_char CHR ''V'' = CHR ''v''" "lower_char CHR ''W'' = CHR ''w''"
  "lower_char CHR ''X'' = CHR ''x''" "lower_char CHR ''Y'' = CHR ''y''" "lower_char CHR ''Z'' = CHR ''z''"
  by (simp_all add: lower_char_def char_of_eq_iff)

lemma is_digit_table [rx_eval]:
  "is_digit CHR ''0''" "is_digit CHR ''1''" "is_digit CHR ''2''" "is_digit CHR ''3''" "is_digit CHR ''4''"
  "is_digit CHR ''5''" "is_digit CHR ''6''" "is_digit CHR ''7''" "is_digit CHR ''8''" "is_digit CHR ''9''"
  "\<not> is_digit CHR ''a''" "\<not> is_digit CHR ''b''" "\<not> is_digit CHR ''c''" "\<not> is_digit CHR ''d''"
  "\<not> is_digit CHR ''e''" "\<not> is_digit CHR ''f''" "\<not> is_digit CHR ''g''" "\<not> is_digit CHR ''h''"
  "\<not> is_digit CHR ''i''" "\<not> is_digit CHR ''j''" "\<not> is_digit CHR ''k''" "\<not> is_digit CHR ''l''"
  "\<not> is_digit CHR ''m''" "\<not> is_digit CHR ''n''" "\<not> is_digit CHR ''o''" "\<not> is_digit CHR ''p''"
  "\<not> is_digit CHR ''q''" "\<not> is_digit CHR ''r''" "\<not> is_digit CHR ''s''" "\<not> is_digit CHR ''t''"
  "\<not> is_digit CHR ''u''" "\<not> is_digit CHR ''v''" "\<not> is_digit CHR ''w''" "\<not> is_digit CHR ''x''"
  "\<not> is_digit CHR ''y''" "\<not> is_digit CHR ''z''" "\<not> is_digit CHR ''A''" "\<not> is_digit CHR ''B''"
  "\<not> is_digit CHR ''C''" "\<not> is_digit CHR ''D''" "\<not> is_digit CHR ''E''" "\<not> is_digit CHR ''F''"
  "\<not> is_digit CHR ''G''" "\<not> is_digit CHR ''H''" "\<not> is_digit CHR ''I''" "\<not> is_digit CHR ''J''"
  "\<not> is_digit CHR ''K''" "\<not> is_digit CHR ''L''" "\<not> is_digit CHR ''M''" "\<not> is_digit CHR ''N''"
  "\<not> is_digit CHR ''O''" "\<not> is_digit CHR ''P''" "\<not> is_digit CHR ''Q''" "\<not> is_digit CHR ''R''"
  "\<not> is_digit CHR ''S''" "\<not> is_digit CHR ''T''" "\<not> is_digit CHR ''U''" "\<not> is_digit CHR ''V''"
  "\<not> is_digit CHR ''W''" "\<not> is_digit CHR ''X''" "\<not> is_digit CHR ''Y''" "\<not> is_digit CHR ''Z''"
  "\<not> is_digit CHR ''-''" "\<not> is_digit CHR ''.''" "\<not> is_digit CHR ''_''" "\<not> is_digit CHR ''/''"
  "\<not> is_digit CHR '':''" "\<not> is_digit CHR ''~''" "\<not> is_digit CHR ''{''" "\<not> is_digit CHR ''}''"
  "\<not> is_digit CHR ''#''" "\<not> is_digit CHR ''?''"
  by (simp_all add: is_digit_def)

lemma is_lower_table [rx_eval]:
  "is_lower CHR ''a''" "is_lower CHR ''b''" "is_lower CHR ''c''" "is_lower CHR ''d''" "is_lower CHR ''e''"
  "is_lower CHR ''f''" "is_lower CHR ''g''" "is_lower CHR ''h''" "is_lower CHR ''i''" "is_lower CHR ''j''"
  "is_lower CHR ''k''" "is_lower CHR ''l''" "is_lower CHR ''m''" "is_lower CHR ''n''" "is_lower CHR ''o''"
  "is_lower CHR ''p''" "is_lower CHR ''q''" "is_lower CHR ''r''" "is_lower CHR ''s''" "is_lower CHR ''t''"
  "is_lower CHR ''u''" "is_lower CHR ''v''" "is_lower CHR ''w''" "is_lower CHR ''x''" "is_lower CHR ''y''"
  "is_lower CHR ''z''" "\<not> is_lower CHR ''A''" "\<not> is_lower CHR ''B''" "\<not> is_lower CHR ''C''"
  "\<not> is_lower CHR ''D''" "\<not> is_lower CHR ''E''" "\<not> is_lower CHR ''F''" "\<not> is_lower CHR ''G''"
  "\<not> is_lower CHR ''H''" "\<not> is_lower CHR ''I''" "\<not> is_lower CHR ''J''" "\<not> is_lower CHR ''K''"
  "\<not> is_lower CHR ''L''" "\<not> is_lower CHR ''M''" "\<not> is_lower CHR ''N''" "\<not> is_lower CHR ''O''"
  "\<not> is_lower CHR ''P''" "\<not> is_lower CHR ''Q''" "\<not> is_lower CHR ''R''" "\<not> is_lower CHR ''S''"
  "\<not> is_lower CHR ''T''" "\<not> is_lower CHR ''U''" "\<not> is_lower CHR ''V''" "\<not> is_lower CHR ''W''"
  "\<not> is_lower CHR ''X''" "\<not> is_lower CHR ''Y''" "\<not> is_lower CHR ''Z''" "\<not> is_lower CHR ''0''"
  "\<not> is_lower CHR ''1''" "\<not> is_lower CHR ''2''" "\<not> is_lower CHR ''3''" "\<not> is_lower CHR ''4''"
  "\<not> is_lower CHR ''5''" "\<not> is_lower CHR ''6''" "\<not> is_lower CHR ''7''" "\<not> is_lower CHR ''8''"
  "\<not> is_lower CHR ''9''" "\<not> is_lower CHR ''-''" "\<not> is_lower CHR ''.''" "\<not> is_lower CHR ''_''"
  "\<not> is_lower CHR ''/''" "\<not> is_lower CHR '':''" "\<not> is_lower CHR ''~''" "\<not> is_lower CHR ''{''"
  "\<not> is_lower CHR ''}''" "\<not> is_lower CHR ''#''" "\<not> is_lower CHR ''?''"
  by (simp_all add: is_lower_def)

lemma is_alnum_table [rx_eval]:
  "is_alnum CHR ''a''" "is_alnum CHR ''b''" "is_alnum CHR ''c''" "is_alnum CHR ''d''" "is_alnum CHR ''e''"
  "is_alnum CHR ''f''" "is_alnum CHR ''g''" "is_alnum CHR ''h''" "is_alnum CHR ''i''" "is_alnum CHR ''j''"
  "is_alnum CHR ''k''" "is_alnum CHR ''l''" "is_alnum CHR ''m''" "is_alnum CHR ''n''" "is_alnum CHR ''o''"
  "is_alnum CHR ''p''" "is_alnum CHR ''q''" "is_alnum CHR ''r''" "is_alnum CHR ''s''" "is_alnum CHR ''t''"
  "is_alnum CHR ''u''" "is_alnum CHR ''v''" "is_alnum CHR ''w''" "is_alnum CHR ''x''" "is_alnum CHR ''y''"
  "is_alnum CHR ''z''" "is_alnum CHR ''A''" "is_alnum CHR ''B''" "is_alnum CHR ''C''" "is_alnum CHR ''D''"
  "is_alnum CHR ''E''" "is_alnum CHR ''F''" "is_alnum CHR ''G''" "is_alnum CHR ''H''" "is_alnum CHR ''I''"
  "is_alnum CHR ''J''" "is_alnum CHR ''K''" "is_alnum CHR ''L''" "is_alnum CHR ''M''" "is_alnum CHR ''N''"
  "is_alnum CHR ''O''" "is_alnum CHR ''P''" "is_alnum CHR ''Q''" "is_alnum CHR ''R''" "is_alnum CHR ''S''"
  "is_alnum CHR ''T''" "is_alnum CHR ''U''" "is_alnum CHR ''V''" "is_alnum CHR ''W''" "is_alnum CHR ''X''"
  "is_alnum CHR ''Y''" "is_alnum CHR ''Z''" "is_alnum CHR ''0''" "is_alnum CHR ''1''" "is_alnum CHR ''2''"
  "is_alnum CHR ''3''" "is_alnum CHR ''4''" "is_alnum CHR ''5''" "is_alnum CHR ''6''" "is_alnum CHR ''7''"
  "is_alnum CHR ''8''" "is_alnum CHR ''9''" "\<not> is_alnum CHR ''-''" "\<not> is_alnum CHR ''.''"
  "\<not> is_alnum CHR ''_''" "\<not> is_alnum CHR ''/''" "\<not> is_alnum CHR '':''" "\<not> is_alnum CHR ''~''"
  "\<not> is_alnum CHR ''{''" "\<not> is_alnum CHR ''}''" "\<not> is_alnum CHR ''#''" "\<not> is_alnum CHR ''?''"
  by (simp_all add: is_alnum_def)

lemmas any_char_eval [rx_eval] = any_char_def

section \<open>Expressions\<close>

lemma rx_match_lit [rx_eval]: "rx_match (lit w) s \<longleftrightarrow> s = w"
  by (simp add: rx_match_iff)

lemma lit_i_lang: "s \<in> rx_lang (lit_i w) \<longleftrightarrow> map lower_char s = w"
proof (induction w arbitrary: s)
  case (Cons c w)
  have "s \<in> rx_lang (lit_i (c # w)) \<longleftrightarrow> (\<exists>d t. s = d # t \<and> lower_char d = c \<and> t \<in> rx_lang (lit_i w))"
    unfolding lit_i_def foldr.simps comp_def by (rule Cat_Cls)
  then show ?case by (cases s) (auto simp: Cons.IH)
qed (simp add: lit_i_def)

lemma rx_match_lit_i [rx_eval]: "rx_match (lit_i w) s \<longleftrightarrow> map lower_char s = w"
  by (simp add: rx_match_iff lit_i_lang)

lemma rx_match_one_of: "rx_match (one_of rs) s \<longleftrightarrow> list_ex (\<lambda>r. rx_match r s) rs"
  by (induction rs) (auto simp: rx_match_iff)

lemma rx_match_maybe: "rx_match (maybe r) s \<longleftrightarrow> s = [] \<or> rx_match r s"
  by (auto simp: rx_match_iff maybe_def)

lemma rx_match_Alt: "rx_match (Alt r q) s \<longleftrightarrow> rx_match r s \<or> rx_match q s"
  by (simp add: rx_match_iff)

lemma rx_match_Both: "rx_match (Both r q) s \<longleftrightarrow> rx_match r s \<and> rx_match q s"
  by (simp add: rx_match_iff)

lemma rx_match_Except [rx_eval]: "rx_match (Except r) s \<longleftrightarrow> \<not> rx_match r s"
  by (simp add: rx_match_iff)

lemma rx_match_Many_Cls: "rx_match (Many (Cls P)) s \<longleftrightarrow> list_all P s"
  unfolding rx_match_iff by (rule iterate_Cls)

lemma rx_match_some_Cls: "rx_match (some (Cls P)) s \<longleftrightarrow> s \<noteq> [] \<and> list_all P s"
proof -
  have "rx_match (some (Cls P)) s \<longleftrightarrow> (\<exists>c t. s = c # t \<and> P c \<and> t \<in> rx_lang (Many (Cls P)))"
    unfolding rx_match_iff some_def by (rule Cat_Cls)
  then show ?thesis by (cases s) (auto simp: iterate_Cls simp del: rx_lang.simps)
qed

lemma rx_match_between:
  "m \<le> n \<Longrightarrow> rx_match (between m n (Cls P)) s \<longleftrightarrow> m \<le> length s \<and> length s \<le> n \<and> list_all P s"
  by (simp add: rx_match_iff between_length)

lemma rx_match_up_to: "rx_match (up_to n (Cls P)) s \<longleftrightarrow> length s \<le> n \<and> list_all P s"
  by (simp add: rx_match_iff up_to_length)

lemma rx_match_exactly: "rx_match (exactly n (Cls P)) s \<longleftrightarrow> length s = n \<and> list_all P s"
  by (simp add: rx_match_iff exactly_length)

lemma rx_match_of_length:
  "m \<le> n \<Longrightarrow> rx_match (of_length m n r) s \<longleftrightarrow> (m \<le> length s \<and> length s \<le> n \<and> list_all any_char s) \<and> rx_match r s"
  by (simp add: of_length_def rx_match_Both rx_match_between)

lemma rx_match_Cat_Cls:
  "rx_match (Cat (Cls P) r) [] \<longleftrightarrow> False"
  "rx_match (Cat (Cls P) r) (c # s) \<longleftrightarrow> P c \<and> rx_match r s"
  using Cat_Cls [of "[]" P r] Cat_Cls [of "c # s" P r] by (auto simp: rx_match_iff)

lemma rx_match_Cat_lit:
  "rx_match (Cat (lit w) r) s \<longleftrightarrow> startsWith s w \<and> rx_match r (drop (length w) s)"
proof -
  have "startsWith s w \<longleftrightarrow> (\<exists>t. s = w @ t)"
    by (auto simp: startsWith_def) (metis append_take_drop_id)
  then show ?thesis by (auto simp: rx_match_iff startsWith_def)
qed

lemma ends_with_append: "a \<in> rx_lang r \<Longrightarrow> u @ a \<in> rx_lang (ends_with r)"
  unfolding ends_with_lang by blast

lemma ends_with_one_of:
  "rx_match (ends_with (one_of rs)) s \<longleftrightarrow> list_ex (\<lambda>r. rx_match (ends_with r) s) rs"
  by (induction rs) (auto simp: rx_match_iff ends_with_lang)

lemma ends_with_lit_i:
  "rx_match (ends_with (lit_i w)) s \<longleftrightarrow> length w \<le> length s \<and> map lower_char (drop (length s - length w) s) = w"
proof
  assume "rx_match (ends_with (lit_i w)) s"
  then obtain u v where "s = u @ v" "map lower_char v = w" by (auto simp: rx_match_iff ends_with_lang lit_i_lang)
  then show "length w \<le> length s \<and> map lower_char (drop (length s - length w) s) = w" by auto
next
  assume "length w \<le> length s \<and> map lower_char (drop (length s - length w) s) = w"
  then show "rx_match (ends_with (lit_i w)) s"
    unfolding rx_match_iff ends_with_lang lit_i_lang by (metis append_take_drop_id)
qed

lemma ends_with_Cat_lit_i:
  "rx_match (ends_with (Cat q (lit_i w))) s \<longleftrightarrow>
     length w \<le> length s \<and> map lower_char (drop (length s - length w) s) = w
     \<and> rx_match (ends_with q) (take (length s - length w) s)"
proof
  assume "rx_match (ends_with (Cat q (lit_i w))) s"
  then obtain u a v where "s = u @ a @ v" "a \<in> rx_lang q" "map lower_char v = w"
    by (auto simp: rx_match_iff ends_with_lang lit_i_lang)
  then show "length w \<le> length s \<and> map lower_char (drop (length s - length w) s) = w
      \<and> rx_match (ends_with q) (take (length s - length w) s)"
    by (auto simp: rx_match_iff intro: ends_with_append)
next
  assume *: "length w \<le> length s \<and> map lower_char (drop (length s - length w) s) = w
      \<and> rx_match (ends_with q) (take (length s - length w) s)"
  then obtain u a where "take (length s - length w) s = u @ a" "a \<in> rx_lang q" by (auto simp: rx_match_iff ends_with_lang)
  with * have "s = u @ (a @ drop (length s - length w) s)" by (metis append.assoc append_take_drop_id)
  with * \<open>a \<in> rx_lang q\<close> show "rx_match (ends_with (Cat q (lit_i w))) s"
    unfolding rx_match_iff ends_with_lang rx_lang.simps lit_i_lang mem_Collect_eq by metis
qed

lemma ends_with_Cat_maybe:
  "rx_match (ends_with (Cat q (maybe r))) s \<longleftrightarrow> rx_match (ends_with q) s \<or> rx_match (ends_with (Cat q r)) s"
proof -
  have "rx_lang (Cat q (maybe r)) = rx_lang q \<union> rx_lang (Cat q r)" by (auto simp: maybe_def)
  then show ?thesis unfolding rx_match_iff ends_with_lang by auto
qed

lemma rx_match_ends_Cls:
  "rx_match (ends_with (Cat q (Cls P))) s \<longleftrightarrow> s \<noteq> [] \<and> P (last s) \<and> rx_match (ends_with q) (butlast s)"
proof
  assume "rx_match (ends_with (Cat q (Cls P))) s"
  then obtain u a c where "s = (u @ a) @ [c]" "a \<in> rx_lang q" "P c" by (auto simp: rx_match_iff ends_with_lang)
  then show "s \<noteq> [] \<and> P (last s) \<and> rx_match (ends_with q) (butlast s)"
    by (simp only: rx_match_iff butlast_snoc last_snoc) (simp add: ends_with_append)
next
  assume *: "s \<noteq> [] \<and> P (last s) \<and> rx_match (ends_with q) (butlast s)"
  then obtain u a where "butlast s = u @ a" "a \<in> rx_lang q" by (auto simp: rx_match_iff ends_with_lang)
  with * have "s = u @ (a @ [last s])" by (metis append.assoc append_butlast_last_id)
  with * \<open>a \<in> rx_lang q\<close> show "rx_match (ends_with (Cat q (Cls P))) s"
    unfolding rx_match_iff ends_with_lang rx_lang.simps by blast
qed

lemma ends_with_seq [rx_eval]:
  "rx_match (ends_with (seq_of [a, b, c])) s \<longleftrightarrow> rx_match (ends_with (Cat (Cat a b) c)) s"
proof -
  have "x \<in> rx_lang (seq_of [a, b, c]) \<longleftrightarrow> (\<exists>u v w. x = u @ v @ w \<and> u \<in> rx_lang a \<and> v \<in> rx_lang b \<and> w \<in> rx_lang c)" for x
    by auto
  moreover have "x \<in> rx_lang (Cat (Cat a b) c) \<longleftrightarrow> (\<exists>u v w. x = u @ v @ w \<and> u \<in> rx_lang a \<and> v \<in> rx_lang b \<and> w \<in> rx_lang c)" for x
    unfolding rx_lang.simps mem_Collect_eq by (metis append.assoc)
  ultimately show ?thesis unfolding rx_match_iff ends_with_lang by simp
qed

section \<open>Sequences\<close>

lemma rx_match_Nothing [rx_eval]: "rx_match Nothing s \<longleftrightarrow> s = []"
  by (simp add: rx_match_iff)

lemma rx_match_Cls [rx_eval]:
  "rx_match (Cls P) [] \<longleftrightarrow> False" "rx_match (Cls P) [c] \<longleftrightarrow> P c" "rx_match (Cls P) (c # d # s) \<longleftrightarrow> False"
  by (auto simp: rx_match_iff)

lemma rx_match_Cat: "rx_match (Cat q r) s \<longleftrightarrow> (\<exists>u v. s = u @ v \<and> rx_match q u \<and> rx_match r v)"
  by (auto simp: rx_match_iff)

lemma rx_match_Cat_split:
  "rx_match (Cat q r) s \<longleftrightarrow> list_ex (\<lambda>n. rx_match r (drop n s) \<and> rx_match q (take n s)) [0..<Suc (length s)]"
proof
  assume "rx_match (Cat q r) s"
  then obtain u v where uv: "s = u @ v" "rx_match q u" "rx_match r v" by (auto simp: rx_match_Cat)
  then have "length u \<in> set [0..<Suc (length s)]" by auto
  with uv show "list_ex (\<lambda>n. rx_match r (drop n s) \<and> rx_match q (take n s)) [0..<Suc (length s)]"
    unfolding list_ex_iff by (metis append_eq_conv_conj)
next
  assume "list_ex (\<lambda>n. rx_match r (drop n s) \<and> rx_match q (take n s)) [0..<Suc (length s)]"
  then obtain n where "rx_match r (drop n s)" "rx_match q (take n s)" unfolding list_ex_iff by blast
  then show "rx_match (Cat q r) s" unfolding rx_match_Cat by (metis append_take_drop_id)
qed

lemma rx_match_Cat_Nothing [rx_eval]: "rx_match (Cat Nothing r) s \<longleftrightarrow> rx_match r s"
  by (simp add: rx_match_iff)

lemma rx_match_Cat_Cat [rx_eval]: "rx_match (Cat (Cat a b) r) s \<longleftrightarrow> rx_match (Cat a (Cat b r)) s"
  unfolding rx_match_Cat by (metis append.assoc)

lemma rx_match_Cat_Alt: "rx_match (Cat (Alt a b) r) s \<longleftrightarrow> rx_match (Cat a r) s \<or> rx_match (Cat b r) s"
  by (auto simp: rx_match_iff)

lemma rx_match_Cat_maybe: "rx_match (Cat (maybe a) r) s \<longleftrightarrow> rx_match r s \<or> rx_match (Cat a r) s"
  by (auto simp: rx_match_iff maybe_def)

lemma rx_match_Cat_one_of: "rx_match (Cat (one_of qs) r) s \<longleftrightarrow> list_ex (\<lambda>q. rx_match (Cat q r) s) qs"
  by (induction qs) (auto simp: rx_match_iff)

lemma rx_match_seq_of [rx_eval]:
  "rx_match (seq_of []) s \<longleftrightarrow> s = []" "rx_match (seq_of (r # rs)) s \<longleftrightarrow> rx_match (Cat r (seq_of rs)) s"
  by (simp_all add: rx_match_Nothing)

lemma rx_match_Cat_seq_of [rx_eval]: "rx_match (Cat (seq_of (a # as)) r) s \<longleftrightarrow> rx_match (Cat a (Cat (seq_of as) r)) s"
  by (simp add: rx_match_Cat_Cat)

lemma rx_match_Cat_seq_Nil [rx_eval]: "rx_match (Cat (seq_of []) r) s \<longleftrightarrow> rx_match r s"
  by (simp add: rx_match_Cat_Nothing)

lemma rx_match_Many [rx_eval]:
  "rx_match (Many r) [] \<longleftrightarrow> True"
  "\<not> accepts_empty r \<Longrightarrow> rx_match (Many r) (c # s) \<longleftrightarrow> rx_match (Cat r (Many r)) (c # s)"
proof -
  show "rx_match (Many r) [] \<longleftrightarrow> True" by (simp add: rx_match_iff iterate.stop)
  assume "\<not> accepts_empty r"
  then have "rx_match (Cat r (Many r)) (c # s) \<longleftrightarrow> (\<exists>u v. s = u @ v \<and> c # u \<in> rx_lang r \<and> v \<in> iterate (rx_lang r))"
    by (auto simp: rx_match_iff accepts_empty_iff Cons_eq_append_conv)
  then show "rx_match (Many r) (c # s) \<longleftrightarrow> rx_match (Cat r (Many r)) (c # s)"
    by (simp add: rx_match_iff iterate_step)
qed

lemma rx_match_Cat_Many_Nil [rx_eval]: "rx_match (Cat (Many q) r) [] \<longleftrightarrow> rx_match r []"
  by simp

lemma rx_match_Cat_Many_step:
  assumes "\<not> accepts_empty q"
  shows "rx_match (Cat (Many q) r) (c # s) \<longleftrightarrow> rx_match r (c # s) \<or> rx_match (Cat q (Cat (Many q) r)) (c # s)"
proof -
  have smart: "rx_match (alt x y) t \<longleftrightarrow> rx_match x t \<or> rx_match y t" "rx_match (cat x y) t \<longleftrightarrow> rx_match (Cat x y) t" for x y t
    by (simp_all add: rx_match_iff)
  have "rx_match (Cat (Many q) r) (c # s) \<longleftrightarrow> rx_match (Cat (cat (after c q) (Many q)) r) s \<or> rx_match (after c r) s"
    by (simp add: smart del: rx_match.simps(1))
  also have "rx_match (Cat (cat (after c q) (Many q)) r) s \<longleftrightarrow> rx_match (Cat (after c q) (Cat (Many q) r)) s"
    unfolding rx_match_Cat [of "cat (after c q) (Many q)"] smart rx_match_Cat_Cat [symmetric] rx_match_Cat [of "Cat (after c q) (Many q)"] ..
  finally show ?thesis using assms by (auto simp: smart)
qed

lemma rx_match_Cat_Many:
  "rx_match (Cat (Many (Cls P)) r) (c # s) \<longleftrightarrow> rx_match r (c # s) \<or> P c \<and> rx_match (Cat (Many (Cls P)) r) s"
  using rx_match_Cat_Many_step [of "Cls P" r c s] by (simp add: rx_match_Cat_Cls del: rx_match.simps)

lemma rx_match_some [rx_eval]: "rx_match (some (Cat a b)) s \<longleftrightarrow> rx_match (Cat (Cat a b) (Many (Cat a b))) s"
  by (simp add: some_def)

lemma rx_match_Cat_some [rx_eval]: "rx_match (Cat (some q) r) s \<longleftrightarrow> rx_match (Cat q (Cat (Many q) r)) s"
  by (simp add: some_def rx_match_Cat_Cat)

lemma rx_match_Cat_lit_i:
  "rx_match (Cat (lit_i w) r) s \<longleftrightarrow> length w \<le> length s \<and> map lower_char (take (length w) s) = w \<and> rx_match r (drop (length w) s)"
proof
  assume "rx_match (Cat (lit_i w) r) s"
  then show "length w \<le> length s \<and> map lower_char (take (length w) s) = w \<and> rx_match r (drop (length w) s)"
    by (auto simp: rx_match_Cat rx_match_lit_i)
next
  assume "length w \<le> length s \<and> map lower_char (take (length w) s) = w \<and> rx_match r (drop (length w) s)"
  then show "rx_match (Cat (lit_i w) r) s" unfolding rx_match_Cat rx_match_lit_i by (metis append_take_drop_id)
qed

lemma accepts_empty_Cat_lit [rx_eval]:
  "accepts_empty (lit w) \<longleftrightarrow> w = []"
  by (auto simp: accepts_empty_iff)

section \<open>Lazy rules\<close>

text \<open>As conditionals, so that the simplifier decides a guard before it looks at what it guards.\<close>

definition any_of :: "('a \<Rightarrow> bool) \<Rightarrow> 'a list \<Rightarrow> bool" where
  "any_of P xs = list_ex P xs"

definition every :: "('a \<Rightarrow> bool) \<Rightarrow> 'a list \<Rightarrow> bool" where
  "every P xs = list_all P xs"

lemma any_of_eval [rx_eval]: "any_of P [] = False" "any_of P (x # xs) = (if P x then True else any_of P xs)"
  by (simp_all add: any_of_def)

lemma every_eval [rx_eval]: "every P [] = True" "every P (x # xs) = (if P x then every P xs else False)"
  by (simp_all add: every_def)

lemma lazy_choice [rx_eval]:
  "rx_match (one_of rs) s = any_of (\<lambda>r. rx_match r s) rs"
  "rx_match (maybe r) s = (if s = [] then True else rx_match r s)"
  "rx_match (Alt r q) s = (if rx_match r s then True else rx_match q s)"
  "rx_match (Both r q) s = (if rx_match r s then rx_match q s else False)"
  "rx_match (Cat (one_of qs) r) s = any_of (\<lambda>q. rx_match (Cat q r) s) qs"
  "rx_match (Cat (maybe q) r) s = (if rx_match r s then True else rx_match (Cat q r) s)"
  "rx_match (Cat (Alt q q') r) s = (if rx_match (Cat q r) s then True else rx_match (Cat q' r) s)"
  by (auto simp: rx_match_one_of rx_match_maybe rx_match_Alt rx_match_Both rx_match_Cat_one_of rx_match_Cat_maybe
      rx_match_Cat_Alt any_of_def)

lemma lazy_classes [rx_eval]:
  "rx_match (some (Cls P)) s = (if s = [] then False else every P s)"
  "rx_match (Many (Cls P)) s = every P s"
  "rx_match (up_to n (Cls P)) s = (if length s \<le> n then every P s else False)"
  "rx_match (exactly n (Cls P)) s = (if length s = n then every P s else False)"
  "m \<le> n \<Longrightarrow> rx_match (between m n (Cls P)) s = (if m \<le> length s then if length s \<le> n then every P s else False else False)"
  "m \<le> n \<Longrightarrow> rx_match (of_length m n r) s =
     (if m \<le> length s then if length s \<le> n then if every any_char s then rx_match r s else False else False else False)"
  by (simp_all add: rx_match_some_Cls rx_match_Many_Cls rx_match_up_to rx_match_exactly rx_match_between rx_match_of_length
      every_def del: rx_match.simps)

lemma lazy_sequence [rx_eval]:
  "rx_match (Cat (Cls P) r) [] = False"
  "rx_match (Cat (Cls P) r) (c # s) = (if P c then rx_match r s else False)"
  "rx_match (Cat (lit w) r) s = (if startsWith s w then rx_match r (drop (length w) s) else False)"
  "rx_match (Cat (lit_i w) r) s = (if length w \<le> length s then
     if map lower_char (take (length w) s) = w then rx_match r (drop (length w) s) else False else False)"
  "rx_match (Cat (Many (Cls P)) r) (c # s) =
     (if rx_match r (c # s) then True else if P c then rx_match (Cat (Many (Cls P)) r) s else False)"
  "\<not> accepts_empty (Cat a b) \<Longrightarrow> rx_match (Cat (Many (Cat a b)) r) (c # s) =
     (if rx_match r (c # s) then True else rx_match (Cat (Cat a b) (Cat (Many (Cat a b)) r)) (c # s))"
  by (simp_all add: rx_match_Cat_Cls rx_match_Cat_lit rx_match_Cat_lit_i rx_match_Cat_Many rx_match_Cat_Many_step
      del: rx_match.simps)

lemma lazy_split:
  "rx_match (Cat q r) s = any_of (\<lambda>n. if rx_match r (drop n s) then rx_match q (take n s) else False) [0..<Suc (length s)]"
  unfolding rx_match_Cat_split any_of_def list_ex_iff by (simp del: rx_match.simps upt.simps) blast

lemmas lazy_split_Both [rx_eval] = lazy_split [of "Both a b" for a b]
lemmas lazy_split_up_to [rx_eval] = lazy_split [of "up_to n (Cls P)" for n P]

lemma lazy_ends [rx_eval]:
  "rx_match (ends_with (one_of rs)) s = any_of (\<lambda>r. rx_match (ends_with r) s) rs"
  "rx_match (ends_with (lit_i w)) s =
     (if length w \<le> length s then map lower_char (drop (length s - length w) s) = w else False)"
  "rx_match (ends_with (Cat q (lit_i w))) s =
     (if length w \<le> length s then if map lower_char (drop (length s - length w) s) = w
        then rx_match (ends_with q) (take (length s - length w) s) else False else False)"
  "rx_match (ends_with (Cat q (maybe r))) s = (if rx_match (ends_with q) s then True else rx_match (ends_with (Cat q r)) s)"
  "rx_match (ends_with (Cat q (Cls P))) s = (if s = [] then False else if P (last s) then rx_match (ends_with q) (butlast s) else False)"
  by (auto simp: ends_with_one_of ends_with_lit_i ends_with_Cat_lit_i ends_with_Cat_maybe rx_match_ends_Cls any_of_def
      simp del: rx_match.simps)

lemmas startsWith_eval [rx_eval] = startsWith_def

text \<open>The rules by derivatives, where the ones above are to decide instead.\<close>

lemmas rx_off = seq_of.simps one_of.simps rx_match.simps

end
