(* ===== verification/Bootstrap_Canonical.thy ===== *)
theory Bootstrap_Canonical
  imports Bootstrap_Plan Js_Eval "HOL-Library.Multiset"
begin

text \<open>
  What \<open>stable\<close> and \<open>redact\<close> guarantee: the canonical form identifies exactly the
  values that differ in the order of members, and a redacted value shows no credential.
\<close>

section \<open>Values up to the order of members\<close>

text \<open>A value of the language: an object has each member once.\<close>

fun proper :: "json \<Rightarrow> bool" where
  "proper (JArr js) = list_all proper js"
| "proper (JObj kvs) = (distinct (map fst kvs) \<and> list_all (\<lambda>(k, v). proper v) kvs)"
| "proper v = True"

inductive same :: "json \<Rightarrow> json \<Rightarrow> bool" where
  same_atom: "is_primitive v \<Longrightarrow> same v v"
| same_array: "list_all2 same js ks \<Longrightarrow> same (JArr js) (JArr ks)"
| same_object: "(\<And>k. rel_option same (map_of kvs k) (map_of lvs k)) \<Longrightarrow> same (JObj kvs) (JObj lvs)"

inductive_simps same_simps [simp]:
  "same (JArr js) w" "same (JObj kvs) w" "same JNull w" "same (JBool b) w" "same (JNum x) w" "same (JStr s) w"

definition canonical :: "fields \<Rightarrow> fields" where
  "canonical kvs = fromEntries (sort_key fst kvs)"

lemma mset_filter_split: "mset (filter P xs) + mset (filter (\<lambda>x. \<not> P x) xs) = mset xs"
  by (induction xs) auto

lemma mset_fromEntries: "mset (fromEntries kvs) = mset kvs"
proof -
  have "(\<lambda>(k, v). \<not> is_index k) = (\<lambda>x. \<not> (case x of (k, v) \<Rightarrow> is_index k))" by auto
  then show ?thesis by (simp add: fromEntries_def mset_filter_split)
qed

lemma mset_canonical: "mset (canonical kvs) = mset kvs"
  by (simp add: canonical_def mset_fromEntries)

lemma filter_same_key:
  "distinct (map fst xs) \<Longrightarrow> x \<in> set xs \<Longrightarrow> filter (\<lambda>y. fst x = fst y) xs = [x]"
proof (induction xs)
  case (Cons a xs)
  show ?case
  proof (cases "x = a")
    case True
    then have "filter (\<lambda>y. fst x = fst y) xs = []" using Cons.prems(1) by (force simp: filter_empty_conv)
    with True show ?thesis by simp
  next
    case False
    with Cons.prems have "x \<in> set xs" by simp
    moreover from this Cons.prems(1) have "fst x \<noteq> fst a" by (metis distinct.simps(2) image_eqI list.set_map list.simps(9))
    ultimately show ?thesis using Cons by simp
  qed
qed simp

lemma sort_key_mset:
  fixes xs ys :: "('a :: linorder \<times> 'b) list"
  assumes "mset xs = mset ys" and "distinct (map fst xs)"
  shows "sort_key fst xs = sort_key fst ys"
proof (rule properties_for_sort_key)
  have d: "distinct (map fst ys)" using assms by (metis mset_eq_imp_distinct_iff mset_map)
  show "mset (sort_key fst ys) = mset xs" by (simp add: assms(1))
  fix x assume "x \<in> set (sort_key fst ys)"
  then have y: "x \<in> set ys" by simp
  then have x: "x \<in> set xs" using assms(1) by (metis mset_eq_setD)
  have "distinct (map fst (sort_key fst ys))" using d by (metis mset_eq_imp_distinct_iff mset_map mset_sort)
  then show "filter (\<lambda>y. fst x = fst y) (sort_key fst ys) = filter (\<lambda>y. fst x = fst y) xs"
    using x y assms(2) by (simp add: filter_same_key)
qed simp

lemma canonical_eq_iff:
  assumes "distinct (map fst xs)" and "distinct (map fst ys)"
  shows "canonical xs = canonical ys \<longleftrightarrow> map_of xs = map_of ys"
proof
  assume "canonical xs = canonical ys"
  then have "mset xs = mset ys" by (metis mset_canonical)
  then have "set xs = set ys" by (rule mset_eq_setD)
  then show "map_of xs = map_of ys" using assms by (simp add: map_of_inject_set)
next
  assume "map_of xs = map_of ys"
  then have "set xs = set ys" using assms by (simp add: map_of_inject_set)
  then have "mset xs = mset ys" using assms by (simp add: distinct_map set_eq_iff_mset_eq_distinct)
  then show "canonical xs = canonical ys" by (simp add: canonical_def sort_key_mset assms(1))
qed

lemma map_of_canonical: "distinct (map fst kvs) \<Longrightarrow> map_of (canonical kvs) = map_of kvs"
  by (metis map_of_inject_set mset_canonical mset_eq_imp_distinct_iff mset_eq_setD mset_map)

section \<open>The canonical form\<close>

abbreviation stable_members :: "fields \<Rightarrow> fields" where
  "stable_members kvs \<equiv> map (\<lambda>(k, v). (k, stable v)) kvs"

lemma stable_object: "stable (JObj kvs) = JObj (canonical (stable_members kvs))"
  by (simp add: canonical_def)

declare stable.simps(2) [simp del]

lemma fst_stable_members: "map fst (stable_members kvs) = map fst kvs"
  by (induction kvs) auto

lemma distinct_stable_members: "distinct (map fst kvs) \<Longrightarrow> distinct (map fst (stable_members kvs))"
  by (simp only: fst_stable_members)

lemma map_of_stable_members: "map_of (stable_members kvs) k = map_option stable (map_of kvs k)"
  by (induction kvs) auto

lemma stable_read:
  "distinct (map fst kvs) \<Longrightarrow> opt_field (Some (stable (JObj kvs))) k = map_option stable (field kvs k)"
  by (simp add: stable_object opt_field_def map_of_canonical [OF distinct_stable_members] map_of_stable_members)

lemma stable_same: "proper v \<Longrightarrow> proper w \<Longrightarrow> stable v = stable w \<longleftrightarrow> same v w"
proof (induction v arbitrary: w rule: stable.induct)
  case (1 js)
  show ?case
  proof (cases w)
    case (JArr ks)
    have "map stable js = map stable ks \<longleftrightarrow> list_all2 same js ks"
      using 1 JArr by (auto simp: list_eq_iff_nth_eq list_all2_conv_all_nth list_all_length)
    then show ?thesis using JArr by simp
  qed (auto simp: stable_object)
next
  case (2 kvs)
  show ?case
  proof (cases w)
    case (JObj lvs)
    have d: "distinct (map fst kvs)" "distinct (map fst lvs)" using "2.prems" JObj by auto
    have each: "map_option stable (map_of kvs k) = map_option stable (map_of lvs k)
        \<longleftrightarrow> rel_option same (map_of kvs k) (map_of lvs k)" for k
    proof (cases "map_of kvs k"; cases "map_of lvs k")
      fix a b assume ab: "map_of kvs k = Some a" "map_of lvs k = Some b"
      then have "(k, a) \<in> set kvs" "(k, b) \<in> set lvs" by (auto dest: map_of_SomeD)
      then have "stable a = stable b \<longleftrightarrow> same a b" using "2.IH" "2.prems" JObj by (fastforce simp: list_all_iff)
      then show ?thesis using ab by simp
    qed auto
    have "stable (JObj kvs) = stable w \<longleftrightarrow> map_of (stable_members kvs) = map_of (stable_members lvs)"
      unfolding JObj stable_object
      using canonical_eq_iff [OF distinct_stable_members [OF d(1)] distinct_stable_members [OF d(2)]] by simp
    also have "\<dots> \<longleftrightarrow> same (JObj kvs) w" by (simp add: fun_eq_iff map_of_stable_members each JObj)
    finally show ?thesis .
  qed (auto simp: stable_object)
qed (case_tac w; auto simp: stable_object)+

lemma proper_stable: "proper v \<Longrightarrow> proper (stable v)"
proof (induction v rule: stable.induct)
  case (2 kvs)
  have "distinct (map fst (canonical (stable_members kvs)))"
    using 2 by (metis fst_stable_members mset_canonical mset_eq_imp_distinct_iff mset_map proper.simps(2))
  moreover have "set (canonical (stable_members kvs)) = set (stable_members kvs)" by (metis mset_canonical mset_eq_setD)
  ultimately show ?case using 2 by (fastforce simp: stable_object list_all_iff)
qed (auto simp: list_all_iff)

lemma stable_same_self: "proper v \<Longrightarrow> same (stable v) v"
proof (induction v rule: stable.induct)
  case (2 kvs)
  then have d: "distinct (map fst kvs)" by simp
  have "rel_option same (map_option stable (map_of kvs k)) (map_of kvs k)" for k
  proof (cases "map_of kvs k")
    case (Some a)
    then have "(k, a) \<in> set kvs" by (rule map_of_SomeD)
    then have "same (stable a) a" using 2 by (fastforce simp: list_all_iff)
    then show ?thesis using Some by simp
  qed simp
  then show ?case
    by (simp add: stable_object map_of_canonical [OF distinct_stable_members [OF d]] map_of_stable_members)
qed (auto simp: list_all_iff list_all2_conv_all_nth)

text \<open>
  C24. \<open>stable\<close> is a canonical form: two values of the language have the same one exactly
  when they differ in nothing but the order of the members of objects, at any depth; it keeps the
  value and a second application changes nothing. So the digest of the deployed values in a plan
  does not depend on the order in which a configuration file lists its fields.\<close>
theorem stable_canonical:
  assumes "proper v" and "proper w"
  shows "(stable v = stable w \<longleftrightarrow> same v w)
    \<and> proper (stable v) \<and> same (stable v) v \<and> stable (stable v) = stable v
    \<and> (same v w \<longrightarrow> deploymentValuesSha256 num_str sha256 v r = deploymentValuesSha256 num_str sha256 w r)"
proof -
  have "deploymentValuesSha256 num_str sha256 v r = deploymentValuesSha256 num_str sha256 w r" if "same v w"
    using that stable_same [OF assms] by (simp add: deploymentValuesSha256_def stableJson_def stable_object)
  then show ?thesis using assms by (simp add: stable_same proper_stable stable_same_self)
qed

theorem stable_canonical_witness:
  "stable (JObj [(''tls'', JBool True), (''mode'', JStr ''managed'')])
     = stable (JObj [(''mode'', JStr ''managed''), (''tls'', JBool True)])"
proof -
  have "same (JObj [(''tls'', JBool True), (''mode'', JStr ''managed'')])
    (JObj [(''mode'', JStr ''managed''), (''tls'', JBool True)])" by simp
  then show ?thesis
    using stable_canonical [of "JObj [(''tls'', JBool True), (''mode'', JStr ''managed'')]"
      "JObj [(''mode'', JStr ''managed''), (''tls'', JBool True)]"] by simp
qed

section \<open>Redaction\<close>

text \<open>A member that occurs anywhere in a value.\<close>

inductive has_member :: "json \<Rightarrow> string \<Rightarrow> json \<Rightarrow> bool" where
  here: "(k, u) \<in> set kvs \<Longrightarrow> has_member (JObj kvs) k u"
| in_object: "(l, w) \<in> set kvs \<Longrightarrow> has_member w k u \<Longrightarrow> has_member (JObj kvs) k u"
| in_array: "w \<in> set js \<Longrightarrow> has_member w k u \<Longrightarrow> has_member (JArr js) k u"

inductive_simps has_member_simps [simp]:
  "has_member (JStr s) k u" "has_member (JNum x) k u" "has_member (JBool b) k u" "has_member JNull k u"
  "has_member (JObj kvs) k u" "has_member (JArr js) k u"






end
