(* ===== verification/Bootstrap_Valid.thy ===== *)
theory Bootstrap_Valid
  imports Bootstrap_Canonical
begin

text \<open>
  What a configuration without problems guarantees to the code behind the validation: every read
  of the plan finds its object, the release names fit, and a plan is built.
\<close>

section \<open>Results that are not errors\<close>

definition returns :: "thrown + 'a \<Rightarrow> bool" where
  "returns r = (\<exists>v. r = Inr v)"

lemma returns_Inr [simp]: "returns (Inr v)"
  by (simp add: returns_def)

lemma returns_bind [simp]: "returns (bind_result r f) \<longleftrightarrow> (\<exists>v. r = Inr v \<and> returns (f v))"
  by (cases r) (auto simp: bind_result_def returns_def)

lemma returns_members: "returns (members ms) \<longleftrightarrow> list_all (\<lambda>(k, r). returns r) ms"
  by (induction ms rule: members.induct) (auto simp: returns_def bind_result_Inr_conv)

lemma returns_literal [simp]: "returns (object_literal ms) \<longleftrightarrow> list_all (\<lambda>(k, r). returns r) ms"
  by (simp add: object_literal_def returns_members [symmetric]) (simp add: returns_def)

lemma ex_literal [simp]: "(\<exists>v. object_literal ms = Inr v) \<longleftrightarrow> list_all (\<lambda>(k, r). returns r) ms"
  using returns_literal [of ms] unfolding returns_def [of "object_literal ms"] .

lemma returns_stable [simp]: "returns (as_stable r) \<longleftrightarrow> returns r"
  by (auto simp: as_stable_def returns_def bind_result_Inr_conv)

lemma returns_either: "c = Inr b \<Longrightarrow> returns (either c x y) \<longleftrightarrow> (if b then returns x else returns y)"
  by (simp add: either_def bind_result_def)

section \<open>Sections of a valid configuration\<close>

lemma with_section_Nil:
  "with_section config name check = [] \<longleftrightarrow> (\<exists>kvs. field config name = Some (JObj kvs) \<and> check kvs = [])"
  by (cases "field config name" rule: fields_of.cases) (auto simp: with_section_def requireRecord_def)

definition valid :: "(rat \<Rightarrow> string) \<Rightarrow> full_parser \<Rightarrow> fields \<Rightarrow> bool" where
  "valid num_str parse config = (validateConfiguration num_str parse (JObj config) = [])"

lemma section_of_object: "field config name = Some (JObj kvs) \<Longrightarrow> section_of config name = kvs"
  by (simp add: section_of_def requireRecord_def)

lemma valid_sections:
  assumes "valid num_str parse config"
  shows "\<exists>kvs. field config ''environment'' = Some (JObj kvs) \<and> check_environment kvs = []"
    and "\<exists>kvs. field config ''naming'' = Some (JObj kvs) \<and> check_naming kvs = []"
    and "\<exists>kvs. field config ''paths'' = Some (JObj kvs) \<and> check_paths (section_of config ''environment'') kvs = []"
    and "\<exists>kvs. field config ''image'' = Some (JObj kvs) \<and> check_image kvs = []"
    and "\<exists>kvs. field config ''kubernetes'' = Some (JObj kvs) \<and> check_kubernetes kvs = []"
    and "\<exists>kvs. field config ''redis'' = Some (JObj kvs) \<and> check_redis kvs = []"
    and "\<exists>kvs. field config ''ingress'' = Some (JObj kvs) \<and> check_ingress parse kvs = []"
    and "\<exists>kvs. field config ''observability'' = Some (JObj kvs) \<and> check_observability num_str parse kvs = []"
    and "\<exists>kvs. field config ''resources'' = Some (JObj kvs) \<and> check_resources kvs = []"
    and "\<exists>kvs. field config ''networking'' = Some (JObj kvs) \<and> check_networking (section_of config ''ingress'') kvs = []"
    and "check_topology num_str (field config ''topology'') (section_of config ''kubernetes'') (section_of config ''redis'') = []"
    and "rejectInlineSecrets (JObj config) ''$'' = []"
  using assms by (simp_all add: valid_def validateConfiguration_def requireRecord_def with_section_Nil)

lemma requireRecord_labels:
  "(case requireRecord v path of (errors, kvs) \<Rightarrow> errors @ f kvs) = [] \<Longrightarrow> \<exists>kvs. v = Some (JObj kvs)"
  by (cases v rule: fields_of.cases) (auto simp: requireRecord_def)

lemma otlp_labels:
  assumes "check_observability num_str parse kvs = []"
  shows "\<exists>ls. field kvs ''otlpEgressNamespaceLabels'' = Some (JObj ls)"
    and "\<exists>ls. field kvs ''otlpEgressPodLabels'' = Some (JObj ls)"
proof -
  have "check_otlp_egress num_str parse kvs = []" using assms by (simp add: check_observability_def)
  then show "\<exists>ls. field kvs ''otlpEgressNamespaceLabels'' = Some (JObj ls)"
    and "\<exists>ls. field kvs ''otlpEgressPodLabels'' = Some (JObj ls)"
    by (auto simp: check_otlp_egress_def requireRecord_def split: option.splits elim!: fields_of.elims)
qed

lemma redis_images:
  assumes "check_redis kvs = []"
  shows "\<exists>ls. field kvs ''managedImages'' = Some (JObj ls)"
    and "field kvs ''mode'' = Some (JStr ''external'') \<Longrightarrow> \<exists>ep. parseRedisEndpoint (field kvs ''externalEndpoint'') = Some ep"
proof -
  have "check_managed_images (field kvs ''managedImages'') = []" using assms by (simp add: check_redis_def)
  then show "\<exists>ls. field kvs ''managedImages'' = Some (JObj ls)"
    by (auto simp: check_managed_images_def requireRecord_def split: option.splits elim!: fields_of.elims)
  have "check_redis_connection kvs = []" using assms by (simp add: check_redis_def)
  then show "\<exists>ep. parseRedisEndpoint (field kvs ''externalEndpoint'') = Some ep"
    if "field kvs ''mode'' = Some (JStr ''external'')"
    using that by (simp add: check_redis_connection_def Let_def)
qed

section \<open>Release names\<close>

lemma environment_name:
  assumes "check_environment kvs = []"
  shows "\<exists>s. field kvs ''name'' = Some (JStr s) \<and> isValidEnvironmentName (Some (JStr s))
    \<and> s \<noteq> [] \<and> length s \<le> 10 \<and> list_all lower_digit s"
proof -
  have "requireString (field kvs ''name'') ''$.environment.name'' (Some environmentName) False = []"
    using assms by (simp add: check_environment_def)
  then obtain s where s: "field kvs ''name'' = Some (JStr s)" "s \<noteq> []" "s \<in> rx_lang environmentName"
    by (auto simp: requireString_Nil)
  moreover have "isValidEnvironmentName (Some (JStr s))"
    using assms s by (auto simp: check_environment_def rx_match_iff)
  ultimately show ?thesis by (simp add: environmentName_def between_length)
qed

lemma naming_suffix:
  assumes "check_naming kvs = []"
  shows "\<exists>s. field kvs ''suffix'' = Some (JStr s) \<and> length s \<le> 27"
proof -
  have "requireString (field kvs ''suffix'') ''$.naming.suffix'' (Some namingSuffix) True = []"
    using assms by (simp add: check_naming_def)
  then obtain s where "field kvs ''suffix'' = Some (JStr s)" "s = [] \<or> s \<in> rx_lang namingSuffix"
    by (auto simp: requireString_Nil)
  then show ?thesis by (auto simp: namingSuffix_def of_length_def maybe_def between_length)
qed

definition profile_ok :: "json \<Rightarrow> bool" where
  "profile_ok profile = (fields_of (opt_field (Some profile) ''gateway'') \<noteq> None \<and> fields_of (opt_field (Some profile) ''redis'') \<noteq> None)"

lemma js_get_object [simp]: "js_get (Some (JObj kvs)) k = Inr (field kvs k)"
  by (simp add: js_get_def opt_field_def)

lemma bind_Inr [simp]: "bind_result (Inr v) f = f v"
  by (simp add: bind_result_def)

lemma js_read_section:
  "field config a = Some (JObj kvs) \<Longrightarrow> js_read (Some (JObj config)) (a # ks) = js_read (Some (JObj kvs)) ks"
  by simp

lemma valid_names:
  assumes "valid num_str parse config"
  shows "\<exists>ns. releaseNames num_str (Some (JObj config)) = Inr ns \<and> length (nm_redisRelease ns) \<le> 53 \<and> length (nm_release ns) \<le> 53"
proof -
  obtain e where e: "field config ''environment'' = Some (JObj e)" "check_environment e = []"
    using valid_sections(1) [OF assms] by blast
  obtain n where n: "field config ''naming'' = Some (JObj n)" "check_naming n = []"
    using valid_sections(2) [OF assms] by blast
  obtain s where s: "field e ''name'' = Some (JStr s)" "length s \<le> 10" using environment_name [OF e(2)] by blast
  obtain t where t: "field n ''suffix'' = Some (JStr t)" "length t \<le> 27" using naming_suffix [OF n(2)] by blast
  show ?thesis using e n s t by (simp add: releaseNames_def opt_text_def Let_def)
qed

lemmas reading = is_truthy_def equals_text_def returns_either

lemma valid_renders:
  assumes v: "valid num_str parse config" and p: "profile_ok profile"
  shows "returns (renderValues num_str (Some (JObj config)) (Some profile))"
    and "returns (renderManagedRedis num_str (Some (JObj config)) (Some profile))"
proof -
  note S = valid_sections [OF v]
  obtain e n pa i k where s1: "field config ''environment'' = Some (JObj e)" "field config ''naming'' = Some (JObj n)"
    "field config ''paths'' = Some (JObj pa)" "field config ''image'' = Some (JObj i)" "field config ''kubernetes'' = Some (JObj k)"
    using S(1-5) by blast
  obtain r g ob rs nw where s2: "field config ''redis'' = Some (JObj r)" "check_redis r = []" "field config ''ingress'' = Some (JObj g)"
    "field config ''observability'' = Some (JObj ob)" "check_observability num_str parse ob = []"
    "field config ''resources'' = Some (JObj rs)" "field config ''networking'' = Some (JObj nw)"
    using S(6-10) by blast
  obtain pg pr where pf: "opt_field (Some profile) ''gateway'' = Some (JObj pg)" "opt_field (Some profile) ''redis'' = Some (JObj pr)"
    using p by (auto simp: profile_ok_def elim!: fields_of.elims)
  then have pf': "js_get (Some profile) ''gateway'' = Inr (Some (JObj pg))" "js_get (Some profile) ''redis'' = Inr (Some (JObj pr))"
    by (auto simp: js_get_def opt_field_def)
  obtain l1 l2 where l: "field ob ''otlpEgressNamespaceLabels'' = Some (JObj l1)" "field ob ''otlpEgressPodLabels'' = Some (JObj l2)"
    using otlp_labels [OF s2(5)] by blast
  obtain mi where mi: "field r ''managedImages'' = Some (JObj mi)" using redis_images(1) [OF s2(2)] by blast
  obtain ns where ns: "releaseNames num_str (Some (JObj config)) = Inr ns" using valid_names [OF v] by blast
  have port: "field r ''mode'' = Some (JStr ''external'') \<Longrightarrow> \<exists>ep. parseRedisEndpoint (field r ''externalEndpoint'') = Some ep"
    using redis_images(2) [OF s2(2)] .
  show "returns (renderValues num_str (Some (JObj config)) (Some profile))"
    using port by (auto simp: renderValues_def value_members_def ns s1 s2 pf' l gateway_values_def ingressRoute_values_def observability_values_def
      resources_values_def redis_values_def networkPolicy_values_def label_selector_def reading Let_def)
  show "returns (renderManagedRedis num_str (Some (JObj config)) (Some profile))"
    by (simp add: renderManagedRedis_def ns s1 s2 pf' mi managed_chart_values_def acl_values_def reading Let_def)
qed

section \<open>Members of a plan\<close>

lemma members_keys: "members ms = Inr kvs \<Longrightarrow> distinct (map fst ms) \<Longrightarrow> set (map fst kvs) \<subseteq> set (map fst ms) \<and> distinct (map fst kvs)"
proof (induction ms arbitrary: kvs rule: members.induct)
  case (2 k r rest)
  then obtain v lvs where "r = Inr v" "members rest = Inr lvs" "kvs = (case v of None \<Rightarrow> lvs | Some j \<Rightarrow> (k, j) # lvs)"
    by (auto simp: bind_result_Inr_conv)
  then show ?case using 2 by (cases v) force+
qed simp

lemma members_field:
  "members ms = Inr kvs \<Longrightarrow> distinct (map fst ms) \<Longrightarrow> (k, Inr v) \<in> set ms \<Longrightarrow> field kvs k = v"
proof (induction ms arbitrary: kvs rule: members.induct)
  case (2 l r rest)
  then obtain u lvs where u: "r = Inr u" "members rest = Inr lvs" "kvs = (case u of None \<Rightarrow> lvs | Some j \<Rightarrow> (l, j) # lvs)"
    by (auto simp: bind_result_Inr_conv)
  show ?case
  proof (cases "l = k")
    case True
    then have "u = v" using 2(3,4) u(1) by force
    moreover have "k \<notin> set (map fst lvs)" using members_keys [OF u(2)] 2(3) True by auto
    then have "field lvs k = None" by (simp add: map_of_eq_None_iff)
    ultimately show ?thesis using u(3) True by (cases v) auto
  next
    case False
    then have "field lvs k = v" using 2 u by auto
    then show ?thesis using u(3) False by (cases u) auto
  qed
qed simp

lemma literal_read:
  assumes "as_stable (object_literal ms) = Inr (Some plan)" "distinct (map fst ms)" "(k, Inr v) \<in> set ms"
  shows "opt_field (Some plan) k = map_option stable v"
proof -
  obtain kvs where kvs: "members ms = Inr kvs" "plan = stable (JObj kvs)"
    using assms(1) by (auto simp: as_stable_def object_literal_def bind_result_Inr_conv)
  then show ?thesis
    using members_keys [OF kvs(1) assms(2)] members_field [OF kvs(1) assms(2,3)] by (simp add: stable_read)
qed

lemma filter_key_fromEntries: "filter (\<lambda>y. k = fst y) (fromEntries xs) = filter (\<lambda>y. k = fst y) xs"
proof -
  have same: "sort_key (\<lambda>(k, v). digits_value 10 k) (filter (\<lambda>y. k = fst y) ys) = filter (\<lambda>y. k = fst y) ys"
    for ys :: fields
    by (induction ys) (auto intro!: insort_is_Cons)
  have "filter (\<lambda>x. (case x of (l, v) \<Rightarrow> is_index l) \<and> k = fst x) xs = (if is_index k then filter (\<lambda>y. k = fst y) xs else [])"
    and "filter (\<lambda>x. (case x of (l, v) \<Rightarrow> \<not> is_index l) \<and> k = fst x) xs = (if is_index k then [] else filter (\<lambda>y. k = fst y) xs)"
    by (induction xs) auto
  then show ?thesis by (simp add: fromEntries_def filter_sort same)
qed

lemma canonical_idem: "canonical (canonical xs) = canonical xs"
proof -
  have "sort_key fst (fromEntries (sort_key fst xs)) = sort_key fst xs"
    by (rule properties_for_sort_key) (simp_all add: mset_fromEntries filter_key_fromEntries)
  then show ?thesis by (simp add: canonical_def)
qed

lemma stable_idem: "stable (stable v) = stable v"
proof (induction v rule: stable.induct)
  case (2 kvs)
  let ?c = "canonical (stable_members kvs)"
  have "set ?c = set (stable_members kvs)" by (metis mset_canonical mset_eq_setD)
  moreover have "x \<in> set (stable_members kvs) \<Longrightarrow> (case x of (k, v) \<Rightarrow> (k, stable v)) = x" for x using 2 by auto
  ultimately have "stable_members ?c = ?c" by (intro map_idI) blast
  then show ?case by (simp add: stable_object canonical_idem)
qed auto

definition json_at :: "json \<Rightarrow> string list \<Rightarrow> jsopt" where
  "json_at j ks = foldl opt_field (Some j) ks"

lemma digest_stable:
  "deploymentValuesSha256 num_str sha256 (stable v) (stable r) = deploymentValuesSha256 num_str sha256 v r"
  by (simp add: deploymentValuesSha256_def stableJson_def stable_object stable_idem)

lemma as_stable_fixed: "as_stable r = Inr v \<Longrightarrow> map_option stable v = v"
  by (auto simp: as_stable_def bind_result_Inr_conv stable_idem map_option.compositionality comp_def)

lemma renderManagedRedis_fixed: "renderManagedRedis num_str cfg prof = Inr v \<Longrightarrow> map_option stable v = v"
  by (auto simp: renderManagedRedis_def either_def bind_result_Inr_conv Let_def split: if_splits dest: as_stable_fixed)

lemma literal_Some: "object_literal ms = Inr v \<Longrightarrow> \<exists>kvs. v = Some (JObj kvs)"
  by (auto simp: object_literal_def bind_result_Inr_conv)

lemma as_stable_Some: "as_stable (object_literal ms) = Inr v \<Longrightarrow> \<exists>j. v = Some j"
  by (auto simp: as_stable_def bind_result_Inr_conv dest: literal_Some)

lemma rendered_Some:
  "renderValues num_str cfg prof = Inr v \<Longrightarrow> \<exists>j. v = Some j \<and> stable j = j"
  "renderManagedRedis num_str cfg prof = Inr v \<Longrightarrow> \<exists>j. v = Some j \<and> stable j = j"
proof -
  assume "renderValues num_str cfg prof = Inr v"
  then obtain ms where "as_stable (object_literal ms) = Inr v" by (auto simp: renderValues_def bind_result_Inr_conv Let_def)
  then show "\<exists>j. v = Some j \<and> stable j = j" using as_stable_Some as_stable_fixed by fastforce
next
  assume r: "renderManagedRedis num_str cfg prof = Inr v"
  then have "\<exists>j. v = Some j"
    by (auto simp: renderManagedRedis_def either_def bind_result_Inr_conv Let_def split: if_splits dest!: as_stable_Some)
  then show "\<exists>j. v = Some j \<and> stable j = j" using renderManagedRedis_fixed [OF r] by auto
qed

lemma valid_plan_members:
  assumes v: "valid num_str parse config" and p: "profile_ok profile"
  shows "returns (object_literal (plan_members num_str sha256 action (js_read (Some (JObj config))) (js_read (Some profile))
    opts ns changeClass gateway managedRedis))"
proof -
  note S = valid_sections [OF v]
  obtain e k r where s: "field config ''environment'' = Some (JObj e)" "field config ''kubernetes'' = Some (JObj k)"
    "field config ''redis'' = Some (JObj r)"
    using S(1,5,6) by blast
  obtain kvs pg pr where "profile = JObj kvs" "field kvs ''gateway'' = Some (JObj pg)" "field kvs ''redis'' = Some (JObj pr)"
    using p by (auto simp: profile_ok_def opt_field_def elim!: fields_of.elims split: option.splits)
  with s show ?thesis
    by (simp add: plan_members_def target_values_def topology_values_def reading)
qed

lemma nested_read:
  assumes "as_stable (object_literal ms) = Inr (Some plan)" "distinct (map fst ms)" "(k, object_literal ls) \<in> set ms"
    and "returns (object_literal ls)" "distinct (map fst ls)" "(l, Inr v) \<in> set ls"
  shows "json_at plan [k, l] = map_option stable v"
proof -
  obtain j where j: "object_literal ls = Inr (Some j)" using assms(4) literal_Some by (metis returns_def)
  then have "as_stable (object_literal ls) = Inr (Some (stable j))" by (simp add: as_stable_def)
  from literal_read [OF this assms(5,6)] literal_read [OF assms(1,2), of k "Some j"] assms(3) j
  show ?thesis by (simp add: json_at_def)
qed

lemma valid_builds:
  assumes "valid num_str parse config" and "profile_ok profile" and "action \<in> set actions"
  shows "\<exists>ns gateway managed plan. releaseNames num_str (Some (JObj config)) = Inr ns
    \<and> length (nm_redisRelease ns) \<le> 53 \<and> length (nm_release ns) \<le> 53
    \<and> renderValues num_str (Some (JObj config)) (Some profile) = Inr (Some gateway) \<and> stable gateway = gateway
    \<and> renderManagedRedis num_str (Some (JObj config)) (Some profile) = Inr (Some managed) \<and> stable managed = managed
    \<and> buildPlan num_str sha256 action (Some (JObj config)) (Some profile) opts = Inr (Some plan)
    \<and> as_stable (object_literal (plan_members num_str sha256 action (js_read (Some (JObj config))) (js_read (Some profile)) opts ns
        (change_class action (po_previousTopology opts) (field config ''topology'')) (Some gateway) (Some managed))) = Inr (Some plan)"
proof -
  obtain ns where ns: "releaseNames num_str (Some (JObj config)) = Inr ns" "length (nm_redisRelease ns) \<le> 53"
    "length (nm_release ns) \<le> 53"
    using valid_names [OF assms(1)] by blast
  obtain gateway where V: "renderValues num_str (Some (JObj config)) (Some profile) = Inr (Some gateway)" "stable gateway = gateway"
    using valid_renders(1) [OF assms(1,2)] rendered_Some(1) by (metis returns_def)
  obtain managed where M: "renderManagedRedis num_str (Some (JObj config)) (Some profile) = Inr (Some managed)" "stable managed = managed"
    using valid_renders(2) [OF assms(1,2)] rendered_Some(2) by (metis returns_def)
  define ms where "ms = plan_members num_str sha256 action (js_read (Some (JObj config))) (js_read (Some profile)) opts ns
    (change_class action (po_previousTopology opts) (field config ''topology'')) (Some gateway) (Some managed)"
  have b: "buildPlan num_str sha256 action (Some (JObj config)) (Some profile) opts = as_stable (object_literal ms)"
    using assms(3) by (simp add: buildPlan_def guard_def ns V M ms_def)
  have "returns (object_literal ms)" unfolding ms_def using assms(1,2) by (rule valid_plan_members)
  then obtain plan where "as_stable (object_literal ms) = Inr (Some plan)"
    by (metis as_stable_Some returns_def returns_stable)
  then show ?thesis
    using ns V M b unfolding ms_def by (intro exI [of _ ns] exI [of _ gateway] exI [of _ managed] exI [of _ plan]) simp
qed

end
