(* ===== verification/Bootstrap_Example.thy ===== *)
theory Bootstrap_Example
  imports Bootstrap_Valid
begin

text \<open>
  The configuration \<open>bootstrap/config.example.json\<close> and the profile
  \<open>bootstrap/profiles/non-ha.json\<close> that the repository ships, section by section, and the
  proof that the validation reports no problem for them.
\<close>

section \<open>The shipped files\<close>

definition example_environment :: fields where
  "example_environment = [
    (''name'', JStr ''dev''), (''class'', JStr ''development'')]"

definition example_naming :: fields where
  "example_naming = [
    (''suffix'', JStr [])]"

definition example_paths :: fields where
  "example_paths = [
    (''environmentDirectory'', JStr ''.bootstrap/env/{environment}''),
    (''generatedDirectory'', JStr ''.bootstrap/env/{environment}/lifecycle''),
    (''backupDirectory'', JStr ''.backups/bootstrap/{environment}''),
    (''logDirectory'', JStr ''.bootstrap/env/{environment}/logs'')]"

definition example_image :: fields where
  "example_image = [
    (''repository'', JStr ''registry.example.com/realtime/realtime-gateway''), (''tag'', JStr ''1.1.0-beta''),
    (''digest'', JStr []), (''pullPolicy'', JStr ''IfNotPresent''), (''pullSecretName'', JStr [])]"

definition example_kubernetes :: fields where
  "example_kubernetes = [
    (''context'', JStr ''kind-example''), (''namespace'', JStr ''dev-realtime''),
    (''storageClass'', JStr ''example-storage''), (''failureDomains'', JNum 3)]"

definition example_networking :: fields where
  "example_networking = [
    (''traefikNamespace'', JStr ''traefik''), (''traefikService'', JStr ''traefik''),
    (''traefikPodLabels'', JObj [(''app.kubernetes.io/name'', JStr ''traefik'')]),
    (''directIngressNamespaceLabels'', JObj [(''kubernetes.io/metadata.name'', JStr ''dev-realtime'')]),
    (''directIngressPodLabels'', JObj []), (''trustedProxyCidrs'', JArr [JStr ''192.0.2.0/24'']),
    (''metalLbNamespace'', JStr ''metallb-system''), (''metalLbAddress'', JStr ''192.0.2.10''),
    (''advertisementMode'', JStr ''l2'')]"

definition example_images :: fields where
  "example_images = [
    (''allowInsecureRepositories'', JBool True),
    (''redis'', JObj [(''registry'', JStr ''docker.io''), (''repository'', JStr ''bitnamilegacy/redis''), (''tag'', JStr ''8.2.1-debian-12-r0''), (''digest'', JStr ''sha256:25bf63f3caf75af4628c0dfcf39859ad1ac8abe135be85e99699f9637b16dc28'')]),
    (''sentinel'', JObj [(''registry'', JStr ''docker.io''), (''repository'', JStr ''bitnamilegacy/redis-sentinel''), (''tag'', JStr ''8.2.1-debian-12-r0''), (''digest'', JStr ''sha256:0ca3ea1d2f823c2d9265e0d9e682dc435f219f8d3385aed75b5bb0f365f516a9'')]),
    (''exporter'', JObj [(''registry'', JStr ''docker.io''), (''repository'', JStr ''bitnamilegacy/redis-exporter''), (''tag'', JStr ''1.76.0-debian-12-r0''), (''digest'', JStr ''sha256:d111b8a14d96f7edd67324776d6801b76023035d9390d03fbb13d1c21bda8b88'')])]"

definition example_redis :: fields where
  "example_redis = [
    (''mode'', JStr ''managed''), (''externalEndpoint'', JStr []), (''externalHaConfirmed'', JBool False),
    (''externalEgressCidrs'', JArr []), (''tls'', JBool False), (''credentialsSecret'', JStr ''dev-realtime-redis''),
    (''credentialKey'', JStr ''realtime''), (''adminCredentialKey'', JStr ''redis-password''),
    (''instancePrefix'', JStr ''realtime:dev''),
    (''managedChart'', JStr ''oci://registry-1.docker.io/bitnamicharts/redis''),
    (''managedChartVersion'', JStr ''23.1.1''),
    (''managedChartArchiveSha256'', JStr ''sha256:05665707e771f9ed843842d3ebacb992ef1c4089f138b9711446b37db76ad60a''),
    (''managedImagePullSecrets'', JArr []), (''managedImages'', JObj example_images),
    (''legacyManagedChart'', JStr ''oci://registry-1.docker.io/bitnamicharts/redis'')]"

definition example_ingress :: fields where
  "example_ingress = [
    (''enabled'', JBool False), (''host'', JStr ''realtime.example.test''),
    (''allowedOrigins'', JArr [JStr ''https://realtime.example.test'']), (''entryPoint'', JStr ''websecure''),
    (''webSocketPath'', JStr ''/realtime/ws''), (''httpFallbackPath'', JStr ''/realtime/http''),
    (''tlsSecretName'', JStr ''dev-realtime-tls''), (''certificateName'', JStr [])]"

definition example_observability :: fields where
  "example_observability = [
    (''cluster'', JStr ''kind-example''), (''serviceMonitor'', JBool True),
    (''monitoringNamespaceLabels'', JObj [(''kubernetes.io/metadata.name'', JStr ''monitoring'')]),
    (''monitoringPodLabels'', JObj [(''app.kubernetes.io/name'', JStr ''prometheus'')]), (''otlpEndpoint'', JStr []),
    (''otlpHeadersSecret'', JStr []), (''otlpHeadersKey'', JStr ''headers''), (''otlpEgressCidrs'', JArr []),
    (''otlpEgressNamespaceLabels'', JObj []), (''otlpEgressPodLabels'', JObj []),
    (''otlpEgressPorts'', JArr [JNum 4317, JNum 4318, JNum 443])]"

definition example_resources :: fields where
  "example_resources = [
    (''gatewayCpu'', JStr ''250m''), (''gatewayMemory'', JStr ''256Mi''), (''redisStorage'', JStr ''8Gi'')]"

definition example_persistence :: fields where
  "example_persistence = [
    (''enabled'', JBool False), (''provider'', JStr ''PostgreSql''), (''customProviderImage'', JBool False),
    (''tableName'', JStr ''realtime_records''), (''commandTimeoutSeconds'', JNum 30),
    (''connectionSecret'', JObj [(''name'', JStr []), (''key'', JStr ''connection-string'')]),
    (''api'', JObj [(''enabled'', JBool False), (''basePath'', JStr ''/realtime/persistence''), (''workerTokenSecret'', JObj [(''name'', JStr []), (''key'', JStr ''token'')]), (''workerNamespaceSelector'', JObj []), (''workerPodSelector'', JObj [])]),
    (''setupJob'', JObj [(''enabled'', JBool False), (''backoffLimit'', JNum 2), (''activeDeadlineSeconds'', JNum 300)]),
    (''storage'', JObj [(''existingClaim'', JStr []), (''mountPath'', JStr ''/var/lib/realtime'')]),
    (''egress'', JObj [(''namespaceSelector'', JObj []), (''podSelector'', JObj []), (''cidrs'', JArr []), (''ports'', JArr [])])]"

definition example_config :: fields where
  "example_config = [
    (''schemaVersion'', JNum 2),
    (''environment'', JObj example_environment),
    (''naming'', JObj example_naming),
    (''paths'', JObj example_paths),
    (''image'', JObj example_image),
    (''kubernetes'', JObj example_kubernetes),
    (''networking'', JObj example_networking),
    (''redis'', JObj example_redis),
    (''ingress'', JObj example_ingress),
    (''observability'', JObj example_observability),
    (''resources'', JObj example_resources),
    (''topology'', JStr ''non-ha''),
    (''persistence'', JObj example_persistence)]"

definition example_profile :: json where
  "example_profile = JObj [
     (''gateway'', JObj [(''replicas'', JNum 1), (''autoscaling'', JObj [(''enabled'', JBool False), (''minReplicas'', JNum 1), (''maxReplicas'', JNum 1)]), (''podDisruptionBudget'', JObj [(''enabled'', JBool False), (''minAvailable'', JNum 0)]), (''topologySpread'', JBool False), (''zoneWhenUnsatisfiable'', JStr ''ScheduleAnyway''), (''maxUnavailable'', JNum 1), (''maxSurge'', JNum 0)]),
     (''redis'', JObj [(''managedArchitecture'', JStr ''standalone''), (''replicas'', JNum 0), (''sentinel'', JBool False)]),
     (''minimumFailureDomains'', JNum 1),
     (''guarantees'', JObj [(''availability'', JStr ''Single gateway and Redis instance; pod, node, storage, ingress, and maintenance outages interrupt service.''), (''upgrades'', JStr ''Downtime is expected during rollout.''), (''durability'', JStr ''Persistence reduces data loss risk but provides no replica failover. Pub/Sub events are not durable.'')])]"

text \<open>A parser that knows the one origin of the file, and a printer of its numbers.\<close>

definition example_url :: full_parser where
  "example_url s = (if s = ''https://realtime.example.test''
     then Some \<lparr>fu_protocol = ''https:'', fu_username = [], fu_password = [], fu_search = [], fu_hash = [], fu_port = []\<rparr>
     else None)"

definition example_number :: "rat \<Rightarrow> string" where
  "example_number x = int_str \<lfloor>x\<rfloor>"

section \<open>No problems\<close>

lemmas format_defs = environmentName_def namingSuffix_def dnsLabel_def dnsSubdomain_def inner_label_def labelName_def
  registryRepository_def registry_host_def repository_part_def imageTag_def imageRegistry_def imageRepository_def
  sha256Digest_def secretKey_def redisPrefix_def quantity_def memoryQuantity_def storageQuantity_def
  environmentPathSegment_def directory_path_def bootstrapPath_def backupPath_def logPath_def windowsDeviceName_def
  lower_digit_def ociChart_def chartVersion_def ingressHost_def originPattern_def pathPattern_def

lemmas eval_section = requireKeys_def requireString_def requireRecord_def report_def string_in_def isValidEnvironmentName_def
  is_integral_def format_defs rx_eval

lemma example_environment_ok: "check_environment example_environment = []"
  by (simp add: check_environment_def example_environment_def eval_section del: rx_off)

lemma example_naming_ok: "check_naming example_naming = []"
  by (simp add: check_naming_def example_naming_def eval_section del: rx_off)

lemma example_paths_ok: "check_paths example_environment example_paths = []"
  by (simp add: check_paths_def example_environment_def example_paths_def coalesce_def matched_path_def check_inside_def
      pathIsWithin_def Let_def eval_section del: rx_off)

lemma example_image_ok: "check_image example_image = []"
  by (simp add: check_image_def example_image_def eval_section del: rx_off)

lemma example_kubernetes_ok: "check_kubernetes example_kubernetes = []"
  by (simp add: check_kubernetes_def example_kubernetes_def eval_section del: rx_off)

lemma example_resources_ok: "check_resources example_resources = []"
  by (simp add: check_resources_def example_resources_def eval_section del: rx_off)

lemma example_connection_ok: "check_redis_connection example_redis = []"
  by (simp add: check_redis_connection_def example_redis_def bad_cidrs_def items_or_none_def Let_def eval_section del: rx_off)

lemma example_credentials_ok: "check_redis_credentials example_redis = []"
  by (simp add: check_redis_credentials_def example_redis_def eval_section del: rx_off)

lemma example_images_ok: "check_managed_images (Some (JObj example_images)) = []"
  by (simp add: check_managed_images_def example_images_def validateContainerImage_def eval_section del: rx_off)

lemma example_redis_ok: "check_redis example_redis = []"
proof -
  have "field example_redis ''managedImages'' = Some (JObj example_images)" by (simp add: example_redis_def)
  moreover have "check_pull_secrets (field example_redis ''managedImagePullSecrets'') = []"
    by (simp add: example_redis_def check_pull_secrets_def items_or_none_def report_def)
  moreover have "requireString (field example_redis ''legacyManagedChart'') path (Some ociChart) False = []" for path
    by (simp add: example_redis_def eval_section del: rx_off)
  moreover have "requireKeys example_redis ''$.redis'' [''mode'', ''externalEndpoint'', ''externalHaConfirmed'', ''externalEgressCidrs'', ''tls'',
       ''credentialsSecret'', ''credentialKey'', ''adminCredentialKey'', ''instancePrefix'', ''managedChart'',
       ''managedChartVersion'', ''managedChartArchiveSha256'', ''managedImages'', ''legacyManagedChart''] [''managedImagePullSecrets''] = []"
    by (simp add: example_redis_def requireKeys_def report_def)
  ultimately show ?thesis
    by (simp add: check_redis_def example_connection_ok example_credentials_ok example_images_ok)
qed

lemma example_ingress_ok: "check_ingress example_url example_ingress = []"
  by (simp add: check_ingress_def example_ingress_def check_origins_def check_origin_def check_ingress_paths_def items_or_none_def
      example_url_def lowered_def toLowerCase_def reservedWebSocketPaths_def Let_def eval_section del: rx_off)

lemma example_observability_ok: "check_observability example_number example_url example_observability = []"
  by (simp add: check_observability_def check_monitoring_def check_otlp_egress_def check_endpoint_text_def example_observability_def
      bad_cidrs_def items_or_none_def valid_ports_def validateLabels_def isLabelKey_def isLabelValue_def Let_def eval_section del: rx_off)

lemma exactly_3: "exactly 3 r = Cat r (Cat r (Cat r Nothing))"
  by (simp add: numeral_3_eq_3)

lemma digit_values [simp]: "digit_value CHR ''0'' = 0" "digit_value CHR ''1'' = 1" "digit_value CHR ''2'' = 2"
  "digit_value CHR ''4'' = 4" "digit_value CHR ''9'' = 9"
  by (simp_all add: digit_value_def rx_eval)

lemma example_addresses: "isIP ''192.0.2.10'' = 4" "isIP ''192.0.2.0'' = 4"
  by (simp_all add: isIP_def v4_address_def v4_segment_def exactly_3 rx_eval del: rx_off)

lemma num_24: "num 24 = Fin 24"
  using fl_of_int [of 24] by (simp add: num_def)

lemma example_cidr: "isCidr (Some (JStr ''192.0.2.0/24''))"
  by (simp add: isCidr_def split_last_def js_number_def signed_number_def decimal_number_def exponent_part_def digits_value_def
      num_24 example_addresses trim_def trimStart_def js_space_def startsWith_def is_integral_def rx_eval del: rx_off)

lemma example_networking_ok: "check_networking example_ingress example_networking = []"
proof -
  have "bad_cidrs (field example_networking ''trustedProxyCidrs'') = False"
    "items_or_none (field example_networking ''trustedProxyCidrs'') \<noteq> []"
    by (simp_all add: example_networking_def bad_cidrs_def items_or_none_def example_cidr)
  moreover have "check_network_labels example_ingress example_networking = []"
    by (simp add: check_network_labels_def example_networking_def example_ingress_def validateLabels_def isLabelKey_def
        isLabelValue_def Let_def eval_section del: rx_off)
  ultimately show ?thesis
    by (simp add: check_networking_def)
       (simp add: example_networking_def example_addresses eval_section del: rx_off)
qed

lemma example_topology_ok: "check_topology example_number (Some (JStr ''non-ha'')) example_kubernetes example_redis = []"
  by (simp add: check_topology_def string_in_def report_def)

lemma example_persistence_ok: "validatePersistence (JObj example_persistence) topology = []"
  by (simp add: validatePersistence_def example_persistence_def persistenceSchema_def secretSchema_def apiSchema_def
      setupJobSchema_def storageSchema_def egressSchema_def check_selector_def opt_field_def starts_with_def Let_def eval_section
      del: rx_off)

lemma reject_member:
  "rejectInlineSecrets (JObj []) path = []"
  "rejectInlineSecrets (JObj ((key, u) # kvs)) path =
     (if if rx_match secretValueKey key then isSecretReferenceField key path else True
      then rejectInlineSecrets u (path @ ''.'' @ key) @ rejectInlineSecrets (JObj kvs) path
      else [problem (path @ ''.'' @ key) ''inline secret values are forbidden; configure a Secret name and key'']
        @ rejectInlineSecrets u (path @ ''.'' @ key) @ rejectInlineSecrets (JObj kvs) path)"
  "rejectInlineSecrets (JStr s) path = []" "rejectInlineSecrets (JNum x) path = []" "rejectInlineSecrets (JBool b) path = []"
  "rejectInlineSecrets (JArr js) path = []"
  by (simp_all add: rejectInlineSecrets.simps [of "JObj kvs" for kvs] report_def del: rx_off)
     (simp_all add: rejectInlineSecrets.simps)

lemmas eval_secrets = reject_member secretValueKey_def isSecretReferenceField_def secret_reference_names_def rx_eval

lemma example_secrets:
  "rejectInlineSecrets (JObj example_environment) ''$.environment'' = []"
  "rejectInlineSecrets (JObj example_naming) ''$.naming'' = []"
  "rejectInlineSecrets (JObj example_paths) ''$.paths'' = []"
  "rejectInlineSecrets (JObj example_image) ''$.image'' = []"
  "rejectInlineSecrets (JObj example_kubernetes) ''$.kubernetes'' = []"
  "rejectInlineSecrets (JObj example_networking) ''$.networking'' = []"
  "rejectInlineSecrets (JObj example_redis) ''$.redis'' = []"
  "rejectInlineSecrets (JObj example_ingress) ''$.ingress'' = []"
  "rejectInlineSecrets (JObj example_observability) ''$.observability'' = []"
  "rejectInlineSecrets (JObj example_resources) ''$.resources'' = []"
  "rejectInlineSecrets (JObj example_persistence) ''$.persistence'' = []"
  by (simp_all add: example_environment_def example_naming_def example_paths_def example_image_def example_kubernetes_def
      example_networking_def example_redis_def example_images_def example_ingress_def example_observability_def
      example_resources_def example_persistence_def eval_secrets split_on.simps del: rx_off)

lemma example_top_ok:
  "rejectInlineSecrets (JObj example_config) ''$'' = []"
  "requireKeys example_config ''$'' topKeys [''persistence''] = []"
  by (simp_all add: example_config_def eval_secrets example_secrets requireKeys_def topKeys_def report_def del: rx_off)

lemma example_sections:
  "field example_config ''environment'' = Some (JObj example_environment)"
    "field example_config ''naming'' = Some (JObj example_naming)" "field example_config ''paths'' = Some (JObj example_paths)"
    "field example_config ''image'' = Some (JObj example_image)" "field example_config ''kubernetes'' = Some (JObj example_kubernetes)"
    "field example_config ''networking'' = Some (JObj example_networking)" "field example_config ''redis'' = Some (JObj example_redis)"
    "field example_config ''ingress'' = Some (JObj example_ingress)" "field example_config ''observability'' = Some (JObj example_observability)"
    "field example_config ''resources'' = Some (JObj example_resources)" "field example_config ''persistence'' = Some (JObj example_persistence)"
    "field example_config ''topology'' = Some (JStr ''non-ha'')" "field example_config ''schemaVersion'' = Some (JNum 2)"
  by (simp_all add: example_config_def)

text \<open>The configuration that the repository ships as an example passes the validation.\<close>

lemma example_valid: "valid example_number example_url example_config"
  by (simp add: valid_def validateConfiguration_def requireRecord_def with_section_Nil example_sections section_of_object
        contractVersion_def report_def example_top_ok example_environment_ok example_naming_ok example_paths_ok example_image_ok
        example_kubernetes_ok example_networking_ok example_redis_ok example_ingress_ok example_observability_ok
        example_resources_ok example_persistence_ok example_topology_ok del: rx_off)

lemma example_profile_ok: "profile_ok example_profile"
  by (simp add: profile_ok_def example_profile_def opt_field_def)

text \<open>
  C23. A configuration without problems yields a plan for every action: \<open>buildPlan\<close> returns,
  whatever the earlier topology, once the profile has its two objects. The names of both releases
  fit the 53 characters of Helm, the plan and the rendered values use the same names, only the
  actions that change the cluster are marked as mutations and require a backup, and the digest in
  the plan is the digest of the values that the plan carries.\<close>
theorem valid_plan:
  assumes "valid num_str parse config" and "profile_ok profile" and "action \<in> set actions"
  shows "\<exists>ns plan gateway managedRedis.
    releaseNames num_str (Some (JObj config)) = Inr ns \<and> length (nm_release ns) \<le> 53 \<and> length (nm_redisRelease ns) \<le> 53
    \<and> buildPlan num_str sha256 action (Some (JObj config)) (Some profile) opts = Inr (Some plan)
    \<and> json_at plan [''target'', ''release''] = Some (JStr (nm_release ns))
    \<and> json_at plan [''values'', ''fullnameOverride''] = Some (JStr (nm_release ns))
    \<and> json_at plan [''safety'', ''mutation''] = Some (JBool (action \<in> set mutating_actions))
    \<and> json_at plan [''safety'', ''requiresBackup''] = Some (JBool (action \<in> set mutating_actions))
    \<and> json_at plan [''values''] = Some gateway \<and> json_at plan [''managedRedis''] = Some managedRedis
    \<and> json_at plan [''valuesSha256''] = Some (JStr (deploymentValuesSha256 num_str sha256 gateway managedRedis))"
proof -
  obtain ns gateway managed plan where ns: "releaseNames num_str (Some (JObj config)) = Inr ns" "length (nm_redisRelease ns) \<le> 53"
      "length (nm_release ns) \<le> 53"
    and V: "renderValues num_str (Some (JObj config)) (Some profile) = Inr (Some gateway)" "stable gateway = gateway"
    and M: "renderManagedRedis num_str (Some (JObj config)) (Some profile) = Inr (Some managed)" "stable managed = managed"
    and b: "buildPlan num_str sha256 action (Some (JObj config)) (Some profile) opts = Inr (Some plan)"
    and plan: "as_stable (object_literal (plan_members num_str sha256 action (js_read (Some (JObj config))) (js_read (Some profile)) opts ns
      (change_class action (po_previousTopology opts) (field config ''topology'')) (Some gateway) (Some managed))) = Inr (Some plan)"
      (is "as_stable (object_literal ?ms) = _")
    using valid_builds [OF assms] by metis
  define ms where "ms = ?ms"
  note plan = plan [folded ms_def]
  have d: "distinct (map fst ms)" by (simp add: ms_def plan_members_def)
  note read = literal_read [OF plan d]
  have "json_at plan [''values''] = Some gateway" "json_at plan [''managedRedis''] = Some managed"
    "json_at plan [''valuesSha256''] = Some (JStr (deploymentValuesSha256 num_str sha256 gateway managed))"
    using read [of "''values''" "Some gateway"] read [of "''managedRedis''" "Some managed"]
      read [of "''valuesSha256''" "Some (JStr (deploymentValuesSha256 num_str sha256 gateway managed))"]
    by (simp_all add: json_at_def ms_def plan_members_def V M)
  moreover have "opt_field (Some plan) ''safety'' = Some (stable (safety_values action opts
      (change_class action (po_previousTopology opts) (field config ''topology''))))"
    using read [of "''safety''"] by (simp add: ms_def plan_members_def)
  then have "json_at plan [''safety'', ''mutation''] = Some (JBool (action \<in> set mutating_actions))"
    "json_at plan [''safety'', ''requiresBackup''] = Some (JBool (action \<in> set mutating_actions))"
    by (simp_all add: json_at_def safety_values_def Let_def stable_read)
  moreover have "json_at plan [''target'', ''release''] = Some (JStr (nm_release ns))"
    using valid_sections(1,5) [OF assms(1)]
    by (auto simp: ms_def plan_members_def target_values_def intro!: trans [OF nested_read [OF plan d]])
  moreover have "opt_field (Some gateway) ''fullnameOverride'' = Some (JStr (nm_release ns))"
    using V(1) ns(1) by (subst literal_read [of "value_members (js_read (Some (JObj config))) (js_read (Some profile)) ns" _ _
      "Some (JStr (nm_release ns))"]) (simp_all add: renderValues_def value_members_def)
  ultimately show ?thesis
    using ns b by (intro exI [of _ ns] exI [of _ plan] exI [of _ gateway] exI [of _ managed]) (simp add: json_at_def)
qed

theorem valid_plan_witness:
  "\<exists>ns plan gateway managedRedis.
    releaseNames example_number (Some (JObj example_config)) = Inr ns \<and> length (nm_release ns) \<le> 53
    \<and> buildPlan example_number (\<lambda>s. s) ''install'' (Some (JObj example_config)) (Some example_profile)
        \<lparr>po_previousTopology = None, po_dryRun = False, po_timeoutSeconds = Some (JNum 300)\<rparr> = Inr (Some plan)
    \<and> json_at plan [''safety'', ''requiresBackup''] = Some (JBool True)
    \<and> json_at plan [''values''] = Some gateway \<and> json_at plan [''managedRedis''] = Some managedRedis"
  using valid_plan [OF example_valid example_profile_ok, of "''install''" "\<lambda>s. s"
      "\<lparr>po_previousTopology = None, po_dryRun = False, po_timeoutSeconds = Some (JNum 300)\<rparr>"]
  by (auto simp: actions_def mutating_actions_def)

end
