(* ===== verification/Ci_Impact.thy ===== *)
theory Ci_Impact
  imports Js_Access Js_Eval "HOL-Library.Sublist"
begin

text \<open>
  \<open>scripts/ci-impact.mjs\<close>: which jobs of the continuous integration a set of changed paths
  needs, and whether the results of the jobs match that selection. The output of \<open>git\<close> is a
  parameter.
\<close>

section \<open>Jobs\<close>









section \<open>Selection\<close>


definition add_jobs :: "string list \<Rightarrow> string list \<Rightarrow> string list" where
  "add_jobs jobs selected = foldl (\<lambda>sel job. set_add job sel) selected jobs"






section \<open>Changed files\<close>



section \<open>Results\<close>






section \<open>The two commands\<close>



definition select_output :: "(rat \<Rightarrow> string) \<Rightarrow> string list \<Rightarrow> string \<times> string" where
  "select_output num_str selected =
     (''selected='' @ stringify num_str (JArr (map JStr selected)) @ line_break,
      ''### Affected CI jobs'' @ line_break
      @ (if selected \<noteq> [] then separated line_break (map (\<lambda>job. ''- '' @ job) selected) else ''No validation jobs affected.'') @ line_break)"

section \<open>What is selected\<close>


lemma set_add_jobs [simp]: "set (add_jobs jobs selected) = set jobs \<union> set selected"
  by (induction jobs arbitrary: selected) (auto simp: add_jobs_def set_add_def)

















end
