(* ===== verification/Node_Io.thy ===== *)
theory Node_Io
  imports Bootstrap_Plan
begin

text \<open>
  What the scripts use of Node.js: a file system, child processes, the clock, and sequences of
  awaited operations that may throw. A script is a function of the world that returns its result or
  what it throws together with the new world; the world records every command that was run, every
  event that was logged and every path that was changed. Following symbolic links is not modelled:
  an operation that would do it fails. What the platform decides is the record \<open>host\<close>.
\<close>

section \<open>The world\<close>

datatype node = File (contents: string) | Dir | Link

type_synonym files = "(path, node) jsmap"

datatype effect =
    Command (cmd_file: string) (cmd_arguments: "string list") (cmd_stdin: string)
  | Logged (log_time: string) (log_level: string) (log_phase: string) (log_message: string) (log_fields: "(string \<times> json) list")
  | Changed (changed_path: path)

record world =
  wd_files :: files
  wd_effects :: "effect list"
  wd_ticks :: nat \<comment> \<open>how often the clock was read\<close>

record script_error =
  er_message :: string
  er_code :: "string option"
  er_exitCode :: "nat option"

text \<open>A child that a signal ended has no exit code.\<close>

datatype outcome = SpawnFailed string | TimedOut | Exited "nat option" string string \<comment> \<open>exit code and both outputs\<close>

definition code_text :: "nat option \<Rightarrow> string" where
  "code_text code = (case code of None \<Rightarrow> ''null'' | Some n \<Rightarrow> nat_str n)"

record host = platform +
  hs_clock :: "nat \<Rightarrow> nat" \<comment> \<open>\<open>Date.now()\<close> at the n-th read\<close>
  hs_iso :: "nat \<Rightarrow> string"
  hs_hostname :: string
  hs_pid :: nat
  hs_uuid :: "nat \<Rightarrow> string"
  hs_alive :: "rat \<Rightarrow> bool" \<comment> \<open>\<open>process.kill(pid, 0)\<close> succeeds or is not permitted\<close>
  hs_dateparse :: "jsopt \<Rightarrow> nat option" \<comment> \<open>\<open>Date.parse\<close>\<close>
  hs_mtime :: "world \<Rightarrow> path \<Rightarrow> nat"
  hs_errno :: "string \<Rightarrow> path \<Rightarrow> string"
  hs_spawn :: "string \<Rightarrow> string list \<Rightarrow> string \<Rightarrow> world \<Rightarrow> outcome \<times> files"

section \<open>Sequences of operations\<close>

type_synonym 'a io = "world \<Rightarrow> (script_error + 'a) \<times> world"

definition io_return :: "'a \<Rightarrow> 'a io" where
  "io_return x = (\<lambda>w. (Inr x, w))"

definition io_throw :: "script_error \<Rightarrow> 'a io" where
  "io_throw e = (\<lambda>w. (Inl e, w))"

definition io_bind :: "'a io \<Rightarrow> ('a \<Rightarrow> 'b io) \<Rightarrow> 'b io" where
  "io_bind m f = (\<lambda>w. case m w of (Inl e, w') \<Rightarrow> (Inl e, w') | (Inr x, w') \<Rightarrow> f x w')"

abbreviation io_then :: "'a io \<Rightarrow> 'b io \<Rightarrow> 'b io" where
  "io_then m n \<equiv> io_bind m (\<lambda>_. n)"

text \<open>\<open>try { m } catch (error) { h(error) }\<close>, and \<open>finally\<close>, whose own error goes before.\<close>

definition io_catch :: "'a io \<Rightarrow> (script_error \<Rightarrow> 'a io) \<Rightarrow> 'a io" where
  "io_catch m h = (\<lambda>w. case m w of (Inl e, w') \<Rightarrow> h e w' | (Inr x, w') \<Rightarrow> (Inr x, w'))"

definition io_finally :: "'a io \<Rightarrow> unit io \<Rightarrow> 'a io" where
  "io_finally m f = (\<lambda>w. case m w of (r, w') \<Rightarrow> (case f w' of (Inl e, w'') \<Rightarrow> (Inl e, w'') | (Inr _, w'') \<Rightarrow> (r, w'')))"

definition plain_error :: "string \<Rightarrow> script_error" where
  "plain_error m = \<lparr>er_message = m, er_code = None, er_exitCode = None\<rparr>"

definition layoutError :: "string \<Rightarrow> nat \<Rightarrow> script_error" where
  "layoutError m exitCode = \<lparr>er_message = m, er_code = None, er_exitCode = Some exitCode\<rparr>"

abbreviation io_fail :: "string \<Rightarrow> 'a io" where
  "io_fail m \<equiv> io_throw (plain_error m)"

definition io_lift :: "thrown + 'a \<Rightarrow> 'a io" where
  "io_lift r = (case r of Inl e \<Rightarrow> io_fail (message_of e) | Inr x \<Rightarrow> io_return x)"

definition io_when :: "bool \<Rightarrow> unit io \<Rightarrow> unit io" where
  "io_when c m = (if c then m else io_return ())"

fun io_each :: "('a \<Rightarrow> unit io) \<Rightarrow> 'a list \<Rightarrow> unit io" where
  "io_each f [] = io_return ()"
| "io_each f (x # xs) = io_then (f x) (io_each f xs)"

section \<open>Time and logs\<close>

definition io_now :: "'h host_scheme \<Rightarrow> nat io" where
  "io_now H = (\<lambda>w. (Inr (hs_clock H (wd_ticks w)), w\<lparr>wd_ticks := Suc (wd_ticks w)\<rparr>))"

definition io_iso :: "'h host_scheme \<Rightarrow> string io" where
  "io_iso H = io_bind (io_now H) (\<lambda>t. io_return (hs_iso H t))"

definition io_uuid :: "'h host_scheme \<Rightarrow> string io" where
  "io_uuid H = (\<lambda>w. (Inr (hs_uuid H (wd_ticks w)), w\<lparr>wd_ticks := Suc (wd_ticks w)\<rparr>))"

definition io_effect :: "effect \<Rightarrow> unit io" where
  "io_effect e = (\<lambda>w. (Inr (), w\<lparr>wd_effects := wd_effects w @ [e]\<rparr>))"

section \<open>Files\<close>

definition node_at :: "files \<Rightarrow> path \<Rightarrow> node option" where
  "node_at fs p = (if p = [] then Some Dir else map_get fs p)"

text \<open>What stops the walk to the directory of a path.\<close>

fun walk :: "files \<Rightarrow> path \<Rightarrow> string list \<Rightarrow> string option" where
  "walk fs p [] = None"
| "walk fs p [s] = None"
| "walk fs p (s # ss) = (case node_at fs (p @ [s]) of
     None \<Rightarrow> Some ''ENOENT'' | Some (File _) \<Rightarrow> Some ''ENOTDIR'' | Some Link \<Rightarrow> Some ''ELOOP'' | Some Dir \<Rightarrow> walk fs (p @ [s]) ss)"

definition fs_lstat :: "files \<Rightarrow> path \<Rightarrow> string + node" where
  "fs_lstat fs p = (case walk fs [] p of Some code \<Rightarrow> Inl code
     | None \<Rightarrow> (case node_at fs p of None \<Rightarrow> Inl ''ENOENT'' | Some n \<Rightarrow> Inr n))"

definition fs_stat :: "files \<Rightarrow> path \<Rightarrow> string + node" where
  "fs_stat fs p = bind_result (fs_lstat fs p) (\<lambda>n. if n = Link then Inl ''ELOOP'' else Inr n)"

definition fs_read :: "files \<Rightarrow> path \<Rightarrow> string + string" where
  "fs_read fs p = bind_result (fs_stat fs p) (\<lambda>n. case n of File c \<Rightarrow> Inr c | _ \<Rightarrow> Inl ''EISDIR'')"

definition fs_mkdir :: "files \<Rightarrow> path \<Rightarrow> string + files" where
  "fs_mkdir fs p = (case walk fs [] p of Some code \<Rightarrow> Inl code
     | None \<Rightarrow> (case node_at fs p of Some _ \<Rightarrow> Inl ''EEXIST'' | None \<Rightarrow> Inr (map_set p Dir fs)))"

text \<open>With \<open>recursive: true\<close> the missing directories are made one after the other.\<close>

fun fs_mkdirs :: "files \<Rightarrow> path \<Rightarrow> string list \<Rightarrow> string + files" where
  "fs_mkdirs fs p [] = Inr fs"
| "fs_mkdirs fs p (s # ss) = (case node_at fs (p @ [s]) of
     None \<Rightarrow> fs_mkdirs (map_set (p @ [s]) Dir fs) (p @ [s]) ss
   | Some Dir \<Rightarrow> fs_mkdirs fs (p @ [s]) ss
   | Some (File _) \<Rightarrow> Inl (if ss = [] then ''EEXIST'' else ''ENOTDIR'')
   | Some Link \<Rightarrow> Inl ''ELOOP'')"

definition fs_write :: "files \<Rightarrow> path \<Rightarrow> string \<Rightarrow> string + files" where
  "fs_write fs p c = (case walk fs [] p of Some code \<Rightarrow> Inl code
     | None \<Rightarrow> (case node_at fs p of
         Some Dir \<Rightarrow> Inl ''EISDIR'' | Some Link \<Rightarrow> Inl ''ELOOP'' | _ \<Rightarrow> Inr (map_set p (File c) fs)))"

definition below :: "path \<Rightarrow> path \<Rightarrow> bool" where
  "below p q = (take (length p) q = p)"

definition fs_remove :: "files \<Rightarrow> path \<Rightarrow> files" where
  "fs_remove fs p = filter (\<lambda>(q, n). \<not> below p q) fs"

text \<open>A rename moves everything below the path; a file may replace a file.\<close>

definition fs_rename :: "files \<Rightarrow> path \<Rightarrow> path \<Rightarrow> string + files" where
  "fs_rename fs p q =
     bind_result (fs_lstat fs p) (\<lambda>n.
     case walk fs [] q of Some code \<Rightarrow> Inl code
     | None \<Rightarrow>
         if p = q then Inr fs
         else if below p q then Inl ''EINVAL''
         else if n = Dir \<and> (case node_at fs q of Some (File _) \<Rightarrow> True | Some Link \<Rightarrow> True | _ \<Rightarrow> False) then Inl ''ENOTDIR''
         else if n \<noteq> Dir \<and> node_at fs q = Some Dir then Inl ''EISDIR''
         else if node_at fs q = Some Dir \<and> list_ex (\<lambda>(r, m). below q r \<and> r \<noteq> q) fs then Inl ''ENOTEMPTY''
         else Inr (map (\<lambda>(r, m). (if below p r then q @ drop (length p) r else r, m)) (filter (\<lambda>(r, m). r \<noteq> q) fs)))"

text \<open>The entries of a directory.\<close>

definition fs_readdir :: "files \<Rightarrow> path \<Rightarrow> string + (string \<times> node) list" where
  "fs_readdir fs p = bind_result (fs_stat fs p) (\<lambda>n.
     if n = Dir then Inr (map (\<lambda>(q, m). (last q, m)) (filter (\<lambda>(q, m). q \<noteq> [] \<and> butlast q = p) fs)) else Inl ''ENOTDIR'')"

section \<open>Operations on files\<close>

definition sys_error :: "'h host_scheme \<Rightarrow> string \<Rightarrow> path \<Rightarrow> script_error" where
  "sys_error H code p = \<lparr>er_message = hs_errno H code p, er_code = Some code, er_exitCode = None\<rparr>"

definition io_query :: "'h host_scheme \<Rightarrow> (files \<Rightarrow> path \<Rightarrow> string + 'a) \<Rightarrow> path \<Rightarrow> 'a io" where
  "io_query H f p = (\<lambda>w. case f (wd_files w) p of Inl code \<Rightarrow> (Inl (sys_error H code p), w) | Inr x \<Rightarrow> (Inr x, w))"

definition io_update :: "'h host_scheme \<Rightarrow> (files \<Rightarrow> string + files) \<Rightarrow> path \<Rightarrow> unit io" where
  "io_update H f p = (\<lambda>w. case f (wd_files w) of
     Inl code \<Rightarrow> (Inl (sys_error H code p), w)
   | Inr fs \<Rightarrow> (Inr (), w\<lparr>wd_files := fs, wd_effects := wd_effects w @ [Changed p]\<rparr>))"

definition readFile :: "'h host_scheme \<Rightarrow> path \<Rightarrow> string io" where
  "readFile H p = io_query H fs_read p"

definition io_stat :: "'h host_scheme \<Rightarrow> path \<Rightarrow> node io" where
  "io_stat H p = io_query H fs_stat p"

definition io_lstat :: "'h host_scheme \<Rightarrow> path \<Rightarrow> node io" where
  "io_lstat H p = io_query H fs_lstat p"

definition readdir :: "'h host_scheme \<Rightarrow> path \<Rightarrow> (string \<times> node) list io" where
  "readdir H p = io_query H fs_readdir p"

definition mkdir :: "'h host_scheme \<Rightarrow> path \<Rightarrow> unit io" where
  "mkdir H p = io_update H (\<lambda>fs. fs_mkdir fs p) p"

definition mkdirs :: "'h host_scheme \<Rightarrow> path \<Rightarrow> unit io" where
  "mkdirs H p = io_update H (\<lambda>fs. fs_mkdirs fs [] p) p"

definition writeFile :: "'h host_scheme \<Rightarrow> path \<Rightarrow> string \<Rightarrow> unit io" where
  "writeFile H p c = io_update H (\<lambda>fs. fs_write fs p c) p"

definition rename_path :: "'h host_scheme \<Rightarrow> path \<Rightarrow> path \<Rightarrow> unit io" where
  "rename_path H p q = io_then (io_update H (\<lambda>fs. fs_rename fs p q) p) (io_effect (Changed q))"

definition rm_path :: "'h host_scheme \<Rightarrow> path \<Rightarrow> unit io" where
  "rm_path H p = io_update H (\<lambda>fs. Inr (fs_remove fs p)) p" \<comment> \<open>with \<open>force\<close>\<close>

text \<open>Without \<open>recursive\<close> a directory is not removed.\<close>

definition rm_file :: "'h host_scheme \<Rightarrow> path \<Rightarrow> unit io" where
  "rm_file H p = io_update H (\<lambda>fs. if fs_lstat fs p = Inr Dir then Inl ''ERR_FS_EISDIR'' else Inr (fs_remove fs p)) p"

definition copyFile :: "'h host_scheme \<Rightarrow> path \<Rightarrow> path \<Rightarrow> unit io" where
  "copyFile H p q = io_bind (readFile H p) (\<lambda>c. writeFile H q c)"

definition fileExists :: "'h host_scheme \<Rightarrow> path \<Rightarrow> bool io" where
  "fileExists H p = io_catch (io_then (io_stat H p) (io_return True))
     (\<lambda>e. if er_code e = Some ''ENOENT'' then io_return False else io_throw e)"

definition io_readJson :: "'h host_scheme \<Rightarrow> path \<Rightarrow> json io" where
  "io_readJson H p = io_catch (io_bind (readFile H p) (\<lambda>c. io_lift (pf_parse H c)))
     (\<lambda>e. io_fail (''Cannot read JSON from '' @ path_text p @ '': '' @ er_message e))"

definition atomicWrite :: "'h host_scheme \<Rightarrow> path \<Rightarrow> string \<Rightarrow> unit io" where
  "atomicWrite H p content =
     (let temporary = butlast p @ [last p @ ''.'' @ nat_str (hs_pid H) @ ''.tmp''] in
      io_then (mkdirs H (dirname p)) (io_then (writeFile H temporary content) (rename_path H temporary p)))"

section \<open>Child processes\<close>

definition io_spawn :: "'h host_scheme \<Rightarrow> string \<Rightarrow> string list \<Rightarrow> string \<Rightarrow> outcome io" where
  "io_spawn H file arguments stdin = io_then (io_effect (Command file arguments stdin))
     (\<lambda>w. case hs_spawn H file arguments stdin w of (r, fs) \<Rightarrow> (Inr r, w\<lparr>wd_files := fs\<rparr>))"

section \<open>What a script does\<close>

text \<open>Every effect of the operation satisfies the predicate.\<close>

definition only :: "(effect \<Rightarrow> bool) \<Rightarrow> 'a io \<Rightarrow> bool" where
  "only P m = (\<forall>w. \<exists>es. wd_effects (snd (m w)) = wd_effects w @ es \<and> list_all P es)"

named_theorems io_only \<open>effects of operations\<close>

lemma only_return [io_only]: "only P (io_return x)"
  by (simp add: only_def io_return_def)

lemma only_throw [io_only]: "only P (io_throw e)"
  by (simp add: only_def io_throw_def)

lemma only_trans:
  assumes "only P m" and "\<And>x. only P (f x)"
  shows "\<exists>es. wd_effects (snd (f x (snd (m w)))) = wd_effects w @ es \<and> list_all P es"
proof -
  obtain es where es: "wd_effects (snd (m w)) = wd_effects w @ es" "list_all P es" using assms(1) unfolding only_def by blast
  obtain fs where fs: "wd_effects (snd (f x (snd (m w)))) = wd_effects (snd (m w)) @ fs" "list_all P fs"
    using assms(2) unfolding only_def by blast
  from es fs show ?thesis by (intro exI [of _ "es @ fs"]) simp
qed

lemma only_bind [io_only]: "only P m \<Longrightarrow> (\<And>x. only P (f x)) \<Longrightarrow> only P (io_bind m f)"
  unfolding only_def [of P "io_bind m f"]
  by (auto simp: io_bind_def only_def [of P m] split: prod.split sum.split intro: only_trans [of P m f, simplified])
     (metis only_trans snd_conv only_def)+

lemma only_catch [io_only]: "only P m \<Longrightarrow> (\<And>e. only P (h e)) \<Longrightarrow> only P (io_catch m h)"
  unfolding only_def [of P "io_catch m h"]
  by (auto simp: io_catch_def split: prod.split sum.split) (metis only_trans snd_conv only_def)+

lemma only_finally [io_only]: "only P m \<Longrightarrow> only P f \<Longrightarrow> only P (io_finally m f)"
  unfolding only_def [of P "io_finally m f"]
  by (auto simp: io_finally_def split: prod.split sum.split) (metis only_trans [of P m "\<lambda>_. f"] snd_conv)+

lemma only_lift [io_only]: "only P (io_lift r)"
  by (cases r) (simp_all add: io_lift_def only_return only_throw)

lemma only_when [io_only]: "only P m \<Longrightarrow> only P (io_when c m)"
  by (simp add: io_when_def only_return)

lemma only_each [io_only]: "(\<And>x. x \<in> set xs \<Longrightarrow> only P (f x)) \<Longrightarrow> only P (io_each f xs)"
  by (induction xs) (auto intro: io_only)

lemma only_clock [io_only]: "only P (io_now H)" "only P (io_iso H)" "only P (io_uuid H)"
  by (simp_all add: only_def io_now_def io_iso_def io_uuid_def io_bind_def io_return_def)

lemma only_effect [io_only]: "P e \<Longrightarrow> only P (io_effect e)"
  by (simp add: only_def io_effect_def)

lemma only_query [io_only]: "only P (io_query H f p)"
  by (auto simp: only_def io_query_def split: sum.split)

lemma only_update [io_only]: "P (Changed p) \<Longrightarrow> only P (io_update H f p)"
  by (auto simp: only_def io_update_def split: sum.split)

lemma only_reads [io_only]: "only P (readFile H p)" "only P (io_stat H p)" "only P (io_lstat H p)" "only P (readdir H p)"
  by (simp_all add: readFile_def io_stat_def io_lstat_def readdir_def only_query)

lemma only_exists [io_only]: "only P (fileExists H p)"
  by (auto simp: fileExists_def intro!: io_only)

lemma only_readJson [io_only]: "only P (io_readJson H p)"
  by (auto simp: io_readJson_def intro!: io_only)

lemma only_writes [io_only]:
  "P (Changed p) \<Longrightarrow> only P (mkdir H p)" "P (Changed p) \<Longrightarrow> only P (mkdirs H p)" "P (Changed p) \<Longrightarrow> only P (writeFile H p c)"
  "P (Changed p) \<Longrightarrow> only P (rm_path H p)" "P (Changed p) \<Longrightarrow> P (Changed q) \<Longrightarrow> only P (rename_path H p q)"
  "P (Changed q) \<Longrightarrow> only P (copyFile H p q)" "P (Changed p) \<Longrightarrow> only P (rm_file H p)"
  by (auto simp: rm_file_def mkdir_def mkdirs_def writeFile_def rm_path_def rename_path_def copyFile_def intro!: io_only)

lemma only_if [io_only]: "(c \<Longrightarrow> only P m) \<Longrightarrow> (\<not> c \<Longrightarrow> only P n) \<Longrightarrow> only P (if c then m else n)"
  by simp

lemma only_spawn [io_only]: "P (Command file arguments stdin) \<Longrightarrow> only P (io_spawn H file arguments stdin)"
  unfolding io_spawn_def by (intro only_bind only_effect) (auto simp: only_def split: prod.split)

end
