(* ===== verification/Bootstrap_Environment.thy ===== *)
theory Bootstrap_Environment
  imports Node_Io
begin

text \<open>
  \<open>scripts/lib/bootstrap-environment.mjs\<close>: expansion of path templates, and the move of
  bootstrap artifacts into one directory per environment and back. The manifest of a move is the
  record \<open>manifest\<close> while it is being written, and a parsed JSON value where it is read back.
\<close>

section \<open>Names\<close>

definition canonicalEnvironments :: "string list" where
  "canonicalEnvironments = [''dev'', ''test'', ''prod'']"

text \<open>The matches of \<open>/\{([^}]+)\}/g\<close>.\<close>

function path_tokens :: "string \<Rightarrow> string list" where
  "path_tokens s = (case s of
     [] \<Rightarrow> []
   | c # t \<Rightarrow>
       (let token = takeWhile (\<lambda>d. d \<noteq> CHR ''}'') t; r = dropWhile (\<lambda>d. d \<noteq> CHR ''}'') t in
        if c = CHR ''{'' \<and> token \<noteq> [] \<and> r \<noteq> [] then token # path_tokens (tl r) else path_tokens t))"
  by pat_completeness auto
termination
  by (relation "measure length") (auto simp: less_Suc_eq_le intro: le_trans [OF diff_le_self length_dropWhile_le])

declare path_tokens.simps [simp del]

definition expandEnvironmentPath :: "(rat \<Rightarrow> string) \<Rightarrow> jsopt \<Rightarrow> jsopt \<Rightarrow> thrown + string" where
  "expandEnvironmentPath num_str pathTemplate environment = (case jstring pathTemplate of
     None \<Rightarrow> Inl (new_Error ''Environment path template must be a string.'')
   | Some template \<Rightarrow>
       (let unknownTokens = filter (\<lambda>token. token \<noteq> ''environment'') (path_tokens template) in
        bind_result (guard (isValidEnvironmentName environment)
          (new_Error (''Environment '' @ quoted (opt_text num_str environment) @ '' is not a valid bootstrap environment name.''))) (\<lambda>_.
        bind_result (guard (unknownTokens = [])
          (new_Error (''Unsupported bootstrap path token(s): '' @ separated '', '' (new_Set unknownTokens) @ ''.''))) (\<lambda>_.
        Inr (replace_environment (the (jstring environment)) template)))))"

definition dotWords :: "string list" where
  "dotWords = [''bootstrap'', ''config'', ''install'', ''plan'', ''update'', ''validate'']"

text \<open>The first group of \<open>/^(?:word|...)s([a-z0-9]{1,10})(?:\.|$)/\<close>.\<close>

definition artifact_environment :: "string list \<Rightarrow> char \<Rightarrow> string \<Rightarrow> string option" where
  "artifact_environment prefixes separator name =
     (case find (\<lambda>word. startsWith name (word @ [separator])) prefixes of
        None \<Rightarrow> None
      | Some word \<Rightarrow>
          (let t = drop (Suc (length word)) name; group = takeWhile lower_digit t; r = dropWhile lower_digit t in
           if group \<noteq> [] \<and> length group \<le> 10 \<and> (r = [] \<or> hd r = CHR ''.'') then Some group else None))"

definition classifyLegacyBootstrapArtifact :: "string \<Rightarrow> string option" where
  "classifyLegacyBootstrapArtifact name =
     (let m = (case artifact_environment dotWords CHR ''.'' name of
          Some e \<Rightarrow> Some e | None \<Rightarrow> artifact_environment [''gateway'', ''redis''] CHR ''-'' name)
      in if isValidEnvironmentName (map_option JStr m) then m else None)"

section \<open>The lock\<close>

definition two_hours :: nat where
  "two_hours = 2 * 60 * 60 * 1000"

definition processExists :: "'h host_scheme \<Rightarrow> jsopt \<Rightarrow> bool" where
  "processExists H pid = (case pid of Some (JNum x) \<Rightarrow> is_integral x \<and> 1 \<le> x \<and> hs_alive H x | _ \<Rightarrow> False)"

text \<open>The loop over the segments; it ends at the first that does not exist.\<close>

fun symlink_walk :: "'h host_scheme \<Rightarrow> string \<Rightarrow> path \<Rightarrow> string list \<Rightarrow> unit io" where
  "symlink_walk H label current [] = io_return ()"
| "symlink_walk H label current (segment # segments) =
     (let here = resolve current segment in
      io_bind (io_catch
        (io_bind (io_lstat H here) (\<lambda>n.
           if n = Link then io_throw (layoutError (label @ '' cannot traverse symbolic link '' @ quoted (path_text here) @ ''.'') 3)
           else io_return True))
        (\<lambda>e. if er_code e = Some ''ENOENT'' then io_return False else io_throw e))
      (\<lambda>continue. if continue then symlink_walk H label here segments else io_return ()))"

definition assertNoSymlinkSegments :: "'h host_scheme \<Rightarrow> path \<Rightarrow> path \<Rightarrow> bool \<Rightarrow> string \<Rightarrow> unit io" where
  "assertNoSymlinkSegments H base target includeTarget label =
     (let segments = filter (\<lambda>s. s \<noteq> []) (split_on CHR ''/'' (relative base target));
          count = (if includeTarget then length segments else length segments - 1)
      in symlink_walk H label base (take count segments))"

text \<open>The owner of a lock: its token and the text of \<open>owner.json\<close>.\<close>

definition new_owner :: "'h host_scheme \<Rightarrow> (string \<times> string) io" where
  "new_owner H = io_bind (io_iso H) (\<lambda>createdAt. io_bind (io_uuid H) (\<lambda>token.
     io_return (token, stableJson (pf_number H) (JObj [(''createdAt'', JStr createdAt), (''hostname'', JStr (hs_hostname H)),
       (''pid'', JNum (of_nat (hs_pid H))), (''token'', JStr token)]))))"

definition stale_owner :: "'h host_scheme \<Rightarrow> json \<Rightarrow> bool io" where
  "stale_owner H existing =
     io_bind (io_now H) (\<lambda>now.
     io_bind (io_lift (js_get (Some existing) ''createdAt'')) (\<lambda>createdAt.
     io_return (if opt_field (Some existing) ''hostname'' = Some (JStr (hs_hostname H))
       then \<not> processExists H (opt_field (Some existing) ''pid'')
       else case hs_dateparse H createdAt of None \<Rightarrow> False | Some t \<Rightarrow> t + two_hours < now)))"

definition stale_directory :: "'h host_scheme \<Rightarrow> path \<Rightarrow> bool io" where
  "stale_directory H p = io_bind (io_now H) (\<lambda>now. io_then (io_stat H p)
     (\<lambda>w. (Inr (hs_mtime H w p + two_hours < now), w)))"

definition create_lock :: "'h host_scheme \<Rightarrow> path \<Rightarrow> string \<Rightarrow> unit io" where
  "create_lock H lockPath owner = io_then (mkdir H lockPath) (atomicWrite H (resolve lockPath ''owner.json'') owner)"

definition try_lock :: "'h host_scheme \<Rightarrow> path \<Rightarrow> string \<Rightarrow> bool io" where
  "try_lock H lockPath owner = io_catch (io_then (create_lock H lockPath owner) (io_return True))
     (\<lambda>e. if er_code e = Some ''EEXIST'' then io_return False else io_throw e)"

definition held_error :: "path \<Rightarrow> script_error" where
  "held_error lockPath = layoutError (''Another bootstrap environment operation holds the organization lock ''
     @ quoted (path_text lockPath) @ ''.'') 3"

text \<open>The lock of a process that is gone is moved away and made again.\<close>

definition take_over :: "'h host_scheme \<Rightarrow> script_error \<Rightarrow> path \<Rightarrow> string \<Rightarrow> string \<Rightarrow> unit io" where
  "take_over H busy lockPath token owner =
     (let stalePath = butlast lockPath @ [last lockPath @ ''.stale-'' @ token] in
      io_then (io_catch (rename_path H lockPath stalePath)
        (\<lambda>e. if er_code e = Some ''ENOENT'' then io_return () else io_throw e))
      (io_finally (io_catch (create_lock H lockPath owner)
         (\<lambda>e. if er_code e = Some ''EEXIST'' then io_throw busy else io_throw e))
       (rm_path H stalePath)))"

definition acquireOrganizationLock :: "'h host_scheme \<Rightarrow> path \<Rightarrow> (path \<times> string) io" where
  "acquireOrganizationLock H bootstrapRoot =
     (let locksRoot = resolve bootstrapRoot ''locks''; lockPath = resolve locksRoot ''environment-organization'' in
      io_bind (new_owner H) (\<lambda>(token, owner).
      io_then (assertNoSymlinkSegments H bootstrapRoot locksRoot True ''Bootstrap locks root'')
      (io_then (mkdirs H locksRoot)
      (io_bind (try_lock H lockPath owner) (\<lambda>created.
      if created then io_return (lockPath, token)
      else io_bind (io_catch
          (io_bind (readFile H (resolve lockPath ''owner.json'')) (\<lambda>c. io_bind (io_lift (pf_parse H c)) (stale_owner H)))
          (\<lambda>_. stale_directory H lockPath)) (\<lambda>stale.
        if \<not> stale then io_throw (held_error lockPath)
        else io_then (take_over H (held_error lockPath) lockPath token owner) (io_return (lockPath, token))))))))"

definition releaseOrganizationLock :: "'h host_scheme \<Rightarrow> path \<Rightarrow> string \<Rightarrow> unit io" where
  "releaseOrganizationLock H lockPath token = io_catch
     (io_bind (readFile H (resolve lockPath ''owner.json'')) (\<lambda>c.
      io_bind (io_lift (pf_parse H c)) (\<lambda>owner.
      io_bind (io_lift (js_get (Some owner) ''token'')) (\<lambda>t.
      io_when (t = Some (JStr token)) (rm_path H lockPath)))))
     (\<lambda>e. if er_code e = Some ''ENOENT'' then io_return () else io_throw e)"

section \<open>The inventory\<close>

record move =
  mv_environment :: string
  mv_source :: string
  mv_destination :: string

record collision =
  cl_source :: string
  cl_destination :: string
  cl_identical :: bool

record layout =
  ly_moves :: "move list"
  ly_retained :: "(string \<times> string) list" \<comment> \<open>name and reason\<close>
  ly_collisions :: "collision list"

definition portableRelative :: "path \<Rightarrow> path \<Rightarrow> string" where
  "portableRelative p q = map (\<lambda>c. if c = CHR 0x5C then CHR ''/'' else c) (relative p q)"

definition identical_files :: "'h host_scheme \<Rightarrow> path \<Rightarrow> path \<Rightarrow> bool io" where
  "identical_files H source destination =
     io_bind (io_stat H source) (\<lambda>s. io_bind (io_stat H destination) (\<lambda>d.
     case (s, d) of
       (File a, File b) \<Rightarrow>
         if length a = length b
         then io_bind (readFile H source) (\<lambda>x. io_bind (readFile H destination) (\<lambda>y. io_return (pf_sha256 H x = pf_sha256 H y)))
         else io_return False
     | _ \<Rightarrow> io_return False))"

definition inventory_entry :: "'h host_scheme \<Rightarrow> path \<Rightarrow> path \<Rightarrow> string \<times> node \<Rightarrow> layout \<Rightarrow> layout io" where
  "inventory_entry H bootstrapRoot environmentRoot entry ly = (case entry of (name, n) \<Rightarrow>
     (case n of
        File _ \<Rightarrow>
          (case classifyLegacyBootstrapArtifact name of
             None \<Rightarrow> io_return (ly\<lparr>ly_retained := ly_retained ly @ [(name, ''unrecognized'')]\<rparr>)
           | Some environment \<Rightarrow>
               (let source = resolve bootstrapRoot name; destination = resolve (resolve environmentRoot environment) name in
                io_then (io_lift (assertPathInside bootstrapRoot source ''legacy bootstrap artifact''))
                (io_then (io_lift (assertPathInside environmentRoot destination ''environment bootstrap artifact''))
                (io_then (assertNoSymlinkSegments H bootstrapRoot destination False ''Environment bootstrap artifact'')
                (io_bind (fileExists H destination) (\<lambda>present.
                if present
                then io_bind (identical_files H source destination) (\<lambda>identical.
                  io_return (ly\<lparr>ly_collisions := ly_collisions ly @ [\<lparr>cl_source = portableRelative bootstrapRoot source,
                    cl_destination = portableRelative bootstrapRoot destination, cl_identical = identical\<rparr>]\<rparr>))
                else io_return (ly\<lparr>ly_moves := ly_moves ly @ [\<lparr>mv_environment = environment,
                    mv_source = portableRelative bootstrapRoot source,
                    mv_destination = portableRelative bootstrapRoot destination\<rparr>]\<rparr>)))))))
      | _ \<Rightarrow> io_return (ly\<lparr>ly_retained := ly_retained ly @ [(name, ''shared-or-directory'')]\<rparr>)))"

fun inventory_entries :: "'h host_scheme \<Rightarrow> path \<Rightarrow> path \<Rightarrow> (string \<times> node) list \<Rightarrow> layout \<Rightarrow> layout io" where
  "inventory_entries H bootstrapRoot environmentRoot [] ly = io_return ly"
| "inventory_entries H bootstrapRoot environmentRoot (entry # entries) ly =
     io_bind (inventory_entry H bootstrapRoot environmentRoot entry ly) (inventory_entries H bootstrapRoot environmentRoot entries)"

definition inventory :: "'h host_scheme \<Rightarrow> path \<Rightarrow> path \<Rightarrow> layout io" where
  "inventory H bootstrapRoot environmentRoot =
     (let none = \<lparr>ly_moves = [], ly_retained = [], ly_collisions = []\<rparr> in
      io_bind (fileExists H bootstrapRoot) (\<lambda>present.
      if \<not> present then io_return none
      else io_bind (readdir H bootstrapRoot) (\<lambda>entries. inventory_entries H bootstrapRoot environmentRoot entries none)))"

section \<open>The organization\<close>

record manifest =
  mf_timestamp :: string
  mf_dryRun :: bool
  mf_status :: string
  mf_completed :: "move list"
  mf_current :: "move option"
  mf_error :: "string option"
  mf_environmentRoot :: string
  mf_environments :: "string list"
  mf_layout :: layout

definition move_json :: "move \<Rightarrow> json" where
  "move_json m = JObj [(''environment'', JStr (mv_environment m)), (''source'', JStr (mv_source m)),
     (''destination'', JStr (mv_destination m))]"

definition manifest_json :: "manifest \<Rightarrow> json" where
  "manifest_json m = JObj (some_members [
     (''schemaVersion'', Some (JNum 1)),
     (''operation'', Some (JStr ''organize-bootstrap-environments'')),
     (''timestamp'', Some (JStr (mf_timestamp m))),
     (''dryRun'', Some (JBool (mf_dryRun m))),
     (''status'', Some (JStr (mf_status m))),
     (''completedMoves'', Some (JArr (map move_json (mf_completed m)))),
     (''environmentRoot'', Some (JStr (mf_environmentRoot m))),
     (''environments'', Some (JArr (map JStr (mf_environments m)))),
     (''moves'', Some (JArr (map move_json (ly_moves (mf_layout m))))),
     (''retained'', Some (JArr (map (\<lambda>(name, reason). JObj [(''name'', JStr name), (''reason'', JStr reason)]) (ly_retained (mf_layout m))))),
     (''collisions'', Some (JArr (map (\<lambda>c. JObj [(''source'', JStr (cl_source c)), (''destination'', JStr (cl_destination c)),
        (''identical'', JBool (cl_identical c))]) (ly_collisions (mf_layout m))))),
     (''currentMove'', map_option move_json (mf_current m)),
     (''error'', map_option JStr (mf_error m))])"

definition write_manifest :: "'h host_scheme \<Rightarrow> path \<Rightarrow> manifest \<Rightarrow> unit io" where
  "write_manifest H p m = atomicWrite H p (stableJson (pf_number H) (manifest_json m))"

definition discovered :: "layout \<Rightarrow> string list" where
  "discovered ly = sort (filter (\<lambda>e. e \<notin> set canonicalEnvironments) (new_Set (map mv_environment (ly_moves ly))))"

text \<open>
  One move, with the manifest written before and after it. An error leaves the manifest as it was
  when it was thrown, which the caller records.
\<close>

definition apply_move :: "'h host_scheme \<Rightarrow> path \<Rightarrow> path \<Rightarrow> manifest \<Rightarrow> move \<Rightarrow> (manifest \<times> script_error option) io" where
  "apply_move H bootstrapRoot manifestPath m mv =
     (let source = resolve bootstrapRoot (mv_source mv); destination = resolve bootstrapRoot (mv_destination mv);
          check = assertNoSymlinkSegments H bootstrapRoot destination False ''Environment bootstrap artifact'';
          started = m\<lparr>mf_current := Some mv\<rparr>; finished = m\<lparr>mf_completed := mf_completed m @ [mv], mf_current := None\<rparr> in
      io_bind (io_catch (io_then check (io_then (mkdirs H (dirname destination)) (io_then check (io_return None)))) (\<lambda>e. io_return (Some e)))
        (\<lambda>failure. case failure of Some e \<Rightarrow> io_return (m, Some e) | None \<Rightarrow>
      io_bind (io_catch (io_then (write_manifest H manifestPath started) (io_then (rename_path H source destination) (io_return None)))
          (\<lambda>e. io_return (Some e)))
        (\<lambda>failure. case failure of Some e \<Rightarrow> io_return (started, Some e) | None \<Rightarrow>
      io_bind (io_catch (io_then (write_manifest H manifestPath finished) (io_return None)) (\<lambda>e. io_return (Some e)))
        (\<lambda>failure. io_return (finished, failure)))))"

fun apply_moves :: "'h host_scheme \<Rightarrow> path \<Rightarrow> path \<Rightarrow> manifest \<Rightarrow> move list \<Rightarrow> (manifest \<times> script_error option) io" where
  "apply_moves H bootstrapRoot manifestPath m [] = io_return (m, None)"
| "apply_moves H bootstrapRoot manifestPath m (mv # mvs) =
     io_bind (apply_move H bootstrapRoot manifestPath m mv) (\<lambda>(m', failure).
       case failure of Some e \<Rightarrow> io_return (m', Some e) | None \<Rightarrow> apply_moves H bootstrapRoot manifestPath m' mvs)"

definition colons_to_hyphens :: "string \<Rightarrow> string" where
  "colons_to_hyphens s = map (\<lambda>c. if c = CHR '':'' then CHR ''-'' else c) s"

definition stopped_error :: "path \<Rightarrow> manifest \<Rightarrow> script_error \<Rightarrow> script_error" where
  "stopped_error manifestPath m e = plain_error (''Bootstrap environment organization stopped after '' @ nat_str (length (mf_completed m))
     @ '' move(s); restore with manifest '' @ quoted (path_text manifestPath) @ '' before retrying: '' @ er_message e)"

text \<open>The \<open>try\<close> block around the moves.\<close>

definition run_moves :: "'h host_scheme \<Rightarrow> path \<Rightarrow> path \<Rightarrow> manifest \<Rightarrow> manifest io" where
  "run_moves H bootstrapRoot manifestPath m =
     io_bind (apply_moves H bootstrapRoot manifestPath m (ly_moves (mf_layout m))) (\<lambda>(m', failure).
     let applied = m'\<lparr>mf_status := ''applied''\<rparr> in
     io_bind (case failure of Some e \<Rightarrow> io_return (m', Some e)
       | None \<Rightarrow> io_catch (io_then (write_manifest H manifestPath applied) (io_return (applied, None))) (\<lambda>e. io_return (applied, Some e)))
     (\<lambda>(m'', failure). case failure of
        None \<Rightarrow> io_return m''
      | Some e \<Rightarrow> (let incomplete = m''\<lparr>mf_status := ''incomplete'', mf_error := Some (er_message e)\<rparr> in
          io_then (write_manifest H manifestPath incomplete) (io_throw (stopped_error manifestPath incomplete e)))))"

definition organizeBootstrapEnvironmentLocked ::
  "'h host_scheme \<Rightarrow> path \<Rightarrow> bool \<Rightarrow> path \<Rightarrow> (manifest \<times> path option) io" where
  "organizeBootstrapEnvironmentLocked H repositoryRoot dryRun bootstrapRoot =
     (let environmentRoot = resolve bootstrapRoot ''env''; organizationRoot = resolve bootstrapRoot ''organization'' in
      io_then (assertNoSymlinkSegments H bootstrapRoot environmentRoot True ''Bootstrap environment root'')
      (io_then (io_when (\<not> dryRun) (assertNoSymlinkSegments H bootstrapRoot organizationRoot True ''Bootstrap organization root''))
      (io_bind (inventory H bootstrapRoot environmentRoot) (\<lambda>result.
      io_then (io_when (ly_collisions result \<noteq> [] \<and> \<not> dryRun)
        (io_throw (layoutError (''Bootstrap environment organization found '' @ nat_str (length (ly_collisions result))
           @ '' destination collision(s); review a dry run and resolve them before applying.'') 3)))
      (io_bind (io_iso H) (\<lambda>timestamp.
      let m = \<lparr>mf_timestamp = timestamp, mf_dryRun = dryRun, mf_status = (if dryRun then ''preview'' else ''applying''),
            mf_completed = [], mf_current = None, mf_error = None,
            mf_environmentRoot = portableRelative repositoryRoot environmentRoot,
            mf_environments = canonicalEnvironments @ discovered result, mf_layout = result\<rparr>;
          manifestPath = resolve organizationRoot (colons_to_hyphens timestamp @ ''.json'') in
      if dryRun then io_return (m, None)
      else io_then (io_each (\<lambda>environment. mkdirs H (resolve environmentRoot environment)) (mf_environments m))
        (io_then (write_manifest H manifestPath m)
        (io_bind (run_moves H bootstrapRoot manifestPath m) (\<lambda>m'. io_return (m', Some manifestPath))))))))))"

definition organizeBootstrapEnvironment :: "'h host_scheme \<Rightarrow> path \<Rightarrow> bool \<Rightarrow> (manifest \<times> path option) io" where
  "organizeBootstrapEnvironment H repositoryRoot dryRun =
     (let bootstrapRoot = resolve repositoryRoot ''.bootstrap'' in
      io_then (assertNoSymlinkSegments H repositoryRoot bootstrapRoot True ''Bootstrap root'')
      (if dryRun then organizeBootstrapEnvironmentLocked H repositoryRoot dryRun bootstrapRoot
       else io_bind (acquireOrganizationLock H bootstrapRoot) (\<lambda>(lockPath, token).
         io_finally (organizeBootstrapEnvironmentLocked H repositoryRoot dryRun bootstrapRoot)
           (releaseOrganizationLock H lockPath token))))"

section \<open>The restoration\<close>

text \<open>An argument of \<open>resolve\<close> that is not a text throws.\<close>

definition path_member :: "json \<Rightarrow> string \<Rightarrow> thrown + string" where
  "path_member mv k = bind_result (js_get (Some mv) k) (\<lambda>v. case jstring v of
     None \<Rightarrow> Inl (ErrorObject ''TypeError'' ''The path argument must be of type string.'') | Some s \<Rightarrow> Inr s)"

definition read_manifest :: "'h host_scheme \<Rightarrow> path \<Rightarrow> json io" where
  "read_manifest H p = io_catch (io_bind (readFile H p) (\<lambda>c. io_lift (pf_parse H c)))
     (\<lambda>e. io_throw (layoutError (''Bootstrap organization manifest is invalid: '' @ er_message e) 2))"

fun some_same_move :: "json list \<Rightarrow> json \<Rightarrow> thrown + bool" where
  "some_same_move [] current = Inr False"
| "some_same_move (mv # mvs) current =
     bind_result (js_get (Some mv) ''source'') (\<lambda>s.
     if strict_eq s (opt_field (Some current) ''source'') \<and> strict_eq (opt_field (Some mv) ''destination'') (opt_field (Some current) ''destination'')
     then Inr True else some_same_move mvs current)"

definition recorded_moves :: "json \<Rightarrow> thrown + json list" where
  "recorded_moves m =
     (let moves = (case items_of (opt_field (Some m) ''completedMoves'') of Some js \<Rightarrow> js | None \<Rightarrow> items_or_none (opt_field (Some m) ''moves''));
          current = opt_field (Some m) ''currentMove'' in
      if jtruthy current
      then bind_result (some_same_move moves (the current)) (\<lambda>known. Inr (if known then moves else moves @ [the current]))
      else Inr moves)"

text \<open>Whether a move has to be undone; one whose file is back already has not.\<close>

definition check_restore :: "'h host_scheme \<Rightarrow> path \<Rightarrow> json \<Rightarrow> bool io" where
  "check_restore H bootstrapRoot mv =
     io_bind (io_lift (path_member mv ''destination'')) (\<lambda>d. io_bind (io_lift (path_member mv ''source'')) (\<lambda>s.
     let source = resolve bootstrapRoot d; destination = resolve bootstrapRoot s in
     io_then (io_lift (assertPathInside bootstrapRoot source ''organized bootstrap artifact''))
     (io_then (io_lift (assertPathInside bootstrapRoot destination ''restored bootstrap artifact''))
     (io_then (assertNoSymlinkSegments H bootstrapRoot source False ''Organized bootstrap artifact'')
     (io_then (assertNoSymlinkSegments H bootstrapRoot destination False ''Restored bootstrap artifact'')
     (io_bind (fileExists H source) (\<lambda>sourceExists. io_bind (fileExists H destination) (\<lambda>destinationExists.
     if sourceExists \<and> destinationExists
     then io_throw (layoutError (''Cannot restore '' @ quoted s @ '' because the destination already exists.'') 3)
     else if \<not> sourceExists \<and> \<not> destinationExists
     then io_throw (layoutError (''Cannot restore missing organized artifact '' @ quoted d @ ''.'') 3)
     else io_return sourceExists))))))))"

fun check_restores :: "'h host_scheme \<Rightarrow> path \<Rightarrow> json list \<Rightarrow> json list io" where
  "check_restores H bootstrapRoot [] = io_return []"
| "check_restores H bootstrapRoot (mv # mvs) =
     io_bind (check_restore H bootstrapRoot mv) (\<lambda>needed.
     io_bind (check_restores H bootstrapRoot mvs) (\<lambda>rest. io_return (if needed then mv # rest else rest)))"

definition undo_move :: "'h host_scheme \<Rightarrow> path \<Rightarrow> json \<Rightarrow> unit io" where
  "undo_move H bootstrapRoot mv =
     io_bind (io_lift (path_member mv ''destination'')) (\<lambda>d. io_bind (io_lift (path_member mv ''source'')) (\<lambda>s.
     rename_path H (resolve bootstrapRoot d) (resolve bootstrapRoot s)))"

definition remove_member :: "string \<Rightarrow> json \<Rightarrow> json" where
  "remove_member k ob = (case ob of JObj kvs \<Rightarrow> JObj (AList.delete k kvs) | _ \<Rightarrow> ob)"

record restoration =
  rs_restored :: nat
  rs_planned :: nat
  rs_manifestPath :: path
  rs_dryRun :: bool

definition restoreBootstrapEnvironmentLocked ::
  "'h host_scheme \<Rightarrow> path \<Rightarrow> string \<Rightarrow> bool \<Rightarrow> path \<Rightarrow> restoration io" where
  "restoreBootstrapEnvironmentLocked H repositoryRoot manifestPath dryRun bootstrapRoot =
     (let organizationRoot = resolve bootstrapRoot ''organization''; absoluteManifest = resolve repositoryRoot manifestPath in
      io_then (io_lift (assertPathInside organizationRoot absoluteManifest ''bootstrap organization manifest''))
      (io_then (assertNoSymlinkSegments H bootstrapRoot organizationRoot True ''Bootstrap organization root'')
      (io_then (assertNoSymlinkSegments H bootstrapRoot absoluteManifest True ''Bootstrap organization manifest'')
      (io_bind (read_manifest H absoluteManifest) (\<lambda>m.
      if opt_field (Some m) ''schemaVersion'' \<noteq> Some (JNum 1)
        \<or> opt_field (Some m) ''operation'' \<noteq> Some (JStr ''organize-bootstrap-environments'')
        \<or> items_of (opt_field (Some m) ''moves'') = None
      then io_throw (layoutError ''Bootstrap organization manifest is invalid or unsupported.'' 2)
      else if opt_field (Some m) ''status'' = Some (JStr ''restored'')
      then io_throw (layoutError ''Bootstrap organization manifest has already been restored.'' 3)
      else io_bind (io_lift (recorded_moves m)) (\<lambda>moves. io_bind (check_restores H bootstrapRoot (rev moves)) (\<lambda>needed.
        if dryRun
        then io_return \<lparr>rs_restored = 0, rs_planned = length needed, rs_manifestPath = absoluteManifest, rs_dryRun = True\<rparr>
        else io_then (io_each (undo_move H bootstrapRoot) needed)
          (io_bind (io_iso H) (\<lambda>restoredAt.
           io_then (atomicWrite H absoluteManifest (stableJson (pf_number H)
               (set_member ''restoredAt'' (JStr restoredAt) (set_member ''status'' (JStr ''restored'') (remove_member ''currentMove'' m)))))
           (io_return \<lparr>rs_restored = length needed, rs_planned = length needed, rs_manifestPath = absoluteManifest, rs_dryRun = False\<rparr>))))))))))"

definition restoreBootstrapEnvironment :: "'h host_scheme \<Rightarrow> path \<Rightarrow> string \<Rightarrow> bool \<Rightarrow> restoration io" where
  "restoreBootstrapEnvironment H repositoryRoot manifestPath dryRun =
     (let bootstrapRoot = resolve repositoryRoot ''.bootstrap'' in
      io_then (assertNoSymlinkSegments H repositoryRoot bootstrapRoot True ''Bootstrap root'')
      (if dryRun then restoreBootstrapEnvironmentLocked H repositoryRoot manifestPath dryRun bootstrapRoot
       else io_bind (acquireOrganizationLock H bootstrapRoot) (\<lambda>(lockPath, token).
         io_finally (restoreBootstrapEnvironmentLocked H repositoryRoot manifestPath dryRun bootstrapRoot)
           (releaseOrganizationLock H lockPath token))))"

end
