(* ===== verification/Managed_Redis_Chart.thy ===== *)
theory Managed_Redis_Chart
  imports Node_Io
begin

text \<open>
  \<open>scripts/lib/managed-redis-chart.mjs\<close>: the Redis chart is pulled or taken from a cache,
  checked against its pinned digest, unpacked and patched.
\<close>

section \<open>The patch\<close>

fun unix_lines :: "string \<Rightarrow> string" where
  "unix_lines (c # d # s) = (if c = CHR 0x0D \<and> d = CHR 0x0A then d # unix_lines s else c # unix_lines (d # s))"
| "unix_lines s = s"

fun text_includes :: "string \<Rightarrow> string \<Rightarrow> bool" where
  "text_includes [] t = (t = [])"
| "text_includes (c # s) t = (startsWith (c # s) t \<or> text_includes s t)"

fun replace_first :: "string \<Rightarrow> string \<Rightarrow> string \<Rightarrow> string" where
  "replace_first [] t r = (if t = [] then r else [])"
| "replace_first (c # s) t r = (if startsWith (c # s) t then r @ drop (length t) (c # s) else c # replace_first s t r)"

definition sentinel_type :: string where
  "sentinel_type = ''  type: '' @ [CHR 0x7B, CHR 0x7B] @ '' .Values.sentinel.service.type '' @ [CHR 0x7D, CHR 0x7D]"

definition serviceNeedle :: string where
  "serviceNeedle = ''spec:'' @ line_break @ sentinel_type"

definition publishes :: string where
  "publishes = ''spec:'' @ line_break @ ''  publishNotReadyAddresses: true'' @ line_break"

definition serviceReplacement :: string where
  "serviceReplacement = publishes @ sentinel_type"

definition patchSentinelService :: "string \<Rightarrow> thrown + string" where
  "patchSentinelService source =
     (let normalized = unix_lines source in
      if text_includes normalized publishes then Inr normalized
      else bind_result (guard (text_includes normalized serviceNeedle)
        (new_Error ''The Redis chart sentinel Service template does not match the reviewed patch contract.'')) (\<lambda>_.
        Inr (replace_first normalized serviceNeedle serviceReplacement)))"

section \<open>Commands under a deadline\<close>

fun num_nonpositive :: "jsnum \<Rightarrow> bool" where
  "num_nonpositive (Fin x) = (x \<le> 0)"
| "num_nonpositive NInf = True"
| "num_nonpositive _ = False"

definition lifecycleDeadline :: "'h host_scheme \<Rightarrow> jsnum \<Rightarrow> jsnum io" where
  "lifecycleDeadline H timeoutSeconds =
     (if \<not> isFinite timeoutSeconds \<or> num_nonpositive timeoutSeconds
      then io_fail ''Managed Redis chart timeout must be greater than zero.''
      else io_bind (io_now H) (\<lambda>now. io_return (num_add (Fin (of_nat now)) (num_mul timeoutSeconds (Fin 1000)))))"

definition run_command :: "'h host_scheme \<Rightarrow> string \<Rightarrow> string list \<Rightarrow> jsnum \<Rightarrow> (string \<times> string) io" where
  "run_command H file arguments deadline =
     io_bind (io_now H) (\<lambda>now.
     if num_nonpositive (num_sub deadline (Fin (of_nat now)))
     then io_fail (''Managed Redis chart preparation exceeded its lifecycle deadline before '' @ file @ '' could start.'')
     else io_bind (io_spawn H file arguments []) (\<lambda>r. case r of
       TimedOut \<Rightarrow> io_fail (''Managed Redis chart command '' @ quoted (file @ '' '' @ separated '' '' arguments)
         @ '' exceeded the lifecycle deadline and was terminated.'')
     | SpawnFailed m \<Rightarrow> io_fail m
     | Exited code out err \<Rightarrow>
         if code = Some 0 then io_return (out, err)
         else io_fail (file @ '' '' @ separated '' '' arguments @ '' failed with exit code '' @ code_text code @ '': '' @ trim err)))"

section \<open>The chart\<close>

definition validateChartIdentity :: "string \<Rightarrow> string \<Rightarrow> thrown + unit" where
  "validateChartIdentity chart version =
     bind_result (guard (startsWith chart ''oci://'') (new_Error ''Managed Redis chart source must be an OCI reference.'')) (\<lambda>_.
     guard (rx_match chartVersion version) (new_Error ''Managed Redis chart version is invalid.''))"

record archive =
  ar_path :: path
  ar_sha256 :: string

definition file_digest :: "'h host_scheme \<Rightarrow> string \<Rightarrow> string" where
  "file_digest H bytes = ''sha256:'' @ pf_sha256 H bytes"

definition archive_name :: "string \<Rightarrow> string" where
  "archive_name version = ''redis-'' @ version @ ''.tgz''"

definition unsafe_output :: "path \<Rightarrow> string" where
  "unsafe_output destination = ''Refusing unsafe managed Redis chart output directory '' @ quoted (path_text destination) @ ''.''"

definition pullManagedRedisChart ::
  "'h host_scheme \<Rightarrow> string \<Rightarrow> string \<Rightarrow> path \<Rightarrow> string \<Rightarrow> jsnum \<Rightarrow> archive io" where
  "pullManagedRedisChart H chart version destination helm deadline =
     io_then (io_lift (validateChartIdentity chart version))
     (let archivePath = resolve destination (archive_name version) in
      if destination = [] \<or> relative destination archivePath \<noteq> archive_name version then io_fail (unsafe_output destination)
      else io_then (mkdirs H destination)
        (io_then (rm_file H archivePath)
        (io_then (run_command H helm [''pull'', chart, ''--version'', version, ''--destination'', path_text destination] deadline)
        (io_bind (readFile H archivePath) (\<lambda>bytes. io_return \<lparr>ar_path = archivePath, ar_sha256 = file_digest H bytes\<rparr>)))))"

definition provenance_ok :: "json \<Rightarrow> string \<Rightarrow> string \<Rightarrow> (rat \<Rightarrow> string) \<Rightarrow> bool" where
  "provenance_ok metadata chart version num_str =
     (opt_field (Some metadata) ''chart'' = Some (JStr chart) \<and> opt_field (Some metadata) ''version'' = Some (JStr version)
      \<and> rx_match sha256Digest (opt_text num_str (opt_field (Some metadata) ''archiveSha256'')))"

definition readCachedManagedRedisChart :: "'h host_scheme \<Rightarrow> string \<Rightarrow> string \<Rightarrow> path \<Rightarrow> archive io" where
  "readCachedManagedRedisChart H chart version cache =
     io_then (io_lift (validateChartIdentity chart version))
     (io_bind (readFile H (resolve cache ''chart-source.json'')) (\<lambda>text.
      io_bind (io_lift (pf_parse H text)) (\<lambda>metadata.
      io_then (io_lift (js_get (Some metadata) ''chart''))
      (if \<not> provenance_ok metadata chart version (pf_number H)
       then io_fail ''Cached managed Redis chart provenance does not match the installed release.''
       else (let source = resolve cache (archive_name version) in
         io_bind (readFile H source) (\<lambda>bytes.
         let actual = file_digest H bytes in
         if Some (JStr actual) \<noteq> opt_field (Some metadata) ''archiveSha256''
         then io_fail ''Cached managed Redis chart archive checksum does not match its provenance metadata.''
         else io_return \<lparr>ar_path = source, ar_sha256 = actual\<rparr>))))))"

definition copyCachedManagedRedisChart :: "'h host_scheme \<Rightarrow> string \<Rightarrow> string \<Rightarrow> path \<Rightarrow> path \<Rightarrow> archive io" where
  "copyCachedManagedRedisChart H chart version cacheDirectory outputDirectory =
     io_bind (readCachedManagedRedisChart H chart version cacheDirectory) (\<lambda>cached.
     let destination = resolve outputDirectory (archive_name version) in
     io_then (mkdirs H outputDirectory)
     (io_then (copyFile H (ar_path cached) destination)
     (io_return \<lparr>ar_path = destination, ar_sha256 = ar_sha256 cached\<rparr>)))"

record prepared =
  pp_chartDirectory :: path
  pp_servicePath :: path
  pp_archiveSha256 :: string

text \<open>The archive that is to be unpacked: the given one, the cached one, or one pulled anew.\<close>

definition fetch_archive ::
  "'h host_scheme \<Rightarrow> string \<Rightarrow> string \<Rightarrow> path option \<Rightarrow> path \<Rightarrow> string \<Rightarrow> jsnum \<Rightarrow> archive io" where
  "fetch_archive H chart version archivePath destination helm deadline =
     (let destinationArchive = resolve destination (archive_name version) in
      case archivePath of
        Some p \<Rightarrow>
          io_then (io_when (p \<noteq> destinationArchive) (copyFile H p destinationArchive))
          (io_bind (readFile H destinationArchive) (\<lambda>bytes.
             io_return \<lparr>ar_path = destinationArchive, ar_sha256 = file_digest H bytes\<rparr>))
      | None \<Rightarrow> io_catch (readCachedManagedRedisChart H chart version destination)
          (\<lambda>_. pullManagedRedisChart H chart version destination helm deadline))"

definition prepareManagedRedisChart ::
  "'h host_scheme \<Rightarrow> string \<Rightarrow> string \<Rightarrow> string \<Rightarrow> path option \<Rightarrow> path \<Rightarrow> string \<Rightarrow> jsnum \<Rightarrow> prepared io" where
  "prepareManagedRedisChart H chart version archiveSha256 archivePath destination helm timeoutSeconds =
     io_then (io_lift (validateChartIdentity chart version))
     (io_then (io_lift (guard (rx_match sha256Digest archiveSha256) (new_Error ''Managed Redis chart archive SHA-256 is invalid.'')))
     (io_bind (lifecycleDeadline H timeoutSeconds) (\<lambda>deadline.
     let chartDirectory = resolve destination ''redis''; servicePath = resolve chartDirectory ''templates/sentinel/service.yaml'' in
     if destination = [] \<or> relative destination chartDirectory \<noteq> ''redis'' then io_fail (unsafe_output destination)
     else io_then (mkdirs H destination)
       (io_then (rm_path H chartDirectory)
       (io_bind (fetch_archive H chart version archivePath destination helm deadline) (\<lambda>pulled.
        if ar_sha256 pulled \<noteq> archiveSha256
        then io_then (io_when (archivePath = None) (rm_file H (ar_path pulled)))
          (io_fail (''Managed Redis chart archive checksum mismatch: expected '' @ archiveSha256 @ '', received '' @ ar_sha256 pulled @ ''.''))
        else io_then (run_command H ''tar'' [''-xzf'', path_text (ar_path pulled), ''-C'', path_text destination] deadline)
          (io_bind (readFile H servicePath) (\<lambda>source.
           io_bind (io_lift (patchSentinelService source)) (\<lambda>patched.
           io_then (atomicWrite H servicePath patched)
           (io_then (atomicWrite H (resolve destination ''chart-source.json'')
              (stringify (pf_number H) (JObj [(''chart'', JStr chart), (''version'', JStr version), (''archiveSha256'', JStr (ar_sha256 pulled))])
               @ line_break))
           (io_return \<lparr>pp_chartDirectory = chartDirectory, pp_servicePath = servicePath, pp_archiveSha256 = ar_sha256 pulled\<rparr>)))))))))))"

definition managedRedisChartOutput :: "digest \<Rightarrow> path \<Rightarrow> string \<Rightarrow> string \<Rightarrow> string \<Rightarrow> thrown + path" where
  "managedRedisChartOutput sha256 generatedRoot release chart version =
     bind_result (validateChartIdentity chart version) (\<lambda>_.
     Inr (resolve (resolve (resolve generatedRoot release) ''charts'') (''redis-'' @ version @ ''-'' @ take 12 (sha256 chart))))"

definition legacyManagedRedisChartOutput :: "path \<Rightarrow> string \<Rightarrow> string \<Rightarrow> path" where
  "legacyManagedRedisChartOutput generatedRoot release version =
     resolve (resolve (resolve generatedRoot release) ''charts'') (''redis-'' @ version)"

end
