(* ===== verification/Bootstrap_Lifecycle.thy ===== *)
theory Bootstrap_Lifecycle
  imports Bootstrap_Environment Managed_Redis_Chart
begin

text \<open>
  The functions of \<open>scripts/realtime-bootstrap.mjs\<close>: arguments, the log, commands on the
  cluster, checks of the target, backups, installation, rollback and the locks of the lifecycle. What
  the code keeps in \<open>options\<close> while it runs is the record \<open>session\<close>.
\<close>

section \<open>Arguments\<close>

record arguments =
  ag_config :: string
  ag_profile :: "string option"
  ag_timeout :: "string option"
  ag_backup :: "string option"
  ag_nameSuffix :: "string option"
  ag_manifest :: "string option"
  ag_dryRun :: bool
  ag_confirm :: bool
  ag_force :: bool

definition set_argument :: "string \<Rightarrow> string \<Rightarrow> arguments \<Rightarrow> arguments option" where
  "set_argument argument v a =
     (if argument = ''--config'' then Some (a\<lparr>ag_config := v\<rparr>)
      else if argument = ''--profile'' then Some (a\<lparr>ag_profile := Some v\<rparr>)
      else if argument = ''--timeout-seconds'' then Some (a\<lparr>ag_timeout := Some v\<rparr>)
      else if argument = ''--backup'' then Some (a\<lparr>ag_backup := Some v\<rparr>)
      else if argument = ''--name-suffix'' then Some (a\<lparr>ag_nameSuffix := Some v\<rparr>)
      else if argument = ''--manifest'' then Some (a\<lparr>ag_manifest := Some v\<rparr>)
      else None)"

fun parse_arguments :: "string list \<Rightarrow> arguments \<Rightarrow> thrown + arguments" where
  "parse_arguments [] a = Inr a"
| "parse_arguments (argument # rest) a =
     (if argument = ''--dry-run'' then parse_arguments rest (a\<lparr>ag_dryRun := True\<rparr>)
      else if argument = ''--confirm-topology-change'' then parse_arguments rest (a\<lparr>ag_confirm := True\<rparr>)
      else if argument = ''--force'' then parse_arguments rest (a\<lparr>ag_force := True\<rparr>)
      else if set_argument argument [] a = None then Inl (new_Error (''Unknown argument '' @ quoted argument @ ''.''))
      else case rest of
        [] \<Rightarrow> Inl (new_Error (argument @ '' requires a value.''))
      | v # rest' \<Rightarrow>
          if v = [] \<or> startsWith v ''--'' then Inl (new_Error (argument @ '' requires a value.''))
          else parse_arguments rest' (the (set_argument argument v a)))"

definition nameSuffixPattern :: rx where
  "nameSuffixPattern = of_length 1 27 (Cat (some (Cls lower_digit)) (Many (Cat (lit ''-'') (some (Cls lower_digit)))))"

record request =
  rq_action :: string
  rq_arguments :: arguments
  rq_timeout :: nat

datatype parsed = Help | Request request

definition timeout_of :: "arguments \<Rightarrow> nat option" where
  "timeout_of a = (case ag_timeout a of
     None \<Rightarrow> Some 300
   | Some s \<Rightarrow> (case js_number s of
       Fin x \<Rightarrow> if is_integral x \<and> 60 \<le> x \<and> x \<le> 1800 then Some (nat \<lfloor>x\<rfloor>) else None
     | _ \<Rightarrow> None))"

definition parse_request :: "string option \<Rightarrow> string list \<Rightarrow> thrown + parsed" where
  "parse_request environmentConfig args =
     (if args \<noteq> [] \<and> hd args \<in> set [''help'', ''--help'', ''-h''] then Inr Help
      else bind_result (parse_arguments (tl args)
          \<lparr>ag_config = (case environmentConfig of None \<Rightarrow> ''bootstrap/config.example.json'' | Some s \<Rightarrow> s), ag_profile = None,
           ag_timeout = None, ag_backup = None, ag_nameSuffix = None, ag_manifest = None, ag_dryRun = False, ag_confirm = False,
           ag_force = False\<rparr>) (\<lambda>a.
        bind_result (guard (args \<noteq> [] \<and> hd args \<in> set actions)
          (new_Error (''Action must be one of: '' @ separated '', '' actions @ ''.''))) (\<lambda>_.
        bind_result (guard (timeout_of a \<noteq> None) (new_Error ''--timeout-seconds must be an integer from 60 through 1800.'')) (\<lambda>_.
        bind_result (guard (case ag_nameSuffix a of None \<Rightarrow> True | Some s \<Rightarrow> rx_match nameSuffixPattern s)
          (new_Error ''--name-suffix must be a DNS-label suffix from 1 through 27 characters.'')) (\<lambda>_.
        Inr (Request \<lparr>rq_action = hd args, rq_arguments = a, rq_timeout = the (timeout_of a)\<rparr>))))))"

section \<open>The session and the log\<close>

record session =
  se_root :: path \<comment> \<open>\<open>repositoryRoot\<close>\<close>
  se_cwd :: path \<comment> \<open>\<open>process.cwd()\<close>\<close>
  se_request :: request
  se_kubeContext :: string
  se_generatedRoot :: path
  se_backupRoot :: path
  se_targetName :: string
  se_valuesPath :: path
  se_redisValuesPath :: path
  se_redisChartPath :: "path option"
  se_logPath :: path

abbreviation se_action :: "session \<Rightarrow> string" where
  "se_action S \<equiv> rq_action (se_request S)"

definition emit_event :: "'h host_scheme \<Rightarrow> string \<Rightarrow> string \<Rightarrow> string \<Rightarrow> fields \<Rightarrow> unit io" where
  "emit_event H level phase message kvs = io_bind (io_iso H) (\<lambda>timestamp. io_effect (Logged timestamp level phase message kvs))"

definition event_json :: "effect \<Rightarrow> json" where
  "event_json e = JObj (foldl (\<lambda>ob (k, v). AList.update k v ob)
     [(''timestamp'', JStr (log_time e)), (''level'', JStr (log_level e)), (''phase'', JStr (log_phase e)), (''message'', JStr (log_message e))]
     (log_fields e))"

definition is_logged :: "effect \<Rightarrow> bool" where
  "is_logged e = (case e of Logged _ _ _ _ _ \<Rightarrow> True | _ \<Rightarrow> False)"

definition flushLog :: "'h host_scheme \<Rightarrow> bool \<Rightarrow> path \<Rightarrow> unit io" where
  "flushLog H persistent logFile = (if \<not> persistent then io_return ()
     else (\<lambda>w. atomicWrite H logFile
       (separated line_break (map (\<lambda>e. stringify (pf_number H) (event_json e)) (filter is_logged (wd_effects w))) @ line_break) w))"

section \<open>Commands\<close>

definition tool_name :: "string \<Rightarrow> rx" where
  "tool_name name = seq_of [maybe (Cat anything (Cls (\<lambda>c. c = CHR ''/'' \<or> c = CHR 0x5C))), lit_i name, maybe (lit_i ''.exe'')]"

definition context_arguments :: "string \<Rightarrow> string \<Rightarrow> string list \<Rightarrow> string list" where
  "context_arguments kubeContext file args =
     (if kubeContext \<noteq> [] \<and> rx_match (tool_name ''kubectl'') file \<and> take 2 args \<noteq> [''config'', ''current-context'']
      then [''--context'', kubeContext] else [])
     @ (if kubeContext \<noteq> [] \<and> rx_match (tool_name ''helm'') file
          \<and> args \<noteq> [] \<and> hd args \<in> set [''list'', ''get'', ''upgrade'', ''uninstall'', ''rollback'']
        then [''--kube-context'', kubeContext] else [])"

definition run_tool :: "'h host_scheme \<Rightarrow> session \<Rightarrow> string \<Rightarrow> string list \<Rightarrow> string \<Rightarrow> string io" where
  "run_tool H S file args description =
     (let arguments = args @ context_arguments (se_kubeContext S) file args in
      io_then (emit_event H ''info'' (se_action S) description [(''executable'', JStr file), (''arguments'', JArr (map JStr arguments))])
      (io_bind (io_spawn H file arguments []) (\<lambda>r. case r of
         SpawnFailed m \<Rightarrow> io_fail m
       | TimedOut \<Rightarrow> io_fail (description @ '' exceeded '' @ nat_str (rq_timeout (se_request S)) @ '' seconds and the child process was terminated.'')
       | Exited code out err \<Rightarrow>
           if code = Some 0 then io_return (trim out) else io_fail (description @ '' failed with exit code '' @ code_text code @ ''.''))))"

abbreviation kubectl :: "'h host_scheme \<Rightarrow> session \<Rightarrow> string list \<Rightarrow> string \<Rightarrow> string io" where
  "kubectl H S \<equiv> run_tool H S ''kubectl''"

abbreviation helm :: "'h host_scheme \<Rightarrow> session \<Rightarrow> string list \<Rightarrow> string \<Rightarrow> string io" where
  "helm H S \<equiv> run_tool H S ''helm''"

definition currentContext :: "'h host_scheme \<Rightarrow> session \<Rightarrow> string io" where
  "currentContext H S = kubectl H S [''config'', ''current-context''] ''Read current Kubernetes context''"

text \<open>
  Reads of the configuration and the plan: as a value, as the text that an argument of a command or a
  template makes of it, and as an argument of \<open>resolve\<close>, which must be a text.
\<close>

definition io_value :: "jsopt \<Rightarrow> string list \<Rightarrow> jsopt io" where
  "io_value v ks = io_lift (js_read v ks)"

definition io_part :: "'h host_scheme \<Rightarrow> jsopt \<Rightarrow> string list \<Rightarrow> string io" where
  "io_part H v ks = io_bind (io_value v ks) (\<lambda>u. io_return (opt_text (pf_number H) u))"

definition io_text :: "jsopt \<Rightarrow> string list \<Rightarrow> string io" where
  "io_text v ks = io_bind (io_value v ks) (\<lambda>u. case jstring u of
     None \<Rightarrow> io_fail ''The argument must be of type string.'' | Some s \<Rightarrow> io_return s)"

definition io_flag :: "jsopt \<Rightarrow> string list \<Rightarrow> bool io" where
  "io_flag v ks = io_bind (io_value v ks) (\<lambda>u. io_return (jtruthy u))"

definition io_equals :: "jsopt \<Rightarrow> string list \<Rightarrow> string \<Rightarrow> bool io" where
  "io_equals v ks s = io_bind (io_value v ks) (\<lambda>u. io_return (u = Some (JStr s)))"

definition io_guard :: "bool io \<Rightarrow> unit io \<Rightarrow> unit io" where
  "io_guard c m = io_bind c (\<lambda>b. io_when b m)"

definition quiet :: "'a io \<Rightarrow> unit io" where
  "quiet m = io_then m (io_return ())"

text \<open>The receiver of an array method, and the items of a \<open>for\<close> loop over \<open>value ?? []\<close>.\<close>

definition array_for :: "string \<Rightarrow> jsopt \<Rightarrow> thrown + json list" where
  "array_for method v = bind_result (js_get v method) (\<lambda>_. case items_of v of
     None \<Rightarrow> Inl (ErrorObject ''TypeError'' (method @ '' is not a function'')) | Some js \<Rightarrow> Inr js)"

definition iterated :: "jsopt \<Rightarrow> thrown + json list" where
  "iterated v = (case v of
     None \<Rightarrow> Inr []
   | Some JNull \<Rightarrow> Inr []
   | Some (JArr js) \<Rightarrow> Inr js
   | Some (JStr s) \<Rightarrow> Inr (map (\<lambda>c. JStr [c]) s)
   | _ \<Rightarrow> Inl (ErrorObject ''TypeError'' ''object is not iterable''))"

definition targetReleaseListArguments :: "'h host_scheme \<Rightarrow> jsopt \<Rightarrow> string list io" where
  "targetReleaseListArguments H target =
     io_bind (io_part H target [''namespace'']) (\<lambda>namespace.
     io_bind (io_part H target [''release'']) (\<lambda>release. io_bind (io_part H target [''redisRelease'']) (\<lambda>redisRelease.
     io_return [''list'', ''--namespace'', namespace, ''--filter'', ''^('' @ release @ ''|'' @ redisRelease @ '')$'',
       ''--max'', ''2'', ''--output'', ''json''])))"

text \<open>The context that is current must be the one of the target.\<close>

definition assert_context :: "'h host_scheme \<Rightarrow> session \<Rightarrow> jsopt \<Rightarrow> unit io" where
  "assert_context H S target =
     io_bind (currentContext H S) (\<lambda>context. io_bind (io_value target [''context'']) (\<lambda>expected.
     io_when (expected \<noteq> Some (JStr context))
       (io_fail (''Target mismatch: expected Kubernetes context '' @ quoted (opt_text (pf_number H) expected)
          @ '', found '' @ quoted context @ ''.''))))"

text \<open>The releases that Helm lists, which must be an array.\<close>

definition list_releases :: "'h host_scheme \<Rightarrow> session \<Rightarrow> jsopt \<Rightarrow> string \<Rightarrow> json list io" where
  "list_releases H S target description =
     io_bind (targetReleaseListArguments H target) (\<lambda>args.
     io_bind (helm H S args description) (\<lambda>releasesDocument.
     io_bind (io_lift (pf_parse H releasesDocument)) (\<lambda>releases. case items_of (Some releases) of
       None \<Rightarrow> io_fail ''Helm release inventory was not a JSON array.'' | Some js \<Rightarrow> io_return js)))"

section \<open>Checks of the target\<close>

text \<open>The keys of a Secret, one per line.\<close>

definition listed_lines :: "string \<Rightarrow> string list" where
  "listed_lines s = filter (\<lambda>l. l \<noteq> []) (split_on (CHR 0x0A) (unix_lines s))"

definition braced :: "string \<Rightarrow> string" where
  "braced s = [CHR 0x7B, CHR 0x7B] @ s @ [CHR 0x7D, CHR 0x7D]"

definition key_template :: string where
  "key_template = ''go-template='' @ braced ''range $key, $_ := .data'' @ braced ''$key''
     @ braced [CHR 0x22, CHR 0x5C, CHR ''n'', CHR 0x22] @ braced ''end''"

text \<open>A Secret that must exist in the namespace; \<open>subject\<close> begins the message.\<close>

definition assert_secret :: "'h host_scheme \<Rightarrow> session \<Rightarrow> string \<Rightarrow> string \<Rightarrow> string \<Rightarrow> string \<Rightarrow> unit io" where
  "assert_secret H S subject name namespace description =
     io_bind (kubectl H S [''get'', ''secret'', name, ''--namespace'', namespace, ''--ignore-not-found'', ''-o'', ''name''] description) (\<lambda>out.
     io_when (out = []) (io_fail (subject @ quoted name @ '' does not exist in '' @ quoted namespace @ ''.'')))"

definition secret_keys :: "'h host_scheme \<Rightarrow> session \<Rightarrow> string \<Rightarrow> string \<Rightarrow> string \<Rightarrow> string list io" where
  "secret_keys H S name namespace description =
     io_bind (kubectl H S [''get'', ''secret'', name, ''--namespace'', namespace, ''--output'', key_template] description) (\<lambda>out.
     io_return (listed_lines out))"

definition assert_key :: "'h host_scheme \<Rightarrow> string \<Rightarrow> string list \<Rightarrow> jsopt \<Rightarrow> unit io" where
  "assert_key H subject keys key = io_when (\<not> string_in key keys)
     (io_fail (subject @ '' is missing configured key '' @ quoted (opt_text (pf_number H) key) @ ''.''))"

definition check_otlp_secret :: "'h host_scheme \<Rightarrow> session \<Rightarrow> jsopt \<Rightarrow> string \<Rightarrow> unit io" where
  "check_otlp_secret H S config namespace =
     io_bind (io_part H config [''observability'', ''otlpHeadersSecret'']) (\<lambda>name.
     io_then (assert_secret H S ''OTLP headers Secret '' name namespace ''Validate OTLP headers Secret reference'')
     (io_bind (secret_keys H S name namespace ''Validate OTLP headers Secret key'') (\<lambda>keys.
      io_bind (io_value config [''observability'', ''otlpHeadersKey'']) (assert_key H (''OTLP headers Secret '' @ quoted name) keys))))"

text \<open>\<open>value?.some(test)\<close> and \<open>items.filter(test)\<close> with a test that may throw.\<close>

fun some_item :: "(json \<Rightarrow> thrown + bool) \<Rightarrow> json list \<Rightarrow> thrown + bool" where
  "some_item test [] = Inr False"
| "some_item test (j # js) = bind_result (test j) (\<lambda>b. if b then Inr True else some_item test js)"

definition opt_some :: "(json \<Rightarrow> thrown + bool) \<Rightarrow> jsopt \<Rightarrow> thrown + bool" where
  "opt_some test v = (if v = None \<or> v = Some JNull then Inr False else bind_result (array_for ''some'' v) (some_item test))"

fun filter_items :: "(json \<Rightarrow> thrown + bool) \<Rightarrow> json list \<Rightarrow> thrown + json list" where
  "filter_items test [] = Inr []"
| "filter_items test (j # js) = bind_result (test j) (\<lambda>b. bind_result (filter_items test js) (\<lambda>ks. Inr (if b then j # ks else ks)))"

definition blocks_pods :: "json \<Rightarrow> thrown + bool" where
  "blocks_pods taint = bind_result (js_get (Some taint) ''effect'') (\<lambda>e. Inr (string_in e [''NoSchedule'', ''NoExecute'']))"

definition is_ready :: "json \<Rightarrow> thrown + bool" where
  "is_ready condition = bind_result (js_get (Some condition) ''type'') (\<lambda>t.
     Inr (t = Some (JStr ''Ready'') \<and> opt_field (Some condition) ''status'' = Some (JStr ''True'')))"

definition schedulable :: "json \<Rightarrow> thrown + bool" where
  "schedulable j =
     bind_result (js_get (Some j) ''spec'') (\<lambda>spec.
     if jtruthy (opt_field spec ''unschedulable'') then Inr False
     else bind_result (opt_some blocks_pods (opt_field spec ''taints'')) (\<lambda>tainted.
       if tainted then Inr False else opt_some is_ready (opt_field (opt_field (Some j) ''status'') ''conditions'')))"

text \<open>The size of the set of the zones; two values that are objects are never the same.\<close>

definition is_object :: "jsopt \<Rightarrow> bool" where
  "is_object v = (case v of Some (JObj _) \<Rightarrow> True | Some (JArr _) \<Rightarrow> True | _ \<Rightarrow> False)"

definition zone_count :: "json list \<Rightarrow> nat" where
  "zone_count js =
     (let zones = filter jtruthy (map (\<lambda>j. opt_field (opt_field (opt_field (Some j) ''metadata'') ''labels'') ''topology.kubernetes.io/zone'') js)
      in length (new_Set (filter (\<lambda>z. \<not> is_object z) zones)) + length (filter is_object zones))"

definition check_capacity :: "'h host_scheme \<Rightarrow> session \<Rightarrow> jsopt \<Rightarrow> unit io" where
  "check_capacity H S plan =
     io_bind (kubectl H S [''get'', ''nodes'', ''--output'', ''json''] ''Validate schedulable failure-domain capacity'') (\<lambda>nodeDocument.
     io_bind (io_lift (pf_parse H nodeDocument)) (\<lambda>document.
     io_bind (io_value (Some document) [''items'']) (\<lambda>items.
     io_bind (io_lift (array_for ''filter'' items)) (\<lambda>js.
     io_bind (io_lift (filter_items schedulable js)) (\<lambda>nodes.
     io_bind (io_value plan [''topology'', ''minimumFailureDomains'']) (\<lambda>least.
     let below_least = (\<lambda>n. num_less (Fin (of_nat n)) (to_number (pf_number H) least)) in
     io_then (io_when (below_least (length nodes))
       (io_fail (''HA requires at least '' @ opt_text (pf_number H) least @ '' ready schedulable nodes.'')))
     (io_when (below_least (zone_count nodes))
       (io_fail (''HA requires ready nodes in at least '' @ opt_text (pf_number H) least @ '' labeled topology zones.''))))))))) "

definition check_ingress_target :: "'h host_scheme \<Rightarrow> session \<Rightarrow> jsopt \<Rightarrow> string \<Rightarrow> unit io" where
  "check_ingress_target H S config namespace =
     io_bind (io_part H config [''networking'', ''traefikNamespace'']) (\<lambda>traefik.
     io_then (kubectl H S [''get'', ''namespace'', traefik, ''--request-timeout=15s''] ''Validate ingress namespace'')
     (io_bind (io_part H config [''networking'', ''traefikService'']) (\<lambda>service.
      io_then (kubectl H S [''get'', ''service'', service, ''--namespace'', traefik, ''--request-timeout=15s''] ''Validate ingress service'')
     (io_bind (io_part H config [''networking'', ''metalLbNamespace'']) (\<lambda>metalLb.
      io_then (kubectl H S [''get'', ''namespace'', metalLb, ''--request-timeout=15s''] ''Validate MetalLB namespace'')
     (io_bind (io_part H config [''ingress'', ''tlsSecretName'']) (\<lambda>tls.
      quiet (kubectl H S [''get'', ''secret'', tls, ''--namespace'', namespace, ''--request-timeout=15s''] ''Validate ingress TLS Secret reference''))))))))"

definition check_redis_pull_secrets :: "'h host_scheme \<Rightarrow> session \<Rightarrow> jsopt \<Rightarrow> string \<Rightarrow> unit io" where
  "check_redis_pull_secrets H S config namespace =
     io_bind (io_value config [''redis'', ''managedImagePullSecrets'']) (\<lambda>v.
     io_bind (io_lift (iterated v)) (io_each (\<lambda>j.
       assert_secret H S ''Managed Redis image pull Secret '' (json_text (pf_number H) j) namespace
         ''Validate managed Redis image pull Secret reference'')))"

definition check_credentials :: "'h host_scheme \<Rightarrow> session \<Rightarrow> jsopt \<Rightarrow> string \<Rightarrow> unit io" where
  "check_credentials H S config namespace =
     io_bind (io_part H config [''redis'', ''credentialsSecret'']) (\<lambda>name.
     io_then (assert_secret H S ''Credential Secret '' name namespace ''Validate credential Secret reference'')
     (io_bind (secret_keys H S name namespace ''Validate credential Secret keys'') (\<lambda>keys.
      io_bind (io_equals config [''redis'', ''mode''] ''managed'') (\<lambda>managed.
      io_each (\<lambda>k. io_bind (io_value config [''redis'', k]) (assert_key H (''Credential Secret '' @ quoted name) keys))
        (if managed then [''credentialKey'', ''adminCredentialKey''] else [''credentialKey''])))))"

text \<open>The conditional checks of \<open>assertTarget\<close>, in their order.\<close>

definition target_checks :: "'h host_scheme \<Rightarrow> session \<Rightarrow> jsopt \<Rightarrow> jsopt \<Rightarrow> bool \<Rightarrow> string \<Rightarrow> unit io list" where
  "target_checks H S plan config mutation namespace = [
     io_guard (io_equals config [''redis'', ''mode''] ''managed'')
       (io_bind (io_part H config [''kubernetes'', ''storageClass'']) (\<lambda>storageClass.
        quiet (kubectl H S [''get'', ''storageclass'', storageClass, ''--request-timeout=15s''] ''Validate storage class''))),
     io_guard (io_flag config [''ingress'', ''enabled'']) (check_ingress_target H S config namespace),
     io_guard (io_flag config [''observability'', ''serviceMonitor''])
       (quiet (kubectl H S [''get'', ''customresourcedefinition'', ''servicemonitors.monitoring.coreos.com'', ''--request-timeout=15s'']
         ''Validate ServiceMonitor support'')),
     io_guard (io_flag config [''observability'', ''otlpHeadersSecret'']) (check_otlp_secret H S config namespace),
     io_guard (io_equals config [''topology''] ''ha'') (check_capacity H S plan),
     io_when mutation
       (io_bind (kubectl H S [''auth'', ''can-i'', ''create'', ''deployments.apps'', ''--namespace'', namespace] ''Validate mutation permission'')
         (\<lambda>allowed. io_when (allowed \<noteq> ''yes'') (io_fail (''Missing deployment mutation permission in '' @ quoted namespace @ ''.'')))),
     io_guard (io_flag config [''image'', ''pullSecretName''])
       (io_bind (io_part H config [''image'', ''pullSecretName'']) (\<lambda>name.
        assert_secret H S ''Image pull Secret '' name namespace ''Validate image pull Secret reference'')),
     io_guard (io_equals config [''redis'', ''mode''] ''managed'') (check_redis_pull_secrets H S config namespace),
     check_credentials H S config namespace]"

definition assertTarget :: "'h host_scheme \<Rightarrow> session \<Rightarrow> jsopt \<Rightarrow> jsopt \<Rightarrow> bool \<Rightarrow> unit io" where
  "assertTarget H S plan config mutation =
     io_bind (io_value plan [''target'']) (\<lambda>target.
     io_then (assert_context H S target)
     (io_then (kubectl H S [''cluster-info'', ''--request-timeout=15s''] ''Reach Kubernetes API'')
     (io_then (io_when (se_action S \<noteq> ''rollback'')
        (quiet (helm H S [''lint'', ''helm/realtime-gateway'', ''--strict'', ''--values'', path_text (se_valuesPath S)]
          ''Lint rendered gateway configuration'')))
     (io_bind (io_part H target [''namespace'']) (\<lambda>namespace.
      io_each (\<lambda>check. check) (target_checks H S plan config mutation namespace))))))"

definition assertTeardownTarget :: "'h host_scheme \<Rightarrow> session \<Rightarrow> jsopt \<Rightarrow> unit io" where
  "assertTeardownTarget H S plan =
     io_bind (io_value plan [''target'']) (\<lambda>target.
     io_then (assert_context H S target)
     (io_then (kubectl H S [''cluster-info'', ''--request-timeout=15s''] ''Reach Kubernetes API'')
     (io_bind (io_part H target [''namespace'']) (\<lambda>namespace.
      io_bind (kubectl H S [''auth'', ''can-i'', ''delete'', ''deployments.apps'', ''--namespace'', namespace] ''Validate teardown permission'') (\<lambda>allowed.
      io_then (io_when (allowed \<noteq> ''yes'') (io_fail (''Missing deployment deletion permission in '' @ quoted namespace @ ''.'')))
      (quiet (list_releases H S target ''Inventory teardown releases'')))))))"

definition assertBackupTarget :: "'h host_scheme \<Rightarrow> session \<Rightarrow> jsopt \<Rightarrow> unit io" where
  "assertBackupTarget H S plan =
     io_bind (io_value plan [''target'']) (\<lambda>target.
     io_then (assert_context H S target)
     (io_then (kubectl H S [''cluster-info'', ''--request-timeout=15s''] ''Reach Kubernetes API'')
     (quiet (list_releases H S target ''Inventory backup releases''))))"

end
