(* ===== verification/Bootstrap_Backup.thy ===== *)
theory Bootstrap_Backup
  imports Bootstrap_Lifecycle
begin

text \<open>
  Backups of \<open>scripts/realtime-bootstrap.mjs\<close>: what is captured before a change, what is read of
  the installed releases, and the snapshot that a rollback restores.
\<close>

section \<open>Optional values\<close>

definition or_else :: "jsopt \<Rightarrow> jsopt \<Rightarrow> jsopt" where
  "or_else v u = (if v = None \<or> v = Some JNull then u else v)"

definition opt_chain :: "jsopt \<Rightarrow> string list \<Rightarrow> jsopt" where
  "opt_chain v ks = foldl opt_field v ks"

text \<open>\<open>value?.[0]\<close>\<close>

definition first_item :: "jsopt \<Rightarrow> jsopt" where
  "first_item v = (case v of
     Some (JArr (j # _)) \<Rightarrow> Some j
   | Some (JStr (c # _)) \<Rightarrow> Some (JStr [c])
   | _ \<Rightarrow> opt_field v ''0'')"

section \<open>Old logs and rollback sources\<close>

definition log_name :: rx where
  "log_name = seq_of [lit ''Realtime-Bootstrap-'', Many (Cls (\<lambda>c. c \<noteq> CHR 0x0A \<and> c \<noteq> CHR 0x0D)), lit ''.jsonl'']"

definition one_week :: nat where
  "one_week = 7 * 24 * 60 * 60 * 1000"

definition io_mtime :: "'h host_scheme \<Rightarrow> path \<Rightarrow> nat io" where
  "io_mtime H p = io_then (io_stat H p) (\<lambda>w. (Inr (hs_mtime H w p), w))"

definition archive_log :: "'h host_scheme \<Rightarrow> path \<Rightarrow> nat \<Rightarrow> string \<times> node \<Rightarrow> unit io" where
  "archive_log H logRoot now entry =
     (let archiveRoot = resolve logRoot ''Archive''; source = resolve logRoot (fst entry) in
      if (case snd entry of File _ \<Rightarrow> True | _ \<Rightarrow> False) \<and> rx_match log_name (fst entry)
      then io_bind (io_mtime H source) (\<lambda>mtime.
        io_when (mtime + one_week < now)
          (io_then (mkdirs H archiveRoot) (rename_path H source (resolve archiveRoot (fst entry)))))
      else io_return ())"

definition archiveOldLogs :: "'h host_scheme \<Rightarrow> path \<Rightarrow> unit io" where
  "archiveOldLogs H logRoot =
     io_guard (fileExists H logRoot)
       (io_then (io_lift (assertPathInside logRoot (resolve logRoot ''Archive'') ''log archive''))
       (io_bind (io_now H) (\<lambda>now. io_bind (readdir H logRoot) (io_each (archive_log H logRoot now)))))"

definition assertRollbackSource :: "session \<Rightarrow> string \<Rightarrow> path \<Rightarrow> thrown + unit" where
  "assertRollbackSource S release backup = (case assertPathInside (se_backupRoot S) backup ''rollback source'' of
     Inr u \<Rightarrow> Inr u
   | Inl error \<Rightarrow>
       (case assertPathInside (resolve (se_root S @ [''.backups'', ''bootstrap'']) release) backup ''legacy rollback source'' of
          Inr u \<Rightarrow> Inr u
        | Inl _ \<Rightarrow> Inl error))"

section \<open>The inventory of releases\<close>

definition release_name :: "json \<Rightarrow> jsopt" where
  "release_name item = opt_field (Some item) ''name''"

definition has_release :: "json list \<Rightarrow> jsopt \<Rightarrow> bool" where
  "has_release releases name = list_ex (\<lambda>item. strict_eq (release_name item) name) releases"

text \<open>\<open>new Set(releases.map(release => release?.name).filter(Boolean)).has(name)\<close>\<close>

definition installed_has :: "json list \<Rightarrow> jsopt \<Rightarrow> bool" where
  "installed_has releases name = list_ex (\<lambda>v. strict_eq v name) (filter jtruthy (map release_name releases))"

definition find_release :: "json list \<Rightarrow> jsopt \<Rightarrow> jsopt" where
  "find_release releases name = find (\<lambda>item. strict_eq (release_name item) name) releases"

definition capturedRedisChartVersion :: "(rat \<Rightarrow> string) \<Rightarrow> json list \<Rightarrow> jsopt \<Rightarrow> thrown + string" where
  "capturedRedisChartVersion num_str releases name =
     (case jstring (opt_field (find_release releases name) ''chart'') of
        Some chart \<Rightarrow> if startsWith chart ''redis-'' \<and> rx_match chartVersion (drop 6 chart) then Inr (drop 6 chart) else Inl (new_Error
          (''Backup inventory for '' @ quoted (opt_text num_str name) @ '' does not contain a supported Redis chart version.''))
      | None \<Rightarrow> Inl (new_Error
          (''Backup inventory for '' @ quoted (opt_text num_str name) @ '' does not contain a supported Redis chart version.'')))"

definition capturedReleaseRevision :: "(rat \<Rightarrow> string) \<Rightarrow> json list \<Rightarrow> jsopt \<Rightarrow> thrown + rat" where
  "capturedReleaseRevision num_str releases name =
     (case to_number num_str (opt_field (find_release releases name) ''revision'') of
        Fin x \<Rightarrow> if is_integral x \<and> 1 \<le> x then Inr x
          else Inl (new_Error (''Backup inventory for '' @ quoted (opt_text num_str name) @ '' does not contain a valid Helm revision.''))
      | _ \<Rightarrow> Inl (new_Error (''Backup inventory for '' @ quoted (opt_text num_str name) @ '' does not contain a valid Helm revision.'')))"

section \<open>The chart of the installed Redis release\<close>

definition legacy_matches :: "(rat \<Rightarrow> string) \<Rightarrow> jsopt \<Rightarrow> jsopt \<Rightarrow> jsopt \<Rightarrow> jsopt \<Rightarrow> string \<Rightarrow> bool" where
  "legacy_matches num_str plan managedChartVersion release vs installedVersion =
     (let expected = opt_chain plan [''values'', ''redis'']; user = first_item (opt_chain vs [''auth'', ''acl'', ''users'']);
          expectedPrefix = opt_text num_str (opt_field expected ''instancePrefix'') in
      managedChartVersion = Some (JStr installedVersion)
      \<and> strict_eq (opt_field vs ''fullnameOverride'') release
      \<and> strict_eq (opt_chain vs [''auth'', ''existingSecret'']) (opt_chain expected [''credentialsSecret'', ''name''])
      \<and> strict_eq (opt_chain vs [''auth'', ''existingSecretPasswordKey'']) (opt_field expected ''managedAdminPasswordKey'')
      \<and> strict_eq (opt_chain vs [''auth'', ''acl'', ''userSecret'']) (opt_chain expected [''credentialsSecret'', ''name''])
      \<and> strict_eq (opt_field user ''username'') (opt_field expected ''username'')
      \<and> opt_field user ''keys'' = Some (JStr (''~'' @ expectedPrefix @ '':*''))
      \<and> opt_field user ''channels'' = Some (JStr (''&'' @ expectedPrefix @ '':*'')))"

definition oci_chart :: "jsopt \<Rightarrow> string option" where
  "oci_chart v = (case jstring v of Some s \<Rightarrow> if startsWith s ''oci://'' then Some s else None | None \<Rightarrow> None)"

definition managedRedisChartForBackup ::
  "'h host_scheme \<Rightarrow> session \<Rightarrow> jsopt \<Rightarrow> jsopt \<Rightarrow> jsopt \<Rightarrow> json \<Rightarrow> string \<Rightarrow> string io" where
  "managedRedisChartForBackup H S plan config release vs installedVersion =
     io_bind (io_value (Some vs) [''commonAnnotations'']) (\<lambda>annotations.
     case oci_chart (opt_field annotations ''realtime.example/managed-chart'') of
       Some chart \<Rightarrow> io_return chart
     | None \<Rightarrow>
         io_bind (io_value config [''redis'', ''managedChartVersion'']) (\<lambda>managedChartVersion.
         io_bind (io_value config [''redis'', ''legacyManagedChart'']) (\<lambda>legacy.
         case (if legacy_matches (pf_number H) plan managedChartVersion release (Some vs) installedVersion then oci_chart legacy else None) of
           None \<Rightarrow> io_fail (''Installed managed Redis release '' @ quoted (opt_text (pf_number H) release)
             @ '' does not record its chart repository and does not match the verified legacy deployment contract.'')
         | Some chart \<Rightarrow>
             io_then (emit_event H ''info'' (se_action S) ''Adopting verified legacy managed Redis release metadata.''
               (some_members [(''release'', release), (''chart'', Some (JStr chart))]))
             (io_return chart))))"

section \<open>Capturing the state\<close>

text \<open>The caches are tried in turn; the error is the one of the last.\<close>

definition attempt :: "'a io \<Rightarrow> (script_error + 'a) io" where
  "attempt m = io_catch (io_bind m (\<lambda>x. io_return (Inr x))) (\<lambda>e. io_return (Inl e))"

fun first_cached :: "'h host_scheme \<Rightarrow> string \<Rightarrow> string \<Rightarrow> path \<Rightarrow> path \<Rightarrow> path list \<Rightarrow> (script_error + archive) io" where
  "first_cached H chart version directory cache [] = attempt (copyCachedManagedRedisChart H chart version cache directory)"
| "first_cached H chart version directory cache (next # caches) =
     io_bind (attempt (copyCachedManagedRedisChart H chart version cache directory)) (\<lambda>r. case r of
       Inr a \<Rightarrow> io_return (Inr a)
     | Inl _ \<Rightarrow> first_cached H chart version directory next caches)"

definition legacy_generated_root :: "session \<Rightarrow> path" where
  "legacy_generated_root S = resolve (se_root S) ''.bootstrap/lifecycle''"

definition cached_chart :: "'h host_scheme \<Rightarrow> session \<Rightarrow> string \<Rightarrow> string \<Rightarrow> path \<Rightarrow> (script_error + archive) io" where
  "cached_chart H S chart version directory =
     io_bind (io_lift (managedRedisChartOutput (pf_sha256 H) (se_generatedRoot S) (se_targetName S) chart version)) (\<lambda>cache.
     io_bind (io_lift (managedRedisChartOutput (pf_sha256 H) (legacy_generated_root S) (se_targetName S) chart version)) (\<lambda>old.
     first_cached H chart version directory cache
       [legacyManagedRedisChartOutput (se_generatedRoot S) (se_targetName S) version, old,
        legacyManagedRedisChartOutput (legacy_generated_root S) (se_targetName S) version]))"

definition chart_members :: "string \<Rightarrow> string \<Rightarrow> archive option \<Rightarrow> json \<Rightarrow> json" where
  "chart_members chart version copied m =
     (let named = set_member ''chartVersion'' (JStr version) (set_member ''chart'' (JStr chart) m) in
      case copied of
        Some a \<Rightarrow> set_member ''chartArchiveFile'' (JStr (last (ar_path a))) (set_member ''chartArchiveSha256'' (JStr (ar_sha256 a)) named)
      | None \<Rightarrow> remove_member ''chartArchiveFile'' (remove_member ''chartArchiveSha256'' named))"

definition capture_chart :: "'h host_scheme \<Rightarrow> session \<Rightarrow> jsopt \<Rightarrow> jsopt \<Rightarrow> json list \<Rightarrow> path \<Rightarrow> jsopt \<Rightarrow> json \<Rightarrow> json \<Rightarrow> json io" where
  "capture_chart H S plan config releases directory release vs capturedPlan =
     io_bind (io_lift (capturedRedisChartVersion (pf_number H) releases release)) (\<lambda>version.
     io_bind (managedRedisChartForBackup H S plan config release vs version) (\<lambda>chart.
     io_bind (cached_chart H S chart version directory) (\<lambda>r.
     io_bind (case r of
         Inr a \<Rightarrow> io_return (Some a)
       | Inl cacheError \<Rightarrow>
           if se_action S = ''rollback''
           then io_then (emit_event H ''warn'' (se_action S) (''Current managed Redis chart is not cached; continuing the explicitly ''
               @ ''selected self-contained rollback without a restorable pre-change chart archive.'')
               [(''reason'', JStr (er_message cacheError))]) (io_return None)
           else io_fail (''Installed managed Redis chart provenance is unavailable: '' @ er_message cacheError
             @ '' Preserve the verified lifecycle chart cache or restore it from a trusted backup before capturing state.'')) (\<lambda>copied.
     io_return (set_member ''managedRedis''
       (chart_members chart version copied (coalesce (opt_field (Some capturedPlan) ''managedRedis'') (JObj []))) capturedPlan)))))"

definition values_arguments :: "string \<Rightarrow> string \<Rightarrow> string list" where
  "values_arguments release namespace = [''get'', ''values'', release, ''--namespace'', namespace, ''--all'', ''--output'', ''json'']"

definition read_values :: "'h host_scheme \<Rightarrow> session \<Rightarrow> jsopt \<Rightarrow> jsopt \<Rightarrow> string \<Rightarrow> json io" where
  "read_values H S target release description =
     io_bind (io_part H target [''namespace'']) (\<lambda>namespace.
     io_bind (helm H S (values_arguments (opt_text (pf_number H) release) namespace) description) (\<lambda>valuesDocument.
     io_lift (pf_parse H valuesDocument)))"

definition backup_release ::
  "'h host_scheme \<Rightarrow> session \<Rightarrow> jsopt \<Rightarrow> jsopt \<Rightarrow> json list \<Rightarrow> path \<Rightarrow> jsopt \<Rightarrow> json \<Rightarrow> json io" where
  "backup_release H S plan config releases directory release capturedPlan =
     (if \<not> installed_has releases release then io_return capturedPlan
      else let name = opt_text (pf_number H) release in
        io_bind (io_value plan [''target'']) (\<lambda>target.
        io_bind (read_values H S target release (''Back up '' @ name @ '' values'')) (\<lambda>vs.
        let secretPaths = inlineSecretPaths vs ''$'' in
        io_then (io_when (secretPaths \<noteq> []) (io_fail (''Refusing to persist inline credential values returned by Helm at: ''
          @ separated '', '' secretPaths @ ''. Replace them with Secret references before retrying.'')))
        (io_bind (if strict_eq release (opt_field target ''redisRelease'')
            then capture_chart H S plan config releases directory release vs capturedPlan else io_return capturedPlan) (\<lambda>captured.
         io_then (atomicWrite H (resolve directory (name @ ''.values.json'')) (stableJson (pf_number H) vs)) (io_return captured))))))"

definition capture_releases :: "'h host_scheme \<Rightarrow> session \<Rightarrow> json \<Rightarrow> jsopt \<Rightarrow> path \<Rightarrow> unit io" where
  "capture_releases H S plan config directory =
     io_bind (io_value (Some plan) [''target'']) (\<lambda>target.
     io_bind (list_releases H S target ''Inventory installed releases'') (\<lambda>releases.
     io_then (atomicWrite H (resolve directory ''releases.json'') (stableJson (pf_number H) (JArr releases)))
     (io_bind (backup_release H S (Some plan) config releases directory (opt_field target ''release'') plan) (\<lambda>captured.
      io_bind (backup_release H S (Some plan) config releases directory (opt_field target ''redisRelease'') captured) (\<lambda>captured'.
      atomicWrite H (resolve directory ''plan.json'') (stableJson (pf_number H) captured'))))))"

definition captured_message :: string where
  "captured_message = ''Pre-change state captured.''"

definition saveState :: "'h host_scheme \<Rightarrow> session \<Rightarrow> json \<Rightarrow> jsopt \<Rightarrow> path io" where
  "saveState H S plan config =
     io_bind (io_iso H) (\<lambda>timestamp.
     io_bind (io_text (Some plan) [''target'', ''release'']) (\<lambda>release.
     let directory = resolve (resolve (se_backupRoot S) release) (colons_to_hyphens timestamp) in
     io_then (io_lift (assertPathInside (se_backupRoot S) directory ''backup''))
     (io_then (mkdirs H directory)
     (io_then (io_catch (capture_releases H S plan config directory) (\<lambda>e. io_then (rm_path H directory) (io_throw e)))
     (io_then (emit_event H ''pass'' (se_action S) captured_message [(''backup'', JStr (path_text directory))])
     (io_return directory))))))"

section \<open>What is installed\<close>

definition topologyFromValues :: "(rat \<Rightarrow> string) \<Rightarrow> json \<Rightarrow> jsopt \<Rightarrow> thrown + string" where
  "topologyFromValues num_str vs release =
     bind_result (js_get (Some vs) ''topology'') (\<lambda>topology.
     if string_in topology [''ha'', ''non-ha''] then Inr (the (jstring topology))
     else case opt_field (Some vs) ''replicaCount'' of
       Some (JNum x) \<Rightarrow> if is_integral x then Inr (if 1 < x then ''ha'' else ''non-ha'')
         else Inl (new_Error (''Release '' @ quoted (opt_text num_str release) @ '' does not expose a supported topology value.''))
     | _ \<Rightarrow> Inl (new_Error (''Release '' @ quoted (opt_text num_str release) @ '' does not expose a supported topology value.'')))"

record installed_state =
  in_topology :: string
  in_redisMode :: json

definition redis_mode :: "json \<Rightarrow> bool \<Rightarrow> json" where
  "redis_mode vs redisPresent = coalesce (opt_chain (Some vs) [''redis'', ''mode'']) (JStr (if redisPresent then ''managed'' else ''external''))"

definition managed_topology :: "'h host_scheme \<Rightarrow> jsopt \<Rightarrow> json \<Rightarrow> installed_state io" where
  "managed_topology H redisRelease vs =
     io_bind (io_value (Some vs) [''architecture'']) (\<lambda>architecture.
     if architecture = Some (JStr ''standalone'') then io_return \<lparr>in_topology = ''non-ha'', in_redisMode = JStr ''managed''\<rparr>
     else if architecture = Some (JStr ''replication'') then io_return \<lparr>in_topology = ''ha'', in_redisMode = JStr ''managed''\<rparr>
     else io_fail (''Release '' @ quoted (opt_text (pf_number H) redisRelease) @ '' does not expose a supported managed Redis architecture.''))"

definition installedReleaseState :: "'h host_scheme \<Rightarrow> session \<Rightarrow> jsopt \<Rightarrow> installed_state option io" where
  "installedReleaseState H S target =
     io_then (assert_context H S target)
     (io_bind (list_releases H S target ''Inspect installed releases for topology'') (\<lambda>releases.
      let release = opt_field target ''release''; redisRelease = opt_field target ''redisRelease'' in
      if \<not> has_release releases release
      then if \<not> has_release releases redisRelease then io_return None
        else io_bind (read_values H S target redisRelease ''Read installed managed Redis topology'') (\<lambda>vs.
          io_bind (managed_topology H redisRelease vs) (\<lambda>st. io_return (Some st)))
      else io_bind (read_values H S target release ''Read installed gateway topology'') (\<lambda>vs.
        io_bind (io_lift (topologyFromValues (pf_number H) vs release)) (\<lambda>topology.
        io_return (Some \<lparr>in_topology = topology, in_redisMode = redis_mode vs (has_release releases redisRelease)\<rparr>)))))"

end
