(* ===== verification/Bootstrap_Apply.thy ===== *)
theory Bootstrap_Apply
  imports Bootstrap_Backup
begin

text \<open>
  The changes that \<open>scripts/realtime-bootstrap.mjs\<close> makes: the naming manifest, the Redis chart,
  installation and update, the rollback to a snapshot, and the locks of a target.
\<close>

section \<open>The snapshot of a rollback\<close>

record snapshot =
  sn_topology :: string
  sn_redisMode :: json
  sn_gatewayValues :: json
  sn_managedRedisValues :: jsopt
  sn_managedRedisChart :: jsopt
  sn_managedRedisChartVersion :: jsopt
  sn_managedRedisChartArchiveSha256 :: jsopt

text \<open>The result of \<open>readRollbackSnapshot\<close>: without or with the gateway.\<close>

datatype rollback_snapshot = GatewayAbsent | GatewayPresent (captured_state: snapshot)

definition backup_path :: "session \<Rightarrow> path option" where
  "backup_path S = (case ag_backup (rq_arguments (se_request S)) of
     None \<Rightarrow> None
   | Some b \<Rightarrow> if b = [] then None else Some (resolve (se_cwd S) b))"

text \<open>The saved plan and the inventory of a backup of the target; both kinds of rollback begin with it.\<close>

definition open_backup :: "'h host_scheme \<Rightarrow> session \<Rightarrow> jsopt \<Rightarrow> (path \<times> json \<times> json list) io" where
  "open_backup H S target = (case backup_path S of
     None \<Rightarrow> io_fail ''rollback requires --backup pointing to a captured backup directory.''
   | Some backup \<Rightarrow>
       io_bind (io_text target [''release'']) (\<lambda>release.
       io_then (io_lift (assertRollbackSource S release backup))
       (io_bind (io_readJson H (resolve backup ''plan.json'')) (\<lambda>savedPlan.
        io_bind (io_value (Some savedPlan) [''target'', ''context'']) (\<lambda>context.
        let saved = opt_field (Some savedPlan) ''target'' in
        io_then (io_when (\<not> strict_eq context (opt_field target ''context'')
            \<or> \<not> strict_eq (opt_field saved ''namespace'') (opt_field target ''namespace'')
            \<or> \<not> strict_eq (opt_field saved ''release'') (opt_field target ''release''))
          (io_fail ''Backup target does not match the requested context, namespace, and release.''))
        (io_bind (io_readJson H (resolve backup ''releases.json'')) (\<lambda>releases. case items_of (Some releases) of
           None \<Rightarrow> io_fail ''Backup release inventory is invalid.''
         | Some js \<Rightarrow> io_return (backup, savedPlan, js))))))))"

definition values_path :: "'h host_scheme \<Rightarrow> path \<Rightarrow> jsopt \<Rightarrow> path" where
  "values_path H backup release = resolve backup (opt_text (pf_number H) release @ ''.values.json'')"

definition missing_values :: "'h host_scheme \<Rightarrow> jsopt \<Rightarrow> string" where
  "missing_values H release =
     ''Backup inventory includes '' @ quoted (opt_text (pf_number H) release) @ '' but its values snapshot is missing.''"

definition captured_snapshot :: "'h host_scheme \<Rightarrow> jsopt \<Rightarrow> path \<Rightarrow> json \<Rightarrow> json list \<Rightarrow> json \<Rightarrow> bool \<Rightarrow> snapshot io" where
  "captured_snapshot H target backup savedPlan releases vs redisPresent =
     (let redisRelease = opt_field target ''redisRelease'';
          saved = (\<lambda>k. if redisPresent then opt_chain (Some savedPlan) [''managedRedis'', k] else None) in
      io_bind (io_lift (topologyFromValues (pf_number H) vs (opt_field target ''release''))) (\<lambda>topology.
      io_bind (if redisPresent then io_bind (io_readJson H (values_path H backup redisRelease)) (\<lambda>j. io_return (Some j)) else io_return None) (\<lambda>redisValues.
      io_bind (if redisPresent
          then io_bind (io_lift (capturedRedisChartVersion (pf_number H) releases redisRelease)) (\<lambda>v. io_return (Some (JStr v)))
          else io_return None) (\<lambda>version.
      io_return \<lparr>sn_topology = topology, sn_redisMode = redis_mode vs redisPresent, sn_gatewayValues = vs,
        sn_managedRedisValues = redisValues, sn_managedRedisChart = saved ''chart'', sn_managedRedisChartVersion = version,
        sn_managedRedisChartArchiveSha256 = saved ''chartArchiveSha256''\<rparr>))))"

definition readRollbackSnapshot :: "'h host_scheme \<Rightarrow> session \<Rightarrow> jsopt \<Rightarrow> rollback_snapshot io" where
  "readRollbackSnapshot H S target =
     io_bind (open_backup H S target) (\<lambda>(backup, savedPlan, releases).
     let release = opt_field target ''release''; redisRelease = opt_field target ''redisRelease'';
         redisPresent = installed_has releases redisRelease in
     if \<not> installed_has releases release then io_return GatewayAbsent
     else io_bind (fileExists H (values_path H backup release)) (\<lambda>found.
       io_then (io_when (\<not> found) (io_fail (missing_values H release)))
       (io_bind (io_readJson H (values_path H backup release)) (\<lambda>vs.
        io_then (io_when redisPresent (io_bind (fileExists H (values_path H backup redisRelease)) (\<lambda>redisFound.
          io_when (\<not> redisFound) (io_fail (missing_values H redisRelease)))))
        (io_bind (captured_snapshot H target backup savedPlan releases vs redisPresent) (\<lambda>sn. io_return (GatewayPresent sn)))))))"

section \<open>The naming manifest\<close>

definition writeNamingManifest :: "'h host_scheme \<Rightarrow> session \<Rightarrow> jsopt \<Rightarrow> unit io" where
  "writeNamingManifest H S config =
     io_bind (io_lift (releaseNames (pf_number H) config)) (\<lambda>names.
     io_bind (io_text config [''image'', ''repository'']) (\<lambda>repository.
     io_bind (io_value config [''redis'', ''instancePrefix'']) (\<lambda>instancePrefix.
     let parts = split_on CHR ''/'' repository in
     atomicWrite H (resolve (se_root S) ''.bootstrap/naming.json'') (stableJson (pf_number H) (JObj (some_members [
       (''brand'', Some (JStr ''Realtime'')),
       (''application'', Some (JStr (nm_application names))),
       (''serviceName'', Some (JStr (''realtime-'' @ nm_application names @ ''-gateway''))),
       (''containerRegistry'', Some (JStr (hd parts))),
       (''containerRepository'', Some (JStr (separated ''/'' (tl parts)))),
       (''imageRepository'', Some (JStr repository)),
       (''redisInstancePrefix'', instancePrefix),
       (''kubernetesApplication'', Some (JStr (nm_application names)))]))))))"

section \<open>Installation and update\<close>

definition gatewayUpgradeArguments :: "'h host_scheme \<Rightarrow> session \<Rightarrow> jsopt \<Rightarrow> string list io" where
  "gatewayUpgradeArguments H S plan =
     io_bind (io_part H plan [''target'', ''release'']) (\<lambda>release.
     io_bind (io_part H plan [''target'', ''namespace'']) (\<lambda>namespace.
     io_bind (io_part H plan [''safety'', ''boundedTimeoutSeconds'']) (\<lambda>seconds.
     io_return [''upgrade'', ''--install'', release, ''helm/realtime-gateway'', ''--namespace'', namespace, ''--create-namespace'',
       ''--values'', path_text (se_valuesPath S), ''--history-max'', ''0'', ''--atomic'', ''--wait'', ''--timeout='' @ seconds @ ''s''])))"

definition timeout_argument :: "session \<Rightarrow> string" where
  "timeout_argument S = ''--timeout='' @ nat_str (rq_timeout (se_request S)) @ ''s''"

text \<open>The chart that was prepared, or the reference and its version.\<close>

definition chart_arguments :: "'h host_scheme \<Rightarrow> session \<Rightarrow> jsopt \<Rightarrow> string list io" where
  "chart_arguments H S plan = (case se_redisChartPath S of
     Some p \<Rightarrow> io_return [path_text p]
   | None \<Rightarrow> io_bind (io_part H plan [''managedRedis'', ''chart'']) (\<lambda>chart.
       io_bind (io_part H plan [''managedRedis'', ''chartVersion'']) (\<lambda>version. io_return [chart, ''--version'', version])))"

definition recover_redis :: "'h host_scheme \<Rightarrow> session \<Rightarrow> jsopt \<Rightarrow> string \<Rightarrow> string \<Rightarrow> unit io" where
  "recover_redis H S plan redisRelease namespace =
     io_bind (io_equals plan [''managedRedis'', ''values'', ''architecture''] ''replication'') (\<lambda>replicated.
     let statefulSet = ''statefulset/'' @ redisRelease @ (if replicated then ''-node'' else ''-master'') in
     io_then (kubectl H S [''rollout'', ''restart'', statefulSet, ''--namespace'', namespace]
       ''Restart managed Redis after referenced Secret rotation'')
     (quiet (kubectl H S [''rollout'', ''status'', statefulSet, ''--namespace'', namespace, timeout_argument S]
       ''Verify managed Redis recovery rollout'')))"

definition apply_redis :: "'h host_scheme \<Rightarrow> session \<Rightarrow> jsopt \<Rightarrow> unit io" where
  "apply_redis H S plan =
     io_bind (io_part H plan [''target'', ''redisRelease'']) (\<lambda>redisRelease.
     io_bind (chart_arguments H S plan) (\<lambda>chart.
     io_bind (io_part H plan [''target'', ''namespace'']) (\<lambda>namespace.
     io_bind (io_part H plan [''managedRedis'', ''baseValuesPath'']) (\<lambda>base.
     io_then (helm H S ([''upgrade'', ''--install'', redisRelease] @ chart @ [''--namespace'', namespace, ''--create-namespace'',
         ''--values'', base, ''--values'', path_text (se_redisValuesPath S), ''--history-max'', ''0'', ''--atomic'', ''--wait'',
         timeout_argument S]) ''Install or update managed Redis'')
     (io_when (se_action S = ''recover'') (recover_redis H S plan redisRelease namespace))))))"

definition apply_plan :: "'h host_scheme \<Rightarrow> session \<Rightarrow> jsopt \<Rightarrow> jsopt \<Rightarrow> unit io" where
  "apply_plan H S plan config =
     io_then (io_guard (io_equals config [''redis'', ''mode''] ''managed'') (apply_redis H S plan))
     (io_bind (gatewayUpgradeArguments H S plan) (\<lambda>args.
      io_then (helm H S args ''Install or update realtime gateway'')
      (io_bind (io_part H plan [''target'', ''release'']) (\<lambda>release.
       io_bind (io_part H plan [''target'', ''namespace'']) (\<lambda>namespace.
       io_then (io_when (se_action S \<in> set [''update'', ''recover''])
         (quiet (kubectl H S [''rollout'', ''restart'', ''deployment/'' @ release, ''--namespace'', namespace]
           ''Restart gateway after referenced Secret rotation'')))
       (quiet (kubectl H S [''rollout'', ''status'', ''deployment/'' @ release, ''--namespace'', namespace, timeout_argument S]
         ''Verify gateway rollout'')))))))"

section \<open>The Redis chart\<close>

text \<open>A copy from a cache of the former layout; what fails is passed over.\<close>

fun legacy_copy :: "'h host_scheme \<Rightarrow> session \<Rightarrow> string \<Rightarrow> string \<Rightarrow> path \<Rightarrow> path list \<Rightarrow> path option io" where
  "legacy_copy H S chart version outputDirectory [] = io_return None"
| "legacy_copy H S chart version outputDirectory (cache # caches) =
     (if cache = outputDirectory then legacy_copy H S chart version outputDirectory caches
      else io_bind (attempt (copyCachedManagedRedisChart H chart version cache outputDirectory)) (\<lambda>r. case r of
        Inl _ \<Rightarrow> legacy_copy H S chart version outputDirectory caches
      | Inr a \<Rightarrow> io_then (emit_event H ''info'' (se_action S) ''Reusing verified legacy managed Redis chart cache.''
          [(''cacheDirectory'', JStr (path_text cache))]) (io_return (Some (ar_path a)))))"

definition prepareRedisChart :: "'h host_scheme \<Rightarrow> session \<Rightarrow> string \<Rightarrow> string \<Rightarrow> string \<Rightarrow> path option \<Rightarrow> path io" where
  "prepareRedisChart H S chart version archiveSha256 chartArchivePath =
     io_bind (io_lift (managedRedisChartOutput (pf_sha256 H) (se_generatedRoot S) (se_targetName S) chart version)) (\<lambda>outputDirectory.
     io_bind (case chartArchivePath of
         Some p \<Rightarrow> io_return (Some p)
       | None \<Rightarrow>
           io_bind (io_lift (managedRedisChartOutput (pf_sha256 H) (legacy_generated_root S) (se_targetName S) chart version)) (\<lambda>old.
           legacy_copy H S chart version outputDirectory
             [old, legacyManagedRedisChartOutput (legacy_generated_root S) (se_targetName S) version])) (\<lambda>archivePath.
     io_bind (prepareManagedRedisChart H chart version archiveSha256 archivePath outputDirectory ''helm''
         (Fin (of_nat (rq_timeout (se_request S))))) (\<lambda>pr.
     io_then (emit_event H ''pass'' (se_action S) ''Verified and patched managed Redis chart.''
       [(''chart'', JStr chart), (''chartVersion'', JStr version), (''chartArchiveSha256'', JStr archiveSha256)])
     (io_return (pp_chartDirectory pr)))))"

definition prepare_plan_chart :: "'h host_scheme \<Rightarrow> session \<Rightarrow> jsopt \<Rightarrow> path io" where
  "prepare_plan_chart H S plan =
     io_bind (io_part H plan [''managedRedis'', ''chart'']) (\<lambda>chart.
     io_bind (io_part H plan [''managedRedis'', ''chartVersion'']) (\<lambda>version.
     io_bind (io_part H plan [''managedRedis'', ''chartArchiveSha256'']) (\<lambda>archiveSha256.
     prepareRedisChart H S chart version archiveSha256 None)))"

end
