(* ===== verification/Bootstrap_Rollback.thy ===== *)
theory Bootstrap_Rollback
  imports Bootstrap_Apply
begin

text \<open>
  The rollback of \<open>scripts/realtime-bootstrap.mjs\<close> to a snapshot, the configuration its checks use,
  and the locks of a target.
\<close>

section \<open>The rollback\<close>

definition basename :: "string \<Rightarrow> string" where
  "basename s = rev (takeWhile (\<lambda>c. c \<noteq> CHR ''/'') (dropWhile (\<lambda>c. c = CHR ''/'') (rev s)))"

definition nonempty_text :: "jsopt \<Rightarrow> string \<Rightarrow> string io" where
  "nonempty_text v m = (case jstring v of Some s \<Rightarrow> if s = [] then io_fail m else io_return s | None \<Rightarrow> io_fail m)"

text \<open>The archive that the backup holds, if its plan names one.\<close>

definition backup_archive :: "'h host_scheme \<Rightarrow> path \<Rightarrow> jsopt \<Rightarrow> path option io" where
  "backup_archive H backup chartArchiveFile = (case chartArchiveFile of
     None \<Rightarrow> io_return None
   | Some v \<Rightarrow> (case jstring (Some v) of
       None \<Rightarrow> io_fail ''Backup plan contains an invalid managed Redis chart archive path.''
     | Some name \<Rightarrow>
         if basename name \<noteq> name then io_fail ''Backup plan contains an invalid managed Redis chart archive path.''
         else let chartArchivePath = resolve backup name in
           io_then (io_lift (assertPathInside backup chartArchivePath ''rollback chart archive''))
           (io_bind (fileExists H chartArchivePath) (\<lambda>found.
            io_then (io_when (\<not> found) (io_fail ''Backup managed Redis chart archive is missing.''))
            (io_return (Some chartArchivePath))))))"

definition restore_gateway :: "'h host_scheme \<Rightarrow> session \<Rightarrow> json list \<Rightarrow> jsopt \<Rightarrow> string \<Rightarrow> unit io" where
  "restore_gateway H S releases release namespace =
     (let name = opt_text (pf_number H) release in
      io_bind (io_lift (capturedReleaseRevision (pf_number H) releases release)) (\<lambda>revision.
      quiet (helm H S [''rollback'', name, pf_number H revision, ''--namespace'', namespace, ''--wait'', timeout_argument S]
        (''Restore '' @ name @ '' revision''))))"

definition restore_redis ::
  "'h host_scheme \<Rightarrow> session \<Rightarrow> jsopt \<Rightarrow> path \<Rightarrow> json \<Rightarrow> json list \<Rightarrow> jsopt \<Rightarrow> string \<Rightarrow> unit io" where
  "restore_redis H S plan backup savedPlan releases release namespace =
     (let name = opt_text (pf_number H) release; saved = (\<lambda>k. opt_chain (Some savedPlan) [''managedRedis'', k]) in
      io_bind (nonempty_text (saved ''chart'') ''Backup plan does not contain the managed Redis chart repository.'') (\<lambda>chart.
      io_bind (io_lift (capturedRedisChartVersion (pf_number H) releases release)) (\<lambda>version.
      io_bind (nonempty_text (or_else (saved ''chartArchiveSha256'') (opt_chain plan [''managedRedis'', ''chartArchiveSha256'']))
         (''Backup plan does not contain the managed Redis chart archive checksum. A legacy backup can only be restored ''
          @ ''when its exact chart pin matches the current trusted configuration.'')) (\<lambda>archiveSha256.
      io_bind (backup_archive H backup (saved ''chartArchiveFile'')) (\<lambda>archivePath.
      io_bind (prepareRedisChart H S chart version archiveSha256 archivePath) (\<lambda>restoredChart.
      quiet (helm H S [''upgrade'', ''--install'', name, path_text restoredChart, ''--namespace'', namespace,
          ''--values'', path_text (values_path H backup release), ''--atomic'', ''--wait'', timeout_argument S]
        (''Restore '' @ name))))))))"

definition restore_release ::
  "'h host_scheme \<Rightarrow> session \<Rightarrow> jsopt \<Rightarrow> path \<Rightarrow> json \<Rightarrow> json list \<Rightarrow> jsopt \<Rightarrow> unit io" where
  "restore_release H S plan backup savedPlan releases release =
     (let name = opt_text (pf_number H) release in
      io_bind (io_part H plan [''target'', ''namespace'']) (\<lambda>namespace.
      if \<not> installed_has releases release
      then quiet (helm H S [''uninstall'', name, ''--namespace'', namespace, ''--ignore-not-found'', ''--keep-history'', ''--wait'',
          timeout_argument S] (''Remove '' @ name @ '' absent from backup''))
      else io_bind (fileExists H (values_path H backup release)) (\<lambda>found.
        if \<not> found then io_fail (missing_values H release)
        else if strict_eq release (opt_chain plan [''target'', ''release'']) then restore_gateway H S releases release namespace
        else restore_redis H S plan backup savedPlan releases release namespace)))"

definition rollback :: "'h host_scheme \<Rightarrow> session \<Rightarrow> jsopt \<Rightarrow> unit io" where
  "rollback H S plan =
     io_bind (io_value plan [''target'']) (\<lambda>target.
     io_bind (open_backup H S target) (\<lambda>(backup, savedPlan, releases).
     io_each (restore_release H S plan backup savedPlan releases)
       [opt_field target ''redisRelease'', opt_field target ''release'']))"

section \<open>The configuration of a captured plan\<close>

text \<open>The assignment of a member; one that becomes \<open>undefined\<close> is not written out.\<close>

definition put_member :: "string \<Rightarrow> jsopt \<Rightarrow> json \<Rightarrow> json" where
  "put_member k v ob = (case v of None \<Rightarrow> remove_member k ob | Some j \<Rightarrow> set_member k j ob)"

definition assign :: "string \<Rightarrow> string \<Rightarrow> jsopt \<Rightarrow> json \<Rightarrow> thrown + json" where
  "assign part k v config = bind_result (js_get (opt_field (Some config) part) k) (\<lambda>_.
     Inr (set_member part (put_member k v (the (opt_field (Some config) part))) config))"

fun assign_all :: "(string \<times> string \<times> jsopt) list \<Rightarrow> json \<Rightarrow> thrown + json" where
  "assign_all [] config = Inr config"
| "assign_all ((part, k, v) # rest) config =
     bind_result (assign part k (or_else v (opt_chain (Some config) [part, k])) config) (assign_all rest)"

definition configurationForPlan :: "json \<Rightarrow> jsopt \<Rightarrow> thrown + json" where
  "configurationForPlan config plan =
     bind_result (js_read plan [''values'', ''image'']) (\<lambda>image.
     let vs = opt_chain (opt_field plan ''values'');
         redis = opt_chain (opt_chain plan [''managedRedis'', ''values'', ''global'']);
         storageClass = redis [''storageClass''] in
     bind_result (assign ''image'' ''pullSecretName'' (or_else (opt_field image ''pullSecretName'') (Some (JStr []))) config) (\<lambda>captured.
     bind_result (assign_all [
       (''redis'', ''mode'', vs [''redis'', ''mode'']),
       (''redis'', ''tls'', vs [''redis'', ''tls'']),
       (''redis'', ''credentialsSecret'', vs [''redis'', ''credentialsSecret'', ''name'']),
       (''redis'', ''credentialKey'', vs [''redis'', ''credentialsSecret'', ''passwordKey'']),
       (''redis'', ''adminCredentialKey'', vs [''redis'', ''managedAdminPasswordKey''])] captured) (\<lambda>captured.
     bind_result (assign ''redis'' ''managedImagePullSecrets''
         (or_else (redis [''imagePullSecrets'']) (or_else (opt_chain (Some captured) [''redis'', ''managedImagePullSecrets'']) (Some (JArr []))))
         captured) (\<lambda>captured.
     bind_result (assign_all [
       (''ingress'', ''enabled'', vs [''ingressRoute'', ''enabled'']),
       (''ingress'', ''tlsSecretName'', vs [''ingressRoute'', ''tlsSecretName'']),
       (''observability'', ''serviceMonitor'', vs [''observability'', ''serviceMonitor'', ''enabled'']),
       (''observability'', ''otlpEndpoint'', vs [''observability'', ''otlp'', ''endpoint'']),
       (''observability'', ''otlpHeadersSecret'', vs [''observability'', ''otlp'', ''headersSecret'', ''name'']),
       (''observability'', ''otlpHeadersKey'', vs [''observability'', ''otlp'', ''headersSecret'', ''key'']),
       (''networking'', ''traefikNamespace'',
          vs [''networkPolicy'', ''ingressNamespaceSelector'', ''matchLabels'', ''kubernetes.io/metadata.name'']),
       (''networking'', ''metalLbNamespace'', vs [''observability'', ''platformMetrics'', ''metalLbNamespace''])] captured) (\<lambda>captured.
     if jtruthy storageClass then assign ''kubernetes'' ''storageClass'' storageClass captured else Inr captured)))))"

section \<open>Locks\<close>

definition target_held :: "path \<Rightarrow> script_error" where
  "target_held lockPath = plain_error (''Another lifecycle operation holds the target lock '' @ quoted (path_text lockPath) @ ''.'')"

definition stale_lock :: "'h host_scheme \<Rightarrow> path \<Rightarrow> bool io" where
  "stale_lock H lockPath =
     io_bind (fileExists H (resolve lockPath ''owner.json'')) (\<lambda>owned.
     if owned
     then io_catch (io_bind (io_readJson H (resolve lockPath ''owner.json'')) (stale_owner H)) (\<lambda>_. stale_directory H lockPath)
     else stale_directory H lockPath)"

definition acquireLock :: "'h host_scheme \<Rightarrow> path \<Rightarrow> string io" where
  "acquireLock H lockPath =
     io_bind (new_owner H) (\<lambda>(token, owner).
     io_bind (try_lock H lockPath owner) (\<lambda>created.
     if created then io_return token
     else io_bind (stale_lock H lockPath) (\<lambda>stale.
       if \<not> stale then io_throw (target_held lockPath)
       else io_then (take_over H (target_held lockPath) lockPath token owner) (io_return token))))"

definition releaseLock :: "'h host_scheme \<Rightarrow> path \<Rightarrow> string \<Rightarrow> unit io" where
  "releaseLock H lockPath token = io_catch
     (io_bind (io_readJson H (resolve lockPath ''owner.json'')) (\<lambda>owner.
      io_bind (io_value (Some owner) [''token'']) (\<lambda>t. io_when (t = Some (JStr token)) (rm_path H lockPath))))
     (\<lambda>e. if text_includes (er_message e) ''Cannot read JSON'' then io_return () else io_throw e)"

end
