(* ===== verification/Bootstrap_Main.thy ===== *)
theory Bootstrap_Main
  imports Bootstrap_Rollback
begin

text \<open>
  The function \<open>main\<close> of \<open>scripts/realtime-bootstrap.mjs\<close> and the exit code of the script. The
  stages of the function are definitions of their own, in the order of the code: the configuration and
  its paths, the locks, the plan, and the action.
\<close>

section \<open>The configuration of a run\<close>

record run_setup =
  st_config :: json
  st_profile :: json
  st_kubeContext :: string
  st_generatedRoot :: path
  st_backupRoot :: path
  st_logRoot :: path
  st_logPath :: path

text \<open>What the contract reads of the files is read of the world.\<close>

definition platform_in :: "'h host_scheme \<Rightarrow> files \<Rightarrow> platform" where
  "platform_in H fs = \<lparr>pf_readFile = (\<lambda>p. case fs_read fs p of Inl code \<Rightarrow> Inl (new_Error (hs_errno H code p)) | Inr c \<Rightarrow> Inr c),
     pf_parse = pf_parse H, pf_url = pf_url H, pf_number = pf_number H, pf_sha256 = pf_sha256 H\<rparr>"

definition io_loadContract :: "'h host_scheme \<Rightarrow> path \<Rightarrow> string \<Rightarrow> string option \<Rightarrow> contract io" where
  "io_loadContract H repositoryRoot configPath profile =
     (\<lambda>w. io_lift (loadContract (platform_in H (wd_files w)) repositoryRoot configPath profile) w)"

text \<open>The suffix of the arguments replaces the one of the configuration; it separates the keys in Redis.\<close>

definition named_config :: "(rat \<Rightarrow> string) \<Rightarrow> string option \<Rightarrow> json \<Rightarrow> thrown + json" where
  "named_config num_str nameSuffix config =
     bind_result (case nameSuffix of None \<Rightarrow> Inr config | Some s \<Rightarrow> assign ''naming'' ''suffix'' (Some (JStr s)) config) (\<lambda>config.
     bind_result (js_read (Some config) [''naming'', ''suffix'']) (\<lambda>suff.
     if \<not> jtruthy suff then Inr config
     else bind_result (js_read (Some config) [''redis'', ''instancePrefix'']) (\<lambda>p.
       assign ''redis'' ''instancePrefix'' (Some (JStr (opt_text num_str p @ '':'' @ opt_text num_str suff))) config)))"

definition default_environment_directory :: json where
  "default_environment_directory = JStr (''.bootstrap/env/'' @ [CHR 0x7B] @ ''environment'' @ [CHR 0x7D])"

definition expand_member :: "(rat \<Rightarrow> string) \<Rightarrow> string \<Rightarrow> json \<Rightarrow> thrown + json" where
  "expand_member num_str k config =
     bind_result (js_read (Some config) [''paths'', k]) (\<lambda>template.
     bind_result (js_read (Some config) [''environment'', ''name'']) (\<lambda>name.
     bind_result (expandEnvironmentPath num_str
       (if k = ''environmentDirectory'' then Some (coalesce template default_environment_directory) else template) name) (\<lambda>s.
     assign ''paths'' k (Some (JStr s)) config)))"

fun expand_members :: "(rat \<Rightarrow> string) \<Rightarrow> string list \<Rightarrow> json \<Rightarrow> thrown + json" where
  "expand_members num_str [] config = Inr config"
| "expand_members num_str (k # ks) config = bind_result (expand_member num_str k config) (expand_members num_str ks)"

definition path_at :: "path \<Rightarrow> json \<Rightarrow> string \<Rightarrow> path" where
  "path_at base config k = resolve base (the (jstring (opt_chain (Some config) [''paths'', k])))"

definition assert_roots :: "path \<Rightarrow> json \<Rightarrow> bool \<Rightarrow> thrown + unit" where
  "assert_roots base config configured =
     (let environmentRoot = path_at base config ''environmentDirectory'' in
      bind_result (assertPathInside base environmentRoot ''environment output'') (\<lambda>_.
      bind_result (assertPathInside base (path_at base config ''generatedDirectory'') ''generated output'') (\<lambda>_.
      bind_result (assertPathInside base (path_at base config ''backupDirectory'') ''backup output'') (\<lambda>_.
      bind_result (assertPathInside base (path_at base config ''logDirectory'') ''log output'') (\<lambda>_.
      if configured
      then bind_result (assertPathInside environmentRoot (path_at base config ''generatedDirectory'') ''environment generated output'') (\<lambda>_.
        assertPathInside environmentRoot (path_at base config ''logDirectory'') ''environment log output'')
      else Inr ())))))"

definition expanded_config :: "(rat \<Rightarrow> string) \<Rightarrow> path \<Rightarrow> string option \<Rightarrow> json \<Rightarrow> thrown + json" where
  "expanded_config num_str base nameSuffix config =
     bind_result (named_config num_str nameSuffix config) (\<lambda>config.
     bind_result (js_read (Some config) [''paths'', ''environmentDirectory'']) (\<lambda>configured.
     bind_result (expand_members num_str
       [''environmentDirectory'', ''generatedDirectory'', ''backupDirectory'', ''logDirectory''] config) (\<lambda>config.
     bind_result (assert_roots base config (configured \<noteq> None)) (\<lambda>_. Inr config))))"

definition log_file :: "path \<Rightarrow> string \<Rightarrow> path" where
  "log_file logRoot timestamp = resolve logRoot (''Realtime-Bootstrap-'' @ colons_to_hyphens timestamp @ ''.jsonl'')"

definition set_up :: "'h host_scheme \<Rightarrow> path \<Rightarrow> request \<Rightarrow> run_setup io" where
  "set_up H base q =
     (let a = rq_arguments q in
      io_bind (io_loadContract H base (ag_config a) (ag_profile a)) (\<lambda>ct.
      io_bind (io_value (Some (ct_config ct)) [''kubernetes'', ''context'']) (\<lambda>context.
      io_bind (io_lift (expanded_config (pf_number H) base (ag_nameSuffix a) (ct_config ct))) (\<lambda>config.
      io_bind (io_iso H) (\<lambda>timestamp.
      let logRoot = path_at base config ''logDirectory'' in
      io_return \<lparr>st_config = config, st_profile = ct_profile ct,
        st_kubeContext = (if jtruthy context then opt_text (pf_number H) context else []),
        st_generatedRoot = path_at base config ''generatedDirectory'', st_backupRoot = path_at base config ''backupDirectory'',
        st_logRoot = logRoot, st_logPath = log_file logRoot timestamp\<rparr>)))))"

section \<open>The plan of a run\<close>

record planned =
  pl_plan :: json
  pl_config :: json
  pl_snapshot :: "rollback_snapshot option"
  pl_installed :: "installed_state option"

definition plan_of :: "'h host_scheme \<Rightarrow> session \<Rightarrow> json \<Rightarrow> json \<Rightarrow> jsopt \<Rightarrow> json io" where
  "plan_of H S config profile previousTopology =
     io_bind (io_lift (buildPlan (pf_number H) (pf_sha256 H) (se_action S) (Some config) (Some profile)
       \<lparr>po_previousTopology = previousTopology, po_dryRun = ag_dryRun (rq_arguments (se_request S)),
        po_timeoutSeconds = Some (JNum (of_nat (rq_timeout (se_request S))))\<rparr>)) (\<lambda>plan. io_return (the plan))"

definition first_existing :: "'h host_scheme \<Rightarrow> path list \<Rightarrow> path option io" where
  "first_existing H ps = foldr (\<lambda>p rest. io_bind (fileExists H p) (\<lambda>found. if found then io_return (Some p) else rest)) ps (io_return None)"

definition state_path :: "session \<Rightarrow> path" where
  "state_path S = resolve (resolve (se_generatedRoot S) (se_targetName S)) ''state.json''"

definition legacy_state_path :: "session \<Rightarrow> path" where
  "legacy_state_path S = resolve (resolve (legacy_generated_root S) (se_targetName S)) ''state.json''"

definition prior_topology :: "'h host_scheme \<Rightarrow> session \<Rightarrow> jsopt io" where
  "prior_topology H S =
     io_bind (first_existing H [state_path S, legacy_state_path S]) (\<lambda>p. case p of
       None \<Rightarrow> io_return None
     | Some p \<Rightarrow> io_bind (io_readJson H p) (\<lambda>j. io_return (opt_field (Some j) ''topology'')))"

definition rollback_config :: "'h host_scheme \<Rightarrow> session \<Rightarrow> snapshot \<Rightarrow> json \<Rightarrow> (json \<times> json) io" where
  "rollback_config H S sn config =
     io_bind (io_lift (assign ''redis'' ''mode'' (Some (sn_redisMode sn)) (set_member ''topology'' (JStr (sn_topology sn)) config))) (\<lambda>config.
     io_bind (io_readJson H (resolve (se_root S) (''bootstrap/profiles/'' @ sn_topology sn @ ''.json''))) (\<lambda>profile.
     io_then (io_when (sn_topology sn = ''ha'')
       (io_bind (io_value (Some config) [''kubernetes'', ''failureDomains'']) (\<lambda>domains.
        io_bind (io_value (Some profile) [''minimumFailureDomains'']) (\<lambda>least.
        io_when (num_less (to_number (pf_number H) domains) (to_number (pf_number H) least))
          (io_fail (''Configuration is invalid: rollback to HA requires at least '' @ opt_text (pf_number H) least
            @ '' configured failure domains.''))))))
     (io_return (config, profile))))"

definition conversion_error :: "'h host_scheme \<Rightarrow> string \<Rightarrow> json \<Rightarrow> jsopt \<Rightarrow> string" where
  "conversion_error H kind old new = kind @ '' from '' @ quoted (json_text (pf_number H) old) @ '' to '' @ quoted (opt_text (pf_number H) new)
     @ '' requires an explicit migration outside this bootstrap action.''"

definition assert_redis_mode :: "'h host_scheme \<Rightarrow> session \<Rightarrow> json \<Rightarrow> rollback_snapshot option \<Rightarrow> installed_state option \<Rightarrow> unit io" where
  "assert_redis_mode H S config sn installed = (case installed of
     None \<Rightarrow> io_return ()
   | Some st \<Rightarrow>
       io_then (io_when (se_action S \<in> set [''install'', ''update'', ''recover''] \<and> jtruthy (Some (in_redisMode st)))
         (io_bind (io_value (Some config) [''redis'', ''mode'']) (\<lambda>mode.
          io_when (\<not> strict_eq (Some (in_redisMode st)) mode) (io_fail (conversion_error H ''Redis mode conversion'' (in_redisMode st) mode)))))
       (case sn of
          Some (GatewayPresent s) \<Rightarrow>
            io_when (se_action S = ''rollback'' \<and> jtruthy (Some (in_redisMode st)) \<and> \<not> strict_eq (Some (in_redisMode st)) (Some (sn_redisMode s)))
              (io_fail (conversion_error H ''Redis mode rollback conversion'' (in_redisMode st) (Some (sn_redisMode s))))
        | _ \<Rightarrow> io_return ()))"

text \<open>The checksum that the current configuration pins for the chart of the snapshot.\<close>

definition legacy_checksum :: "snapshot \<Rightarrow> json \<Rightarrow> thrown + jsopt" where
  "legacy_checksum sn plan =
     (let managedRedis = opt_field (Some plan) ''managedRedis'' in
      if strict_eq (sn_managedRedisChart sn) (opt_field managedRedis ''chart'')
        \<and> strict_eq (sn_managedRedisChartVersion sn) (opt_field managedRedis ''chartVersion'')
      then js_get managedRedis ''chartArchiveSha256'' else Inr None)"

definition captured_plan :: "'h host_scheme \<Rightarrow> snapshot \<Rightarrow> json \<Rightarrow> thrown + json" where
  "captured_plan H sn plan = bind_result (legacy_checksum sn plan) (\<lambda>checksum.
     Inr (useCapturedDeploymentValues (pf_number H) (pf_sha256 H) plan (sn_gatewayValues sn) (sn_managedRedisValues sn)
       (sn_managedRedisChart sn) (sn_managedRedisChartVersion sn) (or_else (sn_managedRedisChartArchiveSha256 sn) checksum)))"

definition plan_run :: "'h host_scheme \<Rightarrow> session \<Rightarrow> json \<Rightarrow> json \<Rightarrow> planned io" where
  "plan_run H S config profile =
     io_bind (prior_topology H S) (\<lambda>prior.
     io_bind (plan_of H S config profile prior) (\<lambda>provisionalPlan.
     let target = opt_field (Some provisionalPlan) ''target''; clusterAware = (se_action S \<in> set mutating_actions) in
     io_bind (if se_action S = ''rollback'' then io_bind (readRollbackSnapshot H S target) (\<lambda>s. io_return (Some s)) else io_return None) (\<lambda>sn.
     io_bind (case sn of Some (GatewayPresent s) \<Rightarrow> rollback_config H S s config | _ \<Rightarrow> io_return (config, profile)) (\<lambda>(config, profile).
     io_bind (if clusterAware then installedReleaseState H S target else io_return None) (\<lambda>installed.
     io_then (assert_redis_mode H S config sn installed)
     (io_bind (plan_of H S config profile
         (case installed of Some st \<Rightarrow> Some (JStr (in_topology st)) | None \<Rightarrow> if clusterAware then None else prior)) (\<lambda>plan.
     io_bind (case sn of Some (GatewayPresent s) \<Rightarrow> io_lift (captured_plan H s plan) | _ \<Rightarrow> io_return plan) (\<lambda>plan.
     io_return \<lparr>pl_plan = plan, pl_config = config, pl_snapshot = sn, pl_installed = installed\<rparr>))))))))"

end
