(* ===== verification/Bootstrap_Run.thy ===== *)
theory Bootstrap_Run
  imports Bootstrap_Main
begin

text \<open>
  The actions of \<open>scripts/realtime-bootstrap.mjs\<close>, the locks around them, and the script as a whole
  with its exit code.
\<close>

section \<open>Actions without a backup\<close>

definition summary :: "(string \<times> nat) list \<Rightarrow> string \<times> json" where
  "summary counts = (''summary'', JObj (map (\<lambda>(k, n). (k, JNum (of_nat n))) counts))"

definition finish :: "'h host_scheme \<Rightarrow> session \<Rightarrow> string \<Rightarrow> fields \<Rightarrow> unit io" where
  "finish H S message kvs = io_then (emit_event H ''pass'' (se_action S) message kvs) (flushLog H True (se_logPath S))"

text \<open>The groups of \<open>/^v(\d+)\.(\d+)\./\<close>.\<close>

definition helm_version :: "string \<Rightarrow> (nat \<times> nat) option" where
  "helm_version s =
     (let t = drop 1 s; major = takeWhile is_digit t; r = dropWhile is_digit t;
          u = drop 1 r; minor = takeWhile is_digit u; r' = dropWhile is_digit u in
      if startsWith s ''v'' \<and> major \<noteq> [] \<and> startsWith r ''.'' \<and> minor \<noteq> [] \<and> startsWith r' ''.''
      then Some (digits_value 10 major, digits_value 10 minor) else None)"

definition helm_supported :: "string \<Rightarrow> bool" where
  "helm_supported s = (case helm_version s of None \<Rightarrow> False | Some (major, minor) \<Rightarrow> 4 \<le> major \<or> major = 3 \<and> 21 \<le> minor)"

definition prerequisites :: "'h host_scheme \<Rightarrow> session \<Rightarrow> unit io" where
  "prerequisites H S =
     io_then (run_tool H S ''node'' [''--version''] ''Validate Node.js'')
     (io_then (run_tool H S ''git'' [''--version''] ''Validate Git'')
     (io_bind (run_tool H S ''dotnet'' [''--version''] ''Validate .NET SDK'') (\<lambda>dotnetVersion.
      io_then (io_when (\<not> startsWith dotnetVersion ''10.'') (io_fail (''.NET SDK 10.x is required; detected '' @ quoted dotnetVersion @ ''.'')))
     (io_bind (helm H S [''version'', ''--short''] ''Validate Helm'') (\<lambda>helmVersion.
      io_then (io_when (\<not> helm_supported helmVersion) (io_fail (''Helm 3.21 or later is required; detected '' @ quoted helmVersion @ ''.'')))
     (io_then (kubectl H S [''version'', ''--client''] ''Validate kubectl'')
     (io_then (run_tool H S ''tar'' [''--version''] ''Validate chart extraction tool'')
     (finish H S ''Prerequisite validation completed.'' [summary [(''executed'', 6), (''skipped'', 0)]]))))))))"

definition bootstrap_workspace :: "'h host_scheme \<Rightarrow> session \<Rightarrow> unit io" where
  "bootstrap_workspace H S =
     io_then (run_tool H S ''git'' [''--version''] ''Validate Git'')
     (io_then (run_tool H S ''dotnet'' [''restore'', ''Realtime.sln'', ''--locked-mode''] ''Restore locked .NET dependencies'')
     (io_then (run_tool H S ''dotnet'' [''build'', ''Realtime.sln'', ''--configuration'', ''Release'', ''--no-restore''] ''Build the Release solution'')
     (finish H S ''Workspace bootstrap completed.'' [summary [(''executed'', 3), (''skipped'', 0)]])))"

section \<open>Actions on the target\<close>

definition validate_target :: "'h host_scheme \<Rightarrow> session \<Rightarrow> jsopt \<Rightarrow> unit io" where
  "validate_target H S plan =
     io_bind (io_part H plan [''target'', ''release'']) (\<lambda>release.
     io_bind (io_part H plan [''target'', ''namespace'']) (\<lambda>namespace.
     io_then (helm H S [''template'', release, ''helm/realtime-gateway'', ''--namespace'', namespace, ''--values'', path_text (se_valuesPath S),
         ''--api-versions'', ''monitoring.coreos.com/v1/ServiceMonitor'', ''--api-versions'', ''monitoring.coreos.com/v1/PrometheusRule'',
         ''--api-versions'', ''monitoring.coreos.com/v1alpha1/AlertmanagerConfig''] ''Render gateway manifests'')
     (io_guard (io_flag plan [''managedRedis''])
       (io_bind (io_part H plan [''target'', ''redisRelease'']) (\<lambda>redisRelease.
        io_bind (chart_arguments H S plan) (\<lambda>chart.
        io_bind (io_part H plan [''managedRedis'', ''baseValuesPath'']) (\<lambda>base.
        quiet (helm H S ([''template'', redisRelease] @ chart @ [''--namespace'', namespace, ''--values'', base,
          ''--values'', path_text (se_redisValuesPath S)]) ''Render verified managed Redis manifests''))))))))"

definition uninstall_arguments :: "session \<Rightarrow> string \<Rightarrow> string \<Rightarrow> string list" where
  "uninstall_arguments S release namespace =
     [''uninstall'', release, ''--namespace'', namespace, ''--ignore-not-found'', ''--keep-history'', ''--wait'', timeout_argument S]"

definition teardown :: "'h host_scheme \<Rightarrow> session \<Rightarrow> jsopt \<Rightarrow> jsopt \<Rightarrow> installed_state option \<Rightarrow> unit io" where
  "teardown H S plan config installed =
     io_bind (io_part H plan [''target'', ''release'']) (\<lambda>release.
     io_bind (io_part H plan [''target'', ''namespace'']) (\<lambda>namespace.
     io_then (helm H S (uninstall_arguments S release namespace) ''Remove realtime gateway'')
     (io_bind (io_equals config [''redis'', ''mode''] ''managed'') (\<lambda>managed.
      io_when (managed \<or> map_option in_redisMode installed = Some (JStr ''managed''))
        (io_bind (io_part H plan [''target'', ''redisRelease'']) (\<lambda>redisRelease.
         quiet (helm H S (uninstall_arguments S redisRelease namespace) ''Remove managed Redis'')))))))"

definition check_target :: "'h host_scheme \<Rightarrow> session \<Rightarrow> planned \<Rightarrow> unit io" where
  "check_target H S pl =
     (let plan = Some (pl_plan pl) in
      if se_action S = ''teardown'' then assertTeardownTarget H S plan
      else if se_action S = ''backup'' then assertBackupTarget H S plan
      else io_bind (if se_action S = ''rollback'' then io_lift (configurationForPlan (pl_config pl) plan) else io_return (pl_config pl))
        (\<lambda>config. assertTarget H S plan (Some config) (se_action S \<in> set mutating_actions)))"

definition back_up :: "'h host_scheme \<Rightarrow> session \<Rightarrow> planned \<Rightarrow> path option io" where
  "back_up H S pl =
     io_bind (io_flag (Some (pl_plan pl)) [''safety'', ''requiresBackup'']) (\<lambda>required.
     if required \<or> se_action S = ''backup''
     then io_bind (saveState H S (pl_plan pl) (Some (pl_config pl))) (\<lambda>p. io_return (Some p)) else io_return None)"

text \<open>The session with the prepared chart, for the actions named.\<close>

definition with_chart :: "'h host_scheme \<Rightarrow> session \<Rightarrow> jsopt \<Rightarrow> string list \<Rightarrow> session io" where
  "with_chart H S plan acts =
     io_bind (io_flag plan [''managedRedis'']) (\<lambda>managed.
     if managed \<and> se_action S \<in> set acts
     then io_bind (prepare_plan_chart H S plan) (\<lambda>p. io_return (S\<lparr>se_redisChartPath := Some p\<rparr>)) else io_return S)"

definition change_target :: "'h host_scheme \<Rightarrow> session \<Rightarrow> planned \<Rightarrow> unit io" where
  "change_target H S pl =
     (let plan = Some (pl_plan pl); config = Some (pl_config pl) in
      if se_action S \<in> set [''install'', ''update'', ''recover''] then apply_plan H S plan config
      else if se_action S = ''validate'' then validate_target H S plan
      else if se_action S = ''rollback'' then rollback H S plan
      else io_when (se_action S = ''teardown'') (teardown H S plan config (pl_installed pl)))"

definition remove_legacy_state :: "'h host_scheme \<Rightarrow> session \<Rightarrow> unit io" where
  "remove_legacy_state H S = io_when (legacy_state_path S \<noteq> state_path S) (rm_file H (legacy_state_path S))"

definition path_or_null :: "path option \<Rightarrow> json" where
  "path_or_null p = (case p of None \<Rightarrow> JNull | Some p \<Rightarrow> JStr (path_text p))"

definition record_state :: "'h host_scheme \<Rightarrow> session \<Rightarrow> planned \<Rightarrow> path option \<Rightarrow> unit io" where
  "record_state H S pl backup =
     (if se_action S = ''teardown'' \<or> se_action S = ''rollback'' \<and> pl_snapshot pl = Some GatewayAbsent
      then io_then (rm_file H (state_path S)) (remove_legacy_state H S)
      else io_when (se_action S \<in> set [''install'', ''update'', ''recover'', ''rollback''])
        (io_then (atomicWrite H (state_path S) (stableJson (pf_number H) (JObj (some_members [
            (''contractVersion'', Some (JNum 2)),
            (''topology'', opt_field (Some (pl_config pl)) ''topology''),
            (''valuesSha256'', opt_field (Some (pl_plan pl)) ''valuesSha256''),
            (''backup'', Some (case backup of Some p \<Rightarrow> JStr (path_text p)
               | None \<Rightarrow> (case ag_backup (rq_arguments (se_request S)) of Some b \<Rightarrow> JStr b | None \<Rightarrow> JNull)))]))))
         (remove_legacy_state H S)))"

definition target_action :: "'h host_scheme \<Rightarrow> session \<Rightarrow> planned \<Rightarrow> unit io" where
  "target_action H S pl =
     io_then (check_target H S pl)
     (io_bind (back_up H S pl) (\<lambda>backup.
      io_bind (with_chart H S (Some (pl_plan pl)) [''install'', ''update'', ''recover'']) (\<lambda>S.
      io_then (change_target H S pl)
      (io_then (record_state H S pl backup)
      (finish H S ''Lifecycle action completed.'' (some_members [
         (''backup'', Some (path_or_null backup)),
         (''profile'', opt_field (Some (pl_config pl)) ''topology''),
         (''summary'', Some (snd (summary [(''backups'', if backup = None then 0 else 1), (''executed'', 1), (''skipped'', 0)])))])))))) "

section \<open>The run under the locks\<close>

definition stable_text :: "'h host_scheme \<Rightarrow> jsopt \<Rightarrow> string" where
  "stable_text H v = (case v of None \<Rightarrow> ''undefined'' @ line_break | Some j \<Rightarrow> stableJson (pf_number H) j)"

definition write_plan :: "'h host_scheme \<Rightarrow> session \<Rightarrow> json \<Rightarrow> unit io" where
  "write_plan H S plan =
     io_then (atomicWrite H (resolve (dirname (se_valuesPath S)) ''plan.json'') (stableJson (pf_number H) plan))
     (io_bind (io_value (Some plan) [''values'']) (\<lambda>vs.
      io_then (atomicWrite H (se_valuesPath S) (stable_text H vs))
      (io_guard (io_flag (Some plan) [''managedRedis''])
        (io_bind (io_value (Some plan) [''managedRedis'', ''values'']) (\<lambda>redisValues.
         atomicWrite H (se_redisValuesPath S) (stable_text H redisValues))))))"

definition confirm_plan :: "session \<Rightarrow> planned \<Rightarrow> unit io" where
  "confirm_plan S pl =
     (let a = rq_arguments (se_request S) in
      io_bind (io_flag (Some (pl_plan pl)) [''topology'', ''conversion'']) (\<lambda>conversion.
      io_then (io_when (conversion \<and> \<not> ag_confirm a \<and> \<not> ag_dryRun a)
        (io_fail ''Topology conversion requires --confirm-topology-change after reviewing the plan and impact warning.''))
      (io_then (io_when (se_action S = ''teardown'' \<and> \<not> ag_force a \<and> \<not> ag_dryRun a)
        (io_fail ''teardown requires --force after reviewing the target and data-loss warning.''))
      (io_when (se_action S = ''teardown'') (io_guard (io_equals (Some (pl_config pl)) [''environment'', ''class''] ''production'')
        (io_fail ''Automated teardown is forbidden for production configurations.''))))))"

definition perform :: "'h host_scheme \<Rightarrow> session \<Rightarrow> planned \<Rightarrow> unit io" where
  "perform H S pl =
     (if se_action S = ''plan'' \<or> ag_dryRun (rq_arguments (se_request S))
      then finish H S (if ag_dryRun (rq_arguments (se_request S)) then ''Dry run completed without external operations.''
        else ''Plan completed without mutation.'') [summary [(''executed'', 0), (''skipped'', 1)]]
      else io_bind (with_chart H S (Some (pl_plan pl)) [''validate'']) (\<lambda>S.
        if se_action S = ''prerequisites'' then prerequisites H S
        else if se_action S = ''bootstrap'' then bootstrap_workspace H S
        else target_action H S pl))"

definition locked_run :: "'h host_scheme \<Rightarrow> session \<Rightarrow> json \<Rightarrow> json \<Rightarrow> unit io" where
  "locked_run H S config profile =
     io_bind (plan_run H S config profile) (\<lambda>pl.
     io_then (write_plan H S (pl_plan pl))
     (io_then (emit_event H ''info'' ''plan'' ''Normalized execution plan.'' (case pl_plan pl of JObj kvs \<Rightarrow> kvs | _ \<Rightarrow> []))
     (io_then (confirm_plan S pl) (perform H S pl))))"

definition target_name :: "(rat \<Rightarrow> string) \<Rightarrow> json \<Rightarrow> string" where
  "target_name num_str config =
     (let suff = opt_chain (Some config) [''naming'', ''suffix''] in
      opt_text num_str (opt_chain (Some config) [''environment'', ''name'']) @ ''-''
      @ (if jtruthy suff then ''realtime-'' @ opt_text num_str suff else ''realtime''))"

definition session_of :: "'h host_scheme \<Rightarrow> path \<Rightarrow> path \<Rightarrow> request \<Rightarrow> run_setup \<Rightarrow> session" where
  "session_of H base cwd q st =
     (let name = target_name (pf_number H) (st_config st); targetRoot = resolve (st_generatedRoot st) name in
      \<lparr>se_root = base, se_cwd = cwd, se_request = q, se_kubeContext = st_kubeContext st, se_generatedRoot = st_generatedRoot st,
       se_backupRoot = st_backupRoot st, se_targetName = name, se_valuesPath = resolve targetRoot ''values.json'',
       se_redisValuesPath = resolve targetRoot ''redis-values.json'', se_redisChartPath = None, se_logPath = st_logPath st\<rparr>)"

definition lifecycle :: "'h host_scheme \<Rightarrow> session \<Rightarrow> run_setup \<Rightarrow> unit io" where
  "lifecycle H S st =
     (let targetRoot = resolve (se_generatedRoot S) (se_targetName S);
          locksRoot = resolve (se_root S) ''.bootstrap/locks''; namingLockPath = resolve locksRoot ''naming-manifest'';
          lockPath = resolve locksRoot (se_targetName S) in
      io_then (io_lift (assertPathInside (se_generatedRoot S) targetRoot ''generated output''))
      (io_then (mkdirs H targetRoot)
      (io_then (io_lift (assertPathInside locksRoot lockPath ''target lock''))
      (io_then (mkdirs H locksRoot)
      (io_bind (acquireLock H namingLockPath) (\<lambda>namingLockToken.
      io_bind (io_catch
          (io_then (archiveOldLogs H (st_logRoot st))
            (io_bind (acquireLock H lockPath) (\<lambda>lockToken.
             io_then (writeNamingManifest H S (Some (st_config st))) (io_return lockToken))))
          (\<lambda>e. io_then (releaseLock H namingLockPath namingLockToken) (io_throw e))) (\<lambda>lockToken.
      io_finally (locked_run H S (st_config st) (st_profile st))
        (io_finally (releaseLock H lockPath lockToken) (releaseLock H namingLockPath namingLockToken)))))))))"

section \<open>The layout actions\<close>

definition organize :: "'h host_scheme \<Rightarrow> path \<Rightarrow> request \<Rightarrow> bool \<Rightarrow> path \<Rightarrow> unit io" where
  "organize H base q persistent logFile =
     (let dryRun = ag_dryRun (rq_arguments q) in
      io_bind (organizeBootstrapEnvironment H base dryRun) (\<lambda>(m, manifestPath).
      let j = opt_field (Some (manifest_json m)); planned_moves = length (ly_moves (mf_layout m)) in
      io_then (emit_event H ''pass'' (rq_action q) (if dryRun then ''Bootstrap environment organization preview completed.''
          else ''Bootstrap environment organization completed.'') (some_members [
        (''manifest'', Some (path_or_null manifestPath)), (''moves'', j ''moves''), (''retained'', j ''retained''), (''collisions'', j ''collisions''),
        (''summary'', Some (snd (summary [(''moved'', if dryRun then 0 else planned_moves), (''planned'', planned_moves),
           (''retained'', length (ly_retained (mf_layout m))), (''collisions'', length (ly_collisions (mf_layout m)))])))]))
      (flushLog H persistent logFile)))"

definition restore_layout :: "'h host_scheme \<Rightarrow> path \<Rightarrow> request \<Rightarrow> bool \<Rightarrow> path \<Rightarrow> unit io" where
  "restore_layout H base q persistent logFile = (case ag_manifest (rq_arguments q) of
     None \<Rightarrow> io_throw (layoutError ''restore-layout requires --manifest FILE.'' 2)
   | Some m \<Rightarrow>
       if m = [] then io_throw (layoutError ''restore-layout requires --manifest FILE.'' 2)
       else let dryRun = ag_dryRun (rq_arguments q) in
         io_bind (restoreBootstrapEnvironment H base m dryRun) (\<lambda>rs.
         io_then (emit_event H ''pass'' (rq_action q) (if dryRun then ''Bootstrap environment restoration preview completed.''
             else ''Bootstrap environment organization was restored.'') [
           (''manifest'', JStr (path_text (rs_manifestPath rs))),
           summary [(''restored'', rs_restored rs), (''planned'', rs_planned rs)]])
         (flushLog H persistent logFile)))"

section \<open>The script\<close>

definition argument_failure :: rx where
  "argument_failure = seq_of [lit ''--'', some (Cls (\<lambda>c. c \<noteq> CHR 0x0A \<and> c \<noteq> CHR 0x0D)), lit '' '',
     one_of [lit ''requires'', lit ''must''], anything]"

definition exit_code :: "script_error \<Rightarrow> nat" where
  "exit_code e =
     (let m = er_message e in
      if er_exitCode e \<in> set [Some 1, Some 2, Some 3] then the (er_exitCode e)
      else if startsWith m ''Action must'' \<or> startsWith m ''Unknown argument'' \<or> rx_match argument_failure m \<or> startsWith m ''--timeout-seconds''
        \<or> list_ex (text_includes m) [''Configuration is invalid'', ''Requested profile'', ''Cannot read JSON'', ''Derived Helm release''] then 2
      else if list_ex (text_includes m) [''requires --'', ''requires an explicit migration'', ''forbidden for production'', ''Target mismatch'',
        ''Backup target does not match'', ''target lock'', ''organization lock'', ''already been restored''] then 3
      else 1)"

text \<open>The handler of \<open>main().catch\<close>; an error of the log goes to the error output.\<close>

definition failed :: "'h host_scheme \<Rightarrow> bool \<Rightarrow> path \<Rightarrow> script_error \<Rightarrow> nat io" where
  "failed H persistent logFile e =
     io_then (emit_event H ''error'' ''failure'' (er_message e) [])
     (io_then (io_catch (flushLog H persistent logFile) (\<lambda>_. io_return ())) (io_return (exit_code e)))"

definition exit_with :: "'h host_scheme \<Rightarrow> bool \<Rightarrow> path \<Rightarrow> 'a io \<Rightarrow> ('a \<Rightarrow> nat io) \<Rightarrow> nat io" where
  "exit_with H persistent logFile m k =
     io_bind (attempt m) (\<lambda>r. case r of Inl e \<Rightarrow> failed H persistent logFile e | Inr x \<Rightarrow> k x)"

definition layout_actions :: "string list" where
  "layout_actions = [''organize'', ''restore-layout'']"

definition run_request :: "'h host_scheme \<Rightarrow> path \<Rightarrow> path \<Rightarrow> string \<Rightarrow> path \<Rightarrow> request \<Rightarrow> nat io" where
  "run_request H base cwd nodeVersion logFile q =
     (let persistent = (\<not> (ag_dryRun (rq_arguments q) \<and> rq_action q \<in> set layout_actions)); succeed = (\<lambda>_. io_return 0) in
      if num_less (js_number (hd (split_on CHR ''.'' nodeVersion))) (Fin 22)
      then failed H persistent logFile (plain_error (''Configuration is invalid: Node.js 22 or later is required; detected v'' @ nodeVersion @ ''.''))
      else if rq_action q = ''organize'' then exit_with H persistent logFile (organize H base q persistent logFile) succeed
      else if rq_action q = ''restore-layout'' then exit_with H persistent logFile (restore_layout H base q persistent logFile) succeed
      else exit_with H persistent logFile (set_up H base q) (\<lambda>st.
        exit_with H persistent (st_logPath st) (lifecycle H (session_of H base cwd q st) st) succeed))"

definition realtime_bootstrap :: "'h host_scheme \<Rightarrow> path \<Rightarrow> path \<Rightarrow> string \<Rightarrow> string option \<Rightarrow> string list \<Rightarrow> nat io" where
  "realtime_bootstrap H base cwd nodeVersion environmentConfig argv =
     io_bind (io_iso H) (\<lambda>timestamp.
     let logFile = log_file (resolve base ''.logs'') timestamp in
     case parse_request environmentConfig argv of
       Inl e \<Rightarrow> failed H True logFile (plain_error (message_of e))
     | Inr Help \<Rightarrow> io_return 0
     | Inr (Request q) \<Rightarrow> run_request H base cwd nodeVersion logFile q)"

end
