(* ===== verification/Node_Files.thy ===== *)
theory Node_Files
  imports Node_Io
begin

text \<open>
  Lookups in the file system of \<open>Node_Io\<close> after each of its operations.
\<close>

section \<open>Paths and directories\<close>

lemma node_at_set: "p \<noteq> [] \<Longrightarrow> node_at (map_set p n fs) q = (if q = p then Some n else node_at fs q)"
  by (simp add: node_at_def update_conv')

lemma walk_None: "walk fs p ss = None \<longleftrightarrow> (\<forall>i. 0 < i \<and> i < length ss \<longrightarrow> node_at fs (p @ take i ss) = Some Dir)"
proof (induction fs p ss rule: walk.induct)
  case (3 fs p s t ss)
  have "walk fs p (s # t # ss) = None \<longleftrightarrow> node_at fs (p @ [s]) = Some Dir \<and> walk fs (p @ [s]) (t # ss) = None"
    by (auto split: option.split node.split)
  also have "\<dots> \<longleftrightarrow> (\<forall>i. 0 < i \<and> i < length (s # t # ss) \<longrightarrow> node_at fs (p @ take i (s # t # ss)) = Some Dir)"
    (is "?d \<and> _ \<longleftrightarrow> (\<forall>i. ?P i)")
  proof
    assume l: "?d \<and> walk fs (p @ [s]) (t # ss) = None"
    show "\<forall>i. ?P i"
    proof
      fix i show "?P i"
        using l 3 by (cases i; cases "i - 1") (auto simp: gr0_conv_Suc)
    qed
  next
    assume r: "\<forall>i. ?P i"
    have "?d" using r [rule_format, of 1] by simp
    moreover have "node_at fs ((p @ [s]) @ take i (t # ss)) = Some Dir" if "0 < i" "i < length (t # ss)" for i
      using r [rule_format, of "Suc i"] that by simp
    ultimately show "?d \<and> walk fs (p @ [s]) (t # ss) = None" using 3 by simp
  qed
  finally show ?case .
qed simp_all

lemma walk_snoc: "walk fs [] (p @ [s]) = None \<longleftrightarrow> walk fs [] p = None \<and> node_at fs p = Some Dir"
proof -
  have "(\<forall>i. 0 < i \<and> i < Suc (length p) \<longrightarrow> node_at fs (take i p) = Some Dir)
    \<longleftrightarrow> (\<forall>i. 0 < i \<and> i < length p \<longrightarrow> node_at fs (take i p) = Some Dir) \<and> node_at fs p = Some Dir"
    by (cases p) (auto simp: less_Suc_eq node_at_def)
  then show ?thesis by (simp add: walk_None less_Suc_eq_le cong: conj_cong)
qed

lemma walk_frame: "(\<And>q. node_at fs q = Some Dir \<Longrightarrow> node_at fs' q = Some Dir) \<Longrightarrow> walk fs [] p = None \<Longrightarrow> walk fs' [] p = None"
  by (simp add: walk_None)

lemma below_refl [simp]: "below p p"
  by (simp add: below_def)

lemma below_append [simp]: "below p (p @ r)"
  by (simp add: below_def)

lemma below_iff: "below p q \<longleftrightarrow> (\<exists>r. q = p @ r)"
  by (metis append_take_drop_id below_append below_def)

lemma below_sibling: "below (d @ [a]) (d @ b # r) \<longleftrightarrow> a = b"
  by (auto simp: below_def)

section \<open>Operations\<close>

lemma mkdirs_step:
  "fs_mkdirs fs p (s # ss) = Inr fs' \<Longrightarrow>
   \<exists>fs1. fs_mkdirs fs1 (p @ [s]) ss = Inr fs' \<and> node_at fs1 (p @ [s]) = Some Dir
     \<and> (\<forall>q. q \<noteq> p @ [s] \<longrightarrow> node_at fs1 q = node_at fs q) \<and> (node_at fs (p @ [s]) \<noteq> None \<longrightarrow> fs1 = fs)"
  by (auto simp: node_at_set split: option.splits node.splits
      intro: exI [of _ fs] exI [of _ "map_set (p @ [s]) Dir fs"])

lemma mkdirs_dirs:
  "fs_mkdirs fs p ss = Inr fs' \<Longrightarrow> node_at fs q \<noteq> None \<Longrightarrow> node_at fs' q = node_at fs q"
proof (induction ss arbitrary: fs p)
  case (Cons s ss)
  obtain fs1 where fs1: "fs_mkdirs fs1 (p @ [s]) ss = Inr fs'" "\<And>q. q \<noteq> p @ [s] \<Longrightarrow> node_at fs1 q = node_at fs q"
    "node_at fs (p @ [s]) \<noteq> None \<longrightarrow> fs1 = fs"
    using mkdirs_step [OF Cons.prems(1)] by blast
  then have "node_at fs1 q = node_at fs q" using Cons.prems(2) by (cases "q = p @ [s]") auto
  then show ?case using Cons.IH [OF fs1(1)] Cons.prems(2) by simp
qed simp

lemma mkdirs_made:
  "fs_mkdirs fs p ss = Inr fs' \<Longrightarrow> 0 < i \<Longrightarrow> i \<le> length ss \<Longrightarrow> node_at fs' (p @ take i ss) = Some Dir"
proof (induction ss arbitrary: fs p i)
  case (Cons s ss)
  obtain fs1 where fs1: "fs_mkdirs fs1 (p @ [s]) ss = Inr fs'" "node_at fs1 (p @ [s]) = Some Dir" using mkdirs_step [OF Cons.prems(1)] by blast
  show ?case
  proof (cases "i = 1")
    case True
    then show ?thesis using mkdirs_dirs [OF fs1(1), of "p @ [s]"] fs1(2) by simp
  next
    case False
    then show ?thesis using Cons.IH [OF fs1(1), of "i - 1"] Cons.prems(2,3) by (cases i) auto
  qed
qed simp

lemma write_lookup:
  assumes "fs_write fs p c = Inr fs'"
  shows "p \<noteq> [] \<and> walk fs [] p = None \<and> node_at fs' q = (if q = p then Some (File c) else node_at fs q)"
proof -
  have "p \<noteq> []" using assms by (auto simp: fs_write_def node_at_def split: option.splits)
  then show ?thesis using assms by (auto simp: fs_write_def node_at_set split: option.splits node.splits)
qed

lemma map_of_renamed: "\<forall>r \<in> set (map fst xs). f r = y \<longleftrightarrow> r = x \<Longrightarrow> map_of (map (\<lambda>(r, m). (f r, m)) xs) y = map_of xs x"
  by (induction xs) auto

lemma map_of_filter_other: "r \<noteq> q \<Longrightarrow> map_of (filter (\<lambda>(r, m). r \<noteq> q) xs) r = map_of xs r"
  by (induction xs) auto

lemma rename_lookup:
  assumes "fs_rename fs p q = Inr fs'" "p \<noteq> q" "p \<noteq> []" "q \<noteq> []"
  shows "node_at fs' q = node_at fs p" "\<not> below p r \<Longrightarrow> \<not> below q r \<Longrightarrow> node_at fs' r = node_at fs r"
    "\<not> below p q" "walk fs [] q = None"
proof -
  have fs': "fs' = map (\<lambda>(r, m). (if below p r then q @ drop (length p) r else r, m)) (filter (\<lambda>(r, m). r \<noteq> q) fs)"
    and "\<not> below p q" "walk fs [] q = None"
    using assms(1,2) by (auto simp: fs_rename_def bind_result_Inr_conv split: option.splits if_splits)
  then show "\<not> below p q" "walk fs [] q = None" by simp_all
  have "map_of fs' q = map_of (filter (\<lambda>(r, m). r \<noteq> q) fs) p"
    unfolding fs' by (rule map_of_renamed) (auto simp: below_def)
  then show "node_at fs' q = node_at fs p" using assms(2-4) by (simp add: node_at_def map_of_filter_other)
  show "node_at fs' r = node_at fs r" if "\<not> below p r" "\<not> below q r"
  proof -
    have "map_of fs' r = map_of (filter (\<lambda>(r, m). r \<noteq> q) fs) r"
      unfolding fs' by (rule map_of_renamed) (use that in \<open>auto simp: below_iff\<close>)
    moreover have "r \<noteq> q" using that by auto
    ultimately show ?thesis by (simp add: node_at_def map_of_filter_other)
  qed
qed

section \<open>Results of operations\<close>

lemma io_bind_assoc: "io_bind (io_bind m f) g = io_bind m (\<lambda>x. io_bind (f x) g)"
  by (rule ext) (simp add: io_bind_def split: prod.split sum.split)

lemma io_bind_return: "io_bind (io_return x) f = f x"
  by (simp add: io_bind_def io_return_def)

lemma io_bind_fail: "io_bind (io_fail m) f = io_fail m"
  by (simp add: io_bind_def io_throw_def)

lemmas io_flat = io_bind_assoc io_bind_return

lemma io_bind_Inr: "io_bind m f w = (Inr y, w') \<longleftrightarrow> (\<exists>x w1. m w = (Inr x, w1) \<and> f x w1 = (Inr y, w'))"
  by (auto simp: io_bind_def split: prod.splits sum.splits)

lemma io_update_Inr: "io_update H f p w = (Inr u, w') \<longleftrightarrow>
  (\<exists>fs. f (wd_files w) = Inr fs \<and> w' = w\<lparr>wd_files := fs, wd_effects := wd_effects w @ [Changed p]\<rparr>)"
  by (auto simp: io_update_def split: sum.splits)

definition temporary_name :: "'h host_scheme \<Rightarrow> string \<Rightarrow> string" where
  "temporary_name H name = name @ ''.'' @ nat_str (hs_pid H) @ ''.tmp''"

text \<open>What a successful atomic write leaves.\<close>

lemma atomicWrite_result:
  assumes "atomicWrite H (d @ [name]) c w = (Inr u, w')"
  shows "fs_read (wd_files w') (d @ [name]) = Inr c"
    and "node_at (wd_files w) r \<noteq> None \<Longrightarrow> \<not> below (d @ [name]) r \<Longrightarrow> \<not> below (d @ [temporary_name H name]) r \<Longrightarrow>
      node_at (wd_files w') r = node_at (wd_files w) r"
proof -
  let ?p = "d @ [name]" and ?t = "d @ [temporary_name H name]"
  obtain fs1 fs2 fs3 where fs: "fs_mkdirs (wd_files w) [] d = Inr fs1" "fs_write fs1 ?t c = Inr fs2" "fs_rename fs2 ?t ?p = Inr fs3"
    "wd_files w' = fs3"
    using assms by (auto simp: atomicWrite_def temporary_name_def dirname_def mkdirs_def writeFile_def rename_path_def io_bind_Inr io_update_Inr
        io_effect_def Let_def)
  have ne: "?t \<noteq> ?p" by (simp add: temporary_name_def)
  note W = write_lookup [OF fs(2)] and R = rename_lookup [OF fs(3) ne]
  have d: "node_at fs1 (take i d) = Some Dir" if "0 < i" "i \<le> length d" for i using mkdirs_made [OF fs(1) that] by simp
  have "node_at fs3 q = node_at fs1 q" if "\<not> below ?p q" "\<not> below ?t q" for q
    using R(2) [of q] W [of q] that by auto
  then have keep: "node_at fs3 q = node_at fs1 q" if "\<not> below ?p q" "\<not> below ?t q" for q using that .
  have "walk fs3 [] ?p = None" unfolding walk_None
  proof (intro allI impI)
    fix i assume i: "0 < i \<and> i < length ?p"
    then have "\<not> below ?p (take i d)" "\<not> below ?t (take i d)" by (auto simp: below_iff dest!: arg_cong [where f = length])
    then show "node_at fs3 ([] @ take i ?p) = Some Dir" using keep d i by simp
  qed
  moreover have "node_at fs3 ?p = Some (File c)" using R(1) W [of ?t] by simp
  ultimately show "fs_read (wd_files w') ?p = Inr c" by (simp add: fs(4) fs_read_def fs_stat_def fs_lstat_def bind_result_def)
  show "node_at (wd_files w') r = node_at (wd_files w) r"
    if "node_at (wd_files w) r \<noteq> None" "\<not> below ?p r" "\<not> below ?t r"
    using keep [OF that(2,3)] mkdirs_dirs [OF fs(1) that(1)] fs(4) by simp
qed

section \<open>Files that an operation leaves as they are\<close>

definition spares :: "path \<Rightarrow> 'a io \<Rightarrow> bool" where
  "spares t m = (\<forall>w c. fs_read (wd_files w) t = Inr c \<longrightarrow> fs_read (wd_files (snd (m w))) t = Inr c)"

named_theorems io_spares \<open>files that operations leave as they are\<close>

lemma fs_read_Inr: "fs_read fs t = Inr c \<longleftrightarrow> walk fs [] t = None \<and> node_at fs t = Some (File c)"
proof (cases "walk fs [] t")
  case None
  then show ?thesis
    by (cases "node_at fs t") (auto simp: fs_read_def fs_stat_def fs_lstat_def bind_result_def split: node.splits if_splits)
qed (simp add: fs_read_def fs_stat_def fs_lstat_def bind_result_def)

lemma read_frame:
  assumes "fs_read fs t = Inr c" "\<And>r n. below r t \<Longrightarrow> node_at fs r = Some n \<Longrightarrow> node_at fs' r = Some n"
  shows "fs_read fs' t = Inr c"
proof -
  have "below (take i t) t" for i by (metis append_take_drop_id below_append)
  then show ?thesis using assms by (simp add: fs_read_Inr walk_None)
qed

lemma below_trans: "below p q \<Longrightarrow> below q r \<Longrightarrow> below p r"
  by (auto simp: below_iff)

lemma spares_pure: "(\<And>w. wd_files (snd (m w)) = wd_files w) \<Longrightarrow> spares t m"
  by (simp add: spares_def)

lemma spares_simple [io_spares]:
  "spares t (io_return x)" "spares t (io_throw e)" "spares t (io_lift r)" "spares t (io_now H)" "spares t (io_iso H)" "spares t (io_uuid H)"
  "spares t (io_effect ef)" "spares t (io_query H f p)"
  by (auto intro!: spares_pure simp: io_return_def io_throw_def io_lift_def io_now_def io_iso_def io_uuid_def io_effect_def io_query_def
      io_bind_def split: sum.split)

lemma spares_bind [io_spares]: "spares t m \<Longrightarrow> (\<And>x. spares t (f x)) \<Longrightarrow> spares t (io_bind m f)"
  unfolding spares_def io_bind_def by (auto split: prod.split sum.split) (metis snd_conv)+

lemma spares_catch [io_spares]: "spares t m \<Longrightarrow> (\<And>e. spares t (h e)) \<Longrightarrow> spares t (io_catch m h)"
  unfolding spares_def io_catch_def by (auto split: prod.split sum.split) (metis snd_conv)+

lemma spares_when [io_spares]: "(c \<Longrightarrow> spares t m) \<Longrightarrow> spares t (io_when c m)"
  by (simp add: io_when_def spares_simple)

lemma spares_if [io_spares]: "(c \<Longrightarrow> spares t m) \<Longrightarrow> (\<not> c \<Longrightarrow> spares t n) \<Longrightarrow> spares t (if c then m else n)"
  by simp

lemma spares_option [io_spares]: "(v = None \<Longrightarrow> spares t m) \<Longrightarrow> (\<And>x. v = Some x \<Longrightarrow> spares t (f x)) \<Longrightarrow> spares t (case v of None \<Rightarrow> m | Some x \<Rightarrow> f x)"
  by (cases v) simp_all

lemma spares_sum [io_spares]:
  "(\<And>x. v = Inl x \<Longrightarrow> spares t (f x)) \<Longrightarrow> (\<And>x. v = Inr x \<Longrightarrow> spares t (g x)) \<Longrightarrow> spares t (case v of Inl x \<Rightarrow> f x | Inr x \<Rightarrow> g x)"
  by (cases v) simp_all

lemma spares_reads [io_spares]:
  "spares t (readFile H p)" "spares t (io_stat H p)" "spares t (fileExists H p)" "spares t (io_readJson H p)"
  unfolding readFile_def io_stat_def fileExists_def io_readJson_def by (intro io_spares)+

lemma spares_update:
  assumes "\<And>fs fs' c. f fs = Inr fs' \<Longrightarrow> fs_read fs t = Inr c \<Longrightarrow> fs_read fs' t = Inr c"
  shows "spares t (io_update H f p)"
  using assms by (auto simp: spares_def io_update_def split: sum.split)

lemma spares_mkdirs [io_spares]: "spares t (mkdirs H p)"
  unfolding mkdirs_def
proof (rule spares_update)
  fix fs fs' c assume m: "fs_mkdirs fs [] p = Inr fs'" "fs_read fs t = Inr c"
  show "fs_read fs' t = Inr c" by (rule read_frame [OF m(2)]) (use mkdirs_dirs [OF m(1)] in auto)
qed

lemma spares_write [io_spares]: "\<not> below p t \<Longrightarrow> spares t (writeFile H p c)"
  unfolding writeFile_def
proof (rule spares_update)
  fix fs fs' c' assume p: "\<not> below p t" and w: "fs_write fs p c = Inr fs'" "fs_read fs t = Inr c'"
  show "fs_read fs' t = Inr c'"
    by (rule read_frame [OF w(2)]) (use p write_lookup [OF w(1)] in auto)
qed

lemma spares_rename [io_spares]: "\<not> below p t \<Longrightarrow> \<not> below q t \<Longrightarrow> p \<noteq> [] \<Longrightarrow> q \<noteq> [] \<Longrightarrow> spares t (rename_path H p q)"
  unfolding rename_path_def
proof (rule spares_bind [OF spares_update spares_simple(7)])
  fix fs fs' c assume p: "\<not> below p t" "\<not> below q t" "p \<noteq> []" "q \<noteq> []" and w: "fs_rename fs p q = Inr fs'" "fs_read fs t = Inr c"
  show "fs_read fs' t = Inr c"
  proof (cases "p = q")
    case True
    then show ?thesis using w by (auto simp: fs_rename_def bind_result_Inr_conv split: option.splits)
  next
    case False
    show ?thesis by (rule read_frame [OF w(2)]) (use p rename_lookup(2) [OF w(1) False p(3,4)] below_trans in metis)
  qed
qed

lemma spares_copy [io_spares]: "\<not> below q t \<Longrightarrow> spares t (copyFile H p q)"
  unfolding copyFile_def by (intro io_spares)

lemma spares_atomicWrite [io_spares]:
  "\<not> below (d @ [name]) t \<Longrightarrow> \<not> below (d @ [temporary_name H name]) t \<Longrightarrow> spares t (atomicWrite H (d @ [name]) c)"
  unfolding atomicWrite_def Let_def by (intro io_spares) (simp_all add: temporary_name_def)

lemma spares_spawn: "(\<And>w. snd (hs_spawn H file args stdin w) = wd_files w) \<Longrightarrow> spares t (io_spawn H file args stdin)"
  unfolding io_spawn_def by (intro spares_bind spares_simple spares_pure) (simp split: prod.split, metis snd_conv)

lemma spares_result: "spares t m \<Longrightarrow> m w = (r, w') \<Longrightarrow> fs_read (wd_files w) t = Inr c \<Longrightarrow> fs_read (wd_files w') t = Inr c"
  unfolding spares_def by (metis snd_conv)

end
