(* ===== verification/Bootstrap_Traces.thy ===== *)
theory Bootstrap_Traces
  imports Bootstrap_Run Node_Files
begin

text \<open>
  What the commands of the lifecycle do to the cluster. A command of \<open>kubectl\<close> or \<open>helm\<close> that is
  not one of those that only read counts as a change; everything up to the backup only reads, and so
  do the actions that change nothing.
\<close>

section \<open>Changes of the cluster\<close>

definition reads_only :: "string \<Rightarrow> string list \<Rightarrow> bool" where
  "reads_only file args =
     (if file = ''kubectl''
      then take 1 args \<in> set [[''get''], [''cluster-info''], [''version'']]
        \<or> take 2 args \<in> set [[''config'', ''current-context''], [''auth'', ''can-i''], [''rollout'', ''status'']]
      else if file = ''helm''
      then take 1 args \<in> set [[''lint''], [''list''], [''get''], [''template''], [''version''], [''pull'']]
      else file \<in> set [''node'', ''git'', ''dotnet'', ''tar''])"

definition changes_cluster :: "effect \<Rightarrow> bool" where
  "changes_cluster e = (case e of Command file args _ \<Rightarrow> \<not> reads_only file args | _ \<Rightarrow> False)"

abbreviation calm :: "effect \<Rightarrow> bool" where
  "calm e \<equiv> \<not> changes_cluster e"

definition captures :: "effect \<Rightarrow> bool" where
  "captures e = (case e of Logged _ level _ message _ \<Rightarrow> level = ''pass'' \<and> message = captured_message | _ \<Rightarrow> False)"

text \<open>Every change comes after a backup; the flag says that there has been one.\<close>

fun backed :: "bool \<Rightarrow> effect list \<Rightarrow> bool" where
  "backed b [] = True"
| "backed b (e # es) = ((b \<or> calm e) \<and> backed (b \<or> captures e) es)"

definition new_effects :: "'a io \<Rightarrow> world \<Rightarrow> effect list" where
  "new_effects m w = drop (length (wd_effects w)) (wd_effects (snd (m w)))"

lemma changes_simps [simp]: "calm (Changed p)" "calm (Logged t l ph m kvs)"
  "changes_cluster (Command file args input) = (\<not> reads_only file args)"
  by (simp_all add: changes_cluster_def)

lemma backed_True [simp]: "backed True es"
  by (induction es) auto

lemma backed_mono: "backed False es \<Longrightarrow> backed b es"
  by (cases b) simp_all

lemma backed_append: "backed b xs \<Longrightarrow> backed (b \<or> list_ex captures xs) ys \<Longrightarrow> backed b (xs @ ys)"
  by (induction xs arbitrary: b) (auto simp: disj_assoc)

lemma backed_calm: "list_all calm es \<Longrightarrow> backed b es"
  by (induction es arbitrary: b) auto

section \<open>Rules for traces\<close>

lemma only_new: "only P m \<longleftrightarrow> (\<forall>w. list_all P (new_effects m w) \<and> wd_effects (snd (m w)) = wd_effects w @ new_effects m w)"
  unfolding only_def new_effects_def by (metis append_eq_conv_conj)

lemma only_mono: "only P m \<Longrightarrow> (\<And>e. P e \<Longrightarrow> Q e) \<Longrightarrow> only Q m"
  unfolding only_def by (metis list.pred_mono_strong)

lemma only_option [io_only]:
  "(v = None \<Longrightarrow> only P m) \<Longrightarrow> (\<And>x. v = Some x \<Longrightarrow> only P (f x)) \<Longrightarrow> only P (case v of None \<Rightarrow> m | Some x \<Rightarrow> f x)"
  by (cases v) simp_all

lemma only_sum [io_only]:
  "(\<And>x. v = Inl x \<Longrightarrow> only P (f x)) \<Longrightarrow> (\<And>x. v = Inr x \<Longrightarrow> only P (g x)) \<Longrightarrow> only P (case v of Inl x \<Rightarrow> f x | Inr x \<Rightarrow> g x)"
  by (cases v) simp_all

lemma only_prod [io_only]: "(\<And>x y. only P (f x y)) \<Longrightarrow> only P (case v of (x, y) \<Rightarrow> f x y)"
  by (cases v) simp

lemma only_Let [io_only]: "only P (f t) \<Longrightarrow> only P (let x = t in f x)"
  by simp

lemma only_here: "(\<And>w. only P (f w)) \<Longrightarrow> only P (\<lambda>w. f w w)"
  unfolding only_def by blast

lemma only_pure [io_only]: "only P (\<lambda>w. (r w, w))"
  by (simp add: only_def)

lemma only_outcome [io_only]:
  "(\<And>m. only P (f m)) \<Longrightarrow> only P g \<Longrightarrow> (\<And>c a b. only P (h c a b)) \<Longrightarrow>
   only P (case v of SpawnFailed m \<Rightarrow> f m | TimedOut \<Rightarrow> g | Exited c a b \<Rightarrow> h c a b)"
  by (cases v) simp_all

lemma only_write [io_only]: "(\<And>p. P (Changed p)) \<Longrightarrow> only P (atomicWrite H p c)"
  unfolding atomicWrite_def Let_def by (intro only_bind only_writes)

lemma only_emit [io_only]: "(\<And>t. P (Logged t l p m kvs)) \<Longrightarrow> only P (emit_event H l p m kvs)"
  unfolding emit_event_def by (intro only_bind only_clock only_effect)

lemma only_flush [io_only]: "(\<And>p. P (Changed p)) \<Longrightarrow> only P (flushLog H persistent logFile)"
  unfolding flushLog_def by (cases persistent) (simp_all add: only_return only_here [OF only_write])

lemma only_reading [io_only]: "only P (io_value v ks)" "only P (io_part H v ks)" "only P (io_text v ks)" "only P (io_flag v ks)" "only P (io_equals v ks s)"
  unfolding io_value_def io_part_def io_text_def io_flag_def io_equals_def by (intro io_only)+

lemma only_guard [io_only]: "only P c \<Longrightarrow> only P m \<Longrightarrow> only P (io_guard c m)"
  unfolding io_guard_def by (intro only_bind only_when)

lemma only_quiet [io_only]: "only P m \<Longrightarrow> only P (quiet m)"
  unfolding quiet_def by (intro only_bind only_return)

lemma only_attempt [io_only]: "only P m \<Longrightarrow> only P (attempt m)"
  unfolding attempt_def by (intro only_catch only_bind only_return)

lemma only_tool:
  assumes "\<And>more. P (Command file (args @ more) [])" and "\<And>t l p m kvs. P (Logged t l p m kvs)"
  shows "only P (run_tool H S file args d)"
  unfolding run_tool_def Let_def using assms by (intro io_only) auto

section \<open>Operations that only read\<close>

lemma calm_tool: "(\<And>more. reads_only file (args @ more)) \<Longrightarrow> only calm (run_tool H S file args d)"
  by (rule only_tool) simp_all

named_theorems calm_ops \<open>operations that change nothing in the cluster\<close>

lemma calm_context [calm_ops]: "only calm (assert_context H S target)"
  unfolding assert_context_def currentContext_def by (intro io_only calm_tool) (simp_all add: reads_only_def)

lemma calm_releases [calm_ops]: "only calm (list_releases H S target d)"
  unfolding list_releases_def targetReleaseListArguments_def io_flat
  by (intro io_only calm_tool) (simp_all add: reads_only_def)

lemma calm_secret [calm_ops]: "only calm (assert_secret H S subject name namespace d)"
  unfolding assert_secret_def by (intro io_only calm_tool) (simp_all add: reads_only_def)

lemma calm_keys [calm_ops]: "only calm (secret_keys H S name namespace d)" "only calm (assert_key H subject keys key)"
  unfolding secret_keys_def assert_key_def by (intro io_only calm_tool; simp add: reads_only_def)+

lemma calm_checks [calm_ops]:
  "only calm (check_otlp_secret H S config namespace)"
  "only calm (check_capacity H S plan)"
  "only calm (check_ingress_target H S config namespace)"
  "only calm (check_redis_pull_secrets H S config namespace)"
  "only calm (check_credentials H S config namespace)"
  unfolding check_otlp_secret_def check_capacity_def check_ingress_target_def check_redis_pull_secrets_def check_credentials_def
  by (intro io_only calm_ops calm_tool; simp add: reads_only_def)+

lemma calm_target_checks: "check \<in> set (target_checks H S plan config mutation namespace) \<Longrightarrow> only calm check"
  unfolding target_checks_def
  by (auto simp: reads_only_def intro!: io_only calm_ops calm_tool)

lemma calm_targets [calm_ops]:
  "only calm (assertTarget H S plan config mutation)" "only calm (assertTeardownTarget H S plan)" "only calm (assertBackupTarget H S plan)"
  unfolding assertTarget_def assertTeardownTarget_def assertBackupTarget_def
  by (intro io_only calm_ops calm_tool; simp add: reads_only_def calm_target_checks)+

lemma only_run [io_only]: "P (Command file args []) \<Longrightarrow> only P (run_command H file args deadline)"
  unfolding run_command_def by (intro io_only)

lemma calm_charts [calm_ops]:
  "only calm (readCachedManagedRedisChart H chart version cache)"
  "only calm (copyCachedManagedRedisChart H chart version cache out)"
  "only calm (pullManagedRedisChart H chart version destination ''helm'' deadline)"
  unfolding copyCachedManagedRedisChart_def readCachedManagedRedisChart_def pullManagedRedisChart_def Let_def
  by (intro io_only; simp add: reads_only_def)+

lemma calm_fetch [calm_ops]: "only calm (fetch_archive H chart version archivePath destination ''helm'' deadline)"
  unfolding fetch_archive_def Let_def by (intro io_only calm_ops; simp)

lemma calm_prepare [calm_ops]: "only calm (prepareManagedRedisChart H chart version sha archivePath destination ''helm'' seconds)"
  unfolding prepareManagedRedisChart_def lifecycleDeadline_def Let_def
  by (intro io_only calm_ops; simp add: reads_only_def)

lemma calm_first_cached [calm_ops]: "only calm (first_cached H chart version directory cache caches)"
  by (induction caches arbitrary: cache) (auto intro!: io_only calm_ops)

lemma calm_legacy_copy [calm_ops]: "only calm (legacy_copy H S chart version out caches)"
  by (induction caches) (auto intro!: io_only calm_ops)

lemma calm_prepareRedisChart [calm_ops]:
  "only calm (prepareRedisChart H S chart version sha archivePath)" "only calm (prepare_plan_chart H S plan)"
  unfolding prepare_plan_chart_def prepareRedisChart_def by (intro io_only calm_ops; simp)+

lemma calm_chartForBackup [calm_ops]: "only calm (managedRedisChartForBackup H S plan config release vs version)"
  unfolding managedRedisChartForBackup_def by (intro io_only; simp)

lemma calm_capture_chart [calm_ops]: "only calm (capture_chart H S plan config releases directory release vs captured)"
  unfolding capture_chart_def cached_chart_def by (intro io_only calm_ops; simp)

lemma calm_read_values [calm_ops]: "only calm (read_values H S target release d)"
  unfolding read_values_def values_arguments_def by (intro io_only calm_tool; simp add: reads_only_def)

lemma calm_backup [calm_ops]:
  "only calm (backup_release H S plan config releases directory release captured)"
  "only calm (capture_releases H S pl config directory)"
  "only calm (saveState H S pl config)"
  unfolding saveState_def capture_releases_def backup_release_def Let_def by (intro io_only calm_ops; simp)+

lemma calm_installed [calm_ops]: "only calm (installedReleaseState H S target)"
  unfolding installedReleaseState_def managed_topology_def Let_def by (intro io_only calm_ops; simp)

lemma calm_snapshot [calm_ops]:
  "only calm (open_backup H S target)" "only calm (readRollbackSnapshot H S target)"
  unfolding readRollbackSnapshot_def open_backup_def captured_snapshot_def Let_def by (intro io_only calm_ops; simp)+

lemma calm_locks [calm_ops]: "only calm (acquireLock H p)" "only calm (releaseLock H p t)"
  unfolding acquireLock_def releaseLock_def new_owner_def try_lock_def create_lock_def stale_lock_def stale_owner_def stale_directory_def
    take_over_def Let_def
  by (intro io_only calm_ops; simp)+

end
