(* ===== verification/Bootstrap_Host.thy ===== *)
theory Bootstrap_Host
  imports Node_Io Bootstrap_Example
begin

text \<open>A host and a world on which the properties of the scripts are applied.\<close>

text \<open>A host on which every command succeeds and every document is the given one.\<close>

definition example_host :: "json \<Rightarrow> host" where
  "example_host document = \<lparr>pf_readFile = (\<lambda>_. Inl NonError), pf_parse = (\<lambda>_. Inr document), pf_url = example_url, pf_number = example_number,
     pf_sha256 = (\<lambda>s. s), hs_clock = (\<lambda>n. n), hs_iso = (\<lambda>_. ''2026-01-01T00:00:00.000Z''), hs_hostname = ''host'', hs_pid = 7,
     hs_uuid = (\<lambda>_. ''token''), hs_alive = (\<lambda>_. False), hs_dateparse = (\<lambda>_. None), hs_mtime = (\<lambda>_ _. 0), hs_errno = (\<lambda>code _. code),
     hs_spawn = (\<lambda>_ _ _ w. (Exited (Some 0) [] [], wd_files w))\<rparr>"

definition example_world :: world where
  "example_world = \<lparr>wd_files = [([''repo''], Dir), ([''repo'', ''c.json''], File ''document'')], wd_effects = [], wd_ticks = 0\<rparr>"

end
