(* ===== verification/Bootstrap_Safety.thy ===== *)
theory Bootstrap_Safety
  imports Bootstrap_Traces Bootstrap_Host
begin

text \<open>
  The lifecycle changes the cluster only when it was asked to, only after a backup, and never to tear
  a production environment down.
\<close>

section \<open>Everything but the change itself\<close>

lemma only_snapshot [io_only]:
  "(v = GatewayAbsent \<Longrightarrow> only P m) \<Longrightarrow> (\<And>s. v = GatewayPresent s \<Longrightarrow> only P (f s)) \<Longrightarrow>
   only P (case v of GatewayAbsent \<Rightarrow> m | GatewayPresent s \<Rightarrow> f s)"
  by (cases v) simp_all

lemma only_node [io_only]:
  "(\<And>c. only P (f c)) \<Longrightarrow> only P g \<Longrightarrow> only P h \<Longrightarrow> only P (case n of File c \<Rightarrow> f c | Dir \<Rightarrow> g | Link \<Rightarrow> h)"
  by (cases n) simp_all

lemma calm_symlinks [calm_ops]: "only calm (assertNoSymlinkSegments H base target inc label)"
proof -
  have "only calm (symlink_walk H label here segments)" for here segments
    by (induction segments arbitrary: here) (auto simp: Let_def intro!: io_only)
  then show ?thesis by (simp add: assertNoSymlinkSegments_def Let_def)
qed

lemma calm_inventory [calm_ops]: "only calm (inventory H bootstrapRoot environmentRoot)"
proof -
  have "only calm (inventory_entry H bootstrapRoot environmentRoot entry ly)" for entry ly
    unfolding inventory_entry_def identical_files_def Let_def by (intro io_only calm_ops)
  then have "only calm (inventory_entries H bootstrapRoot environmentRoot entries ly)" for entries ly
    by (induction entries arbitrary: ly) (auto intro!: io_only)
  then show ?thesis unfolding inventory_def Let_def by (intro io_only)
qed

lemma calm_moves [calm_ops]: "only calm (run_moves H bootstrapRoot manifestPath m)"
proof -
  have "only calm (apply_move H bootstrapRoot manifestPath m mv)" for m mv
    unfolding apply_move_def write_manifest_def Let_def by (intro io_only calm_ops; simp)
  then have "only calm (apply_moves H bootstrapRoot manifestPath m mvs)" for m mvs
    by (induction mvs arbitrary: m) (auto intro!: io_only)
  then show ?thesis unfolding run_moves_def write_manifest_def Let_def by (intro io_only; simp)
qed

lemma calm_organization_lock [calm_ops]:
  "only calm (acquireOrganizationLock H bootstrapRoot)" "only calm (releaseOrganizationLock H lockPath token)"
  unfolding acquireOrganizationLock_def releaseOrganizationLock_def new_owner_def try_lock_def create_lock_def stale_owner_def
    stale_directory_def take_over_def Let_def
  by (intro io_only calm_ops; simp)+

lemma calm_organize [calm_ops]: "only calm (organize H base q persistent logFile)"
  unfolding organize_def organizeBootstrapEnvironment_def organizeBootstrapEnvironmentLocked_def write_manifest_def Let_def
  by (intro io_only calm_ops; simp)

lemma calm_check_restores [calm_ops]: "only calm (check_restores H bootstrapRoot mvs)"
proof -
  have "only calm (check_restore H bootstrapRoot mv)" for mv
    unfolding check_restore_def Let_def by (intro io_only calm_ops)
  then show ?thesis by (induction mvs) (auto intro!: io_only)
qed

lemma calm_restore [calm_ops]: "only calm (restore_layout H base q persistent logFile)"
  unfolding restore_layout_def restoreBootstrapEnvironment_def restoreBootstrapEnvironmentLocked_def read_manifest_def undo_move_def Let_def
  by (intro io_only calm_ops; simp)

lemma calm_planning [calm_ops]:
  "only calm (plan_of H S config profile previous)" "only calm (prior_topology H S)" "only calm (rollback_config H S sn config)"
  "only calm (assert_redis_mode H S config snap installed)"
  unfolding plan_of_def prior_topology_def first_existing_def rollback_config_def assert_redis_mode_def Let_def foldr.simps comp_def id_def
  by (intro io_only calm_ops; simp)+

lemma calm_plan_run [calm_ops]: "only calm (plan_run H S config profile)"
  unfolding plan_run_def Let_def by (intro io_only calm_ops)

lemma calm_logs [calm_ops]: "only calm (archiveOldLogs H logRoot)" "only calm (writeNamingManifest H S cfg)"
  unfolding archiveOldLogs_def archive_log_def io_mtime_def writeNamingManifest_def Let_def by (intro io_only; simp)+

lemma calm_set_up [calm_ops]: "only calm (set_up H base q)"
  unfolding set_up_def Let_def io_loadContract_def by (intro io_only only_here [where f = "\<lambda>w. io_lift (f w)" for f])

lemma calm_finish [calm_ops]:
  "only calm (finish H S m kvs)" "only calm (write_plan H S plan)" "only calm (confirm_plan S pl)" "only calm (failed H persistent logFile e)"
  unfolding finish_def write_plan_def confirm_plan_def failed_def Let_def by (intro io_only; simp)+

lemma calm_local_actions [calm_ops]: "only calm (prerequisites H S)" "only calm (bootstrap_workspace H S)"
  unfolding prerequisites_def bootstrap_workspace_def by (intro io_only calm_ops calm_tool; simp add: reads_only_def)+

lemma calm_validate [calm_ops]: "only calm (validate_target H S plan)"
  unfolding validate_target_def chart_arguments_def by (intro io_only calm_tool; simp add: reads_only_def)

lemma calm_around [calm_ops]:
  "only calm (check_target H S pl)" "only calm (back_up H S pl)" "only calm (with_chart H S plan acts)" "only calm (record_state H S pl backup)"
  unfolding check_target_def back_up_def with_chart_def record_state_def remove_legacy_state_def Let_def by (intro io_only calm_ops; simp)+

lemma calm_exit [calm_ops]: "only calm m \<Longrightarrow> (\<And>x. only calm (k x)) \<Longrightarrow> only calm (exit_with H persistent logFile m k)"
  unfolding exit_with_def by (intro io_only calm_ops)

section \<open>Changes after a backup\<close>

definition careful :: "'a io \<Rightarrow> bool" where
  "careful m = (\<forall>w. \<exists>es. wd_effects (snd (m w)) = wd_effects w @ es \<and> backed False es)"

definition results :: "('a \<Rightarrow> bool) \<Rightarrow> 'a io \<Rightarrow> bool" where
  "results Q m = (\<forall>w x w'. m w = (Inr x, w') \<longrightarrow> Q x)"

lemma careful_calm: "only calm m \<Longrightarrow> careful m"
  unfolding only_def careful_def using backed_calm by blast

lemma careful_bind:
  assumes "careful m" "results Q m" "\<And>x. Q x \<Longrightarrow> careful (f x)"
  shows "careful (io_bind m f)"
  unfolding careful_def
proof
  fix w
  obtain r w1 where r: "m w = (r, w1)" by fastforce
  then obtain es where es: "wd_effects w1 = wd_effects w @ es" "backed False es" using assms(1) unfolding careful_def by (metis snd_conv)
  show "\<exists>es. wd_effects (snd (io_bind m f w)) = wd_effects w @ es \<and> backed False es"
  proof (cases r)
    case (Inl e)
    then show ?thesis using es r by (simp add: io_bind_def)
  next
    case (Inr x)
    then obtain fs where "wd_effects (snd (f x w1)) = wd_effects w1 @ fs" "backed False fs"
      using assms(2,3) r unfolding careful_def results_def by metis
    then have "wd_effects (snd (io_bind m f w)) = wd_effects w @ es @ fs \<and> backed False (es @ fs)"
      using es r Inr by (simp add: io_bind_def backed_append [OF es(2) backed_mono])
    then show ?thesis by blast
  qed
qed

lemma careful_bind_any: "careful m \<Longrightarrow> (\<And>x. careful (f x)) \<Longrightarrow> careful (io_bind m f)"
  by (rule careful_bind [where Q = "\<lambda>_. True"]) (auto simp: results_def)

text \<open>An operation that returns only with the effect as its last.\<close>

definition ends :: "(effect \<Rightarrow> bool) \<Rightarrow> 'a io \<Rightarrow> bool" where
  "ends P m = (\<forall>w x w'. m w = (Inr x, w') \<longrightarrow> (\<exists>es e. wd_effects w' = wd_effects w @ es @ [e] \<and> P e))"

lemma ends_bind:
  assumes "only (\<lambda>_. True) m" "\<And>x. ends P (f x)"
  shows "ends P (io_bind m f)"
  unfolding ends_def
proof (intro allI impI)
  fix w y w'
  assume "io_bind m f w = (Inr y, w')"
  then obtain x w1 where x: "m w = (Inr x, w1)" "f x w1 = (Inr y, w')"
    by (auto simp: io_bind_def split: prod.splits sum.splits)
  then obtain es where "wd_effects w1 = wd_effects w @ es" using assms(1) unfolding only_def by (metis snd_conv)
  moreover obtain fs e where "wd_effects w' = wd_effects w1 @ fs @ [e]" "P e" using assms(2) x(2) unfolding ends_def by blast
  ultimately show "\<exists>es e. wd_effects w' = wd_effects w @ es @ [e] \<and> P e" by (intro exI [of _ "es @ fs"]) auto
qed

lemma ends_emit: "(\<And>t. P (Logged t l p m kvs)) \<Longrightarrow> ends P (io_then (emit_event H l p m kvs) (io_return x))"
  by (auto simp: ends_def emit_event_def io_bind_def io_iso_def io_now_def io_return_def io_effect_def)

lemma careful_after_backup:
  assumes "only calm m" "ends captures m" "\<And>x. only (\<lambda>_. True) (f x)"
  shows "careful (io_bind m f)"
  unfolding careful_def
proof
  fix w
  obtain r w1 where r: "m w = (r, w1)" by fastforce
  then obtain es where es: "wd_effects w1 = wd_effects w @ es" "list_all calm es" using assms(1) unfolding only_def by (metis snd_conv)
  show "\<exists>es. wd_effects (snd (io_bind m f w)) = wd_effects w @ es \<and> backed False es"
  proof (cases r)
    case (Inl e)
    then show ?thesis using es r backed_calm by (auto simp: io_bind_def)
  next
    case (Inr x)
    then have "list_ex captures es" using assms(2) r es(1) unfolding ends_def by fastforce
    then have "backed False (es @ fs)" for fs using backed_append [OF backed_calm [OF es(2)]] by simp
    moreover obtain fs where "wd_effects (snd (f x w1)) = wd_effects w1 @ fs" using assms(3) unfolding only_def by blast
    ultimately show ?thesis using es r Inr by (intro exI [of _ "es @ fs"]) (simp add: io_bind_def)
  qed
qed

lemma careful_attempt: "careful m \<Longrightarrow> careful (attempt m)"
  unfolding careful_def attempt_def io_catch_def io_bind_def io_return_def
  by (auto split: prod.split sum.split) (metis snd_conv)+

lemma careful_finally: "careful m \<Longrightarrow> careful f \<Longrightarrow> careful (io_finally m f)"
proof -
  assume m: "careful m" and f: "careful f"
  have "io_finally m f = io_bind (attempt m) (\<lambda>r. io_bind f (\<lambda>_. case r of Inl e \<Rightarrow> io_throw e | Inr x \<Rightarrow> io_return x))"
    by (rule ext) (auto simp: io_finally_def attempt_def io_catch_def io_bind_def io_return_def io_throw_def split: prod.split sum.split)
  then show ?thesis
    using m f by (auto intro!: careful_bind_any careful_attempt intro: careful_calm io_only split: sum.split)
qed

lemma only_any: "only calm m \<Longrightarrow> only (\<lambda>_. True) m"
  by (erule only_mono) simp

lemma saveState_ends: "ends captures (saveState H S plan config)"
  unfolding saveState_def Let_def by (intro ends_bind ends_emit io_only only_any calm_backup) (simp_all add: captures_def)

section \<open>The plan requires the backup\<close>

text \<open>The safety section of a plan, in its canonical form.\<close>

definition safety_section :: "string \<Rightarrow> json \<Rightarrow> bool" where
  "safety_section action j = (stable j = j \<and> opt_field (Some j) ''requiresBackup'' = Some (JBool (action \<in> set mutating_actions)))"

lemma stable_bool: "stable (JBool b) = JBool b"
  by simp

lemma safety_values_section: "safety_section action (stable (safety_values action opts changeClass))"
  by (simp add: safety_section_def stable_idem safety_values_def Let_def stable_read stable_bool del: stable.simps)

lemma plan_safety:
  assumes "buildPlan num_str sha256 action cfg prof opts = Inr v"
  shows "\<exists>kvs j. v = Some (JObj kvs) \<and> distinct (map fst kvs) \<and> field kvs ''safety'' = Some j \<and> safety_section action j"
proof -
  obtain ns changeClass gateway managedRedis where b: "as_stable (object_literal (plan_members num_str sha256 action (js_read cfg) (js_read prof)
      opts ns changeClass gateway managedRedis)) = Inr v" (is "as_stable (object_literal ?ms) = _")
    using assms by (auto simp: buildPlan_def bind_result_Inr_conv)
  then obtain kvs where kvs: "members ?ms = Inr kvs" "v = Some (stable (JObj kvs))"
    by (auto simp: as_stable_def object_literal_def bind_result_Inr_conv)
  have d: "distinct (map fst ?ms)" by (simp add: plan_members_def)
  then have "distinct (map fst (canonical (stable_members kvs)))"
    using members_keys [OF kvs(1) d] by (metis distinct_stable_members mset_canonical mset_eq_imp_distinct_iff mset_map)
  moreover have "opt_field v ''safety'' = Some (stable (safety_values action opts changeClass))"
    using literal_read [of ?ms "stable (JObj kvs)" "''safety''" "Some (safety_values action opts changeClass)"] b d kvs(2)
    by (simp add: plan_members_def)
  ultimately show ?thesis
    using kvs(2) safety_values_section [of action opts changeClass] by (simp add: stable_object opt_field_def del: stable.simps)
qed

lemma captured_safety:
  assumes "distinct (map fst kvs)" "field kvs ''safety'' = Some j" "safety_section action j"
  shows "opt_chain (Some (useCapturedDeploymentValues num_str sha256 (JObj kvs) g r c v x)) [''safety'', ''requiresBackup'']
    = Some (JBool (action \<in> set mutating_actions))"
  using assms
  by (simp add: safety_section_def opt_chain_def useCapturedDeploymentValues_def Let_def set_member_def stable_read distinct_update update_conv'
      del: stable.simps)

lemma results_bind: "(\<And>x. results Q (f x)) \<Longrightarrow> results Q (io_bind m f)"
  unfolding results_def io_bind_def by (auto split: prod.splits sum.splits)

lemma results_bind_of: "results R m \<Longrightarrow> (\<And>x. R x \<Longrightarrow> results Q (f x)) \<Longrightarrow> results Q (io_bind m f)"
  unfolding results_def io_bind_def by (fastforce split: prod.splits sum.splits)

lemma results_prod: "(\<And>x y. results Q (f x y)) \<Longrightarrow> results Q (case v of (x, y) \<Rightarrow> f x y)"
  by (cases v) simp

lemma results_return: "Q x \<Longrightarrow> results Q (io_return x)"
  by (simp add: results_def io_return_def)

lemma results_lift: "(\<And>x. r = Inr x \<Longrightarrow> Q x) \<Longrightarrow> results Q (io_lift r)"
  by (cases r) (auto simp: results_def io_lift_def io_return_def io_throw_def)

definition plan_ok :: "string \<Rightarrow> json \<Rightarrow> bool" where
  "plan_ok action plan = (\<exists>kvs j. plan = JObj kvs \<and> distinct (map fst kvs) \<and> field kvs ''safety'' = Some j \<and> safety_section action j)"

lemma plan_of_ok: "results (plan_ok (se_action S)) (plan_of H S config profile previous)"
  unfolding plan_of_def
  by (rule results_bind_of [OF results_lift [where Q = "\<lambda>v. \<exists>p. v = Some p \<and> plan_ok (se_action S) p"]])
     (auto simp: plan_ok_def dest: plan_safety intro: results_return)

definition marks_backup :: "session \<Rightarrow> json \<Rightarrow> bool" where
  "marks_backup S plan = (opt_chain (Some plan) [''safety'', ''requiresBackup''] = Some (JBool (se_action S \<in> set mutating_actions)))"

lemma plan_ok_marks: "plan_ok (se_action S) plan \<Longrightarrow> marks_backup S plan"
  by (auto simp: plan_ok_def marks_backup_def opt_chain_def safety_section_def opt_field_def)

lemma captured_marks: "plan_ok (se_action S) plan \<Longrightarrow> captured_plan H sn plan = Inr plan' \<Longrightarrow> marks_backup S plan'"
  by (auto simp: plan_ok_def captured_plan_def bind_result_Inr_conv marks_backup_def captured_safety)

lemma planned_marks: "results (\<lambda>pl. marks_backup S (pl_plan pl)) (plan_run H S config profile)"
proof -
  have "results (\<lambda>pl. marks_backup S (pl_plan pl)) (io_bind (plan_of H S config profile previous) (\<lambda>plan.
    io_bind (case snap of Some (GatewayPresent s) \<Rightarrow> io_lift (captured_plan H s plan) | _ \<Rightarrow> io_return plan) (\<lambda>plan.
    io_return \<lparr>pl_plan = plan, pl_config = config, pl_snapshot = snap, pl_installed = installed\<rparr>)))" for config profile previous snap installed
    by (rule results_bind_of [OF plan_of_ok], rule results_bind_of [where R = "marks_backup S"])
       (auto intro: results_return results_lift plan_ok_marks captured_marks split: option.split rollback_snapshot.split)
  note last = this
  show ?thesis
    unfolding plan_run_def Let_def
    by (rule results_bind, rule results_bind, rule results_bind, rule results_bind, rule results_prod, rule results_bind, rule results_bind, rule last)
qed

section \<open>The script\<close>

lemma any_change: "only (\<lambda>_. True) (change_target H S pl)"
  unfolding change_target_def apply_plan_def apply_redis_def recover_redis_def gatewayUpgradeArguments_def chart_arguments_def rollback_def
    restore_release_def restore_gateway_def restore_redis_def backup_archive_def nonempty_text_def teardown_def Let_def
  by (intro io_only only_any [OF calm_snapshot(1)] only_any [OF calm_prepareRedisChart(1)] only_any [OF calm_validate] only_tool) auto

lemma calm_change: "se_action S \<notin> set mutating_actions \<Longrightarrow> only calm (change_target H S pl)"
  unfolding change_target_def Let_def by (auto simp: mutating_actions_def io_when_def intro!: io_only calm_ops)

lemma only_bind_results:
  assumes "only P m" "results Q m" "\<And>x. Q x \<Longrightarrow> only P (f x)"
  shows "only P (io_bind m f)"
proof -
  have "io_bind m f w = io_bind m (\<lambda>x. if Q x then f x else io_throw e) w" for w e
    using assms(2) by (auto simp: io_bind_def results_def split: prod.split sum.split)
  then have "io_bind m f = io_bind m (\<lambda>x. if Q x then f x else io_throw undefined)" by blast
  then show ?thesis using assms(1,3) by (auto intro!: only_bind only_throw)
qed

lemma with_chart_request: "results (\<lambda>S'. se_request S' = se_request S) (with_chart H S plan acts)"
  unfolding with_chart_def by (auto intro!: results_bind results_return)

lemma careful_target:
  assumes "marks_backup S (pl_plan pl)"
  shows "careful (target_action H S pl)"
proof (cases "se_action S \<in> set mutating_actions")
  case False
  have "only calm (target_action H S pl)"
    unfolding target_action_def
    by (intro only_bind only_bind_results [OF _ with_chart_request] calm_ops calm_change) (simp add: False)
  then show ?thesis by (rule careful_calm)
next
  case True
  then have b: "back_up H S pl = io_bind (saveState H S (pl_plan pl) (Some (pl_config pl))) (\<lambda>p. io_return (Some p))"
    using assms by (cases "pl_plan pl")
      (auto simp: back_up_def io_flag_def io_value_def marks_backup_def opt_chain_def opt_field_def js_get_def io_lift_def io_flat split: option.splits)
  show ?thesis
    unfolding target_action_def b io_flat
    by (intro careful_bind_any careful_calm [OF calm_around(1)] careful_after_backup calm_backup saveState_ends only_bind any_change
        only_any calm_around calm_finish)
qed

lemma careful_perform: "marks_backup S (pl_plan pl) \<Longrightarrow> careful (perform H S pl)"
  unfolding perform_def
  by (auto intro!: careful_calm [OF calm_finish(1)] careful_bind [OF careful_calm [OF calm_around(3)] with_chart_request]
      careful_calm [OF calm_local_actions(1)] careful_calm [OF calm_local_actions(2)] careful_target simp: marks_backup_def)

lemma careful_lifecycle: "careful (lifecycle H S st)"
proof -
  have "careful (locked_run H S config profile)" for config profile
    unfolding locked_run_def
    by (intro careful_bind [OF careful_calm [OF calm_plan_run] planned_marks] careful_bind_any careful_perform)
       (auto intro!: careful_calm io_only calm_ops)
  then show ?thesis
    unfolding lifecycle_def Let_def
    by (intro careful_bind_any careful_finally) (auto intro!: careful_calm io_only calm_ops)
qed

lemma careful_exit: "careful m \<Longrightarrow> (\<And>x. careful (k x)) \<Longrightarrow> careful (exit_with H persistent logFile m k)"
  unfolding exit_with_def
  by (intro careful_bind_any careful_attempt) (auto intro: careful_calm [OF calm_finish(4)] split: sum.split)

text \<open>
  C3. Nothing in the cluster is changed without a backup: in every run of the script, whatever the
  arguments, the files and the answers of the tools are, every command of Helm or kubectl that is not
  one of the reading ones comes after the event that reports the completed backup of that run.\<close>
theorem changes_backed_up:
  "backed False (new_effects (realtime_bootstrap H base cwd nodeVersion environmentConfig argv) w)"
proof -
  have "careful (run_request H base cwd nodeVersion logFile q)" for logFile q
    unfolding run_request_def Let_def
    by (auto intro!: careful_exit careful_lifecycle intro: careful_calm io_only calm_ops)
  then have "careful (realtime_bootstrap H base cwd nodeVersion environmentConfig argv)"
    unfolding realtime_bootstrap_def Let_def
    by (auto intro!: careful_bind_any careful_calm [OF only_clock(2)] careful_calm [OF calm_finish(4)] careful_calm [OF only_return]
        split: sum.split parsed.split)
  then show ?thesis unfolding careful_def new_effects_def by (metis append_eq_conv_conj)
qed

section \<open>Runs that change nothing\<close>

text \<open>The arguments ask for a change.\<close>

definition asks_change :: "request \<Rightarrow> bool" where
  "asks_change q = (rq_action q \<in> set mutating_actions \<and> \<not> ag_dryRun (rq_arguments q)
     \<and> (rq_action q = ''teardown'' \<longrightarrow> ag_force (rq_arguments q)))"

definition is_production :: "json \<Rightarrow> bool" where
  "is_production config = (opt_chain (Some config) [''environment'', ''class''] = Some (JStr ''production''))"

lemma read_chain: "opt_chain v [a, b] = Some x \<Longrightarrow> js_read v [a, b] = Inr (Some x)"
  by (cases v rule: fields_of.cases)
     (auto simp: opt_chain_def opt_field_def js_get_def split: option.splits elim: fields_of.elims)

lemma results_fail: "results Q (io_fail m)"
  by (simp add: results_def io_throw_def)

lemma confirm_refuses:
  assumes "se_action S = ''teardown''" "\<not> ag_dryRun (rq_arguments (se_request S))"
    and "\<not> ag_force (rq_arguments (se_request S)) \<or> is_production (pl_config pl)"
  shows "results (\<lambda>_. False) (confirm_plan S pl)"
proof (cases "ag_force (rq_arguments (se_request S))")
  case True
  then have "io_value (Some (pl_config pl)) [''environment'', ''class''] = io_return (Some (JStr ''production''))"
    using assms(3) by (simp add: is_production_def io_value_def read_chain io_lift_def del: js_read.simps)
  then show ?thesis
    using assms True unfolding confirm_plan_def Let_def
    by (auto simp: io_when_def io_guard_def io_equals_def io_flat io_bind_fail intro!: results_bind [of _ _ "io_flag _ _"] results_fail)
next
  case False
  then show ?thesis
    using assms unfolding confirm_plan_def Let_def
    by (auto simp: io_when_def io_flat io_bind_fail intro!: results_bind [of _ _ "io_flag _ _"] results_fail)
qed

lemma calm_target:
  assumes "se_action S \<notin> set mutating_actions"
  shows "only calm (target_action H S pl)"
  unfolding target_action_def
  by (intro only_bind only_bind_results [OF _ with_chart_request] calm_ops calm_change) (simp add: assms)

lemma calm_perform:
  assumes "se_action S \<notin> set mutating_actions \<or> ag_dryRun (rq_arguments (se_request S))"
  shows "only calm (perform H S pl)"
  unfolding perform_def
  by (intro only_if only_bind_results [OF _ with_chart_request] calm_ops calm_target) (use assms in auto)

lemma planned_config: "se_action S \<noteq> ''rollback'' \<Longrightarrow> results (\<lambda>pl. pl_config pl = config) (plan_run H S config profile)"
  unfolding plan_run_def Let_def
  by (auto simp: io_flat intro!: results_bind results_return)

lemma calm_locked_run:
  assumes "\<not> asks_change (se_request S) \<or> se_action S = ''teardown'' \<and> is_production config"
  shows "only calm (locked_run H S config profile)"
proof (cases "se_action S \<notin> set mutating_actions \<or> ag_dryRun (rq_arguments (se_request S))")
  case True
  then show ?thesis unfolding locked_run_def by (intro only_bind calm_ops calm_perform io_only) simp_all
next
  case False
  then have t: "se_action S = ''teardown''" "\<not> ag_dryRun (rq_arguments (se_request S))"
    "\<not> ag_force (rq_arguments (se_request S)) \<or> is_production config" using assms by (auto simp: asks_change_def)
  then show ?thesis
    unfolding locked_run_def
    by (intro only_bind_results [OF calm_plan_run planned_config] only_bind only_bind_results [OF calm_finish(3) confirm_refuses] calm_ops io_only)
       auto
qed

lemma calm_lifecycle:
  assumes "\<not> asks_change (se_request S) \<or> se_action S = ''teardown'' \<and> is_production (st_config st)"
  shows "only calm (lifecycle H S st)"
  unfolding lifecycle_def Let_def
  by (intro io_only calm_ops calm_locked_run [OF assms]; simp)

lemma session_request [simp]: "se_request (session_of H base cwd q st) = q"
  by (simp add: session_of_def Let_def)

text \<open>
  C12. Only a run that was asked to change the cluster does: if the arguments do not name one of
  install, update, rollback, recover and teardown, or ask for a dry run, or ask for a teardown
  without \<open>--force\<close>, then every command of the run is one that only reads.\<close>
theorem changes_requested:
  assumes "\<And>q. parse_request environmentConfig argv = Inr (Request q) \<Longrightarrow> \<not> asks_change q"
  shows "list_all calm (new_effects (realtime_bootstrap H base cwd nodeVersion environmentConfig argv) w)"
proof -
  have "only calm (run_request H base cwd nodeVersion logFile q)" if "\<not> asks_change q" for logFile q
    unfolding run_request_def Let_def by (intro io_only calm_ops calm_lifecycle) (simp_all add: that)
  then have "only calm (realtime_bootstrap H base cwd nodeVersion environmentConfig argv)"
    unfolding realtime_bootstrap_def Let_def using assms
    by (auto intro!: only_bind only_clock calm_finish(4) only_return split: sum.split parsed.split)
  then show ?thesis by (simp add: only_new)
qed

theorem changes_requested_witness:
  "parse_request None [''update'', ''--dry-run''] \<noteq> Inr Help
   \<and> list_all calm (new_effects (realtime_bootstrap (example_host JNull) [''repo''] [''repo''] ''22.1.0'' None [''update'', ''--dry-run'']) example_world)"
proof -
  have "\<not> asks_change q" if "parse_request None [''update'', ''--dry-run''] = Inr (Request q)" for q
    using that by (auto simp: parse_request_def bind_result_def guard_def timeout_of_def asks_change_def split: if_splits)
  then have "list_all calm (new_effects (realtime_bootstrap (example_host JNull) [''repo''] [''repo''] ''22.1.0'' None
      [''update'', ''--dry-run'']) example_world)"
    by (rule changes_requested)
  then show ?thesis by (simp add: parse_request_def bind_result_def guard_def)
qed

lemma assign_other:
  "assign part k v config = Inr config' \<Longrightarrow> part \<noteq> other \<Longrightarrow> opt_field (Some config') other = opt_field (Some config) other"
  by (cases config) (auto simp: assign_def bind_result_Inr_conv set_member_def opt_field_def update_conv')

lemma expanded_other:
  assumes "expanded_config num_str base nameSuffix config = Inr config'"
  shows "opt_field (Some config') ''environment'' = opt_field (Some config) ''environment''"
proof -
  have named: "opt_field (Some c') ''environment'' = opt_field (Some c) ''environment''" if "named_config num_str nameSuffix c = Inr c'" for c c'
    using that by (auto simp: named_config_def bind_result_Inr_conv assign_other split: option.splits if_splits)
  have "opt_field (Some c') ''environment'' = opt_field (Some c) ''environment''" if "expand_member num_str k c = Inr c'" for k c c'
    using that by (auto simp: expand_member_def bind_result_Inr_conv assign_other)
  with named assms show ?thesis by (auto simp: expanded_config_def bind_result_Inr_conv)
qed

lemma new_bind:
  assumes "only (\<lambda>_. True) m" "\<And>x. only (\<lambda>_. True) (f x)"
  shows "new_effects (io_bind m f) w = new_effects m w @ (case m w of (Inl e, w') \<Rightarrow> [] | (Inr x, w') \<Rightarrow> new_effects (f x) w')"
proof -
  obtain r w1 where r: "m w = (r, w1)" by fastforce
  then obtain es where es: "wd_effects w1 = wd_effects w @ es" using assms(1) unfolding only_def by (metis snd_conv)
  show ?thesis
  proof (cases r)
    case (Inl e)
    then show ?thesis using r by (simp add: new_effects_def io_bind_def)
  next
    case (Inr x)
    then obtain fs where "wd_effects (snd (f x w1)) = wd_effects w1 @ fs" using assms(2) unfolding only_def by blast
    then show ?thesis using r es Inr by (simp add: new_effects_def io_bind_def)
  qed
qed

lemma set_up_production:
  assumes "set_up H base q w = (Inr st, w')" "fs_read (wd_files w) (resolve base (ag_config (rq_arguments q))) = Inr document"
    and "pf_parse H document = Inr config" "is_production config"
  shows "is_production (st_config st)"
proof -
  obtain ct config' where "loadContract (platform_in H (wd_files w)) base (ag_config (rq_arguments q)) (ag_profile (rq_arguments q)) = Inr ct"
    "expanded_config (pf_number H) base (ag_nameSuffix (rq_arguments q)) (ct_config ct) = Inr config'" "st_config st = config'"
    using assms(1) by (auto simp: set_up_def Let_def io_bind_def io_loadContract_def io_lift_def io_return_def io_throw_def
        split: prod.splits sum.splits)
  moreover from this have "ct_config ct = config"
    using assms(2,3) by (auto simp: loadContract_def readJson_def platform_in_def bind_result_Inr_conv Let_def split: sum.splits)
  ultimately show ?thesis using assms(4) expanded_other by (simp add: is_production_def opt_chain_def)
qed

lemma any_lifecycle: "only (\<lambda>_. True) (lifecycle H S st)"
  using careful_lifecycle unfolding careful_def only_def by (fastforce simp: list_all_iff)

lemma calm_production_request:
  assumes "rq_action q = ''teardown''" "fs_read (wd_files w) (resolve base (ag_config (rq_arguments q))) = Inr document"
    and "pf_parse H document = Inr config" "is_production config"
  shows "list_all calm (new_effects (run_request H base cwd nodeVersion logFile q) w)"
proof -
  define rest where "rest = (\<lambda>st. exit_with H True (st_logPath st) (lifecycle H (session_of H base cwd q st) st) (\<lambda>_. io_return 0))"
  define continue where "continue = (\<lambda>r. case r of Inl e \<Rightarrow> failed H True logFile e | Inr st \<Rightarrow> rest st)"
  have "list_all calm (new_effects (io_bind (attempt (set_up H base q)) continue) w)"
  proof -
    have "only (\<lambda>_. True) (continue r)" for r
      unfolding continue_def rest_def exit_with_def
      by (intro io_only only_any [OF calm_finish(4)] any_lifecycle)
    then have n: "new_effects (io_bind (attempt (set_up H base q)) continue) w = new_effects (attempt (set_up H base q)) w
      @ (case attempt (set_up H base q) w of (Inl e, w') \<Rightarrow> [] | (Inr x, w') \<Rightarrow> new_effects (continue x) w')"
      by (intro new_bind only_any [OF only_attempt [OF calm_set_up]])
    have "list_all calm (new_effects (continue x) w')" if "attempt (set_up H base q) w = (Inr x, w')" for x w'
    proof -
      have "is_production (st_config st)" if "x = Inr st" for st
        using \<open>attempt (set_up H base q) w = (Inr x, w')\<close> that assms(2-4)
        by (auto simp: attempt_def io_catch_def io_bind_def io_return_def split: prod.splits sum.splits intro: set_up_production)
      then have "only calm (continue x)"
        unfolding continue_def rest_def by (intro io_only calm_ops calm_lifecycle) (simp_all add: assms(1))
      then show ?thesis by (simp add: only_new)
    qed
    moreover have "list_all calm (new_effects (attempt (set_up H base q)) w)"
      using only_new [of calm "attempt (set_up H base q)"] only_attempt [OF calm_set_up] by blast
    ultimately show ?thesis by (simp add: n split: prod.split sum.split)
  qed
  moreover have "list_all calm (new_effects (failed H True logFile e) w)" for e using calm_finish(4) only_new by blast
  ultimately show ?thesis
    unfolding run_request_def continue_def rest_def exit_with_def Let_def by (simp add: assms(1) layout_actions_def)
qed

text \<open>
  C11. A production environment is never torn down: if the action is teardown and the configuration
  file says that the environment is of class production, then the run changes nothing in the cluster,
  with \<open>--force\<close> or without.\<close>
theorem production_never_torn_down:
  assumes "parse_request environmentConfig argv = Inr (Request q)" "rq_action q = ''teardown''"
    and "fs_read (wd_files w) (resolve base (ag_config (rq_arguments q))) = Inr document"
    and "pf_parse H document = Inr config" "is_production config"
  shows "list_all calm (new_effects (realtime_bootstrap H base cwd nodeVersion environmentConfig argv) w)"
proof -
  let ?w = "w\<lparr>wd_ticks := Suc (wd_ticks w)\<rparr>"
  have "snd (realtime_bootstrap H base cwd nodeVersion environmentConfig argv w)
    = snd (run_request H base cwd nodeVersion (log_file (resolve base ''.logs'') (hs_iso H (hs_clock H (wd_ticks w)))) q ?w)"
    using assms(1) by (simp add: realtime_bootstrap_def io_bind_def io_iso_def io_now_def io_return_def Let_def)
  then show ?thesis
    using calm_production_request [of q ?w base document H config, OF assms(2) _ assms(4,5)] assms(3) by (simp add: new_effects_def)
qed

theorem production_never_torn_down_witness:
  "list_all calm (new_effects (realtime_bootstrap (example_host (JObj [(''environment'', JObj [(''class'', JStr ''production'')])]))
     [''repo''] [''repo''] ''22.1.0'' None [''teardown'', ''--force'', ''--config'', ''c.json'']) example_world)"
proof -
  let ?argv = "[''teardown'', ''--force'', ''--config'', ''c.json'']"
  obtain q where q: "parse_request None ?argv = Inr (Request q)" "rq_action q = ''teardown''" "ag_config (rq_arguments q) = ''c.json''"
    by (simp add: parse_request_def bind_result_def guard_def timeout_of_def set_argument_def startsWith_def actions_def)
  show ?thesis
    by (rule production_never_torn_down [OF q(1,2), where document = "''document''" and
          config = "JObj [(''environment'', JObj [(''class'', JStr ''production'')])]"])
       (simp_all add: q(3) example_world_def example_host_def is_production_def opt_chain_def opt_field_def resolve_segment plain_segment_def
         fs_read_def fs_stat_def fs_lstat_def node_at_def bind_result_def)
qed

end
