(* ===== verification/Bootstrap_External.thy ===== *)
theory Bootstrap_External
  imports Bootstrap_Main Bootstrap_Host
begin

text \<open>
  A rollback of a deployment with an external Redis: the expression for the pinned checksum of the
  managed chart compares two missing charts, finds them equal, and reads the checksum of no chart.
\<close>

section \<open>The failing expression\<close>





section \<open>An example\<close>












end
