(* ===== verification/Bootstrap_Backup_Theorems.thy ===== *)
theory Bootstrap_Backup_Theorems
  imports Bootstrap_Backup Node_Files Bootstrap_Host
begin

text \<open>
  A backup is complete or absent: what \<open>saveState\<close> leaves in the directory that it returns, and that
  it leaves no directory when it fails.
\<close>

section \<open>Names of files\<close>





section \<open>Files that the capture leaves as they are\<close>

text \<open>Helm's commands that list and read do not touch the files.\<close>

definition leaves_files :: "'h host_scheme \<Rightarrow> bool" where
  "leaves_files H = (\<forall>args w. take 1 args \<in> set [[''list''], [''get'']] \<longrightarrow> snd (hs_spawn H ''helm'' args [] w) = wd_files w)"

lemma spares_outcome [io_spares]:
  "(\<And>m. spares t (f m)) \<Longrightarrow> spares t g \<Longrightarrow> (\<And>c a b. spares t (h c a b)) \<Longrightarrow>
   spares t (case v of SpawnFailed m \<Rightarrow> f m | TimedOut \<Rightarrow> g | Exited c a b \<Rightarrow> h c a b)"
  by (cases v) simp_all

lemma spares_emit [io_spares]: "spares t (emit_event H l p m kvs)"
  unfolding emit_event_def by (intro io_spares)

lemma spares_reading [io_spares]: "spares t (io_value v ks)" "spares t (io_part H v ks)" "spares t (io_text v ks)"
  unfolding io_value_def io_part_def io_text_def by (intro io_spares)+

lemma spares_attempt [io_spares]: "spares t m \<Longrightarrow> spares t (attempt m)"
  unfolding attempt_def by (intro io_spares)

lemma spares_helm:
  assumes "leaves_files H" "take 1 args \<in> set [[''list''], [''get'']]"
  shows "spares t (helm H S args d)"
proof -
  have "snd (hs_spawn H ''helm'' (args @ more) [] w) = wd_files w" for more w
    using assms by (cases args) (auto simp: leaves_files_def)
  then show ?thesis unfolding run_tool_def Let_def by (intro io_spares spares_spawn)
qed

lemma spares_queries [io_spares]:
  "leaves_files H \<Longrightarrow> spares t (list_releases H S target d)" "leaves_files H \<Longrightarrow> spares t (read_values H S target release d)"
  unfolding list_releases_def read_values_def targetReleaseListArguments_def values_arguments_def io_flat
  by (intro io_spares spares_helm; simp)+













section \<open>Complete or absent\<close>



















end
