(* ===== verification/Bootstrap_Locks.thy ===== *)
theory Bootstrap_Locks
  imports Bootstrap_Rollback Node_Files Bootstrap_Host
begin













section \<open>Who holds it, and until when\<close>













end
