(* ===== verification/Redis_Secret.thy ===== *)
theory Redis_Secret
  imports Bootstrap_Traces Bootstrap_Host Node_Files "HOL-Library.Sublist"
begin

text \<open>
  The script that creates the Secret of the managed Redis (\<open>scripts/realtime-redis-secret.mjs\<close>):
  passwords are read as bytes, checked, and submitted to kubectl on its standard input.
\<close>

section \<open>Passwords\<close>

definition is_line_end :: "char \<Rightarrow> bool" where
  "is_line_end c = (c = CHR 0x0A \<or> c = CHR 0x0D)"

text \<open>Bytes whose text in UTF-8 has only characters that \<open>trim\<close> removes.\<close>

definition blank_bytes :: rx where
  "blank_bytes = Many (one_of ([Cls (\<lambda>c. c = CHR 0x20 \<or> CHR 0x09 \<le> c \<and> c \<le> CHR 0x0D), lit [CHR 0xC2, CHR 0xA0], lit [CHR 0xE1, CHR 0x9A, CHR 0x80],
     Cat (lit [CHR 0xE2, CHR 0x80]) (Cls (\<lambda>c. CHR 0x80 \<le> c \<and> c \<le> CHR 0x8A \<or> c \<in> set [CHR 0xA8, CHR 0xA9, CHR 0xAF])),
     lit [CHR 0xE2, CHR 0x81, CHR 0x9F], lit [CHR 0xE3, CHR 0x80, CHR 0x80], lit [CHR 0xEF, CHR 0xBB, CHR 0xBF]]))"

definition normalizePasswordBytes :: "string \<Rightarrow> string \<Rightarrow> thrown + string" where
  "normalizePasswordBytes input label =
     (let normalized = rev (dropWhile is_line_end (rev input)) in
      bind_result (guard (16 \<le> length normalized) (new_Error (label @ '' must contain at least 16 bytes after trailing CR/LF removal.''))) (\<lambda>_.
      bind_result (guard (\<not> rx_match blank_bytes normalized) (new_Error (label @ '' must not contain only whitespace.''))) (\<lambda>_.
      bind_result (guard (CHR 0x00 \<notin> set normalized)
        (new_Error (label @ '' must not contain NUL bytes because Kubernetes environment variables cannot represent them.''))) (\<lambda>_.
      bind_result (guard (\<not> list_ex is_line_end normalized) (new_Error (label @ '' must not contain embedded CR or LF bytes.''))) (\<lambda>_.
      Inr normalized)))))"

text \<open>\<open>toString("base64")\<close>.\<close>

definition base64_alphabet :: string where
  "base64_alphabet = ''ABCDEFGHIJKLMNOPQRSTUVWXYZabcdefghijklmnopqrstuvwxyz0123456789+/''"

definition base64_digit :: "nat \<Rightarrow> char" where
  "base64_digit n = base64_alphabet ! (n mod 64)"

fun base64 :: "string \<Rightarrow> string" where
  "base64 [] = []"
| "base64 [a] = (let n = of_char a * 16 in [base64_digit (n div 64), base64_digit n] @ ''=='')"
| "base64 [a, b] = (let n = of_char a * 1024 + of_char b * 4 in [base64_digit (n div 4096), base64_digit (n div 64), base64_digit n] @ ''='')"
| "base64 (a # b # c # rest) = (let n = of_char a * 65536 + of_char b * 256 + of_char c in
     [base64_digit (n div 262144), base64_digit (n div 4096), base64_digit (n div 64), base64_digit n] @ base64 rest)"

section \<open>Arguments\<close>

record secret_options =
  so_kubectl :: string
  so_createNamespace :: bool
  so_dryRun :: bool
  so_config :: "string option"
  so_adminPasswordFile :: "string option"
  so_realtimePasswordFile :: "string option"
  so_context :: jsopt
  so_namespace :: jsopt
  so_secretName :: jsopt
  so_adminKey :: jsopt
  so_realtimeKey :: jsopt

definition set_secret_option :: "string \<Rightarrow> string \<Rightarrow> secret_options \<Rightarrow> secret_options option" where
  "set_secret_option argument v o1 =
     (if argument = ''--config'' then Some (o1\<lparr>so_config := Some v\<rparr>)
      else if argument = ''--context'' then Some (o1\<lparr>so_context := Some (JStr v)\<rparr>)
      else if argument = ''--namespace'' then Some (o1\<lparr>so_namespace := Some (JStr v)\<rparr>)
      else if argument = ''--secret-name'' then Some (o1\<lparr>so_secretName := Some (JStr v)\<rparr>)
      else if argument = ''--admin-password-file'' then Some (o1\<lparr>so_adminPasswordFile := Some v\<rparr>)
      else if argument = ''--realtime-password-file'' then Some (o1\<lparr>so_realtimePasswordFile := Some v\<rparr>)
      else if argument = ''--admin-key'' then Some (o1\<lparr>so_adminKey := Some (JStr v)\<rparr>)
      else if argument = ''--realtime-key'' then Some (o1\<lparr>so_realtimeKey := Some (JStr v)\<rparr>)
      else if argument = ''--kubectl'' then Some (o1\<lparr>so_kubectl := v\<rparr>)
      else None)"

text \<open>The loop of \<open>parse\<close>; \<open>None\<close> is the help.\<close>

fun secret_arguments :: "string list \<Rightarrow> secret_options \<Rightarrow> thrown + secret_options option" where
  "secret_arguments [] o1 = Inr (Some o1)"
| "secret_arguments (argument # rest) o1 =
     (if argument = ''--help'' then Inr None
      else if argument = ''--create-namespace'' then secret_arguments rest (o1\<lparr>so_createNamespace := True\<rparr>)
      else if argument = ''--dry-run'' then secret_arguments rest (o1\<lparr>so_dryRun := True\<rparr>)
      else if set_secret_option argument [] o1 = None then Inl (new_Error (''Unknown argument '' @ quoted argument @ ''.''))
      else case rest of
        [] \<Rightarrow> Inl (new_Error (argument @ '' requires a value.''))
      | v # rest' \<Rightarrow>
          if v = [] \<or> startsWith v ''--'' then Inl (new_Error (argument @ '' requires a value.''))
          else secret_arguments rest' (the (set_secret_option argument v o1)))"

definition explicit_target :: "secret_options \<Rightarrow> thrown + secret_options" where
  "explicit_target o1 =
     bind_result (guard (so_context o1 \<noteq> None) (new_Error ''--context is required when --config is not used.'')) (\<lambda>_.
     bind_result (guard (so_namespace o1 \<noteq> None) (new_Error ''--namespace is required when --config is not used.'')) (\<lambda>_.
     bind_result (guard (so_secretName o1 \<noteq> None) (new_Error ''--secret-name is required when --config is not used.'')) (\<lambda>_.
     Inr (o1\<lparr>so_adminKey := Some (coalesce (so_adminKey o1) (JStr ''redis-password'')),
       so_realtimeKey := Some (coalesce (so_realtimeKey o1) (JStr ''realtime''))\<rparr>))))"

definition parse_secret :: "string list \<Rightarrow> thrown + secret_options option" where
  "parse_secret arguments =
     bind_result (secret_arguments arguments \<lparr>so_kubectl = ''kubectl'', so_createNamespace = False, so_dryRun = False, so_config = None,
         so_adminPasswordFile = None, so_realtimePasswordFile = None, so_context = None, so_namespace = None, so_secretName = None,
         so_adminKey = None, so_realtimeKey = None\<rparr>) (\<lambda>r. case r of
       None \<Rightarrow> Inr None
     | Some o1 \<Rightarrow>
         bind_result (guard (so_adminPasswordFile o1 \<noteq> None) (new_Error ''--admin-password-file is required.'')) (\<lambda>_.
         bind_result (guard (so_realtimePasswordFile o1 \<noteq> None) (new_Error ''--realtime-password-file is required.'')) (\<lambda>_.
         bind_result (guard (so_config o1 = None \<or> list_all (\<lambda>v. v = None)
             [so_context o1, so_namespace o1, so_secretName o1, so_adminKey o1, so_realtimeKey o1])
           (new_Error ''--config cannot be combined with explicit context, namespace, Secret name, or key options.'')) (\<lambda>_.
         if so_config o1 \<noteq> None then Inr (Some o1) else bind_result (explicit_target o1) (\<lambda>o2. Inr (Some o2))))))"

section \<open>The target of a configuration\<close>

definition valid_configuration :: "'h host_scheme \<Rightarrow> path \<Rightarrow> json io" where
  "valid_configuration H configPath =
     io_bind (io_catch (io_bind (readFile H configPath) (\<lambda>c. io_lift (pf_parse H c)))
       (\<lambda>e. io_fail (''Cannot read JSON configuration '' @ quoted (path_text configPath) @ '': '' @ er_message e))) (\<lambda>config.
     let errors = validateConfiguration (pf_number H) (pf_url H) config in
     if errors \<noteq> [] then io_fail (''Configuration is invalid:'' @ line_break @ problem_lines errors) else io_return config)"

definition resolveRedisSecretOptions :: "'h host_scheme \<Rightarrow> path \<Rightarrow> secret_options \<Rightarrow> secret_options io" where
  "resolveRedisSecretOptions H cwd o1 = (case so_config o1 of
     None \<Rightarrow> io_return o1
   | Some file \<Rightarrow>
       io_bind (valid_configuration H (resolve cwd file)) (\<lambda>config.
       io_bind (io_value (Some config) [''redis'', ''mode'']) (\<lambda>redisMode.
       if redisMode \<noteq> Some (JStr ''managed'')
       then io_fail ''--config must select managed Redis before a managed Redis Secret can be applied.''
       else io_bind (io_value (Some config) [''kubernetes'', ''context'']) (\<lambda>context.
         io_return (o1\<lparr>so_context := context, so_namespace := opt_chain (Some config) [''kubernetes'', ''namespace''],
           so_secretName := opt_chain (Some config) [''redis'', ''credentialsSecret''],
           so_adminKey := opt_chain (Some config) [''redis'', ''adminCredentialKey''],
           so_realtimeKey := opt_chain (Some config) [''redis'', ''credentialKey'']\<rparr>)))))"

definition validateOptions :: "(rat \<Rightarrow> string) \<Rightarrow> secret_options \<Rightarrow> thrown + secret_options" where
  "validateOptions num_str o1 =
     bind_result (guard (rx_match dnsLabel (opt_text num_str (so_namespace o1))) (new_Error ''--namespace must be a Kubernetes DNS label.'')) (\<lambda>_.
     bind_result (guard (rx_match dnsSubdomain (opt_text num_str (so_secretName o1)))
       (new_Error ''--secret-name must be a Kubernetes DNS subdomain.'')) (\<lambda>_.
     bind_result (guard (rx_match secretKey (opt_text num_str (so_adminKey o1)) \<and> rx_match secretKey (opt_text num_str (so_realtimeKey o1)))
       (new_Error ''Secret keys must use Kubernetes Secret key syntax.'')) (\<lambda>_.
     bind_result (guard (\<not> strict_eq (so_adminKey o1) (so_realtimeKey o1))
       (new_Error ''Administrator and realtime Secret keys must be distinct.'')) (\<lambda>_.
     Inr o1))))"

section \<open>Submission\<close>

text \<open>A run of kubectl; without a time limit a child that was killed has no exit code.\<close>

definition kubectl_child :: "'h host_scheme \<Rightarrow> string \<Rightarrow> jsopt \<Rightarrow> string list \<Rightarrow> string \<Rightarrow> string io" where
  "kubectl_child H executable context arguments stdin =
     io_bind (io_spawn H executable (arguments @ [''--context'', opt_text (pf_number H) context]) stdin) (\<lambda>r.
     let failed_with = (\<lambda>code err. io_fail (''kubectl '' @ hd arguments @ '' failed with exit code '' @ code_text code @ '': '' @ trim err)) in
     case r of
       SpawnFailed m \<Rightarrow> io_fail m
     | TimedOut \<Rightarrow> failed_with None []
     | Exited code out err \<Rightarrow> if code = Some 0 then io_return out else failed_with code err)"

definition ensure_namespace :: "(string list \<Rightarrow> string \<Rightarrow> string io) \<Rightarrow> string \<Rightarrow> unit io" where
  "ensure_namespace run namespace =
     io_bind (run [''get'', ''namespace'', namespace, ''--ignore-not-found'', ''--output'', ''name'', ''--request-timeout=15s''] []) (\<lambda>existing.
     io_when (trim existing = []) (quiet (run [''create'', ''namespace'', namespace] [])))"

definition secret_document :: "(rat \<Rightarrow> string) \<Rightarrow> secret_options \<Rightarrow> string \<Rightarrow> string \<Rightarrow> json" where
  "secret_document num_str o1 admin realtime = JObj [
     (''apiVersion'', JStr ''v1''),
     (''kind'', JStr ''Secret''),
     (''metadata'', JObj (some_members [(''name'', so_secretName o1), (''namespace'', so_namespace o1)])),
     (''type'', JStr ''Opaque''),
     (''data'', JObj (fromEntries (map_set (opt_text num_str (so_realtimeKey o1)) (JStr (base64 realtime))
        [(opt_text num_str (so_adminKey o1), JStr (base64 admin))])))]"

definition secret_result :: "bool \<Rightarrow> secret_options \<Rightarrow> json" where
  "secret_result changed o1 = JObj (some_members [(''changed'', Some (JBool changed)), (''dryRun'', Some (JBool (\<not> changed))),
     (''namespace'', so_namespace o1), (''secretName'', so_secretName o1)])"

definition applyRedisSecret :: "'h host_scheme \<Rightarrow> path \<Rightarrow> secret_options \<Rightarrow> json io" where
  "applyRedisSecret H cwd o1 =
     io_bind (readFile H (resolve cwd (the (so_adminPasswordFile o1)))) (\<lambda>adminFile.
     io_bind (io_lift (normalizePasswordBytes adminFile ''Redis administrator password'')) (\<lambda>admin.
     io_bind (readFile H (resolve cwd (the (so_realtimePasswordFile o1)))) (\<lambda>realtimeFile.
     io_bind (io_lift (normalizePasswordBytes realtimeFile ''Realtime ACL password'')) (\<lambda>realtime.
     if admin = realtime then io_fail ''Redis administrator and realtime ACL passwords must be different.''
     else if so_dryRun o1 then io_return (secret_result False o1)
     else let namespace = opt_text (pf_number H) (so_namespace o1); run = kubectl_child H (so_kubectl o1) (so_context o1) in
       io_then (io_when (so_createNamespace o1) (ensure_namespace run namespace))
       (io_then (run [''apply'', ''--namespace'', namespace, ''--filename'', ''-'']
          (stringify (pf_number H) (secret_document (pf_number H) o1 admin realtime) @ line_break))
       (io_return (secret_result True o1)))))))"

text \<open>What the script prints, and its exit code.\<close>

datatype script_end = Usage | Printed string | Complained string

definition end_code :: "script_end \<Rightarrow> nat" where
  "end_code e = (case e of Complained _ \<Rightarrow> 2 | _ \<Rightarrow> 0)"

definition print_result :: "(rat \<Rightarrow> string) \<Rightarrow> json io \<Rightarrow> script_end io" where
  "print_result num_str m = io_catch (io_bind m (\<lambda>r. io_return (Printed (stringify num_str r @ line_break))))
     (\<lambda>e. io_return (Complained (er_message e @ line_break)))"

definition realtime_redis_secret :: "'h host_scheme \<Rightarrow> path \<Rightarrow> string list \<Rightarrow> script_end io" where
  "realtime_redis_secret H cwd argv = (case parse_secret argv of
     Inl e \<Rightarrow> io_return (Complained (message_of e @ line_break))
   | Inr None \<Rightarrow> io_return Usage
   | Inr (Some o1) \<Rightarrow> print_result (pf_number H)
       (io_bind (resolveRedisSecretOptions H cwd o1) (\<lambda>o2. io_bind (io_lift (validateOptions (pf_number H) o2)) (applyRedisSecret H cwd))))"

section \<open>Base 64\<close>

text \<open>The decoding: groups of four digits, of which the last may be padded.\<close>

definition base64_value :: "char \<Rightarrow> nat" where
  "base64_value c = length (takeWhile (\<lambda>d. d \<noteq> c) base64_alphabet)"


lemma base64_digit_value [simp]: "base64_value (base64_digit n) = n mod 64" "base64_digit n \<noteq> CHR ''=''"
proof -
  have "list_all (\<lambda>i. base64_value (base64_alphabet ! i) = i \<and> base64_alphabet ! i \<noteq> CHR ''='') [0..<64]" by code_simp
  moreover have "n mod 64 \<in> set [0..<64]" by simp
  ultimately show "base64_value (base64_digit n) = n mod 64" "base64_digit n \<noteq> CHR ''=''"
    unfolding base64_digit_def list_all_iff by blast+
qed





section \<open>What is submitted\<close>

definition password_of :: "files \<Rightarrow> path \<Rightarrow> string option" where
  "password_of fs p = (case fs_read fs p of Inl _ \<Rightarrow> None
     | Inr c \<Rightarrow> (case normalizePasswordBytes c [] of Inl _ \<Rightarrow> None | Inr s \<Rightarrow> Some s))"

definition passwords :: "path \<Rightarrow> secret_options \<Rightarrow> files \<Rightarrow> (string \<times> string) option" where
  "passwords cwd o1 fs = (case (password_of fs (resolve cwd (the (so_adminPasswordFile o1))), password_of fs (resolve cwd (the (so_realtimePasswordFile o1)))) of
     (Some admin, Some realtime) \<Rightarrow> if admin = realtime then None else Some (admin, realtime) | _ \<Rightarrow> None)"





text \<open>An operation that runs the given commands in order, up to the first that fails.\<close>

definition runs :: "'a io \<Rightarrow> world \<Rightarrow> effect list \<Rightarrow> bool" where
  "runs m w es = (\<exists>fs. wd_effects (snd (m w)) = wd_effects w @ fs \<and> prefix fs es \<and> (isl (fst (m w)) \<or> fs = es))"


lemma runs_return [simp]: "runs (io_return x) w []"
  by (simp add: runs_def io_return_def)










end
