(* ===== verification/Certificate.thy ===== *)
theory Certificate
  imports Redis_Secret
begin

text \<open>
  The script that creates the Certificate of the gateway and waits for it
  (\<open>scripts/realtime-certificate.mjs\<close>).
\<close>

section \<open>Arguments\<close>

record certificate_options =
  co_config :: "string option"
  co_issuerName :: "string option"
  co_issuerKind :: string
  co_issuerGroup :: string
  co_timeoutSeconds :: string
  co_kubectl :: string
  co_createNamespace :: bool
  co_dryRun :: bool

definition set_certificate_option :: "string \<Rightarrow> string \<Rightarrow> certificate_options \<Rightarrow> certificate_options option" where
  "set_certificate_option argument v o1 =
     (if argument = ''--config'' then Some (o1\<lparr>co_config := Some v\<rparr>)
      else if argument = ''--issuer-name'' then Some (o1\<lparr>co_issuerName := Some v\<rparr>)
      else if argument = ''--issuer-kind'' then Some (o1\<lparr>co_issuerKind := v\<rparr>)
      else if argument = ''--issuer-group'' then Some (o1\<lparr>co_issuerGroup := v\<rparr>)
      else if argument = ''--timeout-seconds'' then Some (o1\<lparr>co_timeoutSeconds := v\<rparr>)
      else if argument = ''--kubectl'' then Some (o1\<lparr>co_kubectl := v\<rparr>)
      else None)"

fun certificate_arguments :: "string list \<Rightarrow> certificate_options \<Rightarrow> thrown + certificate_options option" where
  "certificate_arguments [] o1 = Inr (Some o1)"
| "certificate_arguments (argument # rest) o1 =
     (if argument \<in> set [''--help'', ''-h''] then Inr None
      else if argument = ''--create-namespace'' then certificate_arguments rest (o1\<lparr>co_createNamespace := True\<rparr>)
      else if argument = ''--dry-run'' then certificate_arguments rest (o1\<lparr>co_dryRun := True\<rparr>)
      else if set_certificate_option argument [] o1 = None then Inl (new_Error (''Unknown argument '' @ quoted argument @ ''.''))
      else case rest of
        [] \<Rightarrow> Inl (new_Error (argument @ '' requires a value.''))
      | v # rest' \<Rightarrow>
          if v = [] \<or> startsWith v ''--'' then Inl (new_Error (argument @ '' requires a value.''))
          else certificate_arguments rest' (the (set_certificate_option argument v o1)))"

text \<open>The options with the time limit as a number.\<close>

definition certificate_timeout :: "certificate_options \<Rightarrow> nat option" where
  "certificate_timeout o1 = (case js_number (co_timeoutSeconds o1) of
     Fin x \<Rightarrow> if is_integral x \<and> 60 \<le> x \<and> x \<le> 1800 then Some (nat \<lfloor>x\<rfloor>) else None
   | _ \<Rightarrow> None)"

definition check_certificate :: "certificate_options \<Rightarrow> thrown + certificate_options \<times> nat" where
  "check_certificate o1 =
     bind_result (guard (co_config o1 \<noteq> None) (new_Error ''--config is required.'')) (\<lambda>_.
     bind_result (guard (co_issuerName o1 \<noteq> None) (new_Error ''--issuer-name is required.'')) (\<lambda>_.
     bind_result (guard (co_issuerKind o1 \<in> set [''ClusterIssuer'', ''Issuer'']) (new_Error ''--issuer-kind must be ClusterIssuer or Issuer.'')) (\<lambda>_.
     bind_result (guard (rx_match dnsSubdomain (the (co_issuerName o1))) (new_Error ''--issuer-name must be a Kubernetes DNS subdomain.'')) (\<lambda>_.
     bind_result (guard (rx_match dnsSubdomain (co_issuerGroup o1)) (new_Error ''--issuer-group must be a Kubernetes DNS subdomain.'')) (\<lambda>_.
     bind_result (guard (certificate_timeout o1 \<noteq> None) (new_Error ''--timeout-seconds must be an integer from 60 through 1800.'')) (\<lambda>_.
     Inr (o1, the (certificate_timeout o1))))))))"

definition parseCertificateArguments :: "string list \<Rightarrow> thrown + (certificate_options \<times> nat) option" where
  "parseCertificateArguments arguments =
     bind_result (certificate_arguments arguments \<lparr>co_config = None, co_issuerName = None, co_issuerKind = ''ClusterIssuer'',
         co_issuerGroup = ''cert-manager.io'', co_timeoutSeconds = ''300'', co_kubectl = ''kubectl'', co_createNamespace = False,
         co_dryRun = False\<rparr>) (\<lambda>r. case r of
       None \<Rightarrow> Inr None
     | Some o1 \<Rightarrow> bind_result (check_certificate o1) (\<lambda>checked. Inr (Some checked)))"

section \<open>The Certificate\<close>

definition buildCertificateManifest :: "json \<Rightarrow> certificate_options \<Rightarrow> thrown + json" where
  "buildCertificateManifest config o1 =
     (let part = opt_chain (Some config) in
      bind_result (js_read (Some config) [''ingress'', ''enabled'']) (\<lambda>enabled.
      bind_result (guard (jtruthy enabled) (new_Error ''The bootstrap configuration must enable ingress before a Certificate can be applied.'')) (\<lambda>_.
      bind_result (guard (jtruthy (part [''ingress'', ''certificateName'']))
        (new_Error ''ingress.certificateName is required when using the certificate helper.'')) (\<lambda>_.
      bind_result (js_read (Some config) [''kubernetes'', ''namespace'']) (\<lambda>namespace.
      Inr (JObj [
        (''apiVersion'', JStr ''cert-manager.io/v1''),
        (''kind'', JStr ''Certificate''),
        (''metadata'', JObj (some_members [(''name'', part [''ingress'', ''certificateName'']), (''namespace'', namespace)])),
        (''spec'', JObj (some_members [
          (''dnsNames'', Some (JArr [coalesce (part [''ingress'', ''host'']) JNull])),
          (''issuerRef'', Some (JObj [(''group'', JStr (co_issuerGroup o1)), (''kind'', JStr (co_issuerKind o1)), (''name'', JStr (the (co_issuerName o1)))])),
          (''secretName'', part [''ingress'', ''tlsSecretName''])]))]))))))"

definition certificate_result :: "bool \<Rightarrow> json \<Rightarrow> json" where
  "certificate_result changed config =
     (let part = opt_chain (Some config) in
      JObj (some_members [(''changed'', Some (JBool changed)), (''dryRun'', Some (JBool (\<not> changed))),
        (''certificate'', part [''ingress'', ''certificateName'']), (''dnsName'', part [''ingress'', ''host'']),
        (''namespace'', part [''kubernetes'', ''namespace'']), (''tlsSecret'', part [''ingress'', ''tlsSecretName''])]))"

definition issuer_arguments :: "certificate_options \<Rightarrow> string \<Rightarrow> string list" where
  "issuer_arguments o1 namespace =
     [''get'', toLowerCase (co_issuerKind o1), the (co_issuerName o1), ''--request-timeout=15s'']
     @ (if co_issuerKind o1 = ''Issuer'' then [''--namespace'', namespace] else [])"

definition submit_certificate :: "'h host_scheme \<Rightarrow> certificate_options \<Rightarrow> nat \<Rightarrow> json \<Rightarrow> json \<Rightarrow> unit io" where
  "submit_certificate H o1 timeoutSeconds config manifest =
     (let namespace = opt_text (pf_number H) (opt_chain (Some config) [''kubernetes'', ''namespace'']);
          run = kubectl_child H (co_kubectl o1) (opt_chain (Some config) [''kubernetes'', ''context'']) in
      io_then (io_when (co_createNamespace o1) (ensure_namespace run namespace))
      (io_then (run (issuer_arguments o1 namespace) [])
      (io_then (run [''apply'', ''--namespace'', namespace, ''--filename'', ''-''] (stringify (pf_number H) manifest @ line_break))
      (quiet (run [''wait'', ''--namespace'', namespace, ''--for=condition=Ready'',
          ''certificate/'' @ opt_text (pf_number H) (opt_chain (Some config) [''ingress'', ''certificateName'']),
          ''--timeout='' @ nat_str timeoutSeconds @ ''s''] [])))))"

definition applyCertificate :: "'h host_scheme \<Rightarrow> path \<Rightarrow> certificate_options \<Rightarrow> nat \<Rightarrow> json io" where
  "applyCertificate H cwd o1 timeoutSeconds =
     io_bind (valid_configuration H (resolve cwd (the (co_config o1)))) (\<lambda>config.
     io_bind (io_lift (buildCertificateManifest config o1)) (\<lambda>manifest.
     if co_dryRun o1 then io_return (certificate_result False config)
     else io_then (submit_certificate H o1 timeoutSeconds config manifest) (io_return (certificate_result True config))))"

definition realtime_certificate :: "'h host_scheme \<Rightarrow> path \<Rightarrow> string list \<Rightarrow> script_end io" where
  "realtime_certificate H cwd argv = (case parseCertificateArguments argv of
     Inl e \<Rightarrow> io_return (Complained (message_of e @ line_break))
   | Inr None \<Rightarrow> io_return Usage
   | Inr (Some (o1, timeoutSeconds)) \<Rightarrow> print_result (pf_number H) (applyCertificate H cwd o1 timeoutSeconds))"

section \<open>What is applied\<close>






















end
