(* ===== verification/Spec2Isabelle.thy ===== *)
theory Spec2Isabelle
  imports Client_Findings Client_Setup Transport_Http_Theorems Transport_Fallback_Theorems Diagnostics Persistence_Client
    Bootstrap_Example Ci_Impact Bootstrap_Safety Bootstrap_External Bootstrap_Backup_Theorems Bootstrap_Locks
    Certificate
begin

text \<open>
  This library verifies the JavaScript and TypeScript part of the repository: the SDK with which a
  browser or a server talks to the realtime gateway, and the tooling around it. Every definition
  translates a function or type of the sources under \<open>src/\<close>; the theorems state what
  makes that code correct, and in a few places where it is not.

  \<^bold>\<open>The parts of the program and their theories.\<close>

  \<^item> \<open>Prelude\<close>, \<open>Js_Number\<close>, \<open>Js_Value\<close> and \<open>Js_Url\<close> model
    what the sources use of the language: insertion ordered maps and sets, strings, results of code
    that throws, binary64 numbers with rounding, values with a heap of arrays and objects, JSON and
    its text, URLs, queries and percent encoding.
  \<^item> \<open>Errors\<close> and \<open>Protocol\<close> are \<open>sdk/typescript/src/errors.ts\<close> and
    \<open>protocol.ts\<close>: error classes, envelopes, their validation in both directions.
  \<^item> \<open>Client_State\<close>, \<open>Client_Core\<close>, \<open>Client_Connect\<close>,
    \<open>Client_Subscriptions\<close> and \<open>Client_Machine\<close> are the class \<open>RealtimeClient\<close>
    of \<open>client.ts\<close> as a state machine. Its fields are the fields of the record
    \<open>client\<close>; every stretch of code between two suspensions is one function on it; the
    labels of \<open>step\<close> are the calls of the application, the events of sockets and timers and
    the resumptions of suspended calls. Listeners may call the client back, to any depth
    (\<open>reentrant\<close>). \<open>Client_Setup\<close> is its constructor and the computation of
    connection URLs; \<open>Client_Delay\<close>, \<open>Client_Invariant\<close>, \<open>Client_Theorems\<close>,
    \<open>Client_Behaviour\<close> and \<open>Client_Findings\<close> hold the theorems.
  \<^item> \<open>Transport_Http\<close> and \<open>Transport_Fallback\<close> are the two sockets of
    \<open>transport.ts\<close>, with theorems in \<open>Transport_Http_Theorems\<close> and
    \<open>Transport_Fallback_Theorems\<close>. They are state machines of the same kind, over the
    answers of \<open>fetch\<close> and the events of candidate sockets. The client uses them through
    \<open>at_readyState\<close>, \<open>send\<close>, \<open>close\<close> and the four handlers; the contract is
    the locale \<open>web_socket\<close>.
  \<^item> \<open>Diagnostics\<close> and \<open>Persistence_Client\<close> are \<open>diagnostics.ts\<close> and
    \<open>persistence.ts\<close>: requests, answers, and the reader of event streams.
  \<^item> \<open>Js_Regex\<close>, \<open>Js_Json\<close>, \<open>Js_Access\<close>, \<open>Js_Eval\<close> and \<open>Node_Path\<close>
    model what the scripts use of the language and of Node.js: regular expressions with their
    language and a matcher by derivatives, JSON trees, conversions, reads of fields, paths.
  \<^item> \<open>Bootstrap_Checks\<close>, \<open>Bootstrap_Validation\<close> and \<open>Bootstrap_Plan\<close> are
    \<open>scripts/lib/bootstrap-contract.mjs\<close>: formats, the validation of a configuration, canonical
    JSON, redaction, rendered values and plans. \<open>Bootstrap_Valid\<close>, \<open>Bootstrap_Canonical\<close>
    and \<open>Bootstrap_Example\<close> hold the theorems and the configuration that the repository ships.
  \<^item> \<open>Node_Io\<close> is the world in which the scripts run: files, child processes, a clock, and a
    monad of operations that may throw and that record every command, log entry and changed path.
    \<open>Node_Files\<close> and \<open>Bootstrap_Traces\<close> are its calculus: what each operation leaves in a
    file, and which effects a script can have (\<open>spares\<close>, \<open>only\<close>).
  \<^item> \<open>Bootstrap_Environment\<close> is \<open>scripts/lib/bootstrap-environment.mjs\<close> (layout of
    artifacts, lock, organization and restoration) and \<open>Managed_Redis_Chart\<close> is
    \<open>scripts/lib/managed-redis-chart.mjs\<close> (cached and pulled charts, digests, the patch).
  \<^item> \<open>Bootstrap_Lifecycle\<close>, \<open>Bootstrap_Backup\<close>, \<open>Bootstrap_Apply\<close>,
    \<open>Bootstrap_Rollback\<close>, \<open>Bootstrap_Main\<close> and \<open>Bootstrap_Run\<close> are
    \<open>scripts/realtime-bootstrap.mjs\<close>, in the order of that file: arguments and checks of the
    target, backups, installation, rollback and locks, the plan of a run, the actions and the exit
    codes; the whole script is \<open>realtime_bootstrap\<close>. It calls the contract, the layout and the
    chart. \<open>Bootstrap_Safety\<close>, \<open>Bootstrap_Backup_Theorems\<close>, \<open>Bootstrap_Locks\<close> and
    \<open>Bootstrap_External\<close> hold its theorems, \<open>Bootstrap_Host\<close> an example host.
  \<^item> \<open>Redis_Secret\<close> and \<open>Certificate\<close> are \<open>scripts/realtime-redis-secret.mjs\<close> and
    \<open>realtime-certificate.mjs\<close>, which prepare what the lifecycle expects in the cluster.
    \<open>Ci_Impact\<close> is \<open>scripts/ci-impact.mjs\<close>, which selects the jobs of a change.

  \<^bold>\<open>What the theorems show.\<close> For every execution of the client, whatever the
  application, the server, the network and re-entrant listeners do: accepted commands are not lost
  and not sent twice, buffers and messages stay within their limits, timers within theirs
  (\<open>Client_Theorems\<close>, from one invariant, \<open>client_ok\<close>, that each operation keeps).
  Single operations do what they promise (\<open>Client_Behaviour\<close>); the constructor lets through
  only options that the invariant can rely on (\<open>Client_Setup\<close>). The sockets deliver their
  events in order and their messages in sequence, and the fallback socket refines its
  specification, the first transport that works. The event stream reader inverts the server's
  encoding for every chunking.

  For every run of the lifecycle script, whatever the arguments, files and tools are: the cluster is
  changed only after a completed backup of the same run, only by an action that asks for it, and a
  production environment is never torn down (\<open>Bootstrap_Safety\<close>, by a calculus of effects
  with one lemma for each operation). A backup is complete or absent (\<open>Bootstrap_Backup_Theorems\<close>)
  and the lock of a target excludes other processes until its owner releases it
  (\<open>Bootstrap_Locks\<close>). A configuration without problems yields a plan, the canonical form
  identifies what it should, redaction hides what it should. Passwords reach kubectl only on its
  standard input; a Certificate is reported only when it is ready; the jobs of a change are those it
  needs. \<open>Client_Findings\<close>, \<open>Bootstrap_External\<close> and theorems named in the same way
  elsewhere are executions in which the code departs from what it means to do.

  \<^bold>\<open>Bounds and fuel.\<close> Strings are sequences of the code units 0 to 255, and the contents
  of files are such strings. The one loop of the sources that can fail to end, \<open>flush\<close>, is a
  partial function in the option monad, so that not returning is a value; every other recursion has
  a termination proof. Nothing has fuel. The nesting depth of re-entrant listeners is finite and
  arbitrary. The scripts run on a POSIX system, one process at a time: what another process does
  between two operations of a script is not modelled, only what it finds before and leaves after.
  Symbolic links are detected and never followed.

  \<^bold>\<open>Parameters.\<close> The platform is given by arguments with named hypotheses where a theorem
  needs them: \<open>Date.parse\<close>, \<open>JSON.parse\<close>, the clock, random numbers and identifiers
  (\<open>env\<close>, \<open>env_ok\<close>), the URL parser, \<open>fetch\<close>, the WebSocket factory, and the
  caller's handlers; for the scripts the record \<open>host\<close>, with the clock, digests, error texts
  and the answers of kubectl, Helm, git, dotnet and tar.

  \<^bold>\<open>Not modelled.\<close> The gateway and its plugins (C sharp), the examples in other languages,
  shell and PowerShell scripts, charts and configuration files are not JavaScript; the bundles under
  \<open>sdk/typescript/dist\<close> are generated from the SDK's sources; the SDK's build scripts rewrite
  the syntax trees of a third-party parser; \<open>full-circle.mjs\<close> drives other programs for a
  demonstration; \<open>ci-failure-autofix.cjs\<close> and \<open>sync-open-pr-branches.cjs\<close> are
  sequences of calls of the GitHub client; the Node.js example wires third-party packages together;
  tests and the Playwright configurations only drive the program.
\<close>

end
